(* ===== verification/Prelude.thy ===== *)
theory Prelude
  imports Main "HOL-Library.Word"
begin

text \<open>
  What every component of the development shares: the types that name Go's integers and
  times, Go errors as values, the collections of simplification rules the component proofs
  use, and generic lemmas on results, lists and maps.

  A Go function that returns \<open>(T, error)\<close> and touches the outside world (the Kubernetes API
  server, the clock, the scoring backend) is a function
  \<open>'w \<Rightarrow> (go_error + 'a) \<times> 'w\<close> on a world of an arbitrary type \<open>'w\<close>: \<open>Inl\<close> is a non-nil
  error, \<open>Inr\<close> a value returned with a nil error, and the second component the world after
  the call. Nothing is known of \<open>'w\<close> but what the hypotheses of a theorem say.
\<close>

section \<open>Names for the machine types\<close>

type_synonym int32 = "32 word"
type_synonym uint8 = "8 word"
type_synonym uint64 = "64 word"

text \<open>
  Instants are nanoseconds since the Unix epoch and durations are nanoseconds. Go keeps an
  instant in two words that cannot overflow here; a \<open>time.Duration\<close> is an \<open>int64\<close>, so the
  arithmetic on durations below is written with its wrap-around or saturation.
\<close>

type_synonym instant = int
type_synonym duration = int

text \<open>A namespaced name: the namespace first.\<close>

type_synonym nsname = "string \<times> string"

type_synonym labels = "string \<rightharpoonup> string"

section \<open>Errors\<close>

text \<open>
  The errors the code tells apart are the API server's reasons that
  \<open>errors.IsNotFound\<close> and \<open>errors.IsAlreadyExists\<close> look for; any other error only has a
  text. \<open>WrapErr\<close> is \<open>fmt.Errorf("...: %w", err)\<close>.
\<close>

datatype go_error =
    NotFoundErr string
  | AlreadyExistsErr string
  | ConflictErr string
  | OtherErr string
  | WrapErr string go_error

fun err_text :: "go_error \<Rightarrow> string" where
  "err_text (NotFoundErr m) = m"
| "err_text (AlreadyExistsErr m) = m"
| "err_text (ConflictErr m) = m"
| "err_text (OtherErr m) = m"
| "err_text (WrapErr s e) = s @ '': '' @ err_text e"

text \<open>Both tests look through wrapped errors, as \<open>errors.As\<close> does.\<close>

fun is_not_found :: "go_error \<Rightarrow> bool" where
  "is_not_found (NotFoundErr _) = True"
| "is_not_found (WrapErr _ e) = is_not_found e"
| "is_not_found _ = False"

fun is_already_exists :: "go_error \<Rightarrow> bool" where
  "is_already_exists (AlreadyExistsErr _) = True"
| "is_already_exists (WrapErr _ e) = is_already_exists e"
| "is_already_exists _ = False"

section \<open>Collections of facts\<close>

text \<open>
  \<open>go_defs\<close>: definitions a symbolic execution of a handler unfolds.
  \<open>frame\<close>: what an operation leaves alone.
\<close>

named_theorems go_defs
named_theorems frame

section \<open>Lemmas shared by the components\<close>

lemma prod_case_conv: "(case p of (a, b) \<Rightarrow> f a b) = f (fst p) (snd p)"
  by (cases p) simp

lemma result_cases [case_names Err Ok]:
  fixes r :: "(go_error + 'a) \<times> 'w"
  obtains (Err) e w where "r = (Inl e, w)" | (Ok) x w where "r = (Inr x, w)"
  by (cases r; cases "fst r") auto

lemma sum_not_Inl: "(\<nexists>e. r = Inl e) \<longleftrightarrow> (\<exists>x. r = Inr x)"
  by (cases r) auto

lemma map_le_fun_upd_new: "m k = None \<Longrightarrow> m \<subseteq>\<^sub>m m(k \<mapsto> v)"
  by (auto simp: map_le_def)

lemma map_leD: "m \<subseteq>\<^sub>m m' \<Longrightarrow> m k = Some v \<Longrightarrow> m' k = Some v"
  by (metis domI map_le_def)

lemma singleton_map_le [simp]: "[k \<mapsto> v] \<subseteq>\<^sub>m m \<longleftrightarrow> m k = Some v"
  by (auto simp: map_le_def)

lemma filter_eq_Nil_iff_none: "filter P xs = [] \<longleftrightarrow> \<not> (\<exists>x\<in>set xs. P x)"
  by (auto simp: filter_empty_conv)

lemma append_same_cancel_prefix: "p @ xs = p @ ys \<longleftrightarrow> xs = ys"
  by simp

section \<open>Signed 32-bit values\<close>

text \<open>
  Go's \<open>int32\<close> is two's complement: \<open>sint\<close> reads it, \<open>+\<close> wraps. The two facts the counters
  need: an increment below the largest value adds one, and at the largest value wraps to the
  smallest.
\<close>

lemma sint_int32_range: "- (2 ^ 31) \<le> sint (x :: int32) \<and> sint x < 2 ^ 31"
  using sint_range_size [of x] by (simp add: word_size)

lemma sint_int32_of_int:
  assumes "- (2 ^ 31) \<le> i" and "i < 2 ^ 31"
  shows "sint (word_of_int i :: int32) = i"
  using assms by (simp add: signed_of_int signed_take_bit_int_eq_self)

lemma sint_int32_suc:
  assumes "sint (x :: int32) < 2 ^ 31 - 1"
  shows "sint (x + 1) = sint x + 1"
proof -
  have "x + 1 = word_of_int (sint x + 1)"
    by (simp add: of_int_sint)
  then show ?thesis
    using assms sint_int32_range [of x] sint_int32_of_int [of "sint x + 1"] by simp
qed

lemma sint_int32_inj: "sint (x :: int32) = sint y \<Longrightarrow> x = y"
  by (rule signed_word_eqI)

end
