(* ===== verification/Api_Types.thy ===== *)
theory Api_Types
  imports Prelude
begin

text \<open>
  The custom resources of \<open>api/v1alpha1\<close> (ChallengeTemplate, ChallengeInstance, ChallengeSet,
  NetworkFence), their label keys, and the parts of the Kubernetes objects (Deployment,
  Service, Pod, NetworkPolicy) the code fills in or reads. A Go string type with a
  kubebuilder \<open>Enum\<close> marker is a datatype of the values the CRD schema admits, with one
  constructor for the zero value \<open>""\<close>; a pointer field is an \<open>option\<close>; a slice is a list.
\<close>

section \<open>Labels (labels.go)\<close>

definition LabelChallenge :: string where
  "LabelChallenge = ''kimo.io/challenge''"

definition LabelTeam :: string where
  "LabelTeam = ''kimo.io/team''"

definition LabelInstance :: string where
  "LabelInstance = ''kimo.io/instance''"

lemmas label_defs = LabelChallenge_def LabelTeam_def LabelInstance_def

lemma labels_distinct [simp]:
  "LabelChallenge \<noteq> LabelTeam" "LabelChallenge \<noteq> LabelInstance" "LabelTeam \<noteq> LabelInstance"
  "LabelTeam \<noteq> LabelChallenge" "LabelInstance \<noteq> LabelChallenge" "LabelInstance \<noteq> LabelTeam"
  by (simp_all add: label_defs)

section \<open>Object metadata\<close>

text \<open>
  The fields of \<open>metav1.ObjectMeta\<close> the code sets or depends on. \<open>om_owner\<close> is the controller
  owner reference (kind and name); \<open>om_rv\<close> stands for the resource version and every other
  field only the API server writes.
\<close>

record obj_meta =
  om_name :: string
  om_namespace :: string
  om_labels :: labels
  om_owner :: "(string \<times> string) option"
  om_rv :: nat

definition nsname_of :: "obj_meta \<Rightarrow> nsname" where
  "nsname_of m = (om_namespace m, om_name m)"

text \<open>A literal \<open>metav1.ObjectMeta{Name: n, Namespace: ns, Labels: l}\<close>.\<close>

definition new_meta :: "string \<Rightarrow> string \<Rightarrow> labels \<Rightarrow> obj_meta" where
  "new_meta n ns l = \<lparr>om_name = n, om_namespace = ns, om_labels = l, om_owner = None, om_rv = 0\<rparr>"

text \<open>The metadata without what only the API server writes.\<close>

definition user_meta :: "obj_meta \<Rightarrow> obj_meta" where
  "user_meta m = m\<lparr>om_rv := 0\<rparr>"

lemma new_meta_sel [simp]:
  "om_name (new_meta n ns l) = n" "om_namespace (new_meta n ns l) = ns"
  "om_labels (new_meta n ns l) = l" "om_owner (new_meta n ns l) = None"
  "om_rv (new_meta n ns l) = 0" "nsname_of (new_meta n ns l) = (ns, n)"
  by (simp_all add: new_meta_def nsname_of_def)

lemma user_meta_sel [simp]:
  "om_name (user_meta m) = om_name m" "om_namespace (user_meta m) = om_namespace m"
  "om_labels (user_meta m) = om_labels m" "om_owner (user_meta m) = om_owner m"
  "nsname_of (user_meta m) = nsname_of m" "user_meta (user_meta m) = user_meta m"
  by (simp_all add: user_meta_def nsname_of_def)

lemma user_meta_eqD:
  assumes "user_meta m = user_meta m'"
  shows "om_name m = om_name m'" "om_namespace m = om_namespace m'"
    "om_labels m = om_labels m'" "om_owner m = om_owner m'" "nsname_of m = nsname_of m'"
  using assms by (cases m; cases m'; simp add: user_meta_def nsname_of_def)+

section \<open>ChallengeTemplate (challengetemplate\_types.go)\<close>

datatype instance_mode = ModeUnset | InstanceModeShared | InstanceModePerTeam | InstanceModePerPlayer

record pow_spec =
  pow_enabled :: bool
  pow_difficulty :: int
  pow_algorithm :: string
  pow_ttl :: string

record container_port =
  cp_name :: string
  cp_port :: int32
  cp_expose :: bool

record resource_requirements =
  rr_requests :: "string \<rightharpoonup> string"
  rr_limits :: "string \<rightharpoonup> string"

datatype readiness_type = ReadinessUnset | ReadinessTCP | ReadinessHTTP | ReadinessNone

record readiness_check =
  rc_type :: readiness_type
  rc_port :: int32
  rc_path :: string

datatype restart_policy = RestartUnset | RestartOnFailure | RestartAlways | RestartNever

text \<open>\<open>corev1.EnvVar\<close> is passed through unread: a name, a value and a reference to a key.\<close>

record env_var =
  ev_name :: string
  ev_value :: string
  ev_from :: "(string \<times> string) option"

record container_spec =
  cs_image :: string
  cs_ports :: "container_port list"
  cs_resources :: resource_requirements
  cs_env :: "env_var list"
  cs_readiness :: "readiness_check option"
  cs_restart :: restart_policy
  cs_threshold :: int32

record template_spec =
  ts_category :: string
  ts_difficulty :: string
  ts_points :: int
  ts_flag_secret :: string
  ts_mode :: instance_mode
  ts_ttl :: string
  ts_max_instances :: int
  ts_pow :: "pow_spec option"
  ts_container :: container_spec

record template_status =
  tst_ready :: bool
  tst_count :: int
  tst_message :: string

record challenge_template =
  ct_meta :: obj_meta
  ct_spec :: template_spec
  ct_status :: template_status

section \<open>ChallengeInstance (challengeinstance\_types.go)\<close>

datatype instance_phase =
    PhaseUnset
  | InstancePhasePending
  | InstancePhaseCreating
  | InstancePhaseRunning
  | InstancePhaseUnhealthy
  | InstancePhaseExpiring
  | InstancePhaseExpired
  | InstancePhaseTerminating
  | InstancePhaseFailed

text \<open>The Go value behind each constructor.\<close>

fun phase_string :: "instance_phase \<Rightarrow> string" where
  "phase_string PhaseUnset = ''''"
| "phase_string InstancePhasePending = ''Pending''"
| "phase_string InstancePhaseCreating = ''Creating''"
| "phase_string InstancePhaseRunning = ''Running''"
| "phase_string InstancePhaseUnhealthy = ''Unhealthy''"
| "phase_string InstancePhaseExpiring = ''Expiring''"
| "phase_string InstancePhaseExpired = ''Expired''"
| "phase_string InstancePhaseTerminating = ''Terminating''"
| "phase_string InstancePhaseFailed = ''Failed''"

record instance_spec =
  is_template :: string
  is_team :: string
  is_player :: string
  is_ttl_override :: string

record instance_status =
  st_phase :: instance_phase
  st_reason :: string
  st_endpoint :: string
  st_started :: "instant option"
  st_expires :: "instant option"
  st_pod_name :: string
  st_unhealthy :: int32
  st_message :: string

record challenge_instance =
  ci_meta :: obj_meta
  ci_spec :: instance_spec
  ci_status :: instance_status

text \<open>The zero value of the status, which a new instance has.\<close>

definition empty_instance_status :: instance_status where
  "empty_instance_status = \<lparr>st_phase = PhaseUnset, st_reason = '''', st_endpoint = '''',
     st_started = None, st_expires = None, st_pod_name = '''', st_unhealthy = 0, st_message = ''''\<rparr>"

abbreviation instance_phase_of :: "challenge_instance \<Rightarrow> instance_phase" where
  "instance_phase_of i \<equiv> st_phase (ci_status i)"

text \<open>
  The order in which the design document draws the phases, with \<open>Failed\<close> at the end. The
  library's orders on it let a proof speak of a phase moving forward.
\<close>

fun phase_rank :: "instance_phase \<Rightarrow> nat" where
  "phase_rank PhaseUnset = 0"
| "phase_rank InstancePhasePending = 1"
| "phase_rank InstancePhaseCreating = 2"
| "phase_rank InstancePhaseRunning = 3"
| "phase_rank InstancePhaseUnhealthy = 4"
| "phase_rank InstancePhaseExpiring = 5"
| "phase_rank InstancePhaseExpired = 6"
| "phase_rank InstancePhaseTerminating = 7"
| "phase_rank InstancePhaseFailed = 8"

lemma phase_rank_inj: "phase_rank p = phase_rank q \<longleftrightarrow> p = q"
  by (cases p; cases q) simp_all

lemma phase_string_inj: "phase_string p = phase_string q \<longleftrightarrow> p = q"
  by (cases p; cases q) simp_all

instantiation instance_phase :: linorder
begin

definition less_eq_instance_phase :: "instance_phase \<Rightarrow> instance_phase \<Rightarrow> bool" where
  "less_eq_instance_phase p q \<longleftrightarrow> phase_rank p \<le> phase_rank q"

definition less_instance_phase :: "instance_phase \<Rightarrow> instance_phase \<Rightarrow> bool" where
  "less_instance_phase p q \<longleftrightarrow> phase_rank p < phase_rank q"

instance
  by standard (auto simp: less_eq_instance_phase_def less_instance_phase_def phase_rank_inj)

end

lemmas phase_order = less_eq_instance_phase_def less_instance_phase_def

section \<open>ChallengeSet (challengeset\_types.go)\<close>

record schedule_spec =
  ss_start_at :: string
  ss_end_at :: string

record set_spec =
  sets_challenges :: "string list"
  sets_schedule :: "schedule_spec option"

record set_status =
  sst_active :: bool
  sst_message :: string

record challenge_set =
  cset_meta :: obj_meta
  cset_spec :: set_spec
  cset_status :: set_status

section \<open>NetworkFence (networkfence\_types.go)\<close>

record allow_rule =
  ar_cidr :: string
  ar_port :: int32

record deny_rule =
  dr_to :: string

record fence_spec =
  fs_instance_ref :: string
  fs_allow :: "allow_rule list"
  fs_deny :: "deny_rule list"
  fs_allow_egress :: bool

record fence_status =
  fst_applied :: bool
  fst_message :: string

record network_fence =
  nf_meta :: obj_meta
  nf_spec :: fence_spec
  nf_status :: fence_status

section \<open>Kubernetes objects\<close>

text \<open>The fields of the Kubernetes types the code writes or reads, and no other.\<close>

record security_context =
  sc_run_as_non_root :: "bool option"
  sc_read_only_root :: "bool option"
  sc_allow_privilege_escalation :: "bool option"

datatype probe = HttpProbe string int32 | TcpProbe int32

datatype volume_source = EmptyDirVolume

record container =
  cn_name :: string
  cn_image :: string
  cn_ports :: "(string \<times> int32) list"
  cn_env :: "env_var list"
  cn_resources :: resource_requirements
  cn_security :: "security_context option"
  cn_mounts :: "(string \<times> string) list"
  cn_readiness :: "probe option"

record pod_spec =
  ps_containers :: "container list"
  ps_restart :: restart_policy
  ps_automount_token :: "bool option"
  ps_volumes :: "(string \<times> volume_source) list"

record deployment =
  dp_meta :: obj_meta
  dp_replicas :: int32
  dp_selector :: labels
  dp_pod_labels :: labels
  dp_pod_spec :: pod_spec

record service_port =
  sp_name :: string
  sp_port :: int32
  sp_target :: int32

record service =
  sv_meta :: obj_meta
  sv_selector :: labels
  sv_ports :: "service_port list"

datatype pod_phase = PodPending | PodRunning | PodSucceeded | PodFailed | PodUnknown

datatype cond_status = ConditionTrue | ConditionFalse | ConditionUnknown

record pod_condition =
  pc_type :: string
  pc_status :: cond_status

record pod =
  pd_meta :: obj_meta
  pd_phase :: pod_phase
  pd_reason :: string
  pd_conditions :: "pod_condition list"

datatype policy_type = PolicyTypeIngress | PolicyTypeEgress

datatype protocol = ProtocolTCP | ProtocolUDP

record ingress_rule =
  ig_ports :: "(int32 \<times> protocol) list"
  ig_from :: "string list"

record egress_rule =
  eg_ports :: "(int32 \<times> protocol) list"
  eg_to :: "string list"

record policy_spec =
  np_pod_selector :: labels
  np_ingress :: "ingress_rule list"
  np_egress :: "egress_rule list"
  np_types :: "policy_type list"

record network_policy =
  np_meta :: obj_meta
  np_spec :: policy_spec

end
