(* ===== verification/Integrations.thy ===== *)
theory Integrations
  imports Api_Types
begin

text \<open>
  \<open>internal/integrations/backend.go\<close>: lifecycle events, the \<open>Backend\<close> interface every
  scoring-platform adapter implements, the optional \<open>WebhookRegistrar\<close> capability, and the
  registry of backend factories. The interface is a record of functions on the world, as a Go
  interface value is a table of methods; the adapters themselves are in the theory of each.
\<close>

section \<open>HTTP requests and JSON values\<close>

text \<open>
  What the code reads of an \<open>*http.Request\<close>: method, path, query parameters and headers
  (\<open>Get\<close> gives the empty string for a missing one), and the bytes of the body, as far as they
  can be read. A JSON number keeps its literal.
\<close>

datatype json =
    JNull
  | JBool bool
  | JNum string
  | JStr string
  | JArr "json list"
  | JObj "(string \<times> json) list"

record http_request =
  rq_method :: string
  rq_path :: string
  rq_query :: "string \<Rightarrow> string"
  rq_header :: "string \<Rightarrow> string"
  rq_body :: string

section \<open>Events and principals\<close>

datatype event_type =
    EventCreating
  | EventRunning
  | EventUnhealthy
  | EventExpiring
  | EventExpired
  | EventFailed
  | EventDeleted

fun event_type_string :: "event_type \<Rightarrow> string" where
  "event_type_string EventCreating = ''instance.creating''"
| "event_type_string EventRunning = ''instance.running''"
| "event_type_string EventUnhealthy = ''instance.unhealthy''"
| "event_type_string EventExpiring = ''instance.expiring''"
| "event_type_string EventExpired = ''instance.expired''"
| "event_type_string EventFailed = ''instance.failed''"
| "event_type_string EventDeleted = ''instance.deleted''"

lemma event_type_string_inj: "event_type_string a = event_type_string b \<longleftrightarrow> a = b"
  by (cases a; cases b) simp_all

text \<open>The zero \<open>time.Time\<close>, 1 January of year 1, in nanoseconds since the Unix epoch.\<close>

definition zero_time :: instant where
  "zero_time = - 62135596800 * 10 ^ 9"

record event =
  evt_type :: event_type
  evt_instance :: string
  evt_challenge :: string
  evt_team :: string
  evt_player :: string
  evt_endpoint :: string
  evt_reason :: string
  evt_timestamp :: instant

record principal =
  pr_subject :: string
  pr_team :: string
  pr_scopes :: "string list"

section \<open>The Backend interface\<close>

text \<open>
  \<open>be_registrar\<close> is the type assertion \<open>backend.(WebhookRegistrar)\<close>: \<open>None\<close> when the backend
  does not implement it.
\<close>

record 'w backend =
  be_name :: string
  be_notify :: "event \<Rightarrow> 'w \<Rightarrow> go_error option \<times> 'w"
  be_authenticate :: "http_request \<Rightarrow> 'w \<Rightarrow> (go_error + principal) \<times> 'w"
  be_registrar :: "(string \<Rightarrow> string \<Rightarrow> 'w \<Rightarrow> go_error option \<times> 'w) option"

section \<open>The registry\<close>

text \<open>A factory builds a backend from the text of its configuration, or fails.\<close>

type_synonym 'w factory = "string \<Rightarrow> go_error + 'w backend"
type_synonym 'w registry = "string \<rightharpoonup> 'w factory"

definition Register :: "string \<Rightarrow> 'w factory \<Rightarrow> 'w registry \<Rightarrow> 'w registry" where
  "Register name f reg = reg(name \<mapsto> f)"

text \<open>\<open>%q\<close> of a name: quoted. Names that need no escape are the ones printed exactly.\<close>

definition New :: "'w registry \<Rightarrow> (string \<Rightarrow> string) \<Rightarrow> string \<Rightarrow> string \<Rightarrow> go_error + 'w backend" where
  "New reg quoted name cfg =
     (case reg name of
        None \<Rightarrow> Inl (OtherErr (''unknown scoring backend '' @ quoted name))
      | Some factory \<Rightarrow> factory cfg)"

text \<open>
  A name registered answers with its own factory, the latest one registered under it, and
  registering a name does not change what another one builds.
\<close>

lemma New_Register:
  "New (Register name f reg) quoted name' cfg =
     (if name' = name then f cfg else New reg quoted name' cfg)"
  by (simp add: New_def Register_def)

lemma New_unknown: "reg name = None \<Longrightarrow> \<exists>m. New reg quoted name cfg = Inl (OtherErr m)"
  by (simp add: New_def)

end
