(* ===== verification/Kube.thy ===== *)
theory Kube
  imports Integrations
begin

text \<open>
  The outside world of the controllers and of the REST server. \<open>client.Client\<close> of
  controller-runtime is not code of this repository: it is a parameter, a record of the calls
  the code makes (\<open>Get\<close>, \<open>List\<close>, \<open>Create\<close>, \<open>Update\<close>, \<open>Status().Update\<close>, \<open>Delete\<close>), one table
  per kind of object, on a world of an arbitrary type. So are
  \<open>controllerutil.SetControllerReference\<close> and the clock.

  What the Kubernetes API documents of these calls is the locale \<open>kind_store\<close>, stated over
  a view of the world as maps from names to objects; \<open>cluster_api\<close> states it for every kind at
  once. Properties of several calls hold for every client that obeys it. The theory
  \<open>Mem_Cluster\<close> gives a client that does.
\<close>

section \<open>The client\<close>

text \<open>\<open>client.InNamespace\<close> and \<open>client.MatchingLabels\<close>.\<close>

record list_opts =
  lo_namespace :: "string option"
  lo_labels :: labels

record ('w, 'o) kind_api =
  k_get :: "nsname \<Rightarrow> 'w \<Rightarrow> (go_error + 'o) \<times> 'w"
  k_list :: "list_opts \<Rightarrow> 'w \<Rightarrow> (go_error + 'o list) \<times> 'w"
  k_create :: "'o \<Rightarrow> 'w \<Rightarrow> (go_error + 'o) \<times> 'w"
  k_update :: "'o \<Rightarrow> 'w \<Rightarrow> (go_error + 'o) \<times> 'w"
  k_status :: "'o \<Rightarrow> 'w \<Rightarrow> (go_error + 'o) \<times> 'w"
  k_delete :: "nsname \<Rightarrow> 'w \<Rightarrow> (go_error + unit) \<times> 'w"

text \<open>
  \<open>kb_set_ref kind owner m\<close> is \<open>SetControllerReference\<close> with an owner of that kind and metadata,
  on an object with metadata \<open>m\<close>. A secret is only looked up, so its value is a unit.
\<close>

record secret =
  sec_meta :: obj_meta

record 'w kube =
  kb_templates :: "('w, challenge_template) kind_api"
  kb_instances :: "('w, challenge_instance) kind_api"
  kb_sets :: "('w, challenge_set) kind_api"
  kb_fences :: "('w, network_fence) kind_api"
  kb_deployments :: "('w, deployment) kind_api"
  kb_services :: "('w, service) kind_api"
  kb_policies :: "('w, network_policy) kind_api"
  kb_pods :: "('w, pod) kind_api"
  kb_secrets :: "('w, secret) kind_api"
  kb_set_ref :: "string \<Rightarrow> obj_meta \<Rightarrow> obj_meta \<Rightarrow> go_error + obj_meta"
  kb_now :: "'w \<Rightarrow> instant \<times> 'w"

text \<open>What the clock may show.\<close>

definition clock_readings :: "'w kube \<Rightarrow> instant set" where
  "clock_readings K = {t. \<exists>w w'. kb_now K w = (t, w')}"

lemma clock_reading: "fst (kb_now K w) \<in> clock_readings K"
  by (auto simp: clock_readings_def intro: prod.collapse [symmetric])

section \<open>Reconcile results\<close>

text \<open>\<open>ctrl.Result\<close>: the delay after which the object is reconciled again, 0 for none.\<close>

record ctrl_result =
  requeue_after :: duration

definition no_requeue :: ctrl_result where
  "no_requeue = \<lparr>requeue_after = 0\<rparr>"

definition requeue_in :: "duration \<Rightarrow> ctrl_result" where
  "requeue_in d = \<lparr>requeue_after = d\<rparr>"

lemma requeue_sel [simp]: "requeue_after (requeue_in d) = d" "requeue_after no_requeue = 0"
  by (simp_all add: requeue_in_def no_requeue_def)

section \<open>What the world holds\<close>

text \<open>\<open>cl_sent\<close> lists the events handed to the scoring backend so far, oldest first.\<close>

record cluster =
  cl_templates :: "nsname \<rightharpoonup> challenge_template"
  cl_instances :: "nsname \<rightharpoonup> challenge_instance"
  cl_sets :: "nsname \<rightharpoonup> challenge_set"
  cl_fences :: "nsname \<rightharpoonup> network_fence"
  cl_deployments :: "nsname \<rightharpoonup> deployment"
  cl_services :: "nsname \<rightharpoonup> service"
  cl_policies :: "nsname \<rightharpoonup> network_policy"
  cl_pods :: "nsname \<rightharpoonup> pod"
  cl_secrets :: "nsname \<rightharpoonup> secret"
  cl_sent :: "event list"

definition list_match :: "list_opts \<Rightarrow> obj_meta \<Rightarrow> bool" where
  "list_match opts m \<longleftrightarrow>
     (case lo_namespace opts of None \<Rightarrow> True | Some ns \<Rightarrow> om_namespace m = ns) \<and>
     lo_labels opts \<subseteq>\<^sub>m om_labels m"

section \<open>What the API server promises of one kind\<close>

text \<open>
  \<open>sel\<close> and \<open>upd\<close> pick the kind's map out of the view. An object is its metadata, its body
  (everything but metadata and status) and its status. A call that fails changes nothing; one
  that succeeds changes this kind only:
  \<^item> \<open>Get\<close> and \<open>List\<close> read the view; \<open>List\<close> returns each matching object once, in any order;
  \<^item> \<open>Create\<close> needs a free name, drops the status (it is a subresource) and keeps the rest (the
    view leaves out what the API server fills in for fields that were not sent);
  \<^item> \<open>Update\<close> replaces all but the status, \<open>Status().Update\<close> only the status, of an existing
    object;
  \<^item> \<open>wire\<close> is what survives the serialisation of the status.
\<close>

locale kind_store =
  fixes K :: "('w, 'o) kind_api"
    and view :: "'w \<Rightarrow> cluster"
    and sel :: "cluster \<Rightarrow> nsname \<Rightarrow> 'o option"
    and upd :: "(nsname \<Rightarrow> 'o option) \<Rightarrow> cluster \<Rightarrow> cluster"
    and meta_of :: "'o \<Rightarrow> obj_meta"
    and body_of :: "'o \<Rightarrow> 'b"
    and status_of :: "'o \<Rightarrow> 's"
    and wire :: "'s \<Rightarrow> 's"
    and status0 :: 's
  assumes stored_name: "sel (view w) key = Some x \<Longrightarrow> nsname_of (meta_of x) = key"
    and get_view: "k_get K key w = (r, w') \<Longrightarrow> view w' = view w"
    and get_found: "k_get K key w = (Inr x, w') \<Longrightarrow> sel (view w) key = Some x"
    and get_missing: "k_get K key w = (Inl e, w') \<Longrightarrow> is_not_found e \<Longrightarrow> sel (view w) key = None"
    and list_view: "k_list K opts w = (s, w') \<Longrightarrow> view w' = view w"
    and list_found: "k_list K opts w = (Inr xs, w') \<Longrightarrow>
      set xs = {x. sel (view w) (nsname_of (meta_of x)) = Some x \<and> list_match opts (meta_of x)}"
    and list_distinct: "k_list K opts w = (Inr xs, w') \<Longrightarrow> distinct (map (\<lambda>x. nsname_of (meta_of x)) xs)"
    and create_failed: "k_create K x w = (Inl e, w') \<Longrightarrow> view w' = view w"
    and create_exists: "k_create K x w = (Inl e, w') \<Longrightarrow> is_already_exists e \<Longrightarrow>
      sel (view w) (nsname_of (meta_of x)) \<noteq> None"
    and create_done: "k_create K x w = (Inr y, w') \<Longrightarrow>
      sel (view w) (nsname_of (meta_of x)) = None \<and>
      user_meta (meta_of y) = user_meta (meta_of x) \<and> body_of y = body_of x \<and> status_of y = status0 \<and>
      view w' = upd ((sel (view w))(nsname_of (meta_of x) \<mapsto> y)) (view w)"
    and update_failed: "k_update K x w = (Inl e, w') \<Longrightarrow> view w' = view w"
    and update_done: "k_update K x w = (Inr y, w') \<Longrightarrow>
      (\<exists>z. sel (view w) (nsname_of (meta_of x)) = Some z \<and> status_of y = status_of z) \<and>
      user_meta (meta_of y) = user_meta (meta_of x) \<and> body_of y = body_of x \<and>
      view w' = upd ((sel (view w))(nsname_of (meta_of x) \<mapsto> y)) (view w)"
    and status_failed: "k_status K x w = (Inl e, w') \<Longrightarrow> view w' = view w"
    and status_done: "k_status K x w = (Inr y, w') \<Longrightarrow>
      (\<exists>z. sel (view w) (nsname_of (meta_of x)) = Some z \<and>
         user_meta (meta_of y) = user_meta (meta_of z) \<and> body_of y = body_of z) \<and>
      status_of y = wire (status_of x) \<and>
      view w' = upd ((sel (view w))(nsname_of (meta_of x) \<mapsto> y)) (view w)"
    and delete_failed: "k_delete K key w = (Inl e, w') \<Longrightarrow> view w' = view w"
    and delete_missing: "k_delete K key w = (Inl e, w') \<Longrightarrow> is_not_found e \<Longrightarrow> sel (view w) key = None"
    and delete_done: "k_delete K key w = (Inr u, w') \<Longrightarrow>
      sel (view w) key \<noteq> None \<and> view w' = upd ((sel (view w))(key := None)) (view w)"
    and sel_upd: "sel (upd m c) = m"
begin

lemma created_stored:
  assumes "k_create K x w = (Inr y, w')"
  shows "sel (view w') (nsname_of (meta_of x)) = Some y"
  using create_done [OF assms] by (simp add: sel_upd)

lemma create_extends:
  assumes "k_create K x w = (r, w')"
  shows "sel (view w) \<subseteq>\<^sub>m sel (view w')"
proof (cases r)
  case (Inl e)
  then show ?thesis using create_failed assms by simp
next
  case (Inr y)
  then show ?thesis
    using create_done assms by (simp add: sel_upd map_le_fun_upd_new)
qed

lemma update_dom:
  assumes "k_update K x w = (r, w')"
  shows "dom (sel (view w')) = dom (sel (view w))"
proof (cases r)
  case (Inl e)
  then show ?thesis using update_failed assms by simp
next
  case (Inr y)
  then show ?thesis using update_done [of x w y w'] assms by (auto simp: sel_upd)
qed

lemma status_dom:
  assumes "k_status K x w = (r, w')"
  shows "dom (sel (view w')) = dom (sel (view w))"
proof (cases r)
  case (Inl e)
  then show ?thesis using status_failed assms by simp
next
  case (Inr y)
  then show ?thesis using status_done [of x w y w'] assms by (auto simp: sel_upd)
qed

text \<open>
  Get-or-create, the idiom of every \<open>ensure\<close> function: afterwards the name is taken, by the
  object that was there or by the one asked for.
\<close>

lemma get_missing_then_create:
  assumes "k_get K (nsname_of (meta_of x)) w = (Inl e, w1)" "k_create K x w1 = (Inr y, w2)"
  shows "view w2 = upd ((sel (view w))(nsname_of (meta_of x) \<mapsto> y)) (view w)"
    and "sel (view w) (nsname_of (meta_of x)) = None"
  using create_done [OF assms(2)] get_view [OF assms(1)] by simp_all

end

section \<open>What the API server promises of all kinds\<close>

text \<open>
  A \<open>metav1.Time\<close> is serialised as RFC 3339 text with whole seconds, so the two instants of an
  instance's status lose their fraction on the way to the API server.
\<close>

definition trunc_sec :: "instant \<Rightarrow> instant" where
  "trunc_sec t = t - t mod 10 ^ 9"

definition wire_instance_status :: "instance_status \<Rightarrow> instance_status" where
  "wire_instance_status s =
     s\<lparr>st_started := map_option trunc_sec (st_started s),
       st_expires := map_option trunc_sec (st_expires s)\<rparr>"

lemma trunc_sec_idem [simp]: "trunc_sec (trunc_sec t) = trunc_sec t"
proof -
  have "(t - t mod 10 ^ 9) mod 10 ^ 9 = 0"
    by (simp add: minus_mod_eq_mult_div)
  then show ?thesis by (simp add: trunc_sec_def)
qed

lemma trunc_sec_bounds: "trunc_sec t \<le> t" "t < trunc_sec t + 10 ^ 9"
  by (simp_all add: trunc_sec_def)

lemma wire_instance_status_sel [simp]:
  "st_phase (wire_instance_status s) = st_phase s"
  "st_reason (wire_instance_status s) = st_reason s"
  "st_endpoint (wire_instance_status s) = st_endpoint s"
  "st_pod_name (wire_instance_status s) = st_pod_name s"
  "st_unhealthy (wire_instance_status s) = st_unhealthy s"
  "st_message (wire_instance_status s) = st_message s"
  "st_expires (wire_instance_status s) = map_option trunc_sec (st_expires s)"
  "st_started (wire_instance_status s) = map_option trunc_sec (st_started s)"
  by (simp_all add: wire_instance_status_def)

lemma wire_instance_status_idem [simp]:
  "wire_instance_status (wire_instance_status s) = wire_instance_status s"
  by (simp add: wire_instance_status_def option.map_comp comp_def)

text \<open>Bodies: what of an object is neither metadata nor status.\<close>

definition deployment_body :: "deployment \<Rightarrow> int32 \<times> labels \<times> labels \<times> pod_spec" where
  "deployment_body d = (dp_replicas d, dp_selector d, dp_pod_labels d, dp_pod_spec d)"

definition service_body :: "service \<Rightarrow> labels \<times> service_port list" where
  "service_body s = (sv_selector s, sv_ports s)"

definition pod_status :: "pod \<Rightarrow> pod_phase \<times> string \<times> pod_condition list" where
  "pod_status p = (pd_phase p, pd_reason p, pd_conditions p)"

locale cluster_api =
  templates: kind_store "kb_templates K" view cl_templates "\<lambda>m c. c\<lparr>cl_templates := m\<rparr>"
    ct_meta ct_spec ct_status id "\<lparr>tst_ready = False, tst_count = 0, tst_message = ''''\<rparr>" +
  instances: kind_store "kb_instances K" view cl_instances "\<lambda>m c. c\<lparr>cl_instances := m\<rparr>"
    ci_meta ci_spec ci_status wire_instance_status empty_instance_status +
  sets: kind_store "kb_sets K" view cl_sets "\<lambda>m c. c\<lparr>cl_sets := m\<rparr>"
    cset_meta cset_spec cset_status id "\<lparr>sst_active = False, sst_message = ''''\<rparr>" +
  fences: kind_store "kb_fences K" view cl_fences "\<lambda>m c. c\<lparr>cl_fences := m\<rparr>"
    nf_meta nf_spec nf_status id "\<lparr>fst_applied = False, fst_message = ''''\<rparr>" +
  deployments: kind_store "kb_deployments K" view cl_deployments "\<lambda>m c. c\<lparr>cl_deployments := m\<rparr>"
    dp_meta deployment_body "\<lambda>_. ()" id "()" +
  services: kind_store "kb_services K" view cl_services "\<lambda>m c. c\<lparr>cl_services := m\<rparr>"
    sv_meta service_body "\<lambda>_. ()" id "()" +
  policies: kind_store "kb_policies K" view cl_policies "\<lambda>m c. c\<lparr>cl_policies := m\<rparr>"
    np_meta np_spec "\<lambda>_. ()" id "()" +
  pods: kind_store "kb_pods K" view cl_pods "\<lambda>m c. c\<lparr>cl_pods := m\<rparr>"
    pd_meta "\<lambda>_. ()" pod_status id "(PodPending, '''', [])" +
  secrets: kind_store "kb_secrets K" view cl_secrets "\<lambda>m c. c\<lparr>cl_secrets := m\<rparr>"
    sec_meta "\<lambda>_. ()" "\<lambda>_. ()" id "()"
  for K :: "'w kube" and view :: "'w \<Rightarrow> cluster" +
  assumes now_view: "kb_now K w = (t, w') \<Longrightarrow> view w' = view w"
    and set_ref_done: "kb_set_ref K kind owner m = Inr m' \<Longrightarrow> m' = m\<lparr>om_owner := Some (kind, om_name owner)\<rparr>"

text \<open>
  The scoring backend, as the controllers see it: a \<open>Notify\<close> call hands over one event,
  whether or not it reports an error, and leaves the cluster alone; \<open>Authenticate\<close> and
  \<open>RegisterWebhook\<close> leave it alone too.
\<close>

locale scoring_backend =
  fixes B :: "'w backend" and view :: "'w \<Rightarrow> cluster"
  assumes notify_view: "be_notify B ev w = (r, w') \<Longrightarrow> view w' = (view w)\<lparr>cl_sent := cl_sent (view w) @ [ev]\<rparr>"
    and authenticate_view: "be_authenticate B req w = (p, w') \<Longrightarrow> view w' = view w"
    and register_view: "be_registrar B = Some f \<Longrightarrow> f url secret w = (e, w') \<Longrightarrow> view w' = view w"

text \<open>
  A controller's surroundings: the API server, and a scoring backend or none.
\<close>

locale controllers = cluster_api K view
  for K :: "'w kube" and view :: "'w \<Rightarrow> cluster" +
  fixes b :: "'w backend option"
  assumes backend_ok: "b = Some B \<Longrightarrow> scoring_backend B view"

end
