(* ===== verification/Go_Time.thy ===== *)
theory Go_Time
  imports Prelude
begin

text \<open>
  What the code uses of Go's package \<open>time\<close>: durations as \<open>int64\<close> nanoseconds, \<open>Time.Add\<close>
  and the saturating \<open>Time.Sub\<close>, and \<open>time.ParseDuration\<close>, byte by byte as the library
  does it: the overflow checks on \<open>uint64\<close>, the sum that wraps, and the one step it does in
  \<open>float64\<close> (the fraction of a unit), with the rounding to 53 bits written out.
\<close>

section \<open>Durations\<close>

definition min_duration :: duration where
  "min_duration = - (2 ^ 63)"

definition max_duration :: duration where
  "max_duration = 2 ^ 63 - 1"

definition wrap_int64 :: "int \<Rightarrow> int" where
  "wrap_int64 x = (x + 2 ^ 63) mod 2 ^ 64 - 2 ^ 63"

definition seconds :: "int \<Rightarrow> duration" where
  "seconds n = n * 10 ^ 9"

lemma seconds_values [simp]:
  "seconds 10 = 10000000000" "seconds 15 = 15000000000" "seconds 30 = 30000000000"
  "seconds 60 = 60000000000"
  by (simp_all add: seconds_def)

lemma wrap_int64_id: "min_duration \<le> x \<Longrightarrow> x \<le> max_duration \<Longrightarrow> wrap_int64 x = x"
  by (simp add: wrap_int64_def min_duration_def max_duration_def)

lemma wrap_int64_range: "min_duration \<le> wrap_int64 x \<and> wrap_int64 x \<le> max_duration"
proof -
  have "0 \<le> (x + 2 ^ 63) mod 2 ^ 64" and "(x + 2 ^ 63) mod 2 ^ 64 < 2 ^ 64"
    by simp_all
  then show ?thesis
    by (simp add: wrap_int64_def min_duration_def max_duration_def)
qed

definition time_add :: "instant \<Rightarrow> duration \<Rightarrow> instant" where
  "time_add t d = t + d"

text \<open>\<open>t.Sub(u)\<close>: the difference, saturated to the range of a duration.\<close>

definition time_sub :: "instant \<Rightarrow> instant \<Rightarrow> duration" where
  "time_sub t u =
     (if min_duration \<le> t - u \<and> t - u \<le> max_duration then t - u
      else if t < u then min_duration else max_duration)"

lemma time_sub_pos_iff: "0 < time_sub t u \<longleftrightarrow> u < t"
  by (simp add: time_sub_def min_duration_def max_duration_def)

lemma time_sub_le_iff:
  "min_duration \<le> d \<Longrightarrow> d < max_duration \<Longrightarrow> time_sub t u \<le> d \<longleftrightarrow> t - u \<le> d"
  by (simp add: time_sub_def min_duration_def max_duration_def)

lemma time_sub_exact:
  "t - u \<le> max_duration \<Longrightarrow> min_duration \<le> t - u \<Longrightarrow> time_sub t u = t - u"
  by (simp add: time_sub_def)

lemma time_sub_range: "min_duration \<le> time_sub t u \<and> time_sub t u \<le> max_duration"
  by (simp add: time_sub_def min_duration_def max_duration_def)

lemma time_sub_le: "u < t \<Longrightarrow> time_sub t u \<le> t - u"
  by (simp add: time_sub_def min_duration_def max_duration_def)

section \<open>Quoting\<close>

text \<open>
  The package's own \<open>quote\<close>: a byte outside printable ASCII becomes \<open>\x\<close> and two
  hexadecimal digits; a quote and a backslash get a backslash.
\<close>

definition hex_digit :: "nat \<Rightarrow> char" where
  "hex_digit n = ''0123456789abcdef'' ! (n mod 16)"

definition byte_of :: "char \<Rightarrow> nat" where
  "byte_of c = of_char c"

definition quote_byte :: "char \<Rightarrow> string" where
  "quote_byte c =
     (if 128 \<le> byte_of c \<or> byte_of c < 32
      then [CHR 0x5C, CHR ''x'', hex_digit (byte_of c div 16), hex_digit (byte_of c)]
      else if c = CHR 0x22 \<or> c = CHR 0x5C then [CHR 0x5C, c] else [c])"

definition time_quote :: "string \<Rightarrow> string" where
  "time_quote s = [CHR 0x22] @ concat (map quote_byte s) @ [CHR 0x22]"

section \<open>Rounding to a float64\<close>

text \<open>
  A positive rational, as a numerator and a denominator, to the nearest value with a
  53-bit mantissa, ties to even. \<open>rne a b\<close> is \<open>a / b\<close> to the nearest integer.
\<close>

definition rne :: "nat \<Rightarrow> nat \<Rightarrow> nat" where
  "rne a b =
     (let q = a div b; r = a mod b
      in if 2 * r < b then q else if b < 2 * r then q + 1 else if even q then q else q + 1)"

fun bit_len :: "nat \<Rightarrow> nat" where
  "bit_len n = (if n = 0 then 0 else Suc (bit_len (n div 2)))"

declare bit_len.simps [simp del]

definition scale2 :: "nat \<Rightarrow> int \<Rightarrow> nat \<times> nat" where
  "scale2 m e = (if 0 \<le> e then (m * 2 ^ nat e, 1) else (m, 2 ^ nat (- e)))"

definition float_round :: "nat \<times> nat \<Rightarrow> nat \<times> nat" where
  "float_round p =
     (let (n, d) = p; e = int (bit_len n) - int (bit_len d) - 53;
          a = (if 0 \<le> e then n else n * 2 ^ nat (- e));
          b = (if 0 \<le> e then d * 2 ^ nat e else d)
      in if n = 0 then (0, 1)
         else if a < 2 ^ 53 * b then scale2 (rne a b) e
         else scale2 (rne a (2 * b)) (e + 1))"

definition float_mul :: "nat \<times> nat \<Rightarrow> nat \<times> nat \<Rightarrow> nat \<times> nat" where
  "float_mul p q = float_round (fst p * fst q, snd p * snd q)"

definition float_div :: "nat \<times> nat \<Rightarrow> nat \<times> nat \<Rightarrow> nat \<times> nat" where
  "float_div p q = float_round (fst p * snd q, snd p * fst q)"

section \<open>ParseDuration\<close>

definition is_digit :: "char \<Rightarrow> bool" where
  "is_digit c \<longleftrightarrow> 48 \<le> byte_of c \<and> byte_of c \<le> 57"

definition digit_val :: "char \<Rightarrow> nat" where
  "digit_val c = byte_of c - 48"

text \<open>\<open>leadingInt\<close>: \<open>None\<close> when the digits pass \<open>1 << 63\<close>.\<close>

fun leading_int :: "nat \<Rightarrow> string \<Rightarrow> (nat \<times> string) option" where
  "leading_int x [] = Some (x, [])"
| "leading_int x (c # cs) =
     (if \<not> is_digit c then Some (x, c # cs)
      else if 2 ^ 63 div 10 < x then None
      else let y = x * 10 + digit_val c
           in if 2 ^ 63 < y then None else leading_int y cs)"

text \<open>
  \<open>leadingFraction\<close>: digits past the capacity are read and dropped; the scale is a
  \<open>float64\<close> that each kept digit multiplies by ten.
\<close>

fun leading_fraction :: "nat \<Rightarrow> nat \<times> nat \<Rightarrow> bool \<Rightarrow> string \<Rightarrow> nat \<times> (nat \<times> nat) \<times> string" where
  "leading_fraction x sc ov [] = (x, sc, [])"
| "leading_fraction x sc ov (c # cs) =
     (if \<not> is_digit c then (x, sc, c # cs)
      else if ov then leading_fraction x sc True cs
      else if (2 ^ 63 - 1) div 10 < x then leading_fraction x sc True cs
      else let y = x * 10 + digit_val c
           in if 2 ^ 63 < y then leading_fraction x sc True cs
              else leading_fraction y (float_mul sc (10, 1)) False cs)"

definition unit_map :: "string \<Rightarrow> nat option" where
  "unit_map u =
     (if u = ''ns'' then Some 1
      else if u = ''us'' \<or> u = [CHR 0xC2, CHR 0xB5, CHR ''s''] \<or> u = [CHR 0xCE, CHR 0xBC, CHR ''s'']
        then Some (10 ^ 3)
      else if u = ''ms'' then Some (10 ^ 6)
      else if u = ''s'' then Some (10 ^ 9)
      else if u = ''m'' then Some (60 * 10 ^ 9)
      else if u = ''h'' then Some (3600 * 10 ^ 9)
      else None)"

datatype duration_error = DurInvalid | DurMissingUnit | DurUnknownUnit string

definition is_unit_char :: "char \<Rightarrow> bool" where
  "is_unit_char c \<longleftrightarrow> \<not> (c = CHR ''.'' \<or> is_digit c)"

text \<open>
  One round of the loop: a number, an optional fraction, a unit. Returns the value in
  nanoseconds and what is left of the text.
\<close>

definition duration_item :: "string \<Rightarrow> duration_error + (nat \<times> string)" where
  "duration_item s =
     (if \<not> (hd s = CHR ''.'' \<or> is_digit (hd s)) then Inl DurInvalid
      else (case leading_int 0 s of
        None \<Rightarrow> Inl DurInvalid
      | Some (v, s1) \<Rightarrow>
          (let pre = (length s1 \<noteq> length s);
               has_dot = (s1 \<noteq> [] \<and> hd s1 = CHR ''.'');
               frac = leading_fraction 0 (1, 1) False (tl s1);
               f = (if has_dot then fst frac else 0);
               sc = (if has_dot then fst (snd frac) else (1, 1));
               s2 = (if has_dot then snd (snd frac) else s1);
               post = (has_dot \<and> length s2 \<noteq> length (tl s1));
               u = takeWhile is_unit_char s2;
               s3 = dropWhile is_unit_char s2
           in if \<not> pre \<and> \<not> post then Inl DurInvalid
              else if u = [] then Inl DurMissingUnit
              else (case unit_map u of
                 None \<Rightarrow> Inl (DurUnknownUnit u)
               | Some n \<Rightarrow>
                   if 2 ^ 63 div n < v then Inl DurInvalid
                   else if 0 < f then
                     (let x = float_mul (float_round (f, 1)) (float_div (n, 1) sc);
                          v' = v * n + fst x div snd x
                      in if 2 ^ 63 < v' then Inl DurInvalid else Inr (v', s3))
                   else Inr (v * n, s3)))))"

lemma leading_int_length: "leading_int x s = Some (v, r) \<Longrightarrow> length r \<le> length s"
  by (induction x s rule: leading_int.induct) (auto simp: Let_def split: if_splits)

lemma leading_fraction_length:
  "length (snd (snd (leading_fraction x sc ov s))) \<le> length s"
  by (induction x sc ov s rule: leading_fraction.induct) (auto simp: Let_def intro: le_SucI)

lemma dropWhile_shorter: "takeWhile P s \<noteq> [] \<Longrightarrow> length (dropWhile P s) < length s"
  by (cases s) (auto simp: le_imp_less_Suc length_dropWhile_le split: if_splits)

text \<open>Every round that succeeds consumes at least the unit, so the loop ends.\<close>

lemma duration_item_shorter:
  assumes "duration_item s = Inr (v, r)"
  shows "length r < length s"
proof -
  obtain v1 s1 where li: "leading_int 0 s = Some (v1, s1)"
    using assms by (auto simp: duration_item_def split: if_splits option.splits)
  define s2 where "s2 = (if s1 \<noteq> [] \<and> hd s1 = CHR ''.''
      then snd (snd (leading_fraction 0 (1, 1) False (tl s1))) else s1)"
  have "length s2 \<le> length s1"
    using leading_fraction_length [of 0 "(1, 1)" False "tl s1"] by (auto simp: s2_def)
  moreover have "length s1 \<le> length s"
    using leading_int_length [OF li] .
  moreover have "takeWhile is_unit_char s2 \<noteq> [] \<and> r = dropWhile is_unit_char s2"
    using assms li
    by (auto simp: duration_item_def Let_def s2_def split: if_splits option.splits)
  ultimately show ?thesis
    using dropWhile_shorter [of is_unit_char s2] by auto
qed

text \<open>
  The loop over the rounds: \<open>d += v\<close> on \<open>uint64\<close>, checked after the addition.
\<close>

function duration_loop :: "nat \<Rightarrow> string \<Rightarrow> duration_error + nat" where
  "duration_loop d s =
     (if s = [] then Inr d
      else (case duration_item s of
        Inl e \<Rightarrow> Inl e
      | Inr (v, r) \<Rightarrow>
          (let d' = (d + v) mod 2 ^ 64
           in if 2 ^ 63 < d' then Inl DurInvalid else duration_loop d' r)))"
  by pat_completeness auto
termination
  by (relation "measure (\<lambda>(d, s). length s)") (auto dest: duration_item_shorter)

declare duration_loop.simps [simp del]

fun duration_error_text :: "string \<Rightarrow> duration_error \<Rightarrow> string" where
  "duration_error_text orig DurInvalid = ''time: invalid duration '' @ time_quote orig"
| "duration_error_text orig DurMissingUnit = ''time: missing unit in duration '' @ time_quote orig"
| "duration_error_text orig (DurUnknownUnit u) =
     ''time: unknown unit '' @ time_quote u @ '' in duration '' @ time_quote orig"

definition parse_duration :: "string \<Rightarrow> duration_error + duration" where
  "parse_duration orig =
     (let signed = (orig \<noteq> [] \<and> (hd orig = CHR ''-'' \<or> hd orig = CHR ''+''));
          neg = (signed \<and> hd orig = CHR ''-'');
          s = (if signed then tl orig else orig)
      in if s = ''0'' then Inr 0
         else if s = [] then Inl DurInvalid
         else (case duration_loop 0 s of
            Inl e \<Rightarrow> Inl e
          | Inr d \<Rightarrow>
              if neg then Inr (- int d)
              else if 2 ^ 63 - 1 < d then Inl DurInvalid
              else Inr (int d)))"

lemma duration_loop_bound: "duration_loop d s = Inr r \<Longrightarrow> d \<le> 2 ^ 63 \<Longrightarrow> r \<le> 2 ^ 63"
proof (induction d s rule: duration_loop.induct)
  case (1 d s)
  show ?case
  proof (cases "s = []")
    case True
    with "1.prems" show ?thesis by (simp add: duration_loop.simps)
  next
    case False
    with "1.prems" obtain v t where item: "duration_item s = Inr (v, t)"
      and le: "\<not> 2 ^ 63 < (d + v) mod 2 ^ 64"
      and loop: "duration_loop ((d + v) mod 2 ^ 64) t = Inr r"
      by (subst (asm) duration_loop.simps) (auto simp: Let_def split: if_splits sum.splits)
    from "1.IH" [OF False item refl refl le loop] le show ?thesis by simp
  qed
qed

text \<open>The equations that evaluate \<open>parse_duration\<close> on a given text.\<close>

lemmas parse_duration_eval = parse_duration_def duration_loop.simps duration_item_def is_digit_def
  byte_of_def digit_val_def is_unit_char_def unit_map_def

lemmas float_eval = float_mul_def float_div_def float_round_def bit_len.simps rne_def scale2_def

text \<open>A duration that parses fits an \<open>int64\<close>.\<close>

lemma parse_duration_range:
  assumes "parse_duration s = Inr d"
  shows "min_duration \<le> d" and "d \<le> max_duration"
proof -
  have "min_duration \<le> d \<and> d \<le> max_duration"
    using assms
    by (auto simp: parse_duration_def Let_def min_duration_def max_duration_def
        split: if_splits sum.splits dest!: duration_loop_bound)
  then show "min_duration \<le> d" and "d \<le> max_duration" by auto
qed

end
