(* ===== verification/Instance_Ctrl.thy ===== *)
theory Instance_Ctrl
  imports Kube Go_Time
begin

text \<open>
  \<open>internal/controller/challengeinstance_controller.go\<close>: the reconciler that creates the
  Deployment, Service and NetworkFence of a ChallengeInstance and drives its phase from the
  state of its Pod. Every method is a definition of its name; \<open>reconcileInstance\<close> is
  \<open>Reconcile\<close>. A method that mutates the instance it is given returns it; a call that talks
  to the API server threads the world.
\<close>

section \<open>The reconciler\<close>

record 'w instance_reconciler =
  ir_kube :: "'w kube"
  ir_backend :: "'w backend option"

definition terminal :: "instance_phase \<Rightarrow> bool" where
  "terminal p \<longleftrightarrow> p = InstancePhaseExpired \<or> p = InstancePhaseFailed"

lemma terminal_simps [simp]:
  "terminal InstancePhaseExpired" "terminal InstancePhaseFailed"
  "\<not> terminal PhaseUnset" "\<not> terminal InstancePhasePending" "\<not> terminal InstancePhaseCreating"
  "\<not> terminal InstancePhaseRunning" "\<not> terminal InstancePhaseUnhealthy"
  "\<not> terminal InstancePhaseExpiring" "\<not> terminal InstancePhaseTerminating"
  by (simp_all add: terminal_def)

section \<open>The objects an instance owns\<close>

definition buildNetworkFence :: "challenge_instance \<Rightarrow> challenge_template \<Rightarrow> network_fence" where
  "buildNetworkFence inst tmpl =
     (let allow = map (\<lambda>p. \<lparr>ar_cidr = '''', ar_port = cp_port p\<rparr>)
            (filter cp_expose (cs_ports (ts_container (ct_spec tmpl))))
      in \<lparr>nf_meta = new_meta (om_name (ci_meta inst)) (om_namespace (ci_meta inst)) Map.empty,
          nf_spec = \<lparr>fs_instance_ref = om_name (ci_meta inst), fs_allow = allow,
            fs_deny = [\<lparr>dr_to = ''kimo-system''\<rparr>], fs_allow_egress = False\<rparr>,
          nf_status = \<lparr>fst_applied = False, fst_message = ''''\<rparr>\<rparr>)"

definition buildReadinessProbe :: "container_spec \<Rightarrow> probe option" where
  "buildReadinessProbe c =
     (let readiness = cs_readiness c in
      if (case readiness of Some rc \<Rightarrow> rc_type rc = ReadinessNone | None \<Rightarrow> False) then None
      else
        let port = (case readiness of
              Some rc \<Rightarrow> (if rc_port rc \<noteq> 0 then rc_port rc
                         else if cs_ports c \<noteq> [] then cp_port (hd (cs_ports c)) else 0)
            | None \<Rightarrow> (if cs_ports c \<noteq> [] then cp_port (hd (cs_ports c)) else 0))
        in if port = 0 then None
           else (case readiness of
                Some rc \<Rightarrow> (if rc_type rc = ReadinessHTTP then Some (HttpProbe (rc_path rc) port)
                           else Some (TcpProbe port))
              | None \<Rightarrow> Some (TcpProbe port)))"

text \<open>The container gets no resources: \<open>c.Resources\<close> is not copied.\<close>

definition no_resources :: resource_requirements where
  "no_resources = \<lparr>rr_requests = Map.empty, rr_limits = Map.empty\<rparr>"

definition buildDeployment :: "challenge_instance \<Rightarrow> challenge_template \<Rightarrow> deployment" where
  "buildDeployment inst tmpl =
     (let labels = [LabelChallenge \<mapsto> om_name (ct_meta tmpl),
                    LabelTeam \<mapsto> is_team (ci_spec inst),
                    LabelInstance \<mapsto> om_name (ci_meta inst)];
          c = ts_container (ct_spec tmpl);
          container = \<lparr>cn_name = ''challenge'', cn_image = cs_image c,
            cn_ports = map (\<lambda>p. (cp_name p, cp_port p)) (cs_ports c),
            cn_env = cs_env c, cn_resources = no_resources,
            cn_security = Some \<lparr>sc_run_as_non_root = Some True, sc_read_only_root = Some True,
              sc_allow_privilege_escalation = Some False\<rparr>,
            cn_mounts = [(''tmp'', ''/tmp'')],
            cn_readiness = buildReadinessProbe c\<rparr>
      in \<lparr>dp_meta = new_meta (om_name (ci_meta inst)) (om_namespace (ci_meta inst)) labels,
          dp_replicas = 1, dp_selector = labels, dp_pod_labels = labels,
          dp_pod_spec = \<lparr>ps_containers = [container], ps_restart = RestartAlways,
            ps_automount_token = Some False, ps_volumes = [(''tmp'', EmptyDirVolume)]\<rparr>\<rparr>)"

definition buildService :: "challenge_instance \<Rightarrow> challenge_template \<Rightarrow> service option" where
  "buildService inst tmpl =
     (let ports = map (\<lambda>p. \<lparr>sp_name = cp_name p, sp_port = cp_port p, sp_target = cp_port p\<rparr>)
            (filter cp_expose (cs_ports (ts_container (ct_spec tmpl))))
      in if ports = [] then None
         else Some \<lparr>sv_meta = new_meta (om_name (ci_meta inst)) (om_namespace (ci_meta inst)) Map.empty,
           sv_selector = [LabelInstance \<mapsto> om_name (ci_meta inst)], sv_ports = ports\<rparr>)"

section \<open>Creating them\<close>

text \<open>
  \<open>getOrCreate api x what w\<close> is the idiom of both \<open>ensure\<close> functions: look the name up; only
  if it is not found create \<open>x\<close>, and report a failed creation as \<open>what\<close>, when the code wraps it.
\<close>

definition getOrCreate ::
  "('w, 'o) kind_api \<Rightarrow> nsname \<Rightarrow> 'o \<Rightarrow> (go_error \<Rightarrow> go_error) \<Rightarrow> 'w \<Rightarrow> go_error option \<times> 'w" where
  "getOrCreate api key x wrap w =
     (case k_get api key w of
        (Inr _, w1) \<Rightarrow> (None, w1)
      | (Inl e, w1) \<Rightarrow>
          if \<not> is_not_found e then (Some e, w1)
          else (case k_create api x w1 of
             (Inl e', w2) \<Rightarrow> (Some (wrap e'), w2)
           | (Inr _, w2) \<Rightarrow> (None, w2)))"

definition ensureWorkload ::
  "'w instance_reconciler \<Rightarrow> challenge_instance \<Rightarrow> challenge_template \<Rightarrow> 'w \<Rightarrow>
     (go_error + challenge_instance) \<times> 'w" where
  "ensureWorkload r inst tmpl w =
     (let K = ir_kube r; dep0 = buildDeployment inst tmpl in
      case kb_set_ref K ''ChallengeInstance'' (ci_meta inst) (dp_meta dep0) of
        Inl e \<Rightarrow> (Inl (WrapErr ''setting owner reference'' e), w)
      | Inr dmeta \<Rightarrow>
        (let dep = dep0\<lparr>dp_meta := dmeta\<rparr> in
         case getOrCreate (kb_deployments K) (nsname_of (dp_meta dep)) dep (WrapErr ''creating deployment'') w of
           (Some e, w1) \<Rightarrow> (Inl e, w1)
         | (None, w1) \<Rightarrow>
           (let done = Inr (inst\<lparr>ci_status := (ci_status inst)\<lparr>st_pod_name := om_name (dp_meta dep)\<rparr>\<rparr>) in
            case buildService inst tmpl of
              None \<Rightarrow> (done, w1)
            | Some svc0 \<Rightarrow>
              (case kb_set_ref K ''ChallengeInstance'' (ci_meta inst) (sv_meta svc0) of
                 Inl e \<Rightarrow> (Inl e, w1)
               | Inr smeta \<Rightarrow>
                 (let svc = svc0\<lparr>sv_meta := smeta\<rparr> in
                  case getOrCreate (kb_services K) (nsname_of (sv_meta svc)) svc (WrapErr ''creating service'') w1 of
                    (Some e, w2) \<Rightarrow> (Inl e, w2)
                  | (None, w2) \<Rightarrow> (done, w2))))))"

definition ensureNetworkFence ::
  "'w instance_reconciler \<Rightarrow> challenge_instance \<Rightarrow> challenge_template \<Rightarrow> 'w \<Rightarrow> go_error option \<times> 'w" where
  "ensureNetworkFence r inst tmpl w =
     (let K = ir_kube r; fence0 = buildNetworkFence inst tmpl in
      case kb_set_ref K ''ChallengeInstance'' (ci_meta inst) (nf_meta fence0) of
        Inl e \<Rightarrow> (Some (WrapErr ''setting owner reference'' e), w)
      | Inr fmeta \<Rightarrow>
        (let fence = fence0\<lparr>nf_meta := fmeta\<rparr> in
         getOrCreate (kb_fences K) (nsname_of (nf_meta fence)) fence (WrapErr ''creating network fence'') w))"

section \<open>The expiry\<close>

text \<open>Set once: an instance that has an expiry keeps it, whatever its TTL says by now.\<close>

definition ensureExpiry ::
  "'w instance_reconciler \<Rightarrow> challenge_instance \<Rightarrow> challenge_template \<Rightarrow> 'w \<Rightarrow>
     (go_error + challenge_instance) \<times> 'w" where
  "ensureExpiry r inst tmpl w =
     (if st_expires (ci_status inst) \<noteq> None then (Inr inst, w)
      else
        let ttl = (if is_ttl_override (ci_spec inst) \<noteq> '''' then is_ttl_override (ci_spec inst)
                   else ts_ttl (ct_spec tmpl))
        in case parse_duration ttl of
             Inl e \<Rightarrow> (Inl (OtherErr (''invalid TTL: '' @ ttl)), w)
           | Inr d \<Rightarrow>
             (case kb_now (ir_kube r) w of
                (t, w1) \<Rightarrow>
                  (Inr (inst\<lparr>ci_status := (ci_status inst)\<lparr>st_started := Some t,
                          st_expires := Some (time_add t d)\<rparr>\<rparr>), w1)))"

section \<open>The phase\<close>

fun podReadyConds :: "pod_condition list \<Rightarrow> bool" where
  "podReadyConds [] = False"
| "podReadyConds (c # cs) =
     (if pc_type c = ''Ready'' then pc_status c = ConditionTrue else podReadyConds cs)"

definition podReady :: "pod \<Rightarrow> bool" where
  "podReady p = podReadyConds (pd_conditions p)"

definition unhealthyThreshold :: "challenge_template \<Rightarrow> int32" where
  "unhealthyThreshold tmpl =
     (let threshold = cs_threshold (ts_container (ct_spec tmpl)) in if threshold = 0 then 3 else threshold)"

text \<open>What a pod says of the phase, and the counter of failed checks after it.\<close>

definition podPhase :: "pod \<Rightarrow> challenge_template \<Rightarrow> int32 \<Rightarrow> instance_phase \<times> string \<times> int32" where
  "podPhase p tmpl count =
     (case pd_phase p of
        PodFailed \<Rightarrow> (InstancePhaseFailed, ''pod failed: '' @ pd_reason p, count)
      | PodRunning \<Rightarrow>
          (if podReady p then (InstancePhaseRunning, '''', 0)
           else
             let count' = count + 1 in
             if sint (unhealthyThreshold tmpl) \<le> sint count'
             then (InstancePhaseUnhealthy, ''pod failing readiness checks'', count')
             else (InstancePhaseCreating, ''waiting for pod to become ready'', count'))
      | _ \<Rightarrow> (InstancePhaseCreating, ''waiting for pod to start'', count))"

definition determinePhase ::
  "'w instance_reconciler \<Rightarrow> challenge_instance \<Rightarrow> challenge_template \<Rightarrow> 'w \<Rightarrow>
     (go_error + (instance_phase \<times> string \<times> challenge_instance)) \<times> 'w" where
  "determinePhase r inst tmpl w =
     (case k_list (kb_pods (ir_kube r))
         \<lparr>lo_namespace = Some (om_namespace (ci_meta inst)),
          lo_labels = [LabelInstance \<mapsto> om_name (ci_meta inst)]\<rparr> w of
        (Inl e, w1) \<Rightarrow> (Inl e, w1)
      | (Inr [], w1) \<Rightarrow> (Inr (InstancePhaseCreating, ''waiting for pod to be scheduled'', inst), w1)
      | (Inr (p # _), w1) \<Rightarrow>
          (case podPhase p tmpl (st_unhealthy (ci_status inst)) of
             (phase, reason, count) \<Rightarrow>
               (Inr (phase, reason, inst\<lparr>ci_status := (ci_status inst)\<lparr>st_unhealthy := count\<rparr>\<rparr>), w1)))"

section \<open>The transition\<close>

fun eventForPhase :: "instance_phase \<Rightarrow> event_type option" where
  "eventForPhase InstancePhaseCreating = Some EventCreating"
| "eventForPhase InstancePhaseRunning = Some EventRunning"
| "eventForPhase InstancePhaseUnhealthy = Some EventUnhealthy"
| "eventForPhase InstancePhaseFailed = Some EventFailed"
| "eventForPhase _ = None"

text \<open>
  The \<open>Event\<close> literal, the same in \<open>transition\<close> and in the lifecycle controller. Neither
  sets the timestamp.
\<close>

definition instanceEvent :: "event_type \<Rightarrow> challenge_instance \<Rightarrow> string \<Rightarrow> event" where
  "instanceEvent t inst reason =
     \<lparr>evt_type = t, evt_instance = om_name (ci_meta inst), evt_challenge = is_template (ci_spec inst),
      evt_team = is_team (ci_spec inst), evt_player = is_player (ci_spec inst),
      evt_endpoint = st_endpoint (ci_status inst), evt_reason = reason, evt_timestamp = zero_time\<rparr>"

text \<open>A nil backend is not notified; an error of \<open>Notify\<close> is dropped.\<close>

definition notifyBackend :: "'w backend option \<Rightarrow> event \<Rightarrow> 'w \<Rightarrow> 'w" where
  "notifyBackend b ev w = (case b of None \<Rightarrow> w | Some B \<Rightarrow> snd (be_notify B ev w))"

definition setPhase :: "instance_phase \<Rightarrow> string \<Rightarrow> challenge_instance \<Rightarrow> challenge_instance" where
  "setPhase phase reason inst =
     inst\<lparr>ci_status := (ci_status inst)\<lparr>st_phase := phase, st_reason := reason\<rparr>\<rparr>"

text \<open>\<open>Status().Update\<close> refreshes the instance in place, so the event is built from its answer.\<close>

definition transition ::
  "'w instance_reconciler \<Rightarrow> challenge_instance \<Rightarrow> instance_phase \<Rightarrow> string \<Rightarrow> 'w \<Rightarrow>
     (go_error + ctrl_result) \<times> 'w" where
  "transition r inst phase reason w =
     (let changed = (instance_phase_of inst \<noteq> phase) in
      case k_status (kb_instances (ir_kube r)) (setPhase phase reason inst) w of
        (Inl e, w1) \<Rightarrow> (Inl e, w1)
      | (Inr stored, w1) \<Rightarrow>
          (Inr (requeue_in (seconds 15)),
           if changed then
             (case eventForPhase phase of
                Some t \<Rightarrow> notifyBackend (ir_backend r) (instanceEvent t stored reason) w1
              | None \<Rightarrow> w1)
           else w1))"

section \<open>Reconcile\<close>

text \<open>What follows the check that the template is ready.\<close>

definition reconcileReady ::
  "'w instance_reconciler \<Rightarrow> challenge_instance \<Rightarrow> challenge_template \<Rightarrow> 'w \<Rightarrow>
     (go_error + ctrl_result) \<times> 'w" where
  "reconcileReady r inst tmpl w =
     (case ensureWorkload r inst tmpl w of
        (Inl e, w1) \<Rightarrow> (Inl e, w1)
      | (Inr inst1, w1) \<Rightarrow>
        (case ensureNetworkFence r inst1 tmpl w1 of
           (Some e, w2) \<Rightarrow> (Inl e, w2)
         | (None, w2) \<Rightarrow>
           (case ensureExpiry r inst1 tmpl w2 of
              (Inl e, w3) \<Rightarrow> transition r inst1 InstancePhaseFailed (err_text e) w3
            | (Inr inst2, w3) \<Rightarrow>
              (case determinePhase r inst2 tmpl w3 of
                 (Inl e, w4) \<Rightarrow> (Inl e, w4)
               | (Inr (phase, reason, inst3), w4) \<Rightarrow> transition r inst3 phase reason w4))))"

definition reconcileInstance ::
  "'w instance_reconciler \<Rightarrow> nsname \<Rightarrow> 'w \<Rightarrow> (go_error + ctrl_result) \<times> 'w" where
  "reconcileInstance r req w =
     (case k_get (kb_instances (ir_kube r)) req w of
        (Inl e, w1) \<Rightarrow> (if is_not_found e then Inr no_requeue else Inl e, w1)
      | (Inr inst, w1) \<Rightarrow>
        (if terminal (instance_phase_of inst) then (Inr no_requeue, w1)
         else
           (case k_get (kb_templates (ir_kube r)) (om_namespace (ci_meta inst), is_template (ci_spec inst)) w1 of
              (Inl e, w2) \<Rightarrow>
                (if is_not_found e
                 then transition r inst InstancePhaseFailed (''template not found: '' @ is_template (ci_spec inst)) w2
                 else (Inl e, w2))
            | (Inr tmpl, w2) \<Rightarrow>
                (if \<not> tst_ready (ct_status tmpl)
                 then (case transition r inst InstancePhasePending ''waiting for template to be ready'' w2 of
                         (Inl e, w3) \<Rightarrow> (Inl e, w3)
                       | (Inr _, w3) \<Rightarrow> (Inr (requeue_in (seconds 10)), w3))
                 else reconcileReady r inst tmpl w2))))"

text \<open>The watch on Pods: which instance a Pod's event reconciles.\<close>

definition mapPodToInstance :: "pod \<Rightarrow> nsname list" where
  "mapPodToInstance p =
     (case om_labels (pd_meta p) LabelInstance of
        None \<Rightarrow> []
      | Some name \<Rightarrow> [(om_namespace (pd_meta p), name)])"

end
