(* ===== verification/Mem_Cluster.thy ===== *)
theory Mem_Cluster
  imports Kube
begin

text \<open>
  A client that obeys \<open>cluster_api\<close>: objects kept in lists, one per kind, a clock that each
  reading advances by one nanosecond, a counter of resource versions, and a list of faults
  that makes chosen calls fail. It is the executable cluster the witnesses run on, as the
  fake client of controller-runtime is in the repository's tests; no property is about it.
\<close>

record mem =
  mm_templates :: "challenge_template list"
  mm_instances :: "challenge_instance list"
  mm_sets :: "challenge_set list"
  mm_fences :: "network_fence list"
  mm_deployments :: "deployment list"
  mm_services :: "service list"
  mm_policies :: "network_policy list"
  mm_pods :: "pod list"
  mm_secrets :: "secret list"
  mm_sent :: "event list"
  mm_clock :: instant
  mm_rv :: nat
  mm_faults :: "bool list"

definition mem_empty :: mem where
  "mem_empty = \<lparr>mm_templates = [], mm_instances = [], mm_sets = [], mm_fences = [],
     mm_deployments = [], mm_services = [], mm_policies = [], mm_pods = [], mm_secrets = [],
     mm_sent = [], mm_clock = 0, mm_rv = 0, mm_faults = []\<rparr>"

section \<open>One kind\<close>

text \<open>How a kind's list sits in the world and how its objects are taken apart.\<close>

record 'o mem_lens =
  ml_get :: "mem \<Rightarrow> 'o list"
  ml_set :: "'o list \<Rightarrow> mem \<Rightarrow> mem"
  ml_meta :: "'o \<Rightarrow> obj_meta"
  ml_set_meta :: "obj_meta \<Rightarrow> 'o \<Rightarrow> 'o"
  ml_status_from :: "'o \<Rightarrow> 'o \<Rightarrow> 'o"
  ml_status_wire :: "'o \<Rightarrow> 'o \<Rightarrow> 'o"
  ml_status_clear :: "'o \<Rightarrow> 'o"

definition mem_find :: "('o \<Rightarrow> obj_meta) \<Rightarrow> 'o list \<Rightarrow> nsname \<Rightarrow> 'o option" where
  "mem_find meta xs key = find (\<lambda>x. nsname_of (meta x) = key) xs"

fun mem_dedup :: "('o \<Rightarrow> nsname) \<Rightarrow> 'o list \<Rightarrow> 'o list" where
  "mem_dedup f [] = []"
| "mem_dedup f (x # xs) = x # filter (\<lambda>y. f y \<noteq> f x) (mem_dedup f xs)"

definition mem_try :: "(mem \<Rightarrow> (go_error + 'a) \<times> mem) \<Rightarrow> mem \<Rightarrow> (go_error + 'a) \<times> mem" where
  "mem_try f m =
     (case mm_faults m of
        [] \<Rightarrow> f m
      | b # bs \<Rightarrow>
          if b then (Inl (OtherErr ''unavailable''), m\<lparr>mm_faults := bs\<rparr>)
          else f (m\<lparr>mm_faults := bs\<rparr>))"

definition mem_put :: "'o mem_lens \<Rightarrow> 'o \<Rightarrow> mem \<Rightarrow> (go_error + 'o) \<times> mem" where
  "mem_put L x m =
     (let y = ml_set_meta L ((ml_meta L x)\<lparr>om_rv := Suc (mm_rv m)\<rparr>) x;
          others = filter (\<lambda>z. nsname_of (ml_meta L z) \<noteq> nsname_of (ml_meta L x)) (ml_get L m)
      in (Inr y, ml_set L (y # others) (m\<lparr>mm_rv := Suc (mm_rv m)\<rparr>)))"

definition mem_kind :: "'o mem_lens \<Rightarrow> (mem, 'o) kind_api" where
  "mem_kind L = \<lparr>
     k_get = (\<lambda>key. mem_try (\<lambda>m.
       case mem_find (ml_meta L) (ml_get L m) key of
         None \<Rightarrow> (Inl (NotFoundErr ''not found''), m)
       | Some x \<Rightarrow> (Inr x, m))),
     k_list = (\<lambda>opts. mem_try (\<lambda>m.
       (Inr (filter (\<lambda>x. list_match opts (ml_meta L x))
          (mem_dedup (\<lambda>x. nsname_of (ml_meta L x)) (ml_get L m))), m))),
     k_create = (\<lambda>x. mem_try (\<lambda>m.
       case mem_find (ml_meta L) (ml_get L m) (nsname_of (ml_meta L x)) of
         None \<Rightarrow> mem_put L (ml_status_clear L x) m
       | Some z \<Rightarrow> (Inl (AlreadyExistsErr ''already exists''), m))),
     k_update = (\<lambda>x. mem_try (\<lambda>m.
       case mem_find (ml_meta L) (ml_get L m) (nsname_of (ml_meta L x)) of
         None \<Rightarrow> (Inl (NotFoundErr ''not found''), m)
       | Some z \<Rightarrow> if om_rv (ml_meta L x) \<noteq> om_rv (ml_meta L z) then (Inl (ConflictErr ''conflict''), m)
                  else mem_put L (ml_status_from L z x) m)),
     k_status = (\<lambda>x. mem_try (\<lambda>m.
       case mem_find (ml_meta L) (ml_get L m) (nsname_of (ml_meta L x)) of
         None \<Rightarrow> (Inl (NotFoundErr ''not found''), m)
       | Some z \<Rightarrow> if om_rv (ml_meta L x) \<noteq> om_rv (ml_meta L z) then (Inl (ConflictErr ''conflict''), m)
                  else mem_put L (ml_status_wire L x z) m)),
     k_delete = (\<lambda>key. mem_try (\<lambda>m.
       case mem_find (ml_meta L) (ml_get L m) key of
         None \<Rightarrow> (Inl (NotFoundErr ''not found''), m)
       | Some z \<Rightarrow>
           (Inr (), ml_set L (filter (\<lambda>x. nsname_of (ml_meta L x) \<noteq> key) (ml_get L m)) m)))\<rparr>"

lemma mem_find_Some: "mem_find meta xs key = Some x \<Longrightarrow> x \<in> set xs \<and> nsname_of (meta x) = key"
  by (auto simp: mem_find_def find_Some_iff)

lemma mem_find_Cons:
  "mem_find meta (x # xs) key = (if nsname_of (meta x) = key then Some x else mem_find meta xs key)"
  by (simp add: mem_find_def)

lemma mem_find_filter:
  "mem_find meta (filter (\<lambda>z. nsname_of (meta z) \<noteq> k) xs) key =
     (if key = k then None else mem_find meta xs key)"
  by (induction xs) (auto simp: mem_find_def)

lemma mem_dedup_distinct: "distinct (map f (mem_dedup f xs))"
proof (induction xs)
  case Nil
  then show ?case by simp
next
  case (Cons x xs)
  then have "distinct (map f (filter (\<lambda>y. f y \<noteq> f x) (mem_dedup f xs)))"
    by (rule distinct_map_filter)
  then show ?case by auto
qed

lemma mem_dedup_set: "x \<in> set (mem_dedup (\<lambda>x. nsname_of (meta x)) xs) \<longleftrightarrow>
   mem_find meta xs (nsname_of (meta x)) = Some x"
  by (induction xs) (auto simp: mem_find_def)

section \<open>A kind obeys the laws\<close>

text \<open>
  \<open>mem_lens_ok\<close>: the lens agrees with the view. Every law of \<open>kind_store\<close> then holds of
  \<open>mem_kind\<close>, whatever the kind.
\<close>

locale mem_lens_ok =
  fixes L :: "'o mem_lens"
    and view :: "mem \<Rightarrow> cluster"
    and sel :: "cluster \<Rightarrow> nsname \<Rightarrow> 'o option"
    and upd :: "(nsname \<Rightarrow> 'o option) \<Rightarrow> cluster \<Rightarrow> cluster"
    and body_of :: "'o \<Rightarrow> 'b"
    and status_of :: "'o \<Rightarrow> 's"
    and wire :: "'s \<Rightarrow> 's"
    and status0 :: 's
  assumes view_sel: "sel (view m) = mem_find (ml_meta L) (ml_get L m)"
    and view_set: "view (ml_set L xs m) = upd (mem_find (ml_meta L) xs) (view m)"
    and view_faults: "view (m\<lparr>mm_faults := fs\<rparr>) = view m"
    and view_rv: "view (m\<lparr>mm_rv := n\<rparr>) = view m"
    and get_rv: "ml_get L (m\<lparr>mm_rv := n\<rparr>) = ml_get L m"
    and sel_upd_ok: "sel (upd f c) = f"
    and meta_set: "ml_meta L (ml_set_meta L mt x) = mt"
    and body_set: "body_of (ml_set_meta L mt x) = body_of x"
    and status_set: "status_of (ml_set_meta L mt x) = status_of x"
    and from_meta: "ml_meta L (ml_status_from L z x) = ml_meta L x"
    and from_body: "body_of (ml_status_from L z x) = body_of x"
    and from_status: "status_of (ml_status_from L z x) = status_of z"
    and wire_meta: "ml_meta L (ml_status_wire L x z) = ml_meta L z"
    and wire_body: "body_of (ml_status_wire L x z) = body_of z"
    and wire_status: "status_of (ml_status_wire L x z) = wire (status_of x)"
    and clear_meta: "ml_meta L (ml_status_clear L x) = ml_meta L x"
    and clear_body: "body_of (ml_status_clear L x) = body_of x"
    and clear_status: "status_of (ml_status_clear L x) = status0"
begin

lemma try_Inr:
  assumes "mem_try f m = (Inr y, m')"
  obtains m1 where "f m1 = (Inr y, m')" "view m1 = view m"
  using assms view_faults by (fastforce simp: mem_try_def split: list.splits if_splits)

lemma try_Inl:
  assumes "mem_try f m = (Inl e, m')"
  obtains (Fault) "view m' = view m" "e = OtherErr ''unavailable''"
    | (Call) m1 where "f m1 = (Inl e, m')" "view m1 = view m"
  using assms view_faults by (fastforce simp: mem_try_def split: list.splits if_splits)

lemma put_done:
  assumes "mem_put L x m = (r, m')"
  shows "\<exists>y. r = Inr y \<and> user_meta (ml_meta L y) = user_meta (ml_meta L x) \<and>
     body_of y = body_of x \<and> status_of y = status_of x \<and>
     view m' = upd ((sel (view m))(nsname_of (ml_meta L x) \<mapsto> y)) (view m)"
proof -
  let ?k = "nsname_of (ml_meta L x)"
  let ?y = "ml_set_meta L ((ml_meta L x)\<lparr>om_rv := Suc (mm_rv m)\<rparr>) x"
  let ?rest = "filter (\<lambda>z. nsname_of (ml_meta L z) \<noteq> ?k) (ml_get L m)"
  have key: "nsname_of (ml_meta L ?y) = ?k"
    by (simp add: meta_set nsname_of_def)
  have "mem_find (ml_meta L) (?y # ?rest) = (mem_find (ml_meta L) (ml_get L m))(?k \<mapsto> ?y)"
    by (auto simp: fun_eq_iff mem_find_Cons mem_find_filter key)
  then have "view m' = upd ((sel (view m))(?k \<mapsto> ?y)) (view m)"
    using assms by (auto simp: mem_put_def Let_def view_set view_rv view_sel)
  moreover have "r = Inr ?y" using assms by (simp add: mem_put_def Let_def)
  ultimately show ?thesis
    by (simp add: meta_set body_set status_set user_meta_def)
qed

lemma mem_kind_store:
  "kind_store (mem_kind L) view sel upd (ml_meta L) body_of status_of wire status0"
proof (unfold_locales, goal_cases)
  case (1 w key x)
  then show ?case by (auto simp: view_sel dest: mem_find_Some)
next
  case (2 key w r w')
  then show ?case
    by (cases r; fastforce simp: mem_kind_def split: option.splits elim: try_Inl try_Inr)
next
  case (3 key w x w')
  then show ?case
    by (fastforce simp: mem_kind_def view_sel [symmetric] split: option.splits elim: try_Inr)
next
  case (4 key w e w')
  then show ?case
    by (fastforce simp: mem_kind_def view_sel [symmetric] split: option.splits elim: try_Inl)
next
  case (5 opts w s w')
  then show ?case
    by (cases s; fastforce simp: mem_kind_def elim: try_Inl try_Inr)
next
  case (6 opts w xs w')
  then obtain m1 where "view m1 = view w" and
    "xs = filter (\<lambda>x. list_match opts (ml_meta L x)) (mem_dedup (\<lambda>x. nsname_of (ml_meta L x)) (ml_get L m1))"
    by (auto simp: mem_kind_def elim: try_Inr)
  then show ?case
    by (simp flip: \<open>view m1 = view w\<close> add: view_sel mem_dedup_set)
next
  case (7 opts w xs w')
  then show ?case
    by (auto simp: mem_kind_def intro!: distinct_map_filter mem_dedup_distinct elim!: try_Inr)
next
  case (8 x w e w')
  then show ?case
    by (fastforce simp: mem_kind_def mem_put_def Let_def split: option.splits elim: try_Inl)
next
  case (9 x w e w')
  then show ?case
    by (fastforce simp: mem_kind_def mem_put_def Let_def view_sel [symmetric] split: option.splits elim: try_Inl)
next
  case (10 x w y w')
  then obtain m1 where v: "view m1 = view w"
    and none: "mem_find (ml_meta L) (ml_get L m1) (nsname_of (ml_meta L x)) = None"
    and put: "mem_put L (ml_status_clear L x) m1 = (Inr y, w')"
    by (auto simp: mem_kind_def split: option.splits elim!: try_Inr)
  from put_done [OF put] none show ?case
    by (simp flip: v add: view_sel clear_meta clear_body clear_status)
next
  case (11 x w e w')
  then show ?case
    by (fastforce simp: mem_kind_def mem_put_def Let_def split: option.splits if_splits elim: try_Inl)
next
  case (12 x w y w')
  then obtain m1 z where v: "view m1 = view w"
    and some: "mem_find (ml_meta L) (ml_get L m1) (nsname_of (ml_meta L x)) = Some z"
    and put: "mem_put L (ml_status_from L z x) m1 = (Inr y, w')"
    by (auto simp: mem_kind_def split: option.splits if_splits elim!: try_Inr)
  from put_done [OF put] some show ?case
    by (simp flip: v add: view_sel from_meta from_body from_status)
next
  case (13 x w e w')
  then show ?case
    by (fastforce simp: mem_kind_def mem_put_def Let_def split: option.splits if_splits elim: try_Inl)
next
  case (14 x w y w')
  then obtain m1 z where v: "view m1 = view w"
    and some: "mem_find (ml_meta L) (ml_get L m1) (nsname_of (ml_meta L x)) = Some z"
    and put: "mem_put L (ml_status_wire L x z) m1 = (Inr y, w')"
    by (auto simp: mem_kind_def split: option.splits if_splits elim!: try_Inr)
  from put_done [OF put] some mem_find_Some [OF some] show ?case
    by (simp flip: v add: view_sel wire_meta wire_body wire_status)
next
  case (15 key w e w')
  then show ?case
    by (fastforce simp: mem_kind_def split: option.splits elim: try_Inl)
next
  case (16 key w e w')
  then show ?case
    by (fastforce simp: mem_kind_def view_sel [symmetric] split: option.splits elim: try_Inl)
next
  case (17 key w u w')
  then obtain m1 z where v: "view m1 = view w"
    and some: "mem_find (ml_meta L) (ml_get L m1) key = Some z"
    and w': "w' = ml_set L (filter (\<lambda>x. nsname_of (ml_meta L x) \<noteq> key) (ml_get L m1)) m1"
    by (auto simp: mem_kind_def split: option.splits elim!: try_Inr)
  have "mem_find (ml_meta L) (filter (\<lambda>x. nsname_of (ml_meta L x) \<noteq> key) (ml_get L m1)) =
      (mem_find (ml_meta L) (ml_get L m1))(key := None)"
    by (auto simp: fun_eq_iff mem_find_filter)
  then show ?case
    using some by (simp flip: v add: view_sel w' view_set)
next
  case (18 m c)
  then show ?case by (rule sel_upd_ok)
qed

end

section \<open>All kinds\<close>

definition mem_template_lens :: "challenge_template mem_lens" where
  "mem_template_lens = \<lparr>ml_get = mm_templates, ml_set = (\<lambda>xs m. m\<lparr>mm_templates := xs\<rparr>),
     ml_meta = ct_meta, ml_set_meta = (\<lambda>mt x. x\<lparr>ct_meta := mt\<rparr>),
     ml_status_from = (\<lambda>z x. x\<lparr>ct_status := ct_status z\<rparr>),
     ml_status_wire = (\<lambda>x z. z\<lparr>ct_status := ct_status x\<rparr>),
     ml_status_clear = (\<lambda>x. x\<lparr>ct_status := \<lparr>tst_ready = False, tst_count = 0, tst_message = ''''\<rparr>\<rparr>)\<rparr>"

definition mem_instance_lens :: "challenge_instance mem_lens" where
  "mem_instance_lens = \<lparr>ml_get = mm_instances, ml_set = (\<lambda>xs m. m\<lparr>mm_instances := xs\<rparr>),
     ml_meta = ci_meta, ml_set_meta = (\<lambda>mt x. x\<lparr>ci_meta := mt\<rparr>),
     ml_status_from = (\<lambda>z x. x\<lparr>ci_status := ci_status z\<rparr>),
     ml_status_wire = (\<lambda>x z. z\<lparr>ci_status := wire_instance_status (ci_status x)\<rparr>),
     ml_status_clear = (\<lambda>x. x\<lparr>ci_status := empty_instance_status\<rparr>)\<rparr>"

definition mem_set_lens :: "challenge_set mem_lens" where
  "mem_set_lens = \<lparr>ml_get = mm_sets, ml_set = (\<lambda>xs m. m\<lparr>mm_sets := xs\<rparr>),
     ml_meta = cset_meta, ml_set_meta = (\<lambda>mt x. x\<lparr>cset_meta := mt\<rparr>),
     ml_status_from = (\<lambda>z x. x\<lparr>cset_status := cset_status z\<rparr>),
     ml_status_wire = (\<lambda>x z. z\<lparr>cset_status := cset_status x\<rparr>),
     ml_status_clear = (\<lambda>x. x\<lparr>cset_status := \<lparr>sst_active = False, sst_message = ''''\<rparr>\<rparr>)\<rparr>"

definition mem_fence_lens :: "network_fence mem_lens" where
  "mem_fence_lens = \<lparr>ml_get = mm_fences, ml_set = (\<lambda>xs m. m\<lparr>mm_fences := xs\<rparr>),
     ml_meta = nf_meta, ml_set_meta = (\<lambda>mt x. x\<lparr>nf_meta := mt\<rparr>),
     ml_status_from = (\<lambda>z x. x\<lparr>nf_status := nf_status z\<rparr>),
     ml_status_wire = (\<lambda>x z. z\<lparr>nf_status := nf_status x\<rparr>),
     ml_status_clear = (\<lambda>x. x\<lparr>nf_status := \<lparr>fst_applied = False, fst_message = ''''\<rparr>\<rparr>)\<rparr>"

definition mem_deployment_lens :: "deployment mem_lens" where
  "mem_deployment_lens = \<lparr>ml_get = mm_deployments, ml_set = (\<lambda>xs m. m\<lparr>mm_deployments := xs\<rparr>),
     ml_meta = dp_meta, ml_set_meta = (\<lambda>mt x. x\<lparr>dp_meta := mt\<rparr>),
     ml_status_from = (\<lambda>z x. x),
     ml_status_wire = (\<lambda>x z. z),
     ml_status_clear = (\<lambda>x. x)\<rparr>"

definition mem_service_lens :: "service mem_lens" where
  "mem_service_lens = \<lparr>ml_get = mm_services, ml_set = (\<lambda>xs m. m\<lparr>mm_services := xs\<rparr>),
     ml_meta = sv_meta, ml_set_meta = (\<lambda>mt x. x\<lparr>sv_meta := mt\<rparr>),
     ml_status_from = (\<lambda>z x. x),
     ml_status_wire = (\<lambda>x z. z),
     ml_status_clear = (\<lambda>x. x)\<rparr>"

definition mem_policy_lens :: "network_policy mem_lens" where
  "mem_policy_lens = \<lparr>ml_get = mm_policies, ml_set = (\<lambda>xs m. m\<lparr>mm_policies := xs\<rparr>),
     ml_meta = np_meta, ml_set_meta = (\<lambda>mt x. x\<lparr>np_meta := mt\<rparr>),
     ml_status_from = (\<lambda>z x. x),
     ml_status_wire = (\<lambda>x z. z),
     ml_status_clear = (\<lambda>x. x)\<rparr>"

definition mem_secret_lens :: "secret mem_lens" where
  "mem_secret_lens = \<lparr>ml_get = mm_secrets, ml_set = (\<lambda>xs m. m\<lparr>mm_secrets := xs\<rparr>),
     ml_meta = sec_meta, ml_set_meta = (\<lambda>mt x. x\<lparr>sec_meta := mt\<rparr>),
     ml_status_from = (\<lambda>z x. x),
     ml_status_wire = (\<lambda>x z. z),
     ml_status_clear = (\<lambda>x. x)\<rparr>"

definition mem_pod_lens :: "pod mem_lens" where
  "mem_pod_lens = \<lparr>ml_get = mm_pods, ml_set = (\<lambda>xs m. m\<lparr>mm_pods := xs\<rparr>),
     ml_meta = pd_meta, ml_set_meta = (\<lambda>mt x. x\<lparr>pd_meta := mt\<rparr>),
     ml_status_from = (\<lambda>z x. x\<lparr>pd_phase := pd_phase z, pd_reason := pd_reason z, pd_conditions := pd_conditions z\<rparr>),
     ml_status_wire = (\<lambda>x z. z\<lparr>pd_phase := pd_phase x, pd_reason := pd_reason x, pd_conditions := pd_conditions x\<rparr>),
     ml_status_clear = (\<lambda>x. x\<lparr>pd_phase := PodPending, pd_reason := [], pd_conditions := []\<rparr>)\<rparr>"

lemmas mem_lens_defs = mem_template_lens_def mem_instance_lens_def mem_set_lens_def
  mem_fence_lens_def mem_deployment_lens_def mem_service_lens_def mem_policy_lens_def
  mem_pod_lens_def mem_secret_lens_def

definition mem_kube :: "mem kube" where
  "mem_kube = \<lparr>
     kb_templates = mem_kind mem_template_lens,
     kb_instances = mem_kind mem_instance_lens,
     kb_sets = mem_kind mem_set_lens,
     kb_fences = mem_kind mem_fence_lens,
     kb_deployments = mem_kind mem_deployment_lens,
     kb_services = mem_kind mem_service_lens,
     kb_policies = mem_kind mem_policy_lens,
     kb_pods = mem_kind mem_pod_lens,
     kb_secrets = mem_kind mem_secret_lens,
     kb_set_ref = (\<lambda>kind owner m. Inr (m\<lparr>om_owner := Some (kind, om_name owner)\<rparr>)),
     kb_now = (\<lambda>m. (mm_clock m, m\<lparr>mm_clock := mm_clock m + 1\<rparr>))\<rparr>"

definition mem_view :: "mem \<Rightarrow> cluster" where
  "mem_view m = \<lparr>
     cl_templates = mem_find ct_meta (mm_templates m),
     cl_instances = mem_find ci_meta (mm_instances m),
     cl_sets = mem_find cset_meta (mm_sets m),
     cl_fences = mem_find nf_meta (mm_fences m),
     cl_deployments = mem_find dp_meta (mm_deployments m),
     cl_services = mem_find sv_meta (mm_services m),
     cl_policies = mem_find np_meta (mm_policies m),
     cl_pods = mem_find pd_meta (mm_pods m),
     cl_secrets = mem_find sec_meta (mm_secrets m),
     cl_sent = mm_sent m\<rparr>"

text \<open>A backend that records what it is told and admits every caller.\<close>

definition mem_backend :: "mem backend" where
  "mem_backend = \<lparr>be_name = ''recording'',
     be_notify = (\<lambda>ev m. (None, m\<lparr>mm_sent := mm_sent m @ [ev]\<rparr>)),
     be_authenticate = (\<lambda>req m. (Inr \<lparr>pr_subject = ''test'', pr_team = [], pr_scopes = []\<rparr>, m)),
     be_registrar = None\<rparr>"

interpretation mem_template_ok: mem_lens_ok mem_template_lens mem_view cl_templates "\<lambda>m c. c\<lparr>cl_templates := m\<rparr>"
    ct_spec ct_status id "\<lparr>tst_ready = False, tst_count = 0, tst_message = ''''\<rparr>"
  by unfold_locales
    (simp_all add: mem_template_lens_def mem_view_def deployment_body_def service_body_def pod_status_def)

interpretation mem_instance_ok: mem_lens_ok mem_instance_lens mem_view cl_instances "\<lambda>m c. c\<lparr>cl_instances := m\<rparr>"
    ci_spec ci_status wire_instance_status empty_instance_status
  by unfold_locales
    (simp_all add: mem_instance_lens_def mem_view_def deployment_body_def service_body_def pod_status_def)

interpretation mem_set_ok: mem_lens_ok mem_set_lens mem_view cl_sets "\<lambda>m c. c\<lparr>cl_sets := m\<rparr>"
    cset_spec cset_status id "\<lparr>sst_active = False, sst_message = ''''\<rparr>"
  by unfold_locales
    (simp_all add: mem_set_lens_def mem_view_def deployment_body_def service_body_def pod_status_def)

interpretation mem_fence_ok: mem_lens_ok mem_fence_lens mem_view cl_fences "\<lambda>m c. c\<lparr>cl_fences := m\<rparr>"
    nf_spec nf_status id "\<lparr>fst_applied = False, fst_message = ''''\<rparr>"
  by unfold_locales
    (simp_all add: mem_fence_lens_def mem_view_def deployment_body_def service_body_def pod_status_def)

interpretation mem_deployment_ok: mem_lens_ok mem_deployment_lens mem_view cl_deployments "\<lambda>m c. c\<lparr>cl_deployments := m\<rparr>"
    deployment_body "\<lambda>_. ()" id "()"
  by unfold_locales
    (simp_all add: mem_deployment_lens_def mem_view_def deployment_body_def service_body_def pod_status_def)

interpretation mem_service_ok: mem_lens_ok mem_service_lens mem_view cl_services "\<lambda>m c. c\<lparr>cl_services := m\<rparr>"
    service_body "\<lambda>_. ()" id "()"
  by unfold_locales
    (simp_all add: mem_service_lens_def mem_view_def deployment_body_def service_body_def pod_status_def)

interpretation mem_policy_ok: mem_lens_ok mem_policy_lens mem_view cl_policies "\<lambda>m c. c\<lparr>cl_policies := m\<rparr>"
    np_spec "\<lambda>_. ()" id "()"
  by unfold_locales
    (simp_all add: mem_policy_lens_def mem_view_def deployment_body_def service_body_def pod_status_def)

interpretation mem_secret_ok: mem_lens_ok mem_secret_lens mem_view cl_secrets "\<lambda>m c. c\<lparr>cl_secrets := m\<rparr>"
    "\<lambda>_. ()" "\<lambda>_. ()" id "()"
  by unfold_locales
    (simp_all add: mem_secret_lens_def mem_view_def deployment_body_def service_body_def pod_status_def)

interpretation mem_pod_ok: mem_lens_ok mem_pod_lens mem_view cl_pods "\<lambda>m c. c\<lparr>cl_pods := m\<rparr>"
    "\<lambda>_. ()" pod_status id "(PodPending, '''', [])"
  by unfold_locales
    (simp_all add: mem_pod_lens_def mem_view_def deployment_body_def service_body_def pod_status_def)

text \<open>The whole cluster obeys the laws.\<close>

interpretation mem_api: cluster_api mem_kube mem_view
proof -
  have stores: "kb_templates mem_kube = mem_kind mem_template_lens"
    "kb_instances mem_kube = mem_kind mem_instance_lens" "kb_sets mem_kube = mem_kind mem_set_lens"
    "kb_fences mem_kube = mem_kind mem_fence_lens" "kb_deployments mem_kube = mem_kind mem_deployment_lens"
    "kb_services mem_kube = mem_kind mem_service_lens" "kb_policies mem_kube = mem_kind mem_policy_lens"
    "kb_pods mem_kube = mem_kind mem_pod_lens" "kb_secrets mem_kube = mem_kind mem_secret_lens"
    by (simp_all add: mem_kube_def)
  have metas: "ml_meta mem_template_lens = ct_meta" "ml_meta mem_instance_lens = ci_meta"
    "ml_meta mem_set_lens = cset_meta" "ml_meta mem_fence_lens = nf_meta"
    "ml_meta mem_deployment_lens = dp_meta" "ml_meta mem_service_lens = sv_meta"
    "ml_meta mem_policy_lens = np_meta" "ml_meta mem_pod_lens = pd_meta" "ml_meta mem_secret_lens = sec_meta"
    by (simp_all add: mem_lens_defs)
  have "cluster_api_axioms mem_kube mem_view"
    by unfold_locales (auto simp: mem_kube_def mem_view_def)
  then show "cluster_api mem_kube mem_view"
    using mem_template_ok.mem_kind_store mem_instance_ok.mem_kind_store mem_set_ok.mem_kind_store
      mem_fence_ok.mem_kind_store mem_deployment_ok.mem_kind_store mem_service_ok.mem_kind_store
      mem_policy_ok.mem_kind_store mem_pod_ok.mem_kind_store mem_secret_ok.mem_kind_store
    unfolding cluster_api_def stores metas by blast
qed

interpretation mem_scoring: scoring_backend mem_backend mem_view
  by unfold_locales (auto simp: mem_backend_def mem_view_def)

interpretation mem_controllers: controllers mem_kube mem_view "Some mem_backend"
  by (intro controllers.intro controllers_axioms.intro mem_api.cluster_api_axioms)
    (use mem_scoring.scoring_backend_axioms in auto)

end
