(* ===== verification/Instance_Lemmas.thy ===== *)
theory Instance_Lemmas
  imports Instance_Ctrl Mem_Cluster
begin

text \<open>
  What the instance controller does to the cluster: every call it makes keeps within
  \<open>instance_effect\<close> (nothing of another kind changes, owned objects are only added, only the
  reconciled instance's status is written), and what holds after a reconcile that succeeds.
\<close>

section \<open>Get-or-create\<close>

context kind_store
begin

lemma getOrCreate_cases:
  assumes "getOrCreate K (nsname_of (meta_of x)) x wrap w = (eo, w')"
  shows "view w' = view w \<or>
     (eo = None \<and> sel (view w) (nsname_of (meta_of x)) = None \<and>
      (\<exists>y. user_meta (meta_of y) = user_meta (meta_of x) \<and> body_of y = body_of x \<and>
         view w' = upd ((sel (view w))(nsname_of (meta_of x) \<mapsto> y)) (view w)))"
proof (cases "k_get K (nsname_of (meta_of x)) w" rule: result_cases)
  case (Ok z w1)
  with assms get_view [OF Ok] show ?thesis by (simp add: getOrCreate_def)
next
  case (Err e w1)
  note got = get_view [OF Err]
  show ?thesis
  proof (cases "is_not_found e")
    case False
    with assms got Err show ?thesis by (simp add: getOrCreate_def)
  next
    case True
    show ?thesis
    proof (cases "k_create K x w1" rule: result_cases)
      case (Err e' w2)
      with assms got True \<open>k_get K _ w = (Inl e, w1)\<close> create_failed [OF Err] show ?thesis
        by (simp add: getOrCreate_def)
    next
      case (Ok y w2)
      with assms got True \<open>k_get K _ w = (Inl e, w1)\<close> create_done [OF Ok] show ?thesis
        by (auto simp: getOrCreate_def)
    qed
  qed
qed

text \<open>When it reports no error the name is taken, by the old object or by a copy of the new one.\<close>

lemma getOrCreate_present:
  assumes "getOrCreate K (nsname_of (meta_of x)) x wrap w = (None, w')"
  shows "\<exists>y. sel (view w') (nsname_of (meta_of x)) = Some y \<and>
     (sel (view w) (nsname_of (meta_of x)) = Some y \<or>
      sel (view w) (nsname_of (meta_of x)) = None \<and>
      user_meta (meta_of y) = user_meta (meta_of x) \<and> body_of y = body_of x)"
proof (cases "k_get K (nsname_of (meta_of x)) w" rule: result_cases)
  case (Ok z w1)
  with assms get_view [OF Ok] get_found [OF Ok] show ?thesis by (simp add: getOrCreate_def)
next
  case (Err e w1)
  with assms have nf: "is_not_found e" by (auto simp: getOrCreate_def split: if_splits)
  with get_missing [OF Err] have none: "sel (view w) (nsname_of (meta_of x)) = None" by simp
  from assms Err nf obtain y w2 where "k_create K x w1 = (Inr y, w2)" "w' = w2"
    by (auto simp: getOrCreate_def split: prod.splits sum.splits)
  then show ?thesis
    using create_done [of x w1 y w2] created_stored [of x w1 y w2] none by auto
qed

lemma getOrCreate_extends:
  assumes "getOrCreate K (nsname_of (meta_of x)) x wrap w = (eo, w')"
  shows "sel (view w) \<subseteq>\<^sub>m sel (view w')"
  using getOrCreate_cases [OF assms] by (auto simp: sel_upd intro: map_le_fun_upd_new)

end

section \<open>The effect of the instance controller\<close>

definition same_spec :: "challenge_instance \<Rightarrow> challenge_instance \<Rightarrow> bool" where
  "same_spec i j \<longleftrightarrow> user_meta (ci_meta i) = user_meta (ci_meta j) \<and> ci_spec i = ci_spec j"

text \<open>
  Objects are only added: none is changed or removed, and a new one has the name and namespace
  of the instance and refers to it as its owner.
\<close>

definition adds_owned :: "('o \<Rightarrow> obj_meta) \<Rightarrow> nsname \<Rightarrow> (nsname \<rightharpoonup> 'o) \<Rightarrow> (nsname \<rightharpoonup> 'o) \<Rightarrow> bool" where
  "adds_owned meta_of k m m' \<longleftrightarrow> m \<subseteq>\<^sub>m m' \<and>
     (\<forall>k' x. m' k' = Some x \<longrightarrow> m k' = Some x \<or>
        k' = k \<and> nsname_of (meta_of x) = k \<and> om_owner (meta_of x) = Some (''ChallengeInstance'', snd k))"

lemma adds_owned_refl [simp]: "adds_owned meta_of k m m"
  by (simp add: adds_owned_def)

lemma adds_owned_trans:
  "adds_owned meta_of k m1 m2 \<Longrightarrow> adds_owned meta_of k m2 m3 \<Longrightarrow> adds_owned meta_of k m1 m3"
  unfolding adds_owned_def by (meson map_le_trans)

lemma adds_owned_le: "adds_owned meta_of k m m' \<Longrightarrow> m \<subseteq>\<^sub>m m'"
  by (simp add: adds_owned_def)

lemma adds_owned_new:
  assumes "m k = None" "nsname_of (meta_of x) = k" "om_owner (meta_of x) = Some (''ChallengeInstance'', snd k)"
  shows "adds_owned meta_of k m (m(k \<mapsto> x))"
  using assms by (auto simp: adds_owned_def intro: map_le_fun_upd_new)

definition instance_effect :: "nsname \<Rightarrow> cluster \<Rightarrow> cluster \<Rightarrow> bool" where
  "instance_effect k c c' \<longleftrightarrow>
     cl_templates c' = cl_templates c \<and> cl_sets c' = cl_sets c \<and> cl_policies c' = cl_policies c \<and>
     cl_pods c' = cl_pods c \<and> cl_secrets c' = cl_secrets c \<and>
     adds_owned dp_meta k (cl_deployments c) (cl_deployments c') \<and>
     adds_owned sv_meta k (cl_services c) (cl_services c') \<and>
     adds_owned nf_meta k (cl_fences c) (cl_fences c') \<and>
     (\<forall>k'. k' \<noteq> k \<longrightarrow> cl_instances c' k' = cl_instances c k') \<and>
     rel_option same_spec (cl_instances c k) (cl_instances c' k) \<and>
     (\<exists>evs. cl_sent c' = cl_sent c @ evs)"

lemma same_spec_refl [simp]: "same_spec i i"
  by (simp add: same_spec_def)

lemma same_spec_trans: "same_spec i j \<Longrightarrow> same_spec j l \<Longrightarrow> same_spec i l"
  by (simp add: same_spec_def)

lemma rel_same_spec_refl [simp]: "rel_option same_spec x x"
  by (cases x) simp_all

lemma rel_same_spec_trans:
  "rel_option same_spec x y \<Longrightarrow> rel_option same_spec y z \<Longrightarrow> rel_option same_spec x z"
  by (cases x; cases y; cases z) (auto intro: same_spec_trans)

lemma instance_effect_refl [simp]: "instance_effect k c c"
  by (simp add: instance_effect_def)

lemma instance_effect_trans:
  assumes "instance_effect k c1 c2" "instance_effect k c2 c3"
  shows "instance_effect k c1 c3"
  using assms unfolding instance_effect_def
  by (metis (no_types, lifting) append_assoc adds_owned_trans rel_same_spec_trans)

lemma instance_effectD:
  assumes "instance_effect k c c'"
  shows "k' \<noteq> k \<Longrightarrow> cl_instances c' k' = cl_instances c k'"
    "rel_option same_spec (cl_instances c k) (cl_instances c' k)"
    "cl_templates c' = cl_templates c" "cl_pods c' = cl_pods c" "cl_sets c' = cl_sets c"
    "cl_policies c' = cl_policies c" "cl_secrets c' = cl_secrets c"
    "cl_deployments c \<subseteq>\<^sub>m cl_deployments c'" "cl_services c \<subseteq>\<^sub>m cl_services c'"
    "cl_fences c \<subseteq>\<^sub>m cl_fences c'" "\<exists>evs. cl_sent c' = cl_sent c @ evs"
proof -
  show "cl_instances c' k' = cl_instances c k'" if "k' \<noteq> k"
    using assms that unfolding instance_effect_def by blast
qed (use assms in \<open>auto simp: instance_effect_def intro: adds_owned_le\<close>)

lemma instance_effect_sent: "instance_effect k c (c\<lparr>cl_sent := cl_sent c @ evs\<rparr>)"
  by (simp add: instance_effect_def)

section \<open>Words for its specification\<close>

text \<open>The TTL that counts: the override when there is one, else the template's.\<close>

definition ttlInForce :: "challenge_instance \<Rightarrow> challenge_template \<Rightarrow> string" where
  "ttlInForce inst tmpl =
     (if is_ttl_override (ci_spec inst) \<noteq> '''' then is_ttl_override (ci_spec inst)
      else ts_ttl (ct_spec tmpl))"

text \<open>The Pods that carry the instance's label, in its namespace.\<close>

definition instancePods :: "cluster \<Rightarrow> obj_meta \<Rightarrow> pod set" where
  "instancePods c m =
     {p. cl_pods c (nsname_of (pd_meta p)) = Some p \<and> om_namespace (pd_meta p) = om_namespace m \<and>
         om_labels (pd_meta p) LabelInstance = Some (om_name m)}"

text \<open>
  What a reconcile may conclude from the Pods: the phase, the reason and the counter of failed
  checks. With several Pods the API server decides which one comes first.
\<close>

definition observations ::
  "cluster \<Rightarrow> challenge_instance \<Rightarrow> challenge_template \<Rightarrow> (instance_phase \<times> string \<times> int32) set" where
  "observations c inst tmpl =
     (if instancePods c (ci_meta inst) = {}
      then {(InstancePhaseCreating, ''waiting for pod to be scheduled'', st_unhealthy (ci_status inst))}
      else (\<lambda>p. podPhase p tmpl (st_unhealthy (ci_status inst))) ` instancePods c (ci_meta inst))"

text \<open>The status a reconcile with a valid TTL writes.\<close>

definition reconciledStatus ::
  "challenge_instance \<Rightarrow> instance_phase \<Rightarrow> string \<Rightarrow> int32 \<Rightarrow> instant option \<Rightarrow> instant \<Rightarrow> instance_status" where
  "reconciledStatus inst phase reason n started expires =
     wire_instance_status ((ci_status inst)\<lparr>st_pod_name := om_name (ci_meta inst), st_started := started,
       st_expires := Some expires, st_unhealthy := n, st_phase := phase, st_reason := reason\<rparr>)"

text \<open>The start and the expiry a reconcile computes when the clock reads \<open>now\<close>, if the TTL parses.\<close>

definition expiryOf :: "challenge_instance \<Rightarrow> challenge_template \<Rightarrow> instant \<Rightarrow> (instant option \<times> instant) option" where
  "expiryOf inst tmpl now =
     (case st_expires (ci_status inst) of
        Some t \<Rightarrow> Some (st_started (ci_status inst), t)
      | None \<Rightarrow> (case parse_duration (ttlInForce inst tmpl) of
          Inl _ \<Rightarrow> None
        | Inr d \<Rightarrow> Some (Some now, time_add now d)))"

text \<open>
  A reconcile of a ready template that succeeds, with a TTL that parses or an expiry already
  set: the three owned objects and what the instance's status says.
\<close>

definition workloadPresent :: "cluster \<Rightarrow> cluster \<Rightarrow> challenge_instance \<Rightarrow> challenge_template \<Rightarrow> bool" where
  "workloadPresent c c' inst tmpl \<longleftrightarrow>
     (let k = nsname_of (ci_meta inst) in
      (\<exists>d. cl_deployments c' k = Some d \<and>
         (cl_deployments c k = Some d \<or>
          om_owner (dp_meta d) = Some (''ChallengeInstance'', om_name (ci_meta inst)) \<and>
          deployment_body d = deployment_body (buildDeployment inst tmpl))) \<and>
      (\<forall>svc. buildService inst tmpl = Some svc \<longrightarrow>
         (\<exists>v. cl_services c' k = Some v \<and>
            (cl_services c k = Some v \<or> service_body v = service_body svc))) \<and>
      (\<exists>f. cl_fences c' k = Some f \<and>
         (cl_fences c k = Some f \<or> nf_spec f = nf_spec (buildNetworkFence inst tmpl))))"

lemma builders_same_meta:
  assumes "ci_meta i = ci_meta j" "ci_spec i = ci_spec j"
  shows "buildDeployment i t = buildDeployment j t" "buildService i t = buildService j t"
    "buildNetworkFence i t = buildNetworkFence j t"
  using assms by (simp_all add: buildDeployment_def buildService_def buildNetworkFence_def)

text \<open>The events a transition hands to the backend.\<close>

definition transitionEvents ::
  "'w backend option \<Rightarrow> challenge_instance \<Rightarrow> instance_phase \<Rightarrow> challenge_instance \<Rightarrow> string \<Rightarrow> event list" where
  "transitionEvents b inst phase stored reason =
     (if instance_phase_of inst = phase \<or> b = None then []
      else case eventForPhase phase of None \<Rightarrow> [] | Some t \<Rightarrow> [instanceEvent t stored reason])"

lemma observations_cong:
  assumes "cl_pods c = cl_pods c'" "ci_meta i = ci_meta j" "st_unhealthy (ci_status i) = st_unhealthy (ci_status j)"
  shows "observations c i tmpl = observations c' j tmpl"
  proof -
  have "instancePods c (ci_meta i) = instancePods c' (ci_meta j)"
    using assms by (simp add: instancePods_def)
  with assms show ?thesis by (simp only: observations_def)
qed

section \<open>Its calls\<close>

lemma notify_none [simp]: "notifyBackend None ev w = w"
  by (simp add: notifyBackend_def)

lemma notifyBackend_view:
  assumes "\<And>B. b = Some B \<Longrightarrow> scoring_backend B view"
  shows "view (notifyBackend b ev w) = (view w)\<lparr>cl_sent := cl_sent (view w) @ (if b = None then [] else [ev])\<rparr>"
proof (cases b)
  case None
  then show ?thesis by (simp add: notifyBackend_def)
next
  case (Some B)
  from scoring_backend.notify_view [OF assms [OF Some], of ev w "fst (be_notify B ev w)" "snd (be_notify B ev w)"]
  show ?thesis by (simp add: notifyBackend_def Some)
qed

locale instance_controller = controllers "ir_kube r" view "ir_backend r"
  for r :: "'w instance_reconciler" and view :: "'w \<Rightarrow> cluster"
begin

lemma set_ref_meta:
  assumes "kb_set_ref (ir_kube r) kind owner m = Inr m'"
  shows "nsname_of m' = nsname_of m" "om_name m' = om_name m" "om_namespace m' = om_namespace m"
    "om_labels m' = om_labels m" "om_owner m' = Some (kind, om_name owner)"
  using set_ref_done [OF assms] by (simp_all add: nsname_of_def)

text \<open>Metadata that names the instance \<open>k\<close> and refers to it as the owner.\<close>

definition owned_meta :: "nsname \<Rightarrow> obj_meta \<Rightarrow> bool" where
  "owned_meta k m \<longleftrightarrow> nsname_of m = k \<and> om_owner m = Some (''ChallengeInstance'', snd k)"

lemma owned_metaI:
  assumes "kb_set_ref (ir_kube r) ''ChallengeInstance'' (ci_meta inst) m = Inr m'" "nsname_of m = nsname_of (ci_meta inst)"
  shows "owned_meta (nsname_of (ci_meta inst)) m'"
  using set_ref_meta [OF assms(1)] assms(2) by (simp add: owned_meta_def) (simp add: nsname_of_def)

lemma owned_meta_user: "owned_meta k m \<Longrightarrow> user_meta m' = user_meta m \<Longrightarrow>
    nsname_of m' = k \<and> om_owner m' = Some (''ChallengeInstance'', snd k)"
  using user_meta_eqD [of m' m] by (simp add: owned_meta_def nsname_of_def)

lemma deployments_effect:
  assumes "getOrCreate (kb_deployments (ir_kube r)) (nsname_of m) (x\<lparr>dp_meta := m\<rparr>) wrap w = (eo, w')" "owned_meta k m"
  shows "instance_effect k (view w) (view w')"
  using deployments.getOrCreate_cases [of "x\<lparr>dp_meta := m\<rparr>" wrap w eo w'] assms(1) owned_meta_user [OF assms(2)] assms(2)
  by (auto simp: instance_effect_def owned_meta_def intro!: adds_owned_new)

lemma services_effect:
  assumes "getOrCreate (kb_services (ir_kube r)) (nsname_of m) (x\<lparr>sv_meta := m\<rparr>) wrap w = (eo, w')" "owned_meta k m"
  shows "instance_effect k (view w) (view w')"
  using services.getOrCreate_cases [of "x\<lparr>sv_meta := m\<rparr>" wrap w eo w'] assms(1) owned_meta_user [OF assms(2)] assms(2)
  by (auto simp: instance_effect_def owned_meta_def intro!: adds_owned_new)

lemma fences_effect:
  assumes "getOrCreate (kb_fences (ir_kube r)) (nsname_of m) (x\<lparr>nf_meta := m\<rparr>) wrap w = (eo, w')" "owned_meta k m"
  shows "instance_effect k (view w) (view w')"
  using fences.getOrCreate_cases [of "x\<lparr>nf_meta := m\<rparr>" wrap w eo w'] assms(1) owned_meta_user [OF assms(2)] assms(2)
  by (auto simp: instance_effect_def owned_meta_def intro!: adds_owned_new)

text \<open>Each of the three objects is built under the name of the instance.\<close>

lemma built_names:
  "nsname_of (dp_meta (buildDeployment inst tmpl)) = nsname_of (ci_meta inst)"
  "buildService inst tmpl = Some svc \<Longrightarrow> nsname_of (sv_meta svc) = nsname_of (ci_meta inst)"
  "nsname_of (nf_meta (buildNetworkFence inst tmpl)) = nsname_of (ci_meta inst)"
  by (auto simp: buildDeployment_def buildService_def buildNetworkFence_def Let_def nsname_of_def split: if_splits)


lemma notify_view_eq:
  "view (notifyBackend (ir_backend r) ev w) =
     (view w)\<lparr>cl_sent := cl_sent (view w) @ (if ir_backend r = None then [] else [ev])\<rparr>"
  by (rule notifyBackend_view) (rule backend_ok)

section \<open>The ensure functions\<close>

lemma ensureWorkload_effect:
  assumes "ensureWorkload r inst tmpl w = (res, w')"
  shows "instance_effect (nsname_of (ci_meta inst)) (view w) (view w')"
  using assms
  by (auto simp: ensureWorkload_def Let_def built_names split: sum.splits option.splits prod.splits
      dest!: deployments_effect [OF _ owned_metaI] services_effect [OF _ owned_metaI] intro: instance_effect_trans)

text \<open>
  A workload that was ensured: the Deployment exists, as it was or as built, and so does the
  Service when a port is exposed.
\<close>

lemma ensureWorkload_done:
  assumes "ensureWorkload r inst tmpl w = (Inr inst1, w')"
  shows "inst1 = inst\<lparr>ci_status := (ci_status inst)\<lparr>st_pod_name := om_name (ci_meta inst)\<rparr>\<rparr>"
    and "\<exists>d. cl_deployments (view w') (nsname_of (ci_meta inst)) = Some d \<and>
       (cl_deployments (view w) (nsname_of (ci_meta inst)) = Some d \<or>
        om_owner (dp_meta d) = Some (''ChallengeInstance'', om_name (ci_meta inst)) \<and>
        deployment_body d = deployment_body (buildDeployment inst tmpl))"
    and "buildService inst tmpl = Some svc \<Longrightarrow>
       \<exists>v. cl_services (view w') (nsname_of (ci_meta inst)) = Some v \<and>
       (cl_services (view w) (nsname_of (ci_meta inst)) = Some v \<or> service_body v = service_body svc)"
proof -
  let ?k = "nsname_of (ci_meta inst)"
  let ?d0 = "buildDeployment inst tmpl"
  have k: "nsname_of (dp_meta ?d0) = ?k" "om_name (dp_meta ?d0) = om_name (ci_meta inst)"
    by (simp_all add: buildDeployment_def Let_def nsname_of_def)
  from assms obtain dm w1 where
    ref: "kb_set_ref (ir_kube r) ''ChallengeInstance'' (ci_meta inst) (dp_meta ?d0) = Inr dm"
    and goc: "getOrCreate (kb_deployments (ir_kube r)) (nsname_of (dp_meta (?d0\<lparr>dp_meta := dm\<rparr>)))
       (?d0\<lparr>dp_meta := dm\<rparr>) (WrapErr ''creating deployment'') w = (None, w1)"
    by (auto simp: ensureWorkload_def Let_def split: sum.splits option.splits prod.splits)
  note dm = set_ref_meta [OF ref]
  show "inst1 = inst\<lparr>ci_status := (ci_status inst)\<lparr>st_pod_name := om_name (ci_meta inst)\<rparr>\<rparr>"
    using assms ref dm k
    by (auto simp: ensureWorkload_def Let_def split: sum.splits option.splits prod.splits)
  have w1w': "instance_effect ?k (view w1) (view w')"
    using assms ref goc
    by (auto simp: ensureWorkload_def Let_def split: sum.splits option.splits prod.splits
        dest!: services_effect [OF _ owned_metaI] simp: built_names)
  from deployments.getOrCreate_present [OF goc] dm k
  obtain y where y: "cl_deployments (view w1) ?k = Some y"
    "cl_deployments (view w) ?k = Some y \<or>
       user_meta (dp_meta y) = user_meta dm \<and> deployment_body y = deployment_body ?d0"
    by (auto simp: deployment_body_def)
  have "cl_deployments (view w1) \<subseteq>\<^sub>m cl_deployments (view w')"
    by (rule instance_effectD(8) [OF w1w'])
  from map_leD [OF this y(1)] have y': "cl_deployments (view w') ?k = Some y" .
  have "om_owner (dp_meta y) = Some (''ChallengeInstance'', om_name (ci_meta inst))"
    if "user_meta (dp_meta y) = user_meta dm"
    using user_meta_eqD(4) [OF that] dm(5) by simp
  with y(2) y' show "\<exists>d. cl_deployments (view w') ?k = Some d \<and>
       (cl_deployments (view w) ?k = Some d \<or>
        om_owner (dp_meta d) = Some (''ChallengeInstance'', om_name (ci_meta inst)) \<and>
        deployment_body d = deployment_body ?d0)"
    by (intro exI [of _ y]) auto
  assume svc: "buildService inst tmpl = Some svc"
  then have sk: "nsname_of (sv_meta svc) = ?k"
    by (auto simp: buildService_def Let_def nsname_of_def split: if_splits)
  from assms ref goc svc obtain sm where
    sref: "kb_set_ref (ir_kube r) ''ChallengeInstance'' (ci_meta inst) (sv_meta svc) = Inr sm"
    and sgoc: "getOrCreate (kb_services (ir_kube r)) (nsname_of (sv_meta (svc\<lparr>sv_meta := sm\<rparr>)))
       (svc\<lparr>sv_meta := sm\<rparr>) (WrapErr ''creating service'') w1 = (None, w')"
    by (auto simp: ensureWorkload_def Let_def split: sum.splits option.splits prod.splits)
  have "cl_services (view w1) = cl_services (view w)"
    using deployments.getOrCreate_cases [OF goc] by auto
  then show "\<exists>v. cl_services (view w') ?k = Some v \<and>
       (cl_services (view w) ?k = Some v \<or> service_body v = service_body svc)"
    using services.getOrCreate_present [OF sgoc] set_ref_meta [OF sref] sk
    by (auto simp: service_body_def)
qed

text \<open>What they leave alone beyond \<open>instance_effect\<close>.\<close>

lemma deployments_frame:
  assumes "getOrCreate (kb_deployments (ir_kube r)) (nsname_of m) (x\<lparr>dp_meta := m\<rparr>) wrap w = (eo, w')"
  shows "cl_fences (view w') = cl_fences (view w) \<and> cl_instances (view w') = cl_instances (view w) \<and>
    cl_sent (view w') = cl_sent (view w)"
  using deployments.getOrCreate_cases [of "x\<lparr>dp_meta := m\<rparr>" wrap w eo w'] assms by auto

lemma services_frame:
  assumes "getOrCreate (kb_services (ir_kube r)) (nsname_of m) (x\<lparr>sv_meta := m\<rparr>) wrap w = (eo, w')"
  shows "cl_fences (view w') = cl_fences (view w) \<and> cl_instances (view w') = cl_instances (view w) \<and>
    cl_sent (view w') = cl_sent (view w)"
  using services.getOrCreate_cases [of "x\<lparr>sv_meta := m\<rparr>" wrap w eo w'] assms by auto

lemma ensureWorkload_frame:
  assumes "ensureWorkload r inst tmpl w = (res, w')"
  shows "cl_fences (view w') = cl_fences (view w) \<and> cl_instances (view w') = cl_instances (view w) \<and>
    cl_sent (view w') = cl_sent (view w)"
  using assms
  by (auto simp: ensureWorkload_def Let_def split: sum.splits option.splits prod.splits
      dest!: deployments_frame services_frame)

lemma ensureNetworkFence_frame:
  assumes "ensureNetworkFence r inst tmpl w = (eo, w')"
  shows "cl_instances (view w') = cl_instances (view w) \<and> cl_sent (view w') = cl_sent (view w)"
proof -
  have *: "cl_instances (view w2) = cl_instances (view w1) \<and> cl_sent (view w2) = cl_sent (view w1)"
    if "getOrCreate (kb_fences (ir_kube r)) (nsname_of m) (x\<lparr>nf_meta := m\<rparr>) wrap w1 = (eo', w2)"
    for m x wrap w1 eo' w2
    using fences.getOrCreate_cases [of "x\<lparr>nf_meta := m\<rparr>" wrap w1 eo' w2] that by auto
  show ?thesis
    using assms by (auto simp: ensureNetworkFence_def Let_def split: sum.splits dest!: *)
qed

lemma ensureNetworkFence_effect:
  assumes "ensureNetworkFence r inst tmpl w = (eo, w')" "nsname_of (ci_meta inst) = k"
  shows "instance_effect k (view w) (view w')"
  unfolding assms(2) [symmetric] using assms(1)
  by (auto simp: ensureNetworkFence_def Let_def built_names split: sum.splits dest!: fences_effect [OF _ owned_metaI])

lemma ensureNetworkFence_done:
  assumes "ensureNetworkFence r inst tmpl w = (None, w')"
  shows "\<exists>f. cl_fences (view w') (nsname_of (ci_meta inst)) = Some f \<and>
     (cl_fences (view w) (nsname_of (ci_meta inst)) = Some f \<or>
      nf_spec f = nf_spec (buildNetworkFence inst tmpl))"
proof -
  let ?f0 = "buildNetworkFence inst tmpl"
  have k: "nsname_of (nf_meta ?f0) = nsname_of (ci_meta inst)"
    by (simp add: buildNetworkFence_def Let_def nsname_of_def)
  from assms obtain fm where
    ref: "kb_set_ref (ir_kube r) ''ChallengeInstance'' (ci_meta inst) (nf_meta ?f0) = Inr fm"
    and goc: "getOrCreate (kb_fences (ir_kube r)) (nsname_of (nf_meta (?f0\<lparr>nf_meta := fm\<rparr>)))
       (?f0\<lparr>nf_meta := fm\<rparr>) (WrapErr ''creating network fence'') w = (None, w')"
    by (auto simp: ensureNetworkFence_def Let_def split: sum.splits)
  show ?thesis
    using fences.getOrCreate_present [OF goc] set_ref_meta(1) [OF ref] k by auto
qed

text \<open>The expiry: kept when it is set, computed from the clock and the TTL in force otherwise.\<close>

lemma ensureExpiry_view:
  assumes "ensureExpiry r inst tmpl w = (res, w')"
  shows "view w' = view w"
  using assms now_view
  by (auto simp: ensureExpiry_def Let_def split: if_splits sum.splits prod.splits)

lemma ensureExpiry_done:
  assumes "ensureExpiry r inst tmpl w = (Inr inst', w')"
  shows "\<exists>s t. inst' = inst\<lparr>ci_status := (ci_status inst)\<lparr>st_started := s, st_expires := Some t\<rparr>\<rparr> \<and>
     (\<exists>now \<in> clock_readings (ir_kube r). expiryOf inst tmpl now = Some (s, t))"
proof (cases "st_expires (ci_status inst)")
  case None
  with assms show ?thesis
    by (fastforce simp: ensureExpiry_def expiryOf_def ttlInForce_def clock_readings_def Let_def
        split: if_splits sum.splits prod.splits)
next
  case (Some t0)
  with assms have "inst' = inst" by (simp add: ensureExpiry_def)
  moreover have "fst (kb_now (ir_kube r) w) \<in> clock_readings (ir_kube r)"
    by (auto simp: clock_readings_def intro: prod.collapse [symmetric])
  ultimately show ?thesis using Some
    by (intro exI [of _ "st_started (ci_status inst)"] exI [of _ t0]) (auto simp: expiryOf_def)
qed

lemma ensureExpiry_error:
  "ensureExpiry r inst tmpl w = (Inl e, w') \<longleftrightarrow>
     st_expires (ci_status inst) = None \<and> (\<exists>x. parse_duration (ttlInForce inst tmpl) = Inl x) \<and>
     e = OtherErr (''invalid TTL: '' @ ttlInForce inst tmpl) \<and> w' = w"
  by (auto simp: ensureExpiry_def ttlInForce_def Let_def split: if_splits sum.splits prod.splits)

section \<open>The phase and the transition\<close>

lemma determinePhase_view:
  assumes "determinePhase r inst tmpl w = (res, w')"
  shows "view w' = view w"
proof -
  let ?o = "\<lparr>lo_namespace = Some (om_namespace (ci_meta inst)),
    lo_labels = [LabelInstance \<mapsto> om_name (ci_meta inst)]\<rparr>"
  show ?thesis
  proof (cases "k_list (kb_pods (ir_kube r)) ?o w" rule: result_cases)
    case (Err e w1)
    with assms have "w' = w1" by (simp add: determinePhase_def)
    with pods.list_view [OF Err] show ?thesis by simp
  next
    case (Ok ps w1)
    with assms have "w' = w1"
      by (cases ps) (simp_all add: determinePhase_def split: prod.splits)
    with pods.list_view [OF Ok] show ?thesis by simp
  qed
qed

lemma determinePhase_done:
  assumes "determinePhase r inst tmpl w = (Inr (phase, reason, inst'), w')"
  shows "\<exists>n. (phase, reason, n) \<in> observations (view w) inst tmpl \<and>
      inst' = inst\<lparr>ci_status := (ci_status inst)\<lparr>st_unhealthy := n\<rparr>\<rparr>"
proof -
  let ?o = "\<lparr>lo_namespace = Some (om_namespace (ci_meta inst)),
    lo_labels = [LabelInstance \<mapsto> om_name (ci_meta inst)]\<rparr>"
  obtain ps w1 where l: "k_list (kb_pods (ir_kube r)) ?o w = (Inr ps, w1)"
  proof (cases "k_list (kb_pods (ir_kube r)) ?o w" rule: result_cases)
    case (Err e w1)
    with assms show ?thesis by (simp add: determinePhase_def)
  qed (use that in blast)
  have set: "set ps = instancePods (view w) (ci_meta inst)"
    using pods.list_found [OF l] by (simp add: instancePods_def list_match_def)
  show ?thesis
  proof (cases ps)
    case Nil
    with assms l set show ?thesis
      by (intro exI [of _ "st_unhealthy (ci_status inst)"]) (simp add: determinePhase_def observations_def)
  next
    case (Cons p qs)
    then have "p \<in> instancePods (view w) (ci_meta inst)" using set by auto
    moreover have "\<exists>n. podPhase p tmpl (st_unhealthy (ci_status inst)) = (phase, reason, n) \<and>
      inst' = inst\<lparr>ci_status := (ci_status inst)\<lparr>st_unhealthy := n\<rparr>\<rparr>"
      using assms l Cons by (simp add: determinePhase_def split: prod.splits)
    ultimately show ?thesis unfolding observations_def by (metis (no_types, lifting) empty_iff image_eqI)
  qed
qed

lemma transition_failed:
  assumes "transition r inst phase reason w = (Inl e, w')"
  shows "view w' = view w"
  using assms instances.status_failed
  by (auto simp: transition_def Let_def split: sum.splits prod.splits)

lemma transition_done:
  assumes "transition r inst phase reason w = (Inr res, w')"
  shows "res = requeue_in (seconds 15) \<and>
    (\<exists>z stored. cl_instances (view w) (nsname_of (ci_meta inst)) = Some z \<and> same_spec stored z \<and>
       ci_status stored = wire_instance_status ((ci_status inst)\<lparr>st_phase := phase, st_reason := reason\<rparr>) \<and>
       view w' = (view w)\<lparr>cl_instances := (cl_instances (view w))(nsname_of (ci_meta inst) \<mapsto> stored),
         cl_sent := cl_sent (view w) @ transitionEvents (ir_backend r) inst phase stored reason\<rparr>)"
proof -
  from assms obtain stored w1 where
    st: "k_status (kb_instances (ir_kube r)) (setPhase phase reason inst) w = (Inr stored, w1)"
    and res: "res = requeue_in (seconds 15)"
    and w': "w' = (if instance_phase_of inst \<noteq> phase then
        (case eventForPhase phase of Some t \<Rightarrow> notifyBackend (ir_backend r) (instanceEvent t stored reason) w1
         | None \<Rightarrow> w1) else w1)"
    by (auto simp: transition_def Let_def split: sum.splits prod.splits)
  have "view w' = (view w1)\<lparr>cl_sent := cl_sent (view w1) @ transitionEvents (ir_backend r) inst phase stored reason\<rparr>"
    by (simp add: w' transitionEvents_def notify_view_eq split: option.splits)
  with res instances.status_done [OF st] show ?thesis
    by (auto simp: setPhase_def same_spec_def)
qed

lemma transition_effect:
  assumes "transition r inst phase reason w = (res, w')"
  shows "instance_effect (nsname_of (ci_meta inst)) (view w) (view w')"
proof (cases res)
  case (Inl e)
  with transition_failed assms show ?thesis by simp
next
  case (Inr x)
  from transition_done [OF assms [unfolded Inr]] show ?thesis
    by (auto simp: instance_effect_def same_spec_def)
qed

section \<open>Reconcile\<close>

lemma reconcileReady_effect:
  assumes "reconcileReady r inst tmpl w = (res, w')"
  shows "instance_effect (nsname_of (ci_meta inst)) (view w) (view w')"
proof (cases "ensureWorkload r inst tmpl w" rule: result_cases)
  case (Err e w1)
  with assms show ?thesis by (auto simp: reconcileReady_def intro: ensureWorkload_effect)
next
  case (Ok inst1 w1)
  note work = ensureWorkload_effect [OF Ok] and inst1 = ensureWorkload_done(1) [OF Ok]
  obtain eo w2 where fence: "ensureNetworkFence r inst1 tmpl w1 = (eo, w2)"
    by (cases "ensureNetworkFence r inst1 tmpl w1")
  have k1: "nsname_of (ci_meta inst1) = nsname_of (ci_meta inst)" by (simp add: inst1)
  note upto = instance_effect_trans [OF work ensureNetworkFence_effect [OF fence k1]]
  show ?thesis
  proof (cases eo)
    case (Some e)
    with assms Ok fence upto show ?thesis by (auto simp: reconcileReady_def)
  next
    case None
    show ?thesis
    proof (cases "ensureExpiry r inst1 tmpl w2" rule: result_cases)
      case (Err e w3)
      with assms Ok fence None
      have "transition r inst1 InstancePhaseFailed (err_text e) w3 = (res, w')"
        by (simp add: reconcileReady_def)
      from transition_effect [OF this] ensureExpiry_view [OF Err] inst1 show ?thesis
        by (intro instance_effect_trans [OF upto]) simp
    next
      case expiry: (Ok inst2 w3)
      note v3 = ensureExpiry_view [OF expiry]
      from ensureExpiry_done [OF expiry] inst1 have m2: "ci_meta inst2 = ci_meta inst" by auto
      show ?thesis
      proof (cases "determinePhase r inst2 tmpl w3" rule: result_cases)
        case (Err e w4)
        with assms Ok fence None expiry v3 determinePhase_view [OF Err] upto show ?thesis
          by (simp add: reconcileReady_def)
      next
        case det: (Ok x w4)
        obtain phase reason inst3 where x: "x = (phase, reason, inst3)" by (cases x)
        note v4 = determinePhase_view [OF det]
        from determinePhase_done [OF det [unfolded x]] m2 have m3: "ci_meta inst3 = ci_meta inst" by auto
        from assms Ok fence None expiry det x
        have "transition r inst3 phase reason w4 = (res, w')"
          by (simp add: reconcileReady_def)
        from transition_effect [OF this] v3 v4 m3 show ?thesis
          by (intro instance_effect_trans [OF upto]) simp
      qed
    qed
  qed
qed

lemma reconcile_effect:
  assumes "reconcileInstance r k w = (res, w')"
  shows "instance_effect k (view w) (view w')"
proof (cases "k_get (kb_instances (ir_kube r)) k w" rule: result_cases)
  case (Err e w1)
  with assms instances.get_view [OF Err] show ?thesis by (simp add: reconcileInstance_def)
next
  case inst: (Ok inst w1)
  note v1 = instances.get_view [OF inst]
  have k: "nsname_of (ci_meta inst) = k"
    using instances.stored_name [OF instances.get_found [OF inst]] .
  show ?thesis
  proof (cases "terminal (instance_phase_of inst)")
    case True
    with assms inst v1 show ?thesis by (simp add: reconcileInstance_def)
  next
    case False
    let ?tk = "(om_namespace (ci_meta inst), is_template (ci_spec inst))"
    show ?thesis
    proof (cases "k_get (kb_templates (ir_kube r)) ?tk w1" rule: result_cases)
      case (Err e w2)
      note v2 = templates.get_view [OF Err]
      show ?thesis
      proof (cases "is_not_found e")
        case True
        with assms inst False Err
        have "transition r inst InstancePhaseFailed (''template not found: '' @ is_template (ci_spec inst)) w2 = (res, w')"
          by (simp add: reconcileInstance_def)
        from transition_effect [OF this] v1 v2 k show ?thesis by simp
      next
        case nf: False
        with assms inst False Err v1 v2 show ?thesis by (simp add: reconcileInstance_def)
      qed
    next
      case tmpl: (Ok tmpl w2)
      note v2 = templates.get_view [OF tmpl]
      show ?thesis
      proof (cases "tst_ready (ct_status tmpl)")
        case True
        with assms inst False tmpl have "reconcileReady r inst tmpl w2 = (res, w')"
          by (simp add: reconcileInstance_def)
        from reconcileReady_effect [OF this] v1 v2 k show ?thesis by simp
      next
        case nr: False
        obtain res1 w3 where t: "transition r inst InstancePhasePending ''waiting for template to be ready'' w2 = (res1, w3)"
          by (cases "transition r inst InstancePhasePending ''waiting for template to be ready'' w2")
        with assms inst False tmpl nr have "w' = w3"
          by (simp add: reconcileInstance_def split: sum.splits)
        with transition_effect [OF t] v1 v2 k show ?thesis by simp
      qed
    qed
  qed
qed

text \<open>The workload is there as soon as the two ensure functions have passed, whatever follows.\<close>

lemma ensure_workload_present:
  assumes work: "ensureWorkload r inst tmpl w = (Inr inst1, w1)"
    and fence: "ensureNetworkFence r inst1 tmpl w1 = (None, w2)"
    and later: "instance_effect k (view w2) c"
  shows "workloadPresent (view w) c inst tmpl"
proof -
  let ?k = "nsname_of (ci_meta inst)"
  note inst1 = ensureWorkload_done(1) [OF work]
  have m: "ci_meta inst1 = ci_meta inst" "ci_spec inst1 = ci_spec inst" by (simp_all add: inst1)
  have k1: "nsname_of (ci_meta inst1) = ?k" by (simp add: m)
  note eff = ensureNetworkFence_effect [OF fence k1]
  have grow: "cl_deployments (view w1) \<subseteq>\<^sub>m cl_deployments c" "cl_services (view w1) \<subseteq>\<^sub>m cl_services c"
    "cl_fences (view w2) \<subseteq>\<^sub>m cl_fences c"
    using map_le_trans [OF instance_effectD(8) [OF eff] instance_effectD(8) [OF later]]
      map_le_trans [OF instance_effectD(9) [OF eff] instance_effectD(9) [OF later]]
      instance_effectD(10) [OF later] by simp_all
  have same: "cl_fences (view w1) = cl_fences (view w)"
    using ensureWorkload_frame [OF work] by simp
  have "\<exists>d. cl_deployments c ?k = Some d \<and>
       (cl_deployments (view w) ?k = Some d \<or>
        om_owner (dp_meta d) = Some (''ChallengeInstance'', om_name (ci_meta inst)) \<and>
        deployment_body d = deployment_body (buildDeployment inst tmpl))"
    using ensureWorkload_done(2) [OF work] map_leD [OF grow(1)] by blast
  moreover have "\<exists>v. cl_services c ?k = Some v \<and>
       (cl_services (view w) ?k = Some v \<or> service_body v = service_body svc)"
    if "buildService inst tmpl = Some svc" for svc
    using ensureWorkload_done(3) [OF work that] map_leD [OF grow(2)] by blast
  moreover have "\<exists>f. cl_fences c ?k = Some f \<and>
       (cl_fences (view w) ?k = Some f \<or> nf_spec f = nf_spec (buildNetworkFence inst tmpl))"
    using ensureNetworkFence_done [OF fence] map_leD [OF grow(3)] same m
    unfolding builders_same_meta(3) [OF m] by metis
  ultimately show ?thesis by (simp add: workloadPresent_def Let_def)
qed

lemma reconcileReady_done:
  assumes run: "reconcileReady r inst tmpl w = (Inr res, w')"
    and ttl: "expiryOf inst tmpl 0 \<noteq> None"
  shows "res = requeue_in (seconds 15) \<and> workloadPresent (view w) (view w') inst tmpl \<and>
    (\<exists>phase reason n now s t z stored.
       (phase, reason, n) \<in> observations (view w) inst tmpl \<and>
       now \<in> clock_readings (ir_kube r) \<and> expiryOf inst tmpl now = Some (s, t) \<and>
       cl_instances (view w) (nsname_of (ci_meta inst)) = Some z \<and> same_spec stored z \<and>
       cl_instances (view w') (nsname_of (ci_meta inst)) = Some stored \<and>
       ci_status stored = reconciledStatus inst phase reason n s t \<and>
       cl_sent (view w') = cl_sent (view w) @ transitionEvents (ir_backend r) inst phase stored reason)"
proof -
  from run obtain inst1 w1 w2 where
    work: "ensureWorkload r inst tmpl w = (Inr inst1, w1)" and
    fence: "ensureNetworkFence r inst1 tmpl w1 = (None, w2)"
    by (auto simp: reconcileReady_def split: sum.splits prod.splits option.splits)
  note inst1 = ensureWorkload_done(1) [OF work]
  have ttl1: "expiryOf inst1 tmpl now = expiryOf inst tmpl now" for now
    by (simp add: inst1 expiryOf_def ttlInForce_def split: option.split sum.split)
  obtain inst2 w3 where expiry: "ensureExpiry r inst1 tmpl w2 = (Inr inst2, w3)"
  proof (cases "ensureExpiry r inst1 tmpl w2" rule: result_cases)
    case (Err e w3)
    with ttl ttl1 [of 0] show ?thesis
      by (auto simp: ensureExpiry_error expiryOf_def)
  qed (use that in blast)
  from run work fence expiry obtain phase reason inst3 w4 where
    det: "determinePhase r inst2 tmpl w3 = (Inr (phase, reason, inst3), w4)" and
    trans: "transition r inst3 phase reason w4 = (Inr res, w')"
    by (auto simp: reconcileReady_def split: sum.splits prod.splits)
  have v: "view w4 = view w2"
    using determinePhase_view [OF det] ensureExpiry_view [OF expiry] by simp
  from ensureExpiry_done [OF expiry] ttl1 obtain now s t where
    inst2: "inst2 = inst1\<lparr>ci_status := (ci_status inst1)\<lparr>st_started := s, st_expires := Some t\<rparr>\<rparr>" and
    exp: "now \<in> clock_readings (ir_kube r)" "expiryOf inst tmpl now = Some (s, t)"
    by auto
  from determinePhase_done [OF det] obtain n where
    obs: "(phase, reason, n) \<in> observations (view w3) inst2 tmpl" and
    inst3: "inst3 = inst2\<lparr>ci_status := (ci_status inst2)\<lparr>st_unhealthy := n\<rparr>\<rparr>"
    by auto
  have k1: "nsname_of (ci_meta inst1) = nsname_of (ci_meta inst)" by (simp add: inst1)
  note eff2 = instance_effect_trans [OF ensureWorkload_effect [OF work] ensureNetworkFence_effect [OF fence k1]]
  have c2: "cl_pods (view w2) = cl_pods (view w)" "cl_instances (view w2) = cl_instances (view w)"
      "cl_sent (view w2) = cl_sent (view w)"
    using eff2 ensureWorkload_frame [OF work] ensureNetworkFence_frame [OF fence]
    by (simp_all add: instance_effect_def)
  have obs': "(phase, reason, n) \<in> observations (view w) inst tmpl"
    using obs observations_cong [of "view w3" "view w" inst2 inst tmpl] c2 ensureExpiry_view [OF expiry]
    by (simp add: inst2 inst1)
  have m3: "ci_meta inst3 = ci_meta inst" "instance_phase_of inst3 = instance_phase_of inst"
    by (simp_all add: inst3 inst2 inst1)
  have ev: "transitionEvents b inst3 phase stored reason = transitionEvents b inst phase stored reason" for b stored
    by (simp add: transitionEvents_def m3)
  have stat: "wire_instance_status ((ci_status inst3)\<lparr>st_phase := phase, st_reason := reason\<rparr>) =
      reconciledStatus inst phase reason n s t"
    by (simp add: reconciledStatus_def inst3 inst2 inst1)
  from transition_done [OF trans] obtain z stored where
    res: "res = requeue_in (seconds 15)" and z: "cl_instances (view w4) (nsname_of (ci_meta inst3)) = Some z"
    "same_spec stored z" "ci_status stored = wire_instance_status ((ci_status inst3)\<lparr>st_phase := phase, st_reason := reason\<rparr>)"
    and w': "view w' = (view w4)\<lparr>cl_instances := (cl_instances (view w4))(nsname_of (ci_meta inst3) \<mapsto> stored),
         cl_sent := cl_sent (view w4) @ transitionEvents (ir_backend r) inst3 phase stored reason\<rparr>"
    by auto
  have "workloadPresent (view w) (view w') inst tmpl"
    using ensure_workload_present [OF work fence] transition_effect [OF trans] v by simp
  moreover have "cl_instances (view w') (nsname_of (ci_meta inst)) = Some stored"
    "cl_sent (view w') = cl_sent (view w) @ transitionEvents (ir_backend r) inst phase stored reason"
    by (simp_all add: w' m3 ev v c2)
  moreover have "cl_instances (view w) (nsname_of (ci_meta inst)) = Some z"
    using z(1) by (simp add: m3 v c2)
  ultimately show ?thesis
    using res obs' exp z(2) z(3) [unfolded stat] by blast
qed

lemma reconcileReady_workload:
  assumes run: "reconcileReady r inst tmpl w = (Inr res, w')"
  shows "workloadPresent (view w) (view w') inst tmpl \<and> res = requeue_in (seconds 15)"
proof -
  from run obtain inst1 w1 w2 where
    work: "ensureWorkload r inst tmpl w = (Inr inst1, w1)" and
    fence: "ensureNetworkFence r inst1 tmpl w1 = (None, w2)"
    by (auto simp: reconcileReady_def split: sum.splits prod.splits option.splits)
  have "\<exists>inst' phase reason w4. view w4 = view w2 \<and> transition r inst' phase reason w4 = (Inr res, w')"
  proof (cases "ensureExpiry r inst1 tmpl w2" rule: result_cases)
    case (Err e w3)
    with run work fence have "transition r inst1 InstancePhaseFailed (err_text e) w3 = (Inr res, w')"
      by (simp add: reconcileReady_def)
    with ensureExpiry_view [OF Err] show ?thesis by metis
  next
    case (Ok inst2 w3)
    with run work fence obtain phase reason inst3 w4 where
      "determinePhase r inst2 tmpl w3 = (Inr (phase, reason, inst3), w4)"
      "transition r inst3 phase reason w4 = (Inr res, w')"
      by (auto simp: reconcileReady_def split: sum.splits prod.splits)
    with ensureExpiry_view [OF Ok] determinePhase_view show ?thesis by metis
  qed
  then obtain inst' phase reason w4 where
    v: "view w4 = view w2" and t: "transition r inst' phase reason w4 = (Inr res, w')" by blast
  from ensure_workload_present [OF work fence] transition_effect [OF t] v transition_done [OF t]
  show ?thesis by simp
qed

text \<open>A TTL that does not parse fails the instance after the workload was created.\<close>

lemma reconcileReady_bad_ttl:
  assumes run: "reconcileReady r inst tmpl w = (Inr res, w')"
    and ttl: "expiryOf inst tmpl 0 = None"
  shows "\<exists>z stored. cl_instances (view w) (nsname_of (ci_meta inst)) = Some z \<and> same_spec stored z \<and>
       cl_instances (view w') (nsname_of (ci_meta inst)) = Some stored \<and>
       instance_phase_of stored = InstancePhaseFailed \<and> st_expires (ci_status stored) = None \<and>
       st_reason (ci_status stored) = ''invalid TTL: '' @ ttlInForce inst tmpl \<and>
       st_endpoint (ci_status stored) = st_endpoint (ci_status inst) \<and>
       wire_instance_status (ci_status stored) = ci_status stored \<and>
       cl_sent (view w') = cl_sent (view w) @ transitionEvents (ir_backend r) inst InstancePhaseFailed stored
         (''invalid TTL: '' @ ttlInForce inst tmpl)"
proof -
  from run obtain inst1 w1 w2 where
    work: "ensureWorkload r inst tmpl w = (Inr inst1, w1)" and
    fence: "ensureNetworkFence r inst1 tmpl w1 = (None, w2)"
    by (auto simp: reconcileReady_def split: sum.splits prod.splits option.splits)
  note inst1 = ensureWorkload_done(1) [OF work]
  from ttl have none: "st_expires (ci_status inst) = None"
    and bad: "\<exists>x. parse_duration (ttlInForce inst tmpl) = Inl x"
    by (auto simp: expiryOf_def split: option.splits sum.splits)
  have same: "ttlInForce inst1 tmpl = ttlInForce inst tmpl"
    by (simp add: inst1 ttlInForce_def)
  from none bad inst1 same
  have "ensureExpiry r inst1 tmpl w2 = (Inl (OtherErr (''invalid TTL: '' @ ttlInForce inst tmpl)), w2)"
    using ensureExpiry_error [of inst1 tmpl w2] by simp
  with run work fence
  have t: "transition r inst1 InstancePhaseFailed (''invalid TTL: '' @ ttlInForce inst tmpl) w2 = (Inr res, w')"
    by (simp add: reconcileReady_def)
  have v: "cl_instances (view w2) = cl_instances (view w)" "cl_sent (view w2) = cl_sent (view w)"
    using ensureWorkload_frame [OF work] ensureNetworkFence_frame [OF fence] by simp_all
  have ev: "transitionEvents b inst1 p s q = transitionEvents b inst p s q" for b p s q
    by (simp add: inst1 transitionEvents_def)
  from transition_done [OF t, unfolded ev v] none show ?thesis
    by (auto simp: inst1)
qed

text \<open>A reconcile that reports an error has not written the status nor sent an event.\<close>

lemma reconcileReady_failed:
  assumes run: "reconcileReady r inst tmpl w = (Inl e, w')"
  shows "cl_instances (view w') = cl_instances (view w) \<and> cl_sent (view w') = cl_sent (view w)"
proof (cases "ensureWorkload r inst tmpl w" rule: result_cases)
  case (Err e w1)
  with run ensureWorkload_frame [OF Err] show ?thesis by (simp add: reconcileReady_def)
next
  case work: (Ok inst1 w1)
  note f1 = ensureWorkload_frame [OF work]
  obtain eo w2 where fence: "ensureNetworkFence r inst1 tmpl w1 = (eo, w2)"
    by (cases "ensureNetworkFence r inst1 tmpl w1")
  note f2 = ensureNetworkFence_frame [OF fence]
  show ?thesis
  proof (cases eo)
    case (Some e)
    with run work fence f1 f2 show ?thesis by (simp add: reconcileReady_def)
  next
    case None
    show ?thesis
    proof (cases "ensureExpiry r inst1 tmpl w2" rule: result_cases)
      case (Err e' w3)
      with run work fence None have "transition r inst1 InstancePhaseFailed (err_text e') w3 = (Inl e, w')"
        by (simp add: reconcileReady_def)
      with transition_failed ensureExpiry_view [OF Err] f1 f2 show ?thesis by simp
    next
      case exp: (Ok inst2 w3)
      note v3 = ensureExpiry_view [OF exp]
      show ?thesis
      proof (cases "determinePhase r inst2 tmpl w3" rule: result_cases)
        case (Err e' w4)
        with run work fence None exp v3 determinePhase_view [OF Err] f1 f2 show ?thesis
          by (simp add: reconcileReady_def)
      next
        case det: (Ok x w4)
        with run work fence None exp obtain phase reason inst3 where
          "transition r inst3 phase reason w4 = (Inl e, w')"
          by (auto simp: reconcileReady_def split: prod.splits)
        with transition_failed determinePhase_view [OF det] v3 f1 f2 show ?thesis by simp
      qed
    qed
  qed
qed

lemma reconcile_failed:
  assumes run: "reconcileInstance r k w = (Inl e, w')"
  shows "cl_instances (view w') = cl_instances (view w) \<and> cl_sent (view w') = cl_sent (view w)"
proof (cases "k_get (kb_instances (ir_kube r)) k w" rule: result_cases)
  case (Err e w1)
  with run instances.get_view [OF Err] show ?thesis by (simp add: reconcileInstance_def)
next
  case (Ok i w1)
  note v1 = instances.get_view [OF Ok]
  from run Ok have live: "\<not> terminal (instance_phase_of i)"
    by (auto simp: reconcileInstance_def)
  show ?thesis
  proof (cases "k_get (kb_templates (ir_kube r)) (om_namespace (ci_meta i), is_template (ci_spec i)) w1" rule: result_cases)
    case (Err e' w2)
    note v2 = templates.get_view [OF Err]
    show ?thesis
    proof (cases "is_not_found e'")
      case True
      with run Ok live Err
      have "transition r i InstancePhaseFailed (''template not found: '' @ is_template (ci_spec i)) w2 = (Inl e, w')"
        by (simp add: reconcileInstance_def)
      with transition_failed v1 v2 show ?thesis by simp
    next
      case False
      with run Ok live Err v1 v2 show ?thesis by (simp add: reconcileInstance_def)
    qed
  next
    case tmpl: (Ok tmpl w2)
    note v2 = templates.get_view [OF tmpl]
    show ?thesis
    proof (cases "tst_ready (ct_status tmpl)")
      case True
      with run Ok live tmpl have "reconcileReady r i tmpl w2 = (Inl e, w')"
        by (simp add: reconcileInstance_def)
      with reconcileReady_failed v1 v2 show ?thesis by simp
    next
      case False
      with run Ok live tmpl have
        "transition r i InstancePhasePending ''waiting for template to be ready'' w2 = (Inl e, w')"
        by (simp add: reconcileInstance_def split: prod.splits sum.splits)
      with transition_failed v1 v2 show ?thesis by simp
    qed
  qed
qed

lemma instance_name: "cl_instances (view w) k = Some inst \<Longrightarrow> nsname_of (ci_meta inst) = k"
  by (rule instances.stored_name)

lemma reconcile_terminal:
  assumes "cl_instances (view w) k = Some inst" "terminal (instance_phase_of inst)"
  shows "view (snd (reconcileInstance r k w)) = view w \<and>
    (case fst (reconcileInstance r k w) of Inl e \<Rightarrow> \<not> is_not_found e | Inr res \<Rightarrow> res = no_requeue)"
proof (cases "k_get (kb_instances (ir_kube r)) k w" rule: result_cases)
  case (Err e w1)
  with assms instances.get_view [OF Err] instances.get_missing [OF Err] show ?thesis
    by (auto simp: reconcileInstance_def)
next
  case (Ok i w1)
  with assms instances.get_view [OF Ok] instances.get_found [OF Ok] show ?thesis
    by (simp add: reconcileInstance_def)
qed

text \<open>Which branch a reconcile of a present instance takes, by what the cluster holds.\<close>

lemma reconcile_branch:
  assumes run: "reconcileInstance r k w = (Inr res, w')"
    and inst: "cl_instances (view w) k = Some inst"
  shows "if terminal (instance_phase_of inst) then res = no_requeue \<and> view w' = view w
    else \<exists>w2. view w2 = view w \<and>
      (case cl_templates (view w) (om_namespace (ci_meta inst), is_template (ci_spec inst)) of
         None \<Rightarrow> transition r inst InstancePhaseFailed (''template not found: '' @ is_template (ci_spec inst)) w2 = (Inr res, w')
       | Some tmpl \<Rightarrow>
           if tst_ready (ct_status tmpl) then reconcileReady r inst tmpl w2 = (Inr res, w')
           else res = requeue_in (seconds 10) \<and>
             (\<exists>r1. transition r inst InstancePhasePending ''waiting for template to be ready'' w2 = (Inr r1, w')))"
proof (cases "k_get (kb_instances (ir_kube r)) k w" rule: result_cases)
  case (Err e w1)
  with run have "is_not_found e" by (simp add: reconcileInstance_def split: if_splits)
  with instances.get_missing [OF Err] inst show ?thesis by simp
next
  case (Ok i w1)
  then have i: "i = inst" using instances.get_found [OF Ok] inst by simp
  note v1 = instances.get_view [OF Ok]
  let ?tk = "(om_namespace (ci_meta inst), is_template (ci_spec inst))"
  show ?thesis
  proof (cases "terminal (instance_phase_of inst)")
    case True
    with run Ok i v1 show ?thesis by (simp add: reconcileInstance_def)
  next
    case False
    show ?thesis
    proof (cases "k_get (kb_templates (ir_kube r)) ?tk w1" rule: result_cases)
      case (Err e w2)
      note v2 = templates.get_view [OF Err]
      from run Ok i False Err have nf: "is_not_found e"
        by (simp add: reconcileInstance_def split: if_splits)
      from templates.get_missing [OF Err nf] v1 have "cl_templates (view w) ?tk = None" by simp
      with run Ok i False Err nf v1 v2 show ?thesis
        by (simp add: reconcileInstance_def) blast
    next
      case tmpl: (Ok tmpl w2)
      note v2 = templates.get_view [OF tmpl]
      from templates.get_found [OF tmpl] v1 have t: "cl_templates (view w) ?tk = Some tmpl" by simp
      have "if tst_ready (ct_status tmpl) then reconcileReady r inst tmpl w2 = (Inr res, w')
           else res = requeue_in (seconds 10) \<and>
             (\<exists>r1. transition r inst InstancePhasePending ''waiting for template to be ready'' w2 = (Inr r1, w'))"
        using run Ok i False tmpl
        by (cases "tst_ready (ct_status tmpl)") (simp_all add: reconcileInstance_def split: prod.splits sum.splits)
      with t False v1 v2 show ?thesis by auto
    qed
  qed
qed

end

end
