(* ===== verification/Samples.thy ===== *)
theory Samples
  imports Instance_Lemmas
begin

text \<open>
  A concrete cluster the witnesses evaluate: one template, one instance of it, and a Pod in the
  states the proofs need, on the client of \<open>Mem_Cluster\<close>.
\<close>

definition smp_container :: container_spec where
  "smp_container = \<lparr>cs_image = ''nginx'',
     cs_ports = [\<lparr>cp_name = ''http'', cp_port = 8080, cp_expose = True\<rparr>,
                 \<lparr>cp_name = ''dbg'', cp_port = 9000, cp_expose = False\<rparr>],
     cs_resources = no_resources, cs_env = [], cs_readiness = None, cs_restart = RestartUnset,
     cs_threshold = 2\<rparr>"

definition smp_template :: challenge_template where
  "smp_template = \<lparr>ct_meta = new_meta ''web'' ''ctf'' Map.empty,
     ct_spec = \<lparr>ts_category = ''web'', ts_difficulty = ''easy'', ts_points = 100,
       ts_flag_secret = ''flag'', ts_mode = InstanceModePerTeam, ts_ttl = ''1h'',
       ts_max_instances = 0, ts_pow = None, ts_container = smp_container\<rparr>,
     ct_status = \<lparr>tst_ready = True, tst_count = 0, tst_message = ''''\<rparr>\<rparr>"

definition smp_instance :: challenge_instance where
  "smp_instance = \<lparr>ci_meta = new_meta ''web-red'' ''ctf'' Map.empty,
     ci_spec = \<lparr>is_template = ''web'', is_team = ''red'', is_player = '''', is_ttl_override = ''''\<rparr>,
     ci_status = empty_instance_status\<rparr>"

definition smp_pod :: "pod_phase \<Rightarrow> cond_status \<Rightarrow> pod" where
  "smp_pod ph ready = \<lparr>pd_meta = new_meta ''web-red-1'' ''ctf'' [LabelInstance \<mapsto> ''web-red''],
     pd_phase = ph, pd_reason = '''', pd_conditions = [\<lparr>pc_type = ''Ready'', pc_status = ready\<rparr>]\<rparr>"

definition smp_mem :: "challenge_template list \<Rightarrow> challenge_instance list \<Rightarrow> pod list \<Rightarrow> mem" where
  "smp_mem ts is ps = mem_empty\<lparr>mm_templates := ts, mm_instances := is, mm_pods := ps, mm_clock := 10 ^ 18\<rparr>"

definition mem_ir :: "mem instance_reconciler" where
  "mem_ir = \<lparr>ir_kube = mem_kube, ir_backend = Some mem_backend\<rparr>"

interpretation mem_instances: instance_controller mem_ir mem_view
  unfolding instance_controller_def mem_ir_def
  using mem_controllers.controllers_axioms by simp

lemmas smp_defs = smp_container_def smp_template_def smp_instance_def smp_pod_def smp_mem_def
  mem_empty_def mem_ir_def empty_instance_status_def no_resources_def

lemmas mem_eval = mem_kube_def mem_kind_def mem_try_def mem_put_def mem_find_def mem_lens_defs
  mem_backend_def list_match_def nsname_of_def

lemmas instance_eval = reconcileInstance_def reconcileReady_def ensureWorkload_def
  ensureNetworkFence_def ensureExpiry_def determinePhase_def transition_def getOrCreate_def
  buildDeployment_def buildService_def buildNetworkFence_def notifyBackend_def setPhase_def
  podPhase_def unhealthyThreshold_def podReady_def

lemma parse_1h: "parse_duration ''1h'' = Inr 3600000000000"
  by (simp add: parse_duration_eval)

section \<open>Runs of the sample\<close>

abbreviation smp_key :: nsname where
  "smp_key \<equiv> (''ctf'', ''web-red'')"

definition smp_ready :: mem where
  "smp_ready = smp_mem [smp_template] [smp_instance] [smp_pod PodRunning ConditionTrue]"

lemma smp_lookup:
  "cl_instances (mem_view smp_ready) smp_key = Some smp_instance"
  "cl_templates (mem_view smp_ready) (om_namespace (ci_meta smp_instance), is_template (ci_spec smp_instance))
     = Some smp_template"
  "\<not> terminal (instance_phase_of smp_instance)" "tst_ready (ct_status smp_template)"
  "expiryOf smp_instance smp_template now = Some (Some now, now + 3600000000000)"
  by (simp_all add: smp_ready_def mem_view_def mem_eval smp_defs expiryOf_def ttlInForce_def parse_1h time_add_def)

lemma smp_ready_run:
  "\<exists>w'. reconcileInstance mem_ir smp_key smp_ready = (Inr (requeue_in (seconds 15)), w')"
  by (simp add: instance_eval mem_eval smp_defs smp_ready_def parse_1h Let_def)

definition smp_no_template :: mem where
  "smp_no_template = smp_mem [] [smp_instance] []"

definition smp_waiting :: mem where
  "smp_waiting = smp_mem
     [smp_template\<lparr>ct_status := \<lparr>tst_ready = False, tst_count = 0, tst_message = ''''\<rparr>\<rparr>] [smp_instance] []"

definition smp_bad_ttl :: mem where
  "smp_bad_ttl = smp_mem [smp_template\<lparr>ct_spec := (ct_spec smp_template)\<lparr>ts_ttl := ''soon''\<rparr>\<rparr>] [smp_instance] []"

lemma parse_soon: "parse_duration ''soon'' = Inl DurInvalid"
  by (simp add: parse_duration_eval)

lemma smp_lookup_others:
  "cl_instances (mem_view smp_no_template) smp_key = Some smp_instance"
  "cl_templates (mem_view smp_no_template) (om_namespace (ci_meta smp_instance), is_template (ci_spec smp_instance)) = None"
  "cl_instances (mem_view smp_waiting) smp_key = Some smp_instance"
  "cl_templates (mem_view smp_waiting) (om_namespace (ci_meta smp_instance), is_template (ci_spec smp_instance)) =
     Some (smp_template\<lparr>ct_status := \<lparr>tst_ready = False, tst_count = 0, tst_message = ''''\<rparr>\<rparr>)"
  "cl_instances (mem_view smp_bad_ttl) smp_key = Some smp_instance"
  "cl_templates (mem_view smp_bad_ttl) (om_namespace (ci_meta smp_instance), is_template (ci_spec smp_instance)) =
     Some (smp_template\<lparr>ct_spec := (ct_spec smp_template)\<lparr>ts_ttl := ''soon''\<rparr>\<rparr>)"
  by (simp_all add: smp_no_template_def smp_waiting_def smp_bad_ttl_def mem_view_def mem_eval smp_defs)

lemma smp_other_runs:
  "\<exists>w'. reconcileInstance mem_ir smp_key smp_no_template = (Inr (requeue_in (seconds 15)), w')"
  "\<exists>w'. reconcileInstance mem_ir smp_key smp_waiting = (Inr (requeue_in (seconds 10)), w')"
  "\<exists>w'. reconcileInstance mem_ir smp_key smp_bad_ttl = (Inr (requeue_in (seconds 15)), w')"
  by (simp_all add: instance_eval mem_eval smp_defs smp_no_template_def smp_waiting_def smp_bad_ttl_def
      parse_soon Let_def)

end
