(* ===== verification/Instance_Props.thy ===== *)
theory Instance_Props
  imports Samples
begin

text \<open>
  The properties of the instance controller, each for any API server and scoring backend that
  keep their contracts (\<open>instance_controller r view\<close>), with a run on the sample cluster.
\<close>

section \<open>What a reconcile may touch\<close>

text \<open>
  C11: Whatever it returns, an error included, a reconcile of the instance named \<open>k\<close> leaves
  templates, sets, policies, pods and secrets alone, never deletes or overwrites a Deployment,
  Service or NetworkFence and adds none but under the name and in the namespace of the instance
  and with the instance as its owner, writes no instance but its own and of that one nothing
  but the status, and only appends to the events sent.
\<close>

theorem reconcile_touches_only_its_own:
  assumes "instance_controller r view"
  shows "instance_effect k (view w) (view (snd (reconcileInstance r k w)))"
  by (rule instance_controller.reconcile_effect [OF assms prod.collapse [symmetric]])

theorem reconcile_touches_only_its_own_witness:
  "instance_effect (''ctf'', ''web-red'') (mem_view (smp_mem [smp_template] [smp_instance] []))
     (mem_view (snd (reconcileInstance mem_ir (''ctf'', ''web-red'') (smp_mem [smp_template] [smp_instance] []))))"
  by (rule reconcile_touches_only_its_own [OF mem_instances.instance_controller_axioms])

text \<open>
  A reconcile of an instance whose phase is Expired or Failed does nothing: no object
  changes and no event is sent, even when a call fails.
\<close>

theorem reconcile_terminal_noop:
  assumes "instance_controller r view" "cl_instances (view w) k = Some inst" "terminal (instance_phase_of inst)"
  shows "view (snd (reconcileInstance r k w)) = view w \<and>
    (case fst (reconcileInstance r k w) of Inl e \<Rightarrow> \<not> is_not_found e | Inr res \<Rightarrow> res = no_requeue)"
  by (rule instance_controller.reconcile_terminal [OF assms])

theorem reconcile_terminal_noop_witness:
  "mem_view (snd (reconcileInstance mem_ir (''ctf'', ''web-red'')
       (smp_mem [] [setPhase InstancePhaseExpired ''TTL expired'' smp_instance] []))) =
     mem_view (smp_mem [] [setPhase InstancePhaseExpired ''TTL expired'' smp_instance] [])"
proof -
  have "cl_instances (mem_view (smp_mem [] [setPhase InstancePhaseExpired ''TTL expired'' smp_instance] []))
      (''ctf'', ''web-red'') = Some (setPhase InstancePhaseExpired ''TTL expired'' smp_instance)"
    by (simp add: mem_view_def mem_eval smp_defs setPhase_def)
  from reconcile_terminal_noop [OF mem_instances.instance_controller_axioms, OF this] show ?thesis
    by (simp add: setPhase_def)
qed

text \<open>
  C13: A reconcile of a live instance whose template is ready, when it reports no error, leaves
  the Deployment of the instance in place, a Service when the template exposes a port, and its
  NetworkFence: each is the object that had the name before or the one the template and the
  instance determine, the Deployment owned by the instance. The instance is looked at again
  after 15 seconds. An unparsable TTL makes no difference to this.
\<close>

theorem reconcile_ensures_workload:
  assumes ctrl: "instance_controller r view"
    and run: "reconcileInstance r k w = (Inr res, w')"
    and inst: "cl_instances (view w) k = Some inst" "\<not> terminal (instance_phase_of inst)"
    and tmpl: "cl_templates (view w) (om_namespace (ci_meta inst), is_template (ci_spec inst)) = Some tmpl"
      "tst_ready (ct_status tmpl)"
  shows "res = requeue_in (seconds 15) \<and> workloadPresent (view w) (view w') inst tmpl"
proof -
  from instance_controller.reconcile_branch [OF ctrl run inst(1)] inst(2) tmpl obtain w2 where
    "view w2 = view w" "reconcileReady r inst tmpl w2 = (Inr res, w')" by auto
  with instance_controller.reconcileReady_workload [OF ctrl] show ?thesis by metis
qed

theorem reconcile_ensures_workload_witness:
  "\<exists>w'. reconcileInstance mem_ir smp_key smp_ready = (Inr (requeue_in (seconds 15)), w') \<and>
     workloadPresent (mem_view smp_ready) (mem_view w') smp_instance smp_template"
  using smp_ready_run
    reconcile_ensures_workload [OF mem_instances.instance_controller_axioms, OF _ smp_lookup(1,3,2,4)]
  by blast

text \<open>
  C4: What the same reconcile writes when the TTL in force parses or the expiry is already
  set: the phase, reason and counter of failed checks that a Pod of the instance calls for
  (Creating when there is none), the Pod name, and the expiry (the one it has, else a clock
  reading plus the TTL), all as the API server stores them; and exactly one event when the phase changed to one the backend is told of, none
  otherwise.
\<close>

theorem reconcile_tracks_pod:
  assumes ctrl: "instance_controller r view"
    and run: "reconcileInstance r k w = (Inr res, w')"
    and inst: "cl_instances (view w) k = Some inst" "\<not> terminal (instance_phase_of inst)"
    and tmpl: "cl_templates (view w) (om_namespace (ci_meta inst), is_template (ci_spec inst)) = Some tmpl"
      "tst_ready (ct_status tmpl)"
    and ttl: "expiryOf inst tmpl 0 \<noteq> None"
  shows "\<exists>phase reason n now s t stored.
     (phase, reason, n) \<in> observations (view w) inst tmpl \<and>
     now \<in> clock_readings (ir_kube r) \<and> expiryOf inst tmpl now = Some (s, t) \<and>
     cl_instances (view w') k = Some stored \<and> same_spec stored inst \<and>
     ci_status stored = reconciledStatus inst phase reason n s t \<and>
     cl_sent (view w') = cl_sent (view w) @ transitionEvents (ir_backend r) inst phase stored reason"
proof -
  from instance_controller.reconcile_branch [OF ctrl run inst(1)] inst(2) tmpl obtain w2 where
    v: "view w2 = view w" and ready: "reconcileReady r inst tmpl w2 = (Inr res, w')" by auto
  have k: "nsname_of (ci_meta inst) = k"
    using instance_controller.instance_name [OF ctrl inst(1)] .
  from instance_controller.reconcileReady_done [OF ctrl ready ttl] inst(1) show ?thesis
    unfolding v k by (metis option.inject)
qed

theorem reconcile_tracks_pod_witness:
  "\<exists>w' stored. reconcileInstance mem_ir smp_key smp_ready = (Inr (requeue_in (seconds 15)), w') \<and>
     cl_instances (mem_view w') smp_key = Some stored \<and> instance_phase_of stored = InstancePhaseRunning \<and>
     map evt_type (cl_sent (mem_view w')) = [EventRunning]"
proof -
  from smp_ready_run obtain w' where
    run: "reconcileInstance mem_ir smp_key smp_ready = (Inr (requeue_in (seconds 15)), w')" by blast
  have "instancePods (mem_view smp_ready) (ci_meta smp_instance) = {smp_pod PodRunning ConditionTrue}"
    by (auto simp: instancePods_def smp_ready_def mem_view_def mem_eval smp_defs)
  then have obs: "observations (mem_view smp_ready) smp_instance smp_template = {(InstancePhaseRunning, '''', 0)}"
    by (simp add: observations_def podPhase_def podReady_def smp_pod_def)
  have sent: "cl_sent (mem_view smp_ready) = []" "ir_backend mem_ir \<noteq> None"
    "instance_phase_of smp_instance = PhaseUnset"
    by (simp_all add: smp_ready_def mem_view_def smp_defs)
  have ttl: "expiryOf smp_instance smp_template 0 \<noteq> None"
    by (simp add: smp_lookup(5))
  from reconcile_tracks_pod [OF mem_instances.instance_controller_axioms, OF run smp_lookup(1,3,2,4) ttl]
  obtain n s t stored where "cl_instances (mem_view w') smp_key = Some stored"
    "ci_status stored = reconciledStatus smp_instance InstancePhaseRunning '''' n s t"
    "cl_sent (mem_view w') = transitionEvents (ir_backend mem_ir) smp_instance InstancePhaseRunning stored ''''"
    unfolding obs sent by auto
  with run sent(2,3) show ?thesis
    by (intro exI [of _ w'] exI [of _ stored])
      (simp add: reconciledStatus_def transitionEvents_def instanceEvent_def)
qed

text \<open>
  An instance whose template does not exist is failed with a reason that names the
  template, and told so to the backend once; nothing else in the cluster changes.
\<close>

theorem reconcile_missing_template:
  assumes ctrl: "instance_controller r view"
    and run: "reconcileInstance r k w = (Inr res, w')"
    and inst: "cl_instances (view w) k = Some inst" "\<not> terminal (instance_phase_of inst)"
    and tmpl: "cl_templates (view w) (om_namespace (ci_meta inst), is_template (ci_spec inst)) = None"
  shows "\<exists>stored. same_spec stored inst \<and> instance_phase_of stored = InstancePhaseFailed \<and>
     st_reason (ci_status stored) = ''template not found: '' @ is_template (ci_spec inst) \<and>
     view w' = (view w)\<lparr>cl_instances := (cl_instances (view w))(k \<mapsto> stored),
       cl_sent := cl_sent (view w) @
         (if ir_backend r = None then [] else [instanceEvent EventFailed stored (st_reason (ci_status stored))])\<rparr>"
proof -
  from instance_controller.reconcile_branch [OF ctrl run inst(1)] inst(2) tmpl obtain w2 where
    v: "view w2 = view w" and
    t: "transition r inst InstancePhaseFailed (''template not found: '' @ is_template (ci_spec inst)) w2 = (Inr res, w')"
    by auto
  have k: "nsname_of (ci_meta inst) = k"
    using instance_controller.instance_name [OF ctrl inst(1)] .
  have "instance_phase_of inst \<noteq> InstancePhaseFailed" using inst(2) by auto
  with instance_controller.transition_done [OF ctrl t] inst(1) show ?thesis
    unfolding v k by (auto simp: transitionEvents_def)
qed

theorem reconcile_missing_template_witness:
  "\<exists>w' stored. reconcileInstance mem_ir smp_key smp_no_template = (Inr (requeue_in (seconds 15)), w') \<and>
     cl_instances (mem_view w') smp_key = Some stored \<and> instance_phase_of stored = InstancePhaseFailed"
proof -
  from smp_other_runs(1) obtain w' where
    run: "reconcileInstance mem_ir smp_key smp_no_template = (Inr (requeue_in (seconds 15)), w')" by blast
  from reconcile_missing_template [OF mem_instances.instance_controller_axioms,
      OF run smp_lookup_others(1) smp_lookup(3) smp_lookup_others(2)] run
  show ?thesis by auto
qed

text \<open>
  While the template is not ready the instance is Pending, looked at again after 10
  seconds, and nothing is created and no event sent.
\<close>

theorem reconcile_waits_for_template:
  assumes ctrl: "instance_controller r view"
    and run: "reconcileInstance r k w = (Inr res, w')"
    and inst: "cl_instances (view w) k = Some inst" "\<not> terminal (instance_phase_of inst)"
    and tmpl: "cl_templates (view w) (om_namespace (ci_meta inst), is_template (ci_spec inst)) = Some tmpl"
      "\<not> tst_ready (ct_status tmpl)"
  shows "res = requeue_in (seconds 10) \<and>
    (\<exists>stored. same_spec stored inst \<and> instance_phase_of stored = InstancePhasePending \<and>
       view w' = (view w)\<lparr>cl_instances := (cl_instances (view w))(k \<mapsto> stored)\<rparr>)"
proof -
  from instance_controller.reconcile_branch [OF ctrl run inst(1)] inst(2) tmpl obtain w2 r1 where
    v: "view w2 = view w" and res: "res = requeue_in (seconds 10)" and
    t: "transition r inst InstancePhasePending ''waiting for template to be ready'' w2 = (Inr r1, w')"
    by auto
  have k: "nsname_of (ci_meta inst) = k"
    using instance_controller.instance_name [OF ctrl inst(1)] .
  have ev: "transitionEvents b inst InstancePhasePending s q = []" for b s q
    by (simp add: transitionEvents_def)
  from instance_controller.transition_done [OF ctrl t] inst(1) res show ?thesis
    unfolding v k ev by auto
qed

theorem reconcile_waits_for_template_witness:
  "\<exists>w' stored. reconcileInstance mem_ir smp_key smp_waiting = (Inr (requeue_in (seconds 10)), w') \<and>
     cl_instances (mem_view w') smp_key = Some stored \<and> instance_phase_of stored = InstancePhasePending"
proof -
  from smp_other_runs(2) obtain w' where
    run: "reconcileInstance mem_ir smp_key smp_waiting = (Inr (requeue_in (seconds 10)), w')" by blast
  have "\<not> tst_ready (ct_status (smp_template\<lparr>ct_status := \<lparr>tst_ready = False, tst_count = 0, tst_message = ''''\<rparr>\<rparr>))"
    by simp
  from reconcile_waits_for_template [OF mem_instances.instance_controller_axioms,
      OF run smp_lookup_others(3) smp_lookup(3) smp_lookup_others(4) this] run
  show ?thesis by auto
qed

text \<open>
  C38: A TTL that does not parse, on an instance without an expiry, fails the instance with the
  TTL in the reason and without setting an expiry, after its Deployment, Service and fence were
  created. Nothing here takes them down again.
\<close>

theorem reconcile_invalid_ttl:
  assumes ctrl: "instance_controller r view"
    and run: "reconcileInstance r k w = (Inr res, w')"
    and inst: "cl_instances (view w) k = Some inst" "\<not> terminal (instance_phase_of inst)"
    and tmpl: "cl_templates (view w) (om_namespace (ci_meta inst), is_template (ci_spec inst)) = Some tmpl"
      "tst_ready (ct_status tmpl)"
    and ttl: "st_expires (ci_status inst) = None" "parse_duration (ttlInForce inst tmpl) = Inl e"
  shows "workloadPresent (view w) (view w') inst tmpl \<and>
    (\<exists>stored. cl_instances (view w') k = Some stored \<and> same_spec stored inst \<and>
       instance_phase_of stored = InstancePhaseFailed \<and> st_expires (ci_status stored) = None \<and>
       st_reason (ci_status stored) = ''invalid TTL: '' @ ttlInForce inst tmpl)"
proof -
  from instance_controller.reconcile_branch [OF ctrl run inst(1)] inst(2) tmpl obtain w2 where
    v: "view w2 = view w" and ready: "reconcileReady r inst tmpl w2 = (Inr res, w')" by auto
  have k: "nsname_of (ci_meta inst) = k"
    using instance_controller.instance_name [OF ctrl inst(1)] .
  have "expiryOf inst tmpl 0 = None" using ttl by (simp add: expiryOf_def)
  from instance_controller.reconcileReady_bad_ttl [OF ctrl ready this]
    instance_controller.reconcileReady_workload [OF ctrl ready] inst(1) show ?thesis
    unfolding v k by (metis option.inject)
qed

theorem reconcile_invalid_ttl_witness:
  "\<exists>w' stored. reconcileInstance mem_ir smp_key smp_bad_ttl = (Inr (requeue_in (seconds 15)), w') \<and>
     cl_deployments (mem_view w') smp_key \<noteq> None \<and> cl_instances (mem_view w') smp_key = Some stored \<and>
     st_reason (ci_status stored) = ''invalid TTL: soon''"
proof -
  let ?t = "smp_template\<lparr>ct_spec := (ct_spec smp_template)\<lparr>ts_ttl := ''soon''\<rparr>\<rparr>"
  from smp_other_runs(3) obtain w' where
    run: "reconcileInstance mem_ir smp_key smp_bad_ttl = (Inr (requeue_in (seconds 15)), w')" by blast
  have ttl: "st_expires (ci_status smp_instance) = None" "ttlInForce smp_instance ?t = ''soon''"
    "tst_ready (ct_status ?t)" "nsname_of (ci_meta smp_instance) = smp_key"
    by (simp_all add: smp_defs ttlInForce_def)
  have bad: "parse_duration (ttlInForce smp_instance ?t) = Inl DurInvalid"
    by (simp only: ttl parse_soon)
  from reconcile_invalid_ttl [OF mem_instances.instance_controller_axioms,
      OF run smp_lookup_others(5) smp_lookup(3) smp_lookup_others(6) ttl(3,1) bad] run
  show ?thesis unfolding workloadPresent_def Let_def ttl(2,4) by auto
qed

section \<open>The phase a Pod calls for\<close>

text \<open>
  The counter after looking at one Pod after another, from a counter of 0, and what it is meant
  to be: how often the Pod was running without being ready since it was last running and ready.
\<close>

definition counterAfter :: "challenge_template \<Rightarrow> pod list \<Rightarrow> int32" where
  "counterAfter tmpl ps = fold (\<lambda>p n. snd (snd (podPhase p tmpl n))) ps 0"

definition unreadyStreak :: "pod list \<Rightarrow> nat" where
  "unreadyStreak ps =
     length (filter (\<lambda>p. pd_phase p = PodRunning)
       (takeWhile (\<lambda>p. \<not> (pd_phase p = PodRunning \<and> podReady p)) (rev ps)))"

lemma podPhase_counter:
  "snd (snd (podPhase p tmpl n)) =
     (if pd_phase p = PodRunning then if podReady p then 0 else n + 1 else n)"
  by (cases "pd_phase p") (simp_all add: podPhase_def Let_def)

lemma unreadyStreak_snoc:
  "unreadyStreak (ps @ [p]) =
     (if pd_phase p = PodRunning then if podReady p then 0 else Suc (unreadyStreak ps) else unreadyStreak ps)"
  by (simp add: unreadyStreak_def)

lemma counterAfter_streak: "counterAfter tmpl ps = of_nat (unreadyStreak ps)"
proof (induction ps rule: rev_induct)
  case Nil
  show ?case by (simp add: counterAfter_def unreadyStreak_def)
next
  case (snoc p ps)
  then show ?case
    by (simp add: counterAfter_def podPhase_counter unreadyStreak_snoc)
qed

lemma unreadyStreak_le: "unreadyStreak ps \<le> length ps"
  unfolding unreadyStreak_def
  by (metis (no_types, lifting) le_trans length_filter_le length_rev length_takeWhile_le)

text \<open>
  C27: The failed-check counter against the threshold. After any sequence of looks at a Pod,
  shorter than the \<open>int32\<close> range, a look makes the phase Unhealthy exactly when the Pod is
  running and not ready and that has been seen, since it was last seen running and ready, at
  least as often as the threshold says (3 when the template gives none). Looks at a Pod that is
  not running in between count neither way.
\<close>

theorem unhealthy_exactly_at_threshold:
  assumes "int (length ps) < 2 ^ 31 - 1"
  shows "fst (podPhase p tmpl (counterAfter tmpl ps)) = InstancePhaseUnhealthy \<longleftrightarrow>
    pd_phase p = PodRunning \<and> \<not> podReady p \<and>
    sint (unhealthyThreshold tmpl) \<le> int (unreadyStreak (ps @ [p]))"
proof -
  let ?n = "unreadyStreak ps"
  have small: "int ?n < 2 ^ 31 - 1" using assms unreadyStreak_le [of ps] by linarith
  have "counterAfter tmpl ps + 1 = word_of_int (int ?n + 1)"
    by (simp add: counterAfter_streak)
  then have "sint (counterAfter tmpl ps + 1) = int ?n + 1"
    using sint_int32_of_int [of "int ?n + 1"] small by simp
  then show ?thesis
    by (cases "pd_phase p") (simp_all add: podPhase_def Let_def unreadyStreak_snoc)
qed

theorem unhealthy_exactly_at_threshold_witness:
  "fst (podPhase (smp_pod PodRunning ConditionFalse) smp_template
      (counterAfter smp_template [smp_pod PodRunning ConditionFalse])) = InstancePhaseUnhealthy \<and>
   fst (podPhase (smp_pod PodRunning ConditionFalse) smp_template
      (counterAfter smp_template [smp_pod PodRunning ConditionFalse, smp_pod PodRunning ConditionTrue]))
        \<noteq> InstancePhaseUnhealthy"
  by (subst (1 2) unhealthy_exactly_at_threshold)
    (simp_all add: unreadyStreak_def unhealthyThreshold_def podReady_def smp_defs)

end
