(* ===== verification/Lifecycle_Ctrl.thy ===== *)
theory Lifecycle_Ctrl
  imports Instance_Lemmas
begin

text \<open>
  \<open>internal/controller/lifecycle_controller.go\<close>: the reconciler that watches the expiry of
  ChallengeInstances. \<open>reconcileLifecycle\<close> is its \<open>Reconcile\<close>.
\<close>

section \<open>The reconciler\<close>

record 'w lifecycle_reconciler =
  lr_kube :: "'w kube"
  lr_backend :: "'w backend option"

definition expiringGraceWindow :: duration where
  "expiringGraceWindow = seconds 60"

text \<open>The backend is told whether or not the phase changed.\<close>

definition notifyAndSetPhase ::
  "'w lifecycle_reconciler \<Rightarrow> challenge_instance \<Rightarrow> instance_phase \<Rightarrow> string \<Rightarrow> event_type \<Rightarrow> duration \<Rightarrow>
     'w \<Rightarrow> (go_error + ctrl_result) \<times> 'w" where
  "notifyAndSetPhase r inst phase reason evt after w =
     (case k_status (kb_instances (lr_kube r)) (setPhase phase reason inst) w of
        (Inl e, w1) \<Rightarrow> (Inl e, w1)
      | (Inr stored, w1) \<Rightarrow>
          (Inr (requeue_in after), notifyBackend (lr_backend r) (instanceEvent evt stored reason) w1))"

text \<open>
  \<open>remaining - expiringGraceWindow\<close> is an \<open>int64\<close> subtraction; the case above it leaves
  \<open>remaining\<close> positive, so it does not wrap.
\<close>

definition lifecycleStep ::
  "'w lifecycle_reconciler \<Rightarrow> challenge_instance \<Rightarrow> duration \<Rightarrow> 'w \<Rightarrow> (go_error + ctrl_result) \<times> 'w" where
  "lifecycleStep r inst remaining w =
     (if remaining \<le> 0
      then notifyAndSetPhase r inst InstancePhaseExpired ''TTL expired'' EventExpired (seconds 60) w
      else if remaining \<le> expiringGraceWindow \<and> instance_phase_of inst \<noteq> InstancePhaseExpiring
      then notifyAndSetPhase r inst InstancePhaseExpiring ''entering expiry grace window'' EventExpiring remaining w
      else (Inr (requeue_in (wrap_int64 (remaining - expiringGraceWindow))), w))"

definition reconcileLifecycle ::
  "'w lifecycle_reconciler \<Rightarrow> nsname \<Rightarrow> 'w \<Rightarrow> (go_error + ctrl_result) \<times> 'w" where
  "reconcileLifecycle r req w =
     (case k_get (kb_instances (lr_kube r)) req w of
        (Inl e, w1) \<Rightarrow> (if is_not_found e then Inr no_requeue else Inl e, w1)
      | (Inr inst, w1) \<Rightarrow>
          (case st_expires (ci_status inst) of
             None \<Rightarrow> (Inr (requeue_in (seconds 30)), w1)
           | Some expires \<Rightarrow>
               if terminal (instance_phase_of inst) then (Inr (requeue_in (seconds 30)), w1)
               else (case kb_now (lr_kube r) w1 of
                 (now, w2) \<Rightarrow> lifecycleStep r inst (time_sub expires now) w2)))"

text \<open>The reading of the clock a reconcile works with.\<close>

definition lifecycleClock :: "'w lifecycle_reconciler \<Rightarrow> nsname \<Rightarrow> 'w \<Rightarrow> instant" where
  "lifecycleClock r req w = fst (kb_now (lr_kube r) (snd (k_get (kb_instances (lr_kube r)) req w)))"

section \<open>What it does to the cluster\<close>

text \<open>The status of one instance and the events; nothing else.\<close>

definition lifecycle_effect :: "nsname \<Rightarrow> cluster \<Rightarrow> cluster \<Rightarrow> bool" where
  "lifecycle_effect k c c' \<longleftrightarrow>
     c' = c\<lparr>cl_instances := cl_instances c', cl_sent := cl_sent c'\<rparr> \<and>
     (\<exists>evs. cl_sent c' = cl_sent c @ evs) \<and>
     (\<forall>k'. k' \<noteq> k \<longrightarrow> cl_instances c' k' = cl_instances c k') \<and>
     rel_option same_spec (cl_instances c k) (cl_instances c' k)"

lemma lifecycle_effect_refl [simp]: "lifecycle_effect k c c"
  by (simp add: lifecycle_effect_def)

lemma lifecycle_effect_instance:
  assumes "lifecycle_effect k c c'"
  shows "instance_effect k c c'"
proof -
  from assms have "c' = c\<lparr>cl_instances := cl_instances c', cl_sent := cl_sent c'\<rparr>"
    by (simp add: lifecycle_effect_def)
  then obtain insts evs where "c' = c\<lparr>cl_instances := insts, cl_sent := evs\<rparr>" by blast
  with assms show ?thesis by (simp add: lifecycle_effect_def instance_effect_def)
qed

locale lifecycle_controller = controllers "lr_kube r" view "lr_backend r"
  for r :: "'w lifecycle_reconciler" and view :: "'w \<Rightarrow> cluster"
begin

lemma notifyAndSetPhase_failed:
  assumes "notifyAndSetPhase r inst phase reason evt after w = (Inl e, w')"
  shows "view w' = view w"
  using assms instances.status_failed
  by (auto simp: notifyAndSetPhase_def split: sum.splits prod.splits)

lemma notify_view_eq:
  "view (notifyBackend (lr_backend r) ev w) =
     (view w)\<lparr>cl_sent := cl_sent (view w) @ (if lr_backend r = None then [] else [ev])\<rparr>"
  by (rule notifyBackend_view) (rule backend_ok)

lemma notifyAndSetPhase_done:
  assumes "notifyAndSetPhase r inst phase reason evt after w = (Inr res, w')"
  shows "res = requeue_in after \<and>
    (\<exists>z stored. cl_instances (view w) (nsname_of (ci_meta inst)) = Some z \<and> same_spec stored z \<and>
       ci_status stored = wire_instance_status ((ci_status inst)\<lparr>st_phase := phase, st_reason := reason\<rparr>) \<and>
       view w' = (view w)\<lparr>cl_instances := (cl_instances (view w))(nsname_of (ci_meta inst) \<mapsto> stored),
         cl_sent := cl_sent (view w) @ (if lr_backend r = None then [] else [instanceEvent evt stored reason])\<rparr>)"
proof -
  from assms obtain stored w1 where
    st: "k_status (kb_instances (lr_kube r)) (setPhase phase reason inst) w = (Inr stored, w1)"
    and res: "res = requeue_in after"
    and w': "w' = notifyBackend (lr_backend r) (instanceEvent evt stored reason) w1"
    by (auto simp: notifyAndSetPhase_def split: sum.splits prod.splits)
  from res instances.status_done [OF st] show ?thesis
    by (auto simp: setPhase_def same_spec_def w' notify_view_eq)
qed

lemma notifyAndSetPhase_effect:
  assumes "notifyAndSetPhase r inst phase reason evt after w = (res, w')"
  shows "lifecycle_effect (nsname_of (ci_meta inst)) (view w) (view w')"
proof (cases res)
  case (Inl e)
  with notifyAndSetPhase_failed assms show ?thesis by simp
next
  case (Inr x)
  from notifyAndSetPhase_done [OF assms [unfolded Inr]] show ?thesis
    by (auto simp: lifecycle_effect_def same_spec_def)
qed

lemma lifecycleStep_effect:
  assumes "lifecycleStep r inst d w = (res, w')"
  shows "lifecycle_effect (nsname_of (ci_meta inst)) (view w) (view w')"
  using assms notifyAndSetPhase_effect
  by (auto simp: lifecycleStep_def split: if_splits)

lemma instance_name: "cl_instances (view w) k = Some inst \<Longrightarrow> nsname_of (ci_meta inst) = k"
  by (rule instances.stored_name)

text \<open>What a reconcile of a present instance comes down to.\<close>

lemma reconcile_step:
  assumes run: "reconcileLifecycle r k w = (res, w')"
    and inst: "cl_instances (view w) k = Some inst"
  shows "(\<exists>e. res = Inl e \<and> view w' = view w) \<or>
    (case st_expires (ci_status inst) of
       None \<Rightarrow> res = Inr (requeue_in (seconds 30)) \<and> view w' = view w
     | Some t \<Rightarrow>
         if terminal (instance_phase_of inst) then res = Inr (requeue_in (seconds 30)) \<and> view w' = view w
         else \<exists>w2. view w2 = view w \<and>
           lifecycleStep r inst (time_sub t (lifecycleClock r k w)) w2 = (res, w'))"
proof (cases "k_get (kb_instances (lr_kube r)) k w" rule: result_cases)
  case (Err e w1)
  with inst instances.get_missing [OF Err] instances.get_view [OF Err] run show ?thesis
    by (auto simp: reconcileLifecycle_def)
next
  case (Ok i w1)
  note v1 = instances.get_view [OF Ok]
  have i: "i = inst" using instances.get_found [OF Ok] inst by simp
  obtain now w2 where n: "kb_now (lr_kube r) w1 = (now, w2)" by (cases "kb_now (lr_kube r) w1")
  with Ok have "lifecycleClock r k w = now" by (simp add: lifecycleClock_def)
  with run Ok i v1 n now_view [OF n] show ?thesis
    by (auto simp: reconcileLifecycle_def split: option.split)
qed

lemma reconcile_missing:
  assumes run: "reconcileLifecycle r k w = (res, w')" and "cl_instances (view w) k = None"
  shows "view w' = view w \<and> (\<forall>x. res = Inr x \<longrightarrow> x = no_requeue)"
proof (cases "k_get (kb_instances (lr_kube r)) k w" rule: result_cases)
  case (Err e w1)
  with instances.get_view [OF Err] run show ?thesis
    by (auto simp: reconcileLifecycle_def split: if_splits)
next
  case (Ok i w1)
  with instances.get_found [OF Ok] assms(2) show ?thesis by simp
qed

lemma reconcile_effect:
  assumes "reconcileLifecycle r k w = (res, w')"
  shows "lifecycle_effect k (view w) (view w')"
proof (cases "cl_instances (view w) k")
  case None
  with reconcile_missing [OF assms] show ?thesis by simp
next
  case (Some inst)
  have k: "nsname_of (ci_meta inst) = k" using instances.stored_name [OF Some] .
  have "lifecycle_effect k (view w) (view w')" if "lifecycleStep r inst d w2 = (res, w')" "view w2 = view w" for d w2
    using lifecycleStep_effect [OF that(1)] k that(2) by simp
  with reconcile_step [OF assms Some] show ?thesis
    by (auto split: option.splits if_splits)
qed

end

end
