(* ===== verification/Phase_Contract.thy ===== *)
theory Phase_Contract
  imports Lifecycle_Ctrl Samples
begin

text \<open>
  The contract two reconcilers of one ChallengeInstance share. The instance controller and the
  lifecycle controller both write its status; neither knows of the other. \<open>phase_controller\<close>
  is what each may rely on: what the other changes, which phases it writes, and that a terminal
  phase and an expiry, once stored, stay. Both reconcilers are shown to obey it, and what
  follows for any sequence of runs is proved once.
\<close>

section \<open>The contract\<close>

locale phase_controller =
  fixes reconcile :: "nsname \<Rightarrow> 'w \<Rightarrow> (go_error + ctrl_result) \<times> 'w"
    and view :: "'w \<Rightarrow> cluster"
    and written :: "instance_phase set"
  assumes effect: "reconcile k w = (res, w') \<Longrightarrow> instance_effect k (view w) (view w')"
    and terminal_kept: "reconcile k w = (res, w') \<Longrightarrow> cl_instances (view w) k = Some i \<Longrightarrow>
      terminal (instance_phase_of i) \<Longrightarrow> view w' = view w"
    and phase_written: "reconcile k w = (res, w') \<Longrightarrow> cl_instances (view w) k = Some i \<Longrightarrow>
      cl_instances (view w') k = Some j \<Longrightarrow> j = i \<or> instance_phase_of j \<in> written"
    and expiry_kept: "reconcile k w = (res, w') \<Longrightarrow> cl_instances (view w) k = Some i \<Longrightarrow>
      cl_instances (view w') k = Some j \<Longrightarrow> st_expires (ci_status i) = Some t \<Longrightarrow>
      j = i \<or> st_expires (ci_status j) = Some (trunc_sec t)"
begin

text \<open>A queue of requests, worked off one after the other.\<close>

definition runs :: "nsname list \<Rightarrow> 'w \<Rightarrow> 'w" where
  "runs ks w = fold (\<lambda>k w. snd (reconcile k w)) ks w"

lemma runs_simps [simp]: "runs [] w = w" "runs (k # ks) w = runs ks (snd (reconcile k w))"
  by (simp_all add: runs_def)

lemma instance_after:
  assumes "cl_instances (view w) k = Some i"
  shows "\<exists>j. cl_instances (view (snd (reconcile k' w))) k = Some j \<and> same_spec j i"
proof (cases "k' = k")
  case True
  with instance_effectD(2) [OF effect [OF prod.collapse [symmetric, of "reconcile k' w"]]] assms
  show ?thesis by (auto simp: option_rel_Some1 same_spec_def)
next
  case False
  then have "k \<noteq> k'" by simp
  from instance_effectD(1) [OF effect [OF prod.collapse [symmetric]] this] assms
  show ?thesis by simp
qed

lemma other_unchanged:
  "k \<noteq> k' \<Longrightarrow> cl_instances (view (snd (reconcile k' w))) k = cl_instances (view w) k"
  by (rule instance_effectD(1) [OF effect [OF prod.collapse [symmetric]]])

lemma terminal_step:
  assumes "cl_instances (view w) k = Some i" "terminal (instance_phase_of i)"
  shows "cl_instances (view (snd (reconcile k' w))) k = Some i"
proof (cases "k = k'")
  case True
  then show ?thesis using terminal_kept [of k' w _ _ i] assms by (metis prod.collapse)
next
  case False
  then show ?thesis using other_unchanged assms by simp
qed

lemma terminal_runs:
  assumes "cl_instances (view w) k = Some i" "terminal (instance_phase_of i)"
  shows "cl_instances (view (runs ks w)) k = Some i"
  using assms by (induction ks arbitrary: w) (simp_all add: terminal_step)

text \<open>A phase that a sequence of runs ends in was there from the start or is one it writes.\<close>

lemma phase_runs:
  assumes "cl_instances (view w) k = Some i" "cl_instances (view (runs ks w)) k = Some j"
  shows "j = i \<or> instance_phase_of j \<in> written"
  using assms
proof (induction ks arbitrary: w i)
  case Nil
  then show ?case by simp
next
  case (Cons k' ks)
  from instance_after [OF Cons.prems(1)] obtain i' where
    i': "cl_instances (view (snd (reconcile k' w))) k = Some i'" by blast
  have "i' = i \<or> instance_phase_of i' \<in> written"
  proof (cases "k = k'")
    case True
    with phase_written [of k' w _ _ i i'] Cons.prems(1) i' show ?thesis by (metis prod.collapse)
  next
    case False
    with other_unchanged [OF False] Cons.prems(1) i' show ?thesis by simp
  qed
  moreover from Cons.IH [OF i'] Cons.prems(2) have "j = i' \<or> instance_phase_of j \<in> written" by simp
  ultimately show ?case by auto
qed

lemma expiry_step:
  assumes "cl_instances (view w) k = Some i" "st_expires (ci_status i) = Some t" "trunc_sec t = t"
  shows "\<exists>j. cl_instances (view (snd (reconcile k' w))) k = Some j \<and> st_expires (ci_status j) = Some t"
proof (cases "k = k'")
  case True
  from instance_after [OF assms(1)] obtain j where
    j: "cl_instances (view (snd (reconcile k' w))) k = Some j" by blast
  with expiry_kept [of k' w "fst (reconcile k' w)" "snd (reconcile k' w)" i j t] assms True
  show ?thesis by auto
next
  case False
  with other_unchanged [OF False] assms show ?thesis by simp
qed

lemma expiry_runs:
  assumes "cl_instances (view w) k = Some i" "st_expires (ci_status i) = Some t" "trunc_sec t = t"
  shows "\<exists>j. cl_instances (view (runs ks w)) k = Some j \<and> st_expires (ci_status j) = Some t"
  using assms
proof (induction ks arbitrary: w i)
  case Nil
  then show ?case by simp
next
  case (Cons k' ks)
  from expiry_step [OF Cons.prems] Cons.IH [OF _ _ assms(3)] show ?case by fastforce
qed

end

section \<open>The instance controller obeys it\<close>

definition instance_phases :: "instance_phase set" where
  "instance_phases = {InstancePhasePending, InstancePhaseCreating, InstancePhaseRunning,
     InstancePhaseUnhealthy, InstancePhaseFailed}"

lemma podPhase_phases: "fst (podPhase p tmpl n) \<in> instance_phases"
  by (cases "pd_phase p") (simp_all add: podPhase_def instance_phases_def Let_def)

lemma observations_phases:
  assumes "(phase, reason, n) \<in> observations c i tmpl"
  shows "phase \<in> instance_phases"
proof (cases "instancePods c (ci_meta i) = {}")
  case True
  with assms show ?thesis by (simp add: observations_def instance_phases_def)
next
  case False
  with assms obtain p where "(phase, reason, n) = podPhase p tmpl (st_unhealthy (ci_status i))"
    unfolding observations_def by auto
  then show ?thesis using podPhase_phases [of p tmpl "st_unhealthy (ci_status i)"] by (metis fst_conv)
qed

lemma expiryOf_some: "st_expires (ci_status i) = Some t \<Longrightarrow> expiryOf i tmpl now = Some (st_started (ci_status i), t)"
  by (simp add: expiryOf_def)

context instance_controller
begin

text \<open>What any reconcile of a present instance leaves of its status.\<close>

lemma reconcile_status:
  assumes run: "reconcileInstance r k w = (res, w')"
    and inst: "cl_instances (view w) k = Some i" and after: "cl_instances (view w') k = Some j"
  shows "j = i \<or> (\<not> terminal (instance_phase_of i) \<and> instance_phase_of j \<in> instance_phases \<and>
    (\<forall>t. st_expires (ci_status i) = Some t \<longrightarrow> st_expires (ci_status j) = Some (trunc_sec t)))"
proof (cases res)
  case (Inl e)
  with reconcile_failed [OF run [unfolded Inl]] inst after show ?thesis by simp
next
  case (Inr x)
  note k = instance_name [OF inst]
  note run' = run [unfolded Inr]
  from reconcile_branch [OF run' inst] show ?thesis
  proof (cases "terminal (instance_phase_of i)")
    case True
    with reconcile_branch [OF run' inst] inst after show ?thesis by simp
  next
    case live: False
    have by_transition: ?thesis
      if "transition r i phase reason w2 = (Inr r1, w')" "phase \<in> instance_phases" for w2 phase reason r1
      using transition_done [OF that(1)] that(2) after k live by auto
    show ?thesis
    proof (cases "cl_templates (view w) (om_namespace (ci_meta i), is_template (ci_spec i))")
      case None
      with reconcile_branch [OF run' inst] live by_transition show ?thesis
        by (auto simp: instance_phases_def)
    next
      case (Some tmpl)
      show ?thesis
      proof (cases "tst_ready (ct_status tmpl)")
        case False
        with reconcile_branch [OF run' inst] live Some by_transition show ?thesis
          by (auto simp: instance_phases_def)
      next
        case True
        with reconcile_branch [OF run' inst] live Some obtain w2 where
          ready: "reconcileReady r i tmpl w2 = (Inr x, w')" by auto
        show ?thesis
        proof (cases "expiryOf i tmpl 0 = None")
          case True
          with reconcileReady_bad_ttl [OF ready True] k after live show ?thesis
            by (auto simp: instance_phases_def expiryOf_def)
        next
          case False
          from reconcileReady_done [OF ready False] k after obtain phase reason n now s t where
            "(phase, reason, n) \<in> observations (view w2) i tmpl" "expiryOf i tmpl now = Some (s, t)"
            "ci_status j = reconciledStatus i phase reason n s t" by auto
          then show ?thesis
            using live observations_phases expiryOf_some by (auto simp: reconciledStatus_def)
        qed
      qed
    qed
  qed
qed

sublocale phases: phase_controller "reconcileInstance r" view instance_phases
proof (unfold_locales, goal_cases)
  case (1 k w res w')
  then show ?case by (rule reconcile_effect)
next
  case (2 k w res w' i)
  then show ?case using reconcile_terminal [of w k i] by simp
next
  case (3 k w res w' i j)
  then show ?case using reconcile_status by blast
next
  case (4 k w res w' i j t)
  then show ?case using reconcile_status by blast
qed

end

section \<open>The lifecycle controller obeys it\<close>

definition lifecycle_phases :: "instance_phase set" where
  "lifecycle_phases = {InstancePhaseExpiring, InstancePhaseExpired}"

context lifecycle_controller
begin

lemma step_status:
  assumes "lifecycleStep r i d w = (res, w')" "cl_instances (view w) (nsname_of (ci_meta i)) = Some i"
    and "cl_instances (view w') (nsname_of (ci_meta i)) = Some j"
  shows "j = i \<or> (instance_phase_of j \<in> lifecycle_phases \<and>
    (\<forall>t. st_expires (ci_status i) = Some t \<longrightarrow> st_expires (ci_status j) = Some (trunc_sec t)))"
proof -
  have by_write: ?thesis
    if "notifyAndSetPhase r i phase reason evt after w = (res, w')" "phase \<in> lifecycle_phases"
    for phase reason evt after
  proof (cases res)
    case (Inl e)
    with notifyAndSetPhase_failed that assms show ?thesis by auto
  next
    case (Inr x)
    with notifyAndSetPhase_done [OF that(1) [unfolded Inr]] that(2) assms show ?thesis by auto
  qed
  show ?thesis
  proof (cases "d \<le> 0 \<or> d \<le> expiringGraceWindow \<and> instance_phase_of i \<noteq> InstancePhaseExpiring")
    case True
    with assms(1) by_write show ?thesis
      by (auto simp: lifecycleStep_def lifecycle_phases_def split: if_splits)
  next
    case False
    with assms show ?thesis by (auto simp: lifecycleStep_def)
  qed
qed

lemma reconcile_terminal:
  assumes "reconcileLifecycle r k w = (res, w')" "cl_instances (view w) k = Some i"
    "terminal (instance_phase_of i)"
  shows "view w' = view w"
  using reconcile_step [OF assms(1,2)] assms(3) by (auto split: option.splits)

lemma reconcile_status:
  assumes run: "reconcileLifecycle r k w = (res, w')"
    and inst: "cl_instances (view w) k = Some i" and after: "cl_instances (view w') k = Some j"
  shows "j = i \<or> (instance_phase_of j \<in> lifecycle_phases \<and>
    (\<forall>t. st_expires (ci_status i) = Some t \<longrightarrow> st_expires (ci_status j) = Some (trunc_sec t)))"
proof (cases "view w' = view w")
  case True
  with inst after show ?thesis by simp
next
  case False
  have k: "nsname_of (ci_meta i) = k" using instances.stored_name [OF inst] .
  from reconcile_step [OF run inst] False obtain d w2 where
    "view w2 = view w" "lifecycleStep r i d w2 = (res, w')"
    by (auto split: option.splits if_splits)
  with step_status [of i d w2 res w' j] inst after k show ?thesis by simp
qed

sublocale phases: phase_controller "reconcileLifecycle r" view lifecycle_phases
proof (unfold_locales, goal_cases)
  case (1 k w res w')
  then show ?case by (intro lifecycle_effect_instance reconcile_effect)
next
  case (2 k w res w' i)
  then show ?case by (rule reconcile_terminal)
next
  case (3 k w res w' i j)
  then show ?case using reconcile_status by blast
next
  case (4 k w res w' i j t)
  then show ?case using reconcile_status by blast
qed

end

definition mem_lr :: "mem lifecycle_reconciler" where
  "mem_lr = \<lparr>lr_kube = mem_kube, lr_backend = Some mem_backend\<rparr>"

interpretation mem_lifecycle: lifecycle_controller mem_lr mem_view
  unfolding lifecycle_controller_def mem_lr_def
  using mem_controllers.controllers_axioms by simp

section \<open>A sample to expire\<close>

text \<open>The sample cluster with the instance in a phase and with an expiry; its clock shows \<open>10 ^ 18\<close>.\<close>

definition smp_due :: "instance_phase \<Rightarrow> instant \<Rightarrow> challenge_instance" where
  "smp_due ph t = smp_instance\<lparr>ci_status :=
     (ci_status smp_instance)\<lparr>st_phase := ph, st_expires := Some t\<rparr>\<rparr>"

definition smp_due_mem :: "instance_phase \<Rightarrow> instant \<Rightarrow> mem" where
  "smp_due_mem ph t = smp_mem [smp_template] [smp_due ph t] [smp_pod PodRunning ConditionTrue]"

lemmas lifecycle_eval = reconcileLifecycle_def lifecycleStep_def notifyAndSetPhase_def lifecycleClock_def
  expiringGraceWindow_def notifyBackend_def setPhase_def

lemma smp_due_lookup [simp]:
  "cl_instances (mem_view (smp_due_mem ph t)) smp_key = Some (smp_due ph t)"
  "cl_templates (mem_view (smp_due_mem ph t)) (''ctf'', ''web'') = Some smp_template"
  "instance_phase_of (smp_due ph t) = ph" "st_expires (ci_status (smp_due ph t)) = Some t"
  "ci_meta (smp_due ph t) = new_meta ''web-red'' ''ctf'' Map.empty"
  "is_template (ci_spec (smp_due ph t)) = ''web''"
  "lifecycleClock mem_lr smp_key (smp_due_mem ph t) = 10 ^ 18"
  "cl_sent (mem_view (smp_due_mem ph t)) = []"
  by (simp_all add: smp_due_mem_def smp_due_def mem_view_def mem_eval smp_defs lifecycleClock_def mem_lr_def)

lemma smp_due_run:
  assumes "\<not> terminal ph"
  shows "\<exists>res w'. reconcileLifecycle mem_lr smp_key (smp_due_mem ph t) = (Inr res, w')"
  using assms
  by (simp add: lifecycle_eval smp_due_mem_def smp_due_def mem_eval smp_defs mem_lr_def Let_def)

lemma smp_due_instance_run:
  assumes "\<not> terminal ph"
  shows "\<exists>w'. reconcileInstance mem_ir smp_key (smp_due_mem ph t) = (Inr (requeue_in (seconds 15)), w')"
  using assms
  by (simp add: instance_eval smp_due_mem_def smp_due_def mem_eval smp_defs Let_def)

end
