(* ===== verification/Lifecycle_Props.thy ===== *)
theory Lifecycle_Props
  imports Phase_Contract
begin

text \<open>The properties of the lifecycle controller.\<close>

text \<open>What a write of phase, reason and event leaves: one instance and the log of events.\<close>

definition phaseWritten ::
  "'w backend option \<Rightarrow> challenge_instance \<Rightarrow> instance_phase \<Rightarrow> string \<Rightarrow> event_type \<Rightarrow> cluster \<Rightarrow> cluster \<Rightarrow> bool" where
  "phaseWritten b inst phase reason evt c c' \<longleftrightarrow>
     (\<exists>stored. same_spec stored inst \<and>
       ci_status stored = wire_instance_status ((ci_status inst)\<lparr>st_phase := phase, st_reason := reason\<rparr>) \<and>
       c' = c\<lparr>cl_instances := (cl_instances c)(nsname_of (ci_meta inst) \<mapsto> stored),
         cl_sent := cl_sent c @ (if b = None then [] else [instanceEvent evt stored reason])\<rparr>)"

context lifecycle_controller
begin

lemma notifyAndSetPhase_written:
  assumes "notifyAndSetPhase r inst phase reason evt after w = (Inr res, w')"
    and "cl_instances (view w) (nsname_of (ci_meta inst)) = Some inst"
  shows "res = requeue_in after \<and> phaseWritten (lr_backend r) inst phase reason evt (view w) (view w')"
  using notifyAndSetPhase_done [OF assms(1)] assms(2) by (auto simp: phaseWritten_def)

lemma lifecycleStep_written:
  assumes run: "lifecycleStep r inst d w = (Inr res, w')"
    and inst: "cl_instances (view w) (nsname_of (ci_meta inst)) = Some inst"
  shows "if d \<le> 0
     then res = requeue_in (seconds 60) \<and>
       phaseWritten (lr_backend r) inst InstancePhaseExpired ''TTL expired'' EventExpired (view w) (view w')
     else if d \<le> seconds 60 \<and> instance_phase_of inst \<noteq> InstancePhaseExpiring
     then res = requeue_in d \<and>
       phaseWritten (lr_backend r) inst InstancePhaseExpiring ''entering expiry grace window'' EventExpiring (view w) (view w')
     else res = requeue_in (wrap_int64 (d - seconds 60)) \<and> view w' = view w"
  using run notifyAndSetPhase_written [OF _ inst]
  by (auto simp: lifecycleStep_def expiringGraceWindow_def split: if_splits)

end

context lifecycle_controller
begin

lemma lifecycleStep_expired:
  assumes step: "lifecycleStep r i d w = (res, w')"
    and inst: "cl_instances (view w) (nsname_of (ci_meta i)) = Some i"
    and after: "cl_instances (view w') (nsname_of (ci_meta i)) = Some j" "instance_phase_of j = InstancePhaseExpired"
    and moved: "view w' \<noteq> view w"
  shows "d \<le> 0"
proof (cases res)
  case (Inl e)
  with step notifyAndSetPhase_failed moved show ?thesis
    by (auto simp: lifecycleStep_def split: if_splits)
next
  case (Inr x)
  with lifecycleStep_written [OF step [unfolded Inr] inst] after moved show ?thesis
    by (auto simp: phaseWritten_def split: if_splits)
qed

end

text \<open>
  C6: What the lifecycle controller does with a live instance that has an expiry, by the time
  that is left when it reads the clock: none, it becomes Expired and the backend is told; at
  most a minute, it becomes Expiring, the backend is told and the next look is due at the
  expiry; otherwise, or when it is Expiring already, it is left alone.
\<close>

theorem lifecycle_by_time_left:
  assumes ctrl: "lifecycle_controller r view"
    and run: "reconcileLifecycle r k w = (Inr res, w')"
    and inst: "cl_instances (view w) k = Some inst" "\<not> terminal (instance_phase_of inst)"
      "st_expires (ci_status inst) = Some t"
    and left: "left = t - lifecycleClock r k w"
  shows "if left \<le> 0
     then res = requeue_in (seconds 60) \<and>
       phaseWritten (lr_backend r) inst InstancePhaseExpired ''TTL expired'' EventExpired (view w) (view w')
     else if left \<le> seconds 60 \<and> instance_phase_of inst \<noteq> InstancePhaseExpiring
     then res = requeue_in left \<and>
       phaseWritten (lr_backend r) inst InstancePhaseExpiring ''entering expiry grace window'' EventExpiring (view w) (view w')
     else view w' = view w"
proof -
  let ?d = "time_sub t (lifecycleClock r k w)"
  have k: "nsname_of (ci_meta inst) = k"
    using lifecycle_controller.instance_name [OF ctrl inst(1)] .
  from lifecycle_controller.reconcile_step [OF ctrl run inst(1)] inst(2,3) obtain w2 where
    v: "view w2 = view w" and step: "lifecycleStep r inst ?d w2 = (Inr res, w')" by auto
  have pos: "?d \<le> 0 \<longleftrightarrow> left \<le> 0" using time_sub_pos_iff left by (simp add: not_less [symmetric])
  have grace: "?d \<le> seconds 60 \<longleftrightarrow> left \<le> seconds 60"
    using time_sub_le_iff [of "seconds 60"] left by (simp add: min_duration_def max_duration_def)
  have exact: "?d = left" if "0 < left" "left \<le> seconds 60"
    using that left by (intro time_sub_exact [THEN trans]) (simp_all add: min_duration_def max_duration_def)
  from lifecycle_controller.lifecycleStep_written [OF ctrl step] inst(1) k show ?thesis
    unfolding pos grace v by (auto simp: exact split: if_splits)
qed

theorem lifecycle_by_time_left_witness:
  "\<exists>res w'. reconcileLifecycle mem_lr smp_key (smp_due_mem InstancePhaseRunning (10 ^ 18)) = (Inr res, w') \<and>
     phaseWritten (Some mem_backend) (smp_due InstancePhaseRunning (10 ^ 18)) InstancePhaseExpired ''TTL expired''
       EventExpired (mem_view (smp_due_mem InstancePhaseRunning (10 ^ 18))) (mem_view w')"
proof -
  have live: "\<not> terminal (instance_phase_of (smp_due InstancePhaseRunning (10 ^ 18)))" by simp
  from smp_due_run [of InstancePhaseRunning "10 ^ 18"] obtain res w' where
    run: "reconcileLifecycle mem_lr smp_key (smp_due_mem InstancePhaseRunning (10 ^ 18)) = (Inr res, w')" by auto
  have b: "lr_backend mem_lr = Some mem_backend" by (simp add: mem_lr_def)
  from lifecycle_by_time_left [OF mem_lifecycle.lifecycle_controller_axioms,
      OF run smp_due_lookup(1) live smp_due_lookup(4) refl] run
  show ?thesis by (auto simp: b)
qed

text \<open>
  An instance only becomes Expired through a reconcile that read the clock at or after its
  expiry, whatever that reconcile returned.
\<close>

theorem expired_only_after_expiry:
  assumes ctrl: "lifecycle_controller r view"
    and run: "reconcileLifecycle r k w = (res, w')"
    and before: "cl_instances (view w) k = Some i" "instance_phase_of i \<noteq> InstancePhaseExpired"
    and after: "cl_instances (view w') k = Some j" "instance_phase_of j = InstancePhaseExpired"
  shows "\<exists>t. st_expires (ci_status i) = Some t \<and> t \<le> lifecycleClock r k w"
proof -
  have k: "nsname_of (ci_meta i) = k"
    using lifecycle_controller.instance_name [OF ctrl before(1)] .
  have moved: "view w' \<noteq> view w" using before after by auto
  with lifecycle_controller.reconcile_step [OF ctrl run before(1)] obtain t w2 where
    t: "st_expires (ci_status i) = Some t" and v: "view w2 = view w" and
    step: "lifecycleStep r i (time_sub t (lifecycleClock r k w)) w2 = (res, w')"
    by (auto split: option.splits if_splits)
  have "time_sub t (lifecycleClock r k w) \<le> 0"
    using lifecycle_controller.lifecycleStep_expired [OF ctrl step] v before after k moved by auto
  then have "t \<le> lifecycleClock r k w" using time_sub_pos_iff by (simp add: not_less [symmetric])
  with t show ?thesis by blast
qed

theorem expired_only_after_expiry_witness:
  "\<exists>w'. reconcileLifecycle mem_lr smp_key (smp_due_mem InstancePhaseRunning (10 ^ 18)) = (Inr (requeue_in (seconds 60)), w') \<and>
     (\<exists>t. st_expires (ci_status (smp_due InstancePhaseRunning (10 ^ 18))) = Some t \<and>
        t \<le> lifecycleClock mem_lr smp_key (smp_due_mem InstancePhaseRunning (10 ^ 18)))"
proof -
  have "\<exists>w' j. reconcileLifecycle mem_lr smp_key (smp_due_mem InstancePhaseRunning (10 ^ 18)) =
      (Inr (requeue_in (seconds 60)), w') \<and>
      cl_instances (mem_view w') smp_key = Some j \<and> instance_phase_of j = InstancePhaseExpired"
    by (simp add: lifecycle_eval smp_due_mem_def smp_due_def mem_eval smp_defs mem_lr_def mem_view_def time_sub_def Let_def
        min_duration_def max_duration_def)
  then obtain w' j where
    run: "reconcileLifecycle mem_lr smp_key (smp_due_mem InstancePhaseRunning (10 ^ 18)) = (Inr (requeue_in (seconds 60)), w')"
    and j: "cl_instances (mem_view w') smp_key = Some j" "instance_phase_of j = InstancePhaseExpired" by blast
  have "instance_phase_of (smp_due InstancePhaseRunning (10 ^ 18)) \<noteq> InstancePhaseExpired" by simp
  from expired_only_after_expiry [OF mem_lifecycle.lifecycle_controller_axioms,
      OF run smp_due_lookup(1) this j] run show ?thesis by blast
qed

text \<open>
  C30: The delay a successful reconcile asks for is positive, except for an instance that is
  Expiring already and has at most a minute left: there the delay is zero or negative, and
  nothing in this reconcile makes sure the instance is looked at again when it expires.
\<close>

theorem lifecycle_requeue_positive:
  assumes ctrl: "lifecycle_controller r view"
    and run: "reconcileLifecycle r k w = (Inr res, w')"
    and inst: "cl_instances (view w) k = Some inst"
  shows "0 < requeue_after res \<longleftrightarrow>
    \<not> (instance_phase_of inst = InstancePhaseExpiring \<and>
       (\<exists>t. st_expires (ci_status inst) = Some t \<and> lifecycleClock r k w < t \<and>
          t - lifecycleClock r k w \<le> seconds 60))"
proof (cases "st_expires (ci_status inst)")
  case None
  with lifecycle_controller.reconcile_step [OF ctrl run inst] show ?thesis by auto
next
  case (Some t)
  show ?thesis
  proof (cases "terminal (instance_phase_of inst)")
    case True
    then have "instance_phase_of inst \<noteq> InstancePhaseExpiring" by auto
    with True lifecycle_controller.reconcile_step [OF ctrl run inst] Some show ?thesis by auto
  next
    case False
    let ?d = "time_sub t (lifecycleClock r k w)"
    have k: "nsname_of (ci_meta inst) = k"
      using lifecycle_controller.instance_name [OF ctrl inst] .
    from lifecycle_controller.reconcile_step [OF ctrl run inst] Some False obtain w2 where
      v: "view w2 = view w" and step: "lifecycleStep r inst ?d w2 = (Inr res, w')" by auto
    have pos: "0 < ?d \<longleftrightarrow> lifecycleClock r k w < t" by (rule time_sub_pos_iff)
    have grace: "?d \<le> seconds 60 \<longleftrightarrow> t - lifecycleClock r k w \<le> seconds 60"
      using time_sub_le_iff [of "seconds 60"] by (simp add: min_duration_def max_duration_def)
    have "0 < wrap_int64 (?d - seconds 60) \<longleftrightarrow> seconds 60 < ?d" if "0 < ?d"
      using that time_sub_range [of t "lifecycleClock r k w"]
      by (subst wrap_int64_id) (auto simp: min_duration_def max_duration_def)
    with lifecycle_controller.lifecycleStep_written [OF ctrl step] inst k v Some pos grace
    show ?thesis by (auto split: if_splits)
  qed
qed

theorem lifecycle_requeue_positive_witness:
  "\<exists>res w'. reconcileLifecycle mem_lr smp_key (smp_due_mem InstancePhaseExpiring (10 ^ 18 + 1)) = (Inr res, w') \<and>
     requeue_after res \<le> 0"
proof -
  from smp_due_run [of InstancePhaseExpiring "10 ^ 18 + 1"] obtain res w' where
    run: "reconcileLifecycle mem_lr smp_key (smp_due_mem InstancePhaseExpiring (10 ^ 18 + 1)) = (Inr res, w')" by auto
  from lifecycle_requeue_positive [OF mem_lifecycle.lifecycle_controller_axioms, OF run smp_due_lookup(1)] run
  show ?thesis by auto
qed

end
