(* ===== verification/Fence_Ctrl.thy ===== *)
theory Fence_Ctrl
  imports Instance_Lemmas
begin

text \<open>
  \<open>internal/controller/networkfence_controller.go\<close>: the reconciler that turns a NetworkFence
  into a NetworkPolicy, and what such a policy lets through, after the documented meaning of
  NetworkPolicy.
\<close>

section \<open>The reconciler\<close>

record 'w fence_reconciler =
  nr_kube :: "'w kube"

definition buildNetworkPolicy :: "network_fence \<Rightarrow> network_policy" where
  "buildNetworkPolicy fence =
     (let allow = fs_allow (nf_spec fence);
          ingressPorts = map (\<lambda>a. (ar_port a, ProtocolTCP)) (filter (\<lambda>a. 0 < sint (ar_port a)) allow);
          ingressFrom = map ar_cidr (filter (\<lambda>a. ar_cidr a \<noteq> '''') allow);
          ingress = [\<lparr>ig_ports = ingressPorts, ig_from = ingressFrom\<rparr>];
          egressRules = (if fs_allow_egress (nf_spec fence) then [\<lparr>eg_ports = [], eg_to = []\<rparr>] else []);
          policyTypes = PolicyTypeIngress #
            (if 0 < length egressRules \<or> 0 < length (fs_deny (nf_spec fence)) then [PolicyTypeEgress] else [])
      in \<lparr>np_meta = new_meta (''kimo-'' @ fs_instance_ref (nf_spec fence)) (om_namespace (nf_meta fence)) Map.empty,
          np_spec = \<lparr>np_pod_selector = [LabelInstance \<mapsto> fs_instance_ref (nf_spec fence)],
            np_ingress = ingress, np_egress = egressRules, np_types = policyTypes\<rparr>\<rparr>)"

text \<open>Look the policy up; create it, or give the one that is there the new spec.\<close>

definition applyPolicy :: "'w fence_reconciler \<Rightarrow> network_policy \<Rightarrow> 'w \<Rightarrow> go_error option \<times> 'w" where
  "applyPolicy r np w =
     (let K = kb_policies (nr_kube r) in
      case k_get K (nsname_of (np_meta np)) w of
        (Inl e, w1) \<Rightarrow>
          if is_not_found e
          then (case k_create K np w1 of
             (Inl e', w2) \<Rightarrow> (Some (WrapErr ''creating network policy'' e'), w2)
           | (Inr _, w2) \<Rightarrow> (None, w2))
          else (Some e, w1)
      | (Inr existing, w1) \<Rightarrow>
          (case k_update K (existing\<lparr>np_spec := np_spec np\<rparr>) w1 of
             (Inl e', w2) \<Rightarrow> (Some (WrapErr ''updating network policy'' e'), w2)
           | (Inr _, w2) \<Rightarrow> (None, w2)))"

definition reconcileFence ::
  "'w fence_reconciler \<Rightarrow> nsname \<Rightarrow> 'w \<Rightarrow> (go_error + ctrl_result) \<times> 'w" where
  "reconcileFence r req w =
     (case k_get (kb_fences (nr_kube r)) req w of
        (Inl e, w1) \<Rightarrow> (if is_not_found e then Inr no_requeue else Inl e, w1)
      | (Inr fence, w1) \<Rightarrow>
        (let np = buildNetworkPolicy fence in
         case kb_set_ref (nr_kube r) ''NetworkFence'' (nf_meta fence) (np_meta np) of
           Inl e \<Rightarrow> (Inl e, w1)
         | Inr m \<Rightarrow>
           (case applyPolicy r (np\<lparr>np_meta := m\<rparr>) w1 of
              (Some e, w2) \<Rightarrow> (Inl e, w2)
            | (None, w2) \<Rightarrow>
              (case k_status (kb_fences (nr_kube r))
                  (fence\<lparr>nf_status := (nf_status fence)\<lparr>fst_applied := True, fst_message := ''''\<rparr>\<rparr>) w2 of
                 (Inl e, w3) \<Rightarrow> (Inl e, w3)
               | (Inr _, w3) \<Rightarrow> (Inr no_requeue, w3)))))"

section \<open>What a policy lets through\<close>

text \<open>
  The documented meaning of one NetworkPolicy for the Pods it selects: a direction it does not
  name is unrestricted; in a direction it names, traffic passes that some rule admits, and a
  rule with no ports admits every port, one with no peers every address. \<open>in_block\<close> says which
  addresses a CIDR block holds.
\<close>

definition policySelects :: "network_policy \<Rightarrow> obj_meta \<Rightarrow> bool" where
  "policySelects np m \<longleftrightarrow> om_namespace (np_meta np) = om_namespace m \<and> np_pod_selector (np_spec np) \<subseteq>\<^sub>m om_labels m"

definition ingressAdmits :: "(string \<Rightarrow> 'ip \<Rightarrow> bool) \<Rightarrow> policy_spec \<Rightarrow> 'ip \<Rightarrow> int32 \<times> protocol \<Rightarrow> bool" where
  "ingressAdmits in_block s src port \<longleftrightarrow>
     PolicyTypeIngress \<notin> set (np_types s) \<or>
     (\<exists>rule \<in> set (np_ingress s).
        (ig_ports rule = [] \<or> port \<in> set (ig_ports rule)) \<and>
        (ig_from rule = [] \<or> (\<exists>c \<in> set (ig_from rule). in_block c src)))"

definition egressAdmits :: "(string \<Rightarrow> 'ip \<Rightarrow> bool) \<Rightarrow> policy_spec \<Rightarrow> 'ip \<Rightarrow> int32 \<times> protocol \<Rightarrow> bool" where
  "egressAdmits in_block s dst port \<longleftrightarrow>
     PolicyTypeEgress \<notin> set (np_types s) \<or>
     (\<exists>rule \<in> set (np_egress s).
        (eg_ports rule = [] \<or> port \<in> set (eg_ports rule)) \<and>
        (eg_to rule = [] \<or> (\<exists>c \<in> set (eg_to rule). in_block c dst)))"

lemma policy_types:
  "PolicyTypeIngress \<in> set (np_types (np_spec (buildNetworkPolicy f)))"
  "PolicyTypeEgress \<in> set (np_types (np_spec (buildNetworkPolicy f))) \<longleftrightarrow>
     fs_allow_egress (nf_spec f) \<or> fs_deny (nf_spec f) \<noteq> []"
  by (simp_all add: buildNetworkPolicy_def Let_def)

lemma policy_ingress_rule:
  "np_ingress (np_spec (buildNetworkPolicy f)) =
     [\<lparr>ig_ports = map (\<lambda>a. (ar_port a, ProtocolTCP)) (filter (\<lambda>a. 0 < sint (ar_port a)) (fs_allow (nf_spec f))),
       ig_from = map ar_cidr (filter (\<lambda>a. ar_cidr a \<noteq> '''') (fs_allow (nf_spec f)))\<rparr>]"
  by (simp add: buildNetworkPolicy_def Let_def)

lemma policy_egress_rules:
  "np_egress (np_spec (buildNetworkPolicy f)) =
     (if fs_allow_egress (nf_spec f) then [\<lparr>eg_ports = [], eg_to = []\<rparr>] else [])"
  by (simp add: buildNetworkPolicy_def Let_def)

lemma policy_egress_iff:
  "egressAdmits in_block (np_spec (buildNetworkPolicy f)) dst port \<longleftrightarrow>
     fs_allow_egress (nf_spec f) \<or> fs_deny (nf_spec f) = []"
  by (auto simp: egressAdmits_def policy_types policy_egress_rules)

lemma policy_ingress_iff:
  "ingressAdmits in_block (np_spec (buildNetworkPolicy f)) src (n, ProtocolTCP) \<longleftrightarrow>
     (let ports = {ar_port a |a. a \<in> set (fs_allow (nf_spec f)) \<and> 0 < sint (ar_port a)};
          blocks = {ar_cidr a |a. a \<in> set (fs_allow (nf_spec f)) \<and> ar_cidr a \<noteq> ''''}
      in (ports = {} \<or> n \<in> ports) \<and> (blocks = {} \<or> (\<exists>c. c \<in> blocks \<and> in_block c src)))"
  unfolding ingressAdmits_def policy_ingress_rule Let_def
  by (auto simp: policy_types filter_empty_conv)

lemma built_fence_spec:
  "fs_allow (nf_spec (buildNetworkFence i t)) =
     map (\<lambda>p. \<lparr>ar_cidr = '''', ar_port = cp_port p\<rparr>) (filter cp_expose (cs_ports (ts_container (ct_spec t))))"
  "fs_deny (nf_spec (buildNetworkFence i t)) = [\<lparr>dr_to = ''kimo-system''\<rparr>]"
  "fs_allow_egress (nf_spec (buildNetworkFence i t)) = False"
  "fs_instance_ref (nf_spec (buildNetworkFence i t)) = om_name (ci_meta i)"
  "om_namespace (nf_meta (buildNetworkFence i t)) = om_namespace (ci_meta i)"
  by (simp_all add: buildNetworkFence_def Let_def)

section \<open>What it does to the cluster\<close>

definition fence_done :: "network_fence \<Rightarrow> network_fence \<Rightarrow> bool" where
  "fence_done old new \<longleftrightarrow> user_meta (nf_meta new) = user_meta (nf_meta old) \<and> nf_spec new = nf_spec old \<and>
     fst_applied (nf_status new) \<and> fst_message (nf_status new) = ''''"

locale fence_controller = cluster_api "nr_kube r" view
  for r :: "'w fence_reconciler" and view :: "'w \<Rightarrow> cluster"
begin

lemma applyPolicy_cases:
  assumes "applyPolicy r np w = (eo, w')"
  shows "view w' = view w \<and> eo \<noteq> None \<or>
    (eo = None \<and> (\<exists>y. np_spec y = np_spec np \<and>
       (case cl_policies (view w) (nsname_of (np_meta np)) of
          None \<Rightarrow> user_meta (np_meta y) = user_meta (np_meta np)
        | Some z \<Rightarrow> user_meta (np_meta y) = user_meta (np_meta z)) \<and>
       view w' = (view w)\<lparr>cl_policies := (cl_policies (view w))(nsname_of (np_meta np) \<mapsto> y)\<rparr>))"
proof (cases "k_get (kb_policies (nr_kube r)) (nsname_of (np_meta np)) w" rule: result_cases)
  case (Err e w1)
  note v1 = policies.get_view [OF Err]
  show ?thesis
  proof (cases "is_not_found e")
    case False
    with assms Err v1 show ?thesis by (auto simp: applyPolicy_def Let_def)
  next
    case nf: True
    from policies.get_missing [OF Err nf] have none: "cl_policies (view w) (nsname_of (np_meta np)) = None" .
    show ?thesis
    proof (cases "k_create (kb_policies (nr_kube r)) np w1" rule: result_cases)
      case err: (Err e' w2)
      with assms Err nf v1 policies.create_failed [OF err] show ?thesis
        by (auto simp: applyPolicy_def Let_def)
    next
      case ok: (Ok y w2)
      with assms Err nf v1 none policies.create_done [OF ok] show ?thesis
        by (auto simp: applyPolicy_def Let_def)
    qed
  qed
next
  case (Ok z w1)
  note v1 = policies.get_view [OF Ok]
  from policies.get_found [OF Ok] have z: "cl_policies (view w) (nsname_of (np_meta np)) = Some z" .
  have zk: "nsname_of (np_meta z) = nsname_of (np_meta np)" using policies.stored_name [OF z] .
  show ?thesis
  proof (cases "k_update (kb_policies (nr_kube r)) (z\<lparr>np_spec := np_spec np\<rparr>) w1" rule: result_cases)
    case err: (Err e' w2)
    with assms Ok v1 policies.update_failed [OF err] show ?thesis
      by (auto simp: applyPolicy_def Let_def)
  next
    case ok: (Ok y w2)
    with assms Ok v1 z zk policies.update_done [OF ok] show ?thesis
      by (auto simp: applyPolicy_def Let_def)
  qed
qed

text \<open>A reconcile that reports no error on a fence that exists.\<close>

lemma reconcile_done:
  assumes run: "reconcileFence r k w = (Inr res, w')"
    and fence: "cl_fences (view w) k = Some f"
  shows "res = no_requeue \<and>
    (\<exists>y g. np_spec y = np_spec (buildNetworkPolicy f) \<and>
       (cl_policies (view w) (nsname_of (np_meta (buildNetworkPolicy f))) = None \<longrightarrow>
          om_owner (np_meta y) = Some (''NetworkFence'', om_name (nf_meta f))) \<and>
       fence_done f g \<and>
       view w' = (view w)\<lparr>cl_policies := (cl_policies (view w))(nsname_of (np_meta (buildNetworkPolicy f)) \<mapsto> y),
         cl_fences := (cl_fences (view w))(k \<mapsto> g)\<rparr>)"
proof -
  have k: "nsname_of (nf_meta f) = k" using fences.stored_name [OF fence] .
  obtain w1 where get: "k_get (kb_fences (nr_kube r)) k w = (Inr f, w1)"
  proof (cases "k_get (kb_fences (nr_kube r)) k w" rule: result_cases)
    case (Err e w1)
    with run have "is_not_found e" by (simp add: reconcileFence_def split: if_splits)
    with fences.get_missing [OF Err] fence show ?thesis by simp
  next
    case (Ok x w1)
    with fences.get_found [OF Ok] fence that show ?thesis by simp
  qed
  note v1 = fences.get_view [OF get]
  let ?np = "buildNetworkPolicy f"
  from run get obtain m w2 g where
    ref: "kb_set_ref (nr_kube r) ''NetworkFence'' (nf_meta f) (np_meta ?np) = Inr m" and
    app: "applyPolicy r (?np\<lparr>np_meta := m\<rparr>) w1 = (None, w2)" and
    stat: "k_status (kb_fences (nr_kube r))
       (f\<lparr>nf_status := (nf_status f)\<lparr>fst_applied := True, fst_message := ''''\<rparr>\<rparr>) w2 = (Inr g, w')" and
    res: "res = no_requeue"
    by (auto simp: reconcileFence_def Let_def split: sum.splits prod.splits option.splits)
  have m: "nsname_of m = nsname_of (np_meta ?np)" "om_owner m = Some (''NetworkFence'', om_name (nf_meta f))"
    using set_ref_done [OF ref] by (simp_all add: nsname_of_def)
  from applyPolicy_cases [OF app] obtain y where
    y: "np_spec y = np_spec ?np"
    "cl_policies (view w1) (nsname_of m) = None \<Longrightarrow> user_meta (np_meta y) = user_meta m" and
    v2: "view w2 = (view w1)\<lparr>cl_policies := (cl_policies (view w1))(nsname_of m \<mapsto> y)\<rparr>"
    by (auto split: option.splits)
  have owner: "om_owner (np_meta y) = Some (''NetworkFence'', om_name (nf_meta f))"
    if "cl_policies (view w) (nsname_of (np_meta ?np)) = None"
    using user_meta_eqD(4) [OF y(2)] that v1 m by simp
  from fences.status_done [OF stat] k fence v1 v2 have
    "fence_done f g" "view w' = (view w2)\<lparr>cl_fences := (cl_fences (view w2))(k \<mapsto> g)\<rparr>"
    by (auto simp: fence_done_def)
  with res y(1) owner v1 v2 m(1) show ?thesis
    by (intro conjI exI [of _ y] exI [of _ g]) auto
qed

text \<open>Whatever it returns, only the fence's own policy and the fence's status change.\<close>

lemma reconcile_effect:
  assumes run: "reconcileFence r k w = (res, w')"
  shows "\<exists>pols fens. view w' = (view w)\<lparr>cl_policies := pols, cl_fences := fens\<rparr> \<and>
    (\<forall>k'. k' \<noteq> k \<longrightarrow> fens k' = cl_fences (view w) k') \<and>
    (\<forall>k'. (\<forall>f. cl_fences (view w) k = Some f \<longrightarrow> k' \<noteq> nsname_of (np_meta (buildNetworkPolicy f))) \<longrightarrow>
       pols k' = cl_policies (view w) k')"
proof (cases "k_get (kb_fences (nr_kube r)) k w" rule: result_cases)
  case (Err e w1)
  with run fences.get_view [OF Err] show ?thesis
    by (intro exI [of _ "cl_policies (view w)"] exI [of _ "cl_fences (view w)"]) (simp add: reconcileFence_def)
next
  case (Ok f w1)
  note v1 = fences.get_view [OF Ok] and f = fences.get_found [OF Ok]
  let ?np = "buildNetworkPolicy f"
  have k: "nsname_of (nf_meta f) = k" using fences.stored_name [OF f] .
  show ?thesis
  proof (cases "kb_set_ref (nr_kube r) ''NetworkFence'' (nf_meta f) (np_meta ?np)")
    case (Inl e)
    with run Ok v1 show ?thesis
      by (intro exI [of _ "cl_policies (view w)"] exI [of _ "cl_fences (view w)"])
        (simp add: reconcileFence_def Let_def)
  next
    case ref: (Inr m)
    have m: "nsname_of m = nsname_of (np_meta ?np)"
      using set_ref_done [OF ref] by (simp add: nsname_of_def)
    obtain eo w2 where app: "applyPolicy r (?np\<lparr>np_meta := m\<rparr>) w1 = (eo, w2)"
      by (cases "applyPolicy r (?np\<lparr>np_meta := m\<rparr>) w1")
    from applyPolicy_cases [OF app] m v1 obtain pols where
      v2: "view w2 = (view w)\<lparr>cl_policies := pols\<rparr>" and
      pols: "\<forall>k'. k' \<noteq> nsname_of (np_meta ?np) \<longrightarrow> pols k' = cl_policies (view w) k'"
      by (elim disjE conjE exE) (auto intro: that [of "cl_policies (view w)"])
    have "\<exists>fens. view w' = (view w2)\<lparr>cl_fences := fens\<rparr> \<and> (\<forall>k'. k' \<noteq> k \<longrightarrow> fens k' = cl_fences (view w2) k')"
    proof (cases eo)
      case (Some e)
      with run Ok ref app show ?thesis
        by (intro exI [of _ "cl_fences (view w2)"]) (simp add: reconcileFence_def Let_def)
    next
      case None
      show ?thesis
      proof (cases "k_status (kb_fences (nr_kube r))
          (f\<lparr>nf_status := (nf_status f)\<lparr>fst_applied := True, fst_message := ''''\<rparr>\<rparr>) w2" rule: result_cases)
        case (Err e w3)
        with run Ok ref app None fences.status_failed [OF Err] show ?thesis
          by (intro exI [of _ "cl_fences (view w2)"]) (simp add: reconcileFence_def Let_def)
      next
        case ok: (Ok g w3)
        with run Ok ref app None fences.status_done [OF ok] k show ?thesis
          by (intro exI [of _ "(cl_fences (view w2))(k \<mapsto> g)"]) (simp add: reconcileFence_def Let_def)
      qed
    qed
    with v2 pols f show ?thesis by auto
  qed
qed

end

end
