(* ===== verification/Fence_Props.thy ===== *)
theory Fence_Props
  imports Fence_Ctrl Samples
begin

text \<open>The properties of the network fences: the reconciler, and what the fence of an instance lets through.\<close>

definition mem_nr :: "mem fence_reconciler" where
  "mem_nr = \<lparr>nr_kube = mem_kube\<rparr>"

interpretation mem_fences: fence_controller mem_nr mem_view
  unfolding fence_controller_def mem_nr_def
  using mem_api.cluster_api_axioms by simp

definition smp_fence :: network_fence where
  "smp_fence = buildNetworkFence smp_instance smp_template"

definition smp_fenced :: mem where
  "smp_fenced = (smp_mem [] [] [])\<lparr>mm_fences := [smp_fence],
     mm_policies := [(buildNetworkPolicy smp_fence)\<lparr>np_spec :=
       \<lparr>np_pod_selector = Map.empty, np_ingress = [], np_egress = [], np_types = []\<rparr>\<rparr>]\<rparr>"

lemma smp_fenced_lookup: "cl_fences (mem_view smp_fenced) smp_key = Some smp_fence"
  by (simp add: smp_fenced_def mem_view_def mem_eval smp_defs smp_fence_def buildNetworkFence_def)

lemma smp_fenced_run: "\<exists>w'. reconcileFence mem_nr smp_key smp_fenced = (Inr no_requeue, w')"
  by (simp add: smp_fenced_def mem_nr_def reconcileFence_def applyPolicy_def mem_eval smp_defs smp_fence_def
      buildNetworkFence_def buildNetworkPolicy_def Let_def)

text \<open>
  C18: A reconcile of a NetworkFence that reports no error leaves exactly one policy of its name,
  with the spec the fence determines whether the policy was missing or had drifted, owned by the
  fence when it had to be created, and the fence marked as applied; nothing else changes.
\<close>

theorem fence_reconcile_converges:
  assumes ctrl: "fence_controller r view"
    and run: "reconcileFence r k w = (Inr res, w')"
    and fence: "cl_fences (view w) k = Some f"
  shows "res = no_requeue \<and>
    (\<exists>y g. np_spec y = np_spec (buildNetworkPolicy f) \<and>
       (cl_policies (view w) (nsname_of (np_meta (buildNetworkPolicy f))) = None \<longrightarrow>
          om_owner (np_meta y) = Some (''NetworkFence'', om_name (nf_meta f))) \<and>
       fence_done f g \<and>
       view w' = (view w)\<lparr>cl_policies := (cl_policies (view w))(nsname_of (np_meta (buildNetworkPolicy f)) \<mapsto> y),
         cl_fences := (cl_fences (view w))(k \<mapsto> g)\<rparr>)"
  by (rule fence_controller.reconcile_done [OF assms])

theorem fence_reconcile_converges_witness:
  "\<exists>w' y. reconcileFence mem_nr smp_key smp_fenced = (Inr no_requeue, w') \<and>
     cl_policies (mem_view w') (''ctf'', ''kimo-web-red'') = Some y \<and>
     np_spec y = np_spec (buildNetworkPolicy smp_fence)"
proof -
  from smp_fenced_run obtain w' where
    run: "reconcileFence mem_nr smp_key smp_fenced = (Inr no_requeue, w')" by blast
  have "nsname_of (np_meta (buildNetworkPolicy smp_fence)) = (''ctf'', ''kimo-web-red'')"
    by (simp add: smp_fence_def buildNetworkFence_def buildNetworkPolicy_def smp_defs Let_def)
  with fence_reconcile_converges [OF mem_fences.fence_controller_axioms, OF run smp_fenced_lookup] run
  show ?thesis by auto
qed

section \<open>What a fence lets through\<close>

text \<open>
  C7: What the policy of any fence lets through. Egress is all or nothing: everything when
  egress is allowed or there is no deny rule, else nothing; what the deny rules name is never
  looked at. Ingress on TCP needs a port that some rule lists and an address some rule lists,
  not necessarily the same rule, and a fence without ports (without address blocks) admits
  every port (every address). The allow rules open ingress only and have no part in egress, although
  the comment on \<open>AllowRule\<close> and the description in the CRD say that they permit egress.
\<close>

theorem fence_policy_admits:
  "(egressAdmits in_block (np_spec (buildNetworkPolicy f)) dst port \<longleftrightarrow>
      fs_allow_egress (nf_spec f) \<or> fs_deny (nf_spec f) = []) \<and>
   (ingressAdmits in_block (np_spec (buildNetworkPolicy f)) src (n, ProtocolTCP) \<longleftrightarrow>
      (let ports = {ar_port a |a. a \<in> set (fs_allow (nf_spec f)) \<and> 0 < sint (ar_port a)};
           blocks = {ar_cidr a |a. a \<in> set (fs_allow (nf_spec f)) \<and> ar_cidr a \<noteq> ''''}
       in (ports = {} \<or> n \<in> ports) \<and> (blocks = {} \<or> (\<exists>c. c \<in> blocks \<and> in_block c src))))"
  by (simp add: policy_egress_iff policy_ingress_iff)

text \<open>The port numbers a template exposes, those a policy can list.\<close>

definition exposedPorts :: "challenge_template \<Rightarrow> int32 set" where
  "exposedPorts tmpl = {cp_port p |p. p \<in> set (cs_ports (ts_container (ct_spec tmpl))) \<and> cp_expose p \<and> 0 < sint (cp_port p)}"

lemma built_fence_ports:
  "{ar_port a |a. a \<in> set (fs_allow (nf_spec (buildNetworkFence i t))) \<and> 0 < sint (ar_port a)} = exposedPorts t"
  "{ar_cidr a |a. a \<in> set (fs_allow (nf_spec (buildNetworkFence i t))) \<and> ar_cidr a \<noteq> ''''} = {}"
  by (force simp: built_fence_spec exposedPorts_def)+

text \<open>
  C28: The fence built for an instance, once it is a policy, selects exactly the Pods of the
  instance's namespace that carry its label. No traffic leaves them, to \<open>kimo-system\<close> or
  anywhere else. A TCP port is reachable, from any address, exactly when the template exposes
  it; but a template that exposes no port (with a positive number) leaves every port open.
\<close>

theorem instance_fence_admits:
  "(policySelects (buildNetworkPolicy (buildNetworkFence inst tmpl)) m \<longleftrightarrow>
      om_namespace m = om_namespace (ci_meta inst) \<and> om_labels m LabelInstance = Some (om_name (ci_meta inst))) \<and>
   \<not> egressAdmits in_block (np_spec (buildNetworkPolicy (buildNetworkFence inst tmpl))) dst port \<and>
   (ingressAdmits in_block (np_spec (buildNetworkPolicy (buildNetworkFence inst tmpl))) src (n, ProtocolTCP) \<longleftrightarrow>
      n \<in> exposedPorts tmpl \<or> exposedPorts tmpl = {})"
proof (intro conjI)
  show "policySelects (buildNetworkPolicy (buildNetworkFence inst tmpl)) m \<longleftrightarrow>
      om_namespace m = om_namespace (ci_meta inst) \<and> om_labels m LabelInstance = Some (om_name (ci_meta inst))"
    by (auto simp: policySelects_def buildNetworkPolicy_def built_fence_spec Let_def)
  show "\<not> egressAdmits in_block (np_spec (buildNetworkPolicy (buildNetworkFence inst tmpl))) dst port"
    by (simp add: policy_egress_iff built_fence_spec)
  show "ingressAdmits in_block (np_spec (buildNetworkPolicy (buildNetworkFence inst tmpl))) src (n, ProtocolTCP) \<longleftrightarrow>
      n \<in> exposedPorts tmpl \<or> exposedPorts tmpl = {}"
    by (auto simp: policy_ingress_iff built_fence_ports Let_def)
qed

section \<open>The wiring of an instance\<close>

lemma deployment_pods_labelled:
  "dp_pod_labels (buildDeployment inst tmpl) \<subseteq>\<^sub>m l \<Longrightarrow> l LabelInstance = Some (om_name (ci_meta inst))"
  by (auto simp: buildDeployment_def Let_def map_le_def dom_def)

text \<open>A Pod as Kubernetes makes it from the sample Deployment.\<close>

definition smp_made_pod :: pod where
  "smp_made_pod = (smp_pod PodRunning ConditionTrue)\<lparr>pd_meta := new_meta ''web-red-5d4f8-x7k'' ''ctf''
     ((dp_pod_labels (buildDeployment smp_instance smp_template))(''pod-template-hash'' \<mapsto> ''5d4f8''))\<rparr>"

lemma smp_made_pod_sel:
  "dp_pod_labels (buildDeployment smp_instance smp_template) \<subseteq>\<^sub>m om_labels (pd_meta smp_made_pod)"
  "om_namespace (pd_meta smp_made_pod) = om_namespace (ci_meta smp_instance)"
  by (auto simp: smp_made_pod_def buildDeployment_def Let_def smp_instance_def map_le_def dom_def label_defs)

text \<open>
  C29: The labels that tie an instance's objects together agree. Every Pod made from its
  Deployment (same namespace, the Pod labels of the Deployment and any further ones, such as
  the \<open>pod-template-hash\<close> that Kubernetes adds) is matched by the Deployment's
  own selector, by the Service's, by the policy of the fence and by the list the controller
  reads the Pod from, and a change of that Pod reconciles this instance and no other. The ports
  of the Service are those of the fence, in the same order; there is no Service exactly when
  the template exposes no port.
\<close>

theorem instance_wiring:
  assumes pod: "dp_pod_labels (buildDeployment inst tmpl) \<subseteq>\<^sub>m om_labels (pd_meta p)"
      "om_namespace (pd_meta p) = om_namespace (ci_meta inst)"
    and present: "cl_pods c (nsname_of (pd_meta p)) = Some p"
  shows "dp_selector (buildDeployment inst tmpl) \<subseteq>\<^sub>m om_labels (pd_meta p) \<and>
    policySelects (buildNetworkPolicy (buildNetworkFence inst tmpl)) (pd_meta p) \<and>
    p \<in> instancePods c (ci_meta inst) \<and>
    mapPodToInstance p = [nsname_of (ci_meta inst)] \<and>
    (case buildService inst tmpl of
       None \<Rightarrow> fs_allow (nf_spec (buildNetworkFence inst tmpl)) = []
     | Some svc \<Rightarrow> sv_selector svc \<subseteq>\<^sub>m om_labels (pd_meta p) \<and>
         map sp_target (sv_ports svc) = map ar_port (fs_allow (nf_spec (buildNetworkFence inst tmpl))))"
proof -
  have l: "om_labels (pd_meta p) LabelInstance = Some (om_name (ci_meta inst))"
    using pod(1) by (rule deployment_pods_labelled)
  have "dp_selector (buildDeployment inst tmpl) \<subseteq>\<^sub>m om_labels (pd_meta p)"
    using pod(1) by (simp add: buildDeployment_def Let_def)
  moreover have "policySelects (buildNetworkPolicy (buildNetworkFence inst tmpl)) (pd_meta p)"
    using l pod(2) by (simp add: policySelects_def buildNetworkPolicy_def built_fence_spec Let_def)
  moreover have "p \<in> instancePods c (ci_meta inst)" "mapPodToInstance p = [nsname_of (ci_meta inst)]"
    using l pod(2) present by (simp_all add: instancePods_def mapPodToInstance_def nsname_of_def)
  moreover have "case buildService inst tmpl of
       None \<Rightarrow> fs_allow (nf_spec (buildNetworkFence inst tmpl)) = []
     | Some svc \<Rightarrow> sv_selector svc \<subseteq>\<^sub>m om_labels (pd_meta p) \<and>
         map sp_target (sv_ports svc) = map ar_port (fs_allow (nf_spec (buildNetworkFence inst tmpl)))"
    using l by (auto simp: buildService_def built_fence_spec map_le_def Let_def split: option.splits)
  ultimately show ?thesis by blast
qed

theorem instance_wiring_witness:
  "mapPodToInstance smp_made_pod = [smp_key] \<and> smp_made_pod \<in> instancePods (mem_view (smp_mem [] [] [smp_made_pod])) (ci_meta smp_instance)"
proof -
  have "cl_pods (mem_view (smp_mem [] [] [smp_made_pod])) (nsname_of (pd_meta smp_made_pod)) = Some smp_made_pod"
    by (simp add: smp_mem_def mem_view_def mem_find_def mem_empty_def)
  from instance_wiring [OF smp_made_pod_sel this] show ?thesis
    by (simp add: smp_instance_def)
qed

end
