(* ===== verification/Go_RFC3339.thy ===== *)
theory Go_RFC3339
  imports Go_Time
begin

text \<open>
  \<open>time.Parse(time.RFC3339, value)\<close>: the package's general parser run on the layout
  \<open>2006-01-02T15:04:05Z07:00\<close>, field by field, with its error texts. (The package first tries
  a shortcut that, when it succeeds, gives the same instant.) The parser is laxer than RFC 3339:
  it takes one-digit hours, a comma before the fraction and offsets up to 24:60.
\<close>

section \<open>The calendar\<close>

definition is_leap :: "nat \<Rightarrow> bool" where
  "is_leap y \<longleftrightarrow> y mod 4 = 0 \<and> (y mod 100 \<noteq> 0 \<or> y mod 400 = 0)"

definition days_in :: "nat \<Rightarrow> nat \<Rightarrow> nat" where
  "days_in m y =
     (if m = 2 then if is_leap y then 29 else 28
      else if m \<in> {4, 6, 9, 11} then 30 else 31)"

text \<open>Days from 1 January of year 0 to 1 January of year \<open>y\<close>, and to the first of a month.\<close>

definition days_before_year :: "nat \<Rightarrow> nat" where
  "days_before_year y = 365 * y + (y + 3) div 4 + (y + 399) div 400 - (y + 99) div 100"

definition days_before_month :: "nat \<Rightarrow> nat \<Rightarrow> nat" where
  "days_before_month m y = sum_list (map (\<lambda>k. days_in k y) [1..<m])"

text \<open>\<open>time.Date(..., time.UTC)\<close> as nanoseconds since 1 January 1970, day 719528 of this count.\<close>

definition date_utc :: "nat \<Rightarrow> nat \<Rightarrow> nat \<Rightarrow> nat \<Rightarrow> nat \<Rightarrow> nat \<Rightarrow> nat \<Rightarrow> instant" where
  "date_utc y m d hh mm ss ns =
     (let days = int (days_before_year y + days_before_month m y + (d - 1)) - 719528
      in (days * 86400 + int (hh * 3600 + mm * 60 + ss)) * 10 ^ 9 + int ns)"

section \<open>Fields\<close>

definition starts_digit :: "string \<Rightarrow> bool" where
  "starts_digit s \<longleftrightarrow> s \<noteq> [] \<and> is_digit (hd s)"

text \<open>\<open>getnum\<close>: two digits, or one when \<open>fixed\<close> is false.\<close>

definition get_num :: "bool \<Rightarrow> string \<Rightarrow> (nat \<times> string) option" where
  "get_num fixed s =
     (if \<not> starts_digit s then None
      else if \<not> starts_digit (tl s) then if fixed then None else Some (digit_val (hd s), tl s)
      else Some (digit_val (hd s) * 10 + digit_val (hd (tl s)), tl (tl s)))"

definition digits_val :: "string \<Rightarrow> nat" where
  "digits_val ds = foldl (\<lambda>n c. n * 10 + digit_val c) 0 ds"

definition get_year :: "string \<Rightarrow> (nat \<times> string) option" where
  "get_year s =
     (if length s < 4 \<or> \<not> list_all is_digit (take 4 s) then None
      else Some (digits_val (take 4 s), drop 4 s))"

text \<open>The fraction of a second, read even though the layout has none: nine digits count.\<close>

definition get_fraction :: "string \<Rightarrow> nat \<times> string" where
  "get_fraction s =
     (if 2 \<le> length s \<and> (hd s = CHR ''.'' \<or> hd s = CHR '','') \<and> starts_digit (tl s)
      then let ds = takeWhile is_digit (tl s); k = take 9 ds
           in (digits_val k * 10 ^ (9 - length k), dropWhile is_digit (tl s))
      else (0, s))"

section \<open>Errors\<close>

definition rfc3339_layout :: string where
  "rfc3339_layout = ''2006-01-02T15:04:05Z07:00''"

definition cannot_parse :: "string \<Rightarrow> string \<Rightarrow> string \<Rightarrow> string" where
  "cannot_parse orig elem layout_elem =
     ''parsing time '' @ time_quote orig @ '' as '' @ time_quote rfc3339_layout @ '': cannot parse '' @
     time_quote elem @ '' as '' @ time_quote layout_elem"

definition parse_complaint :: "string \<Rightarrow> string \<Rightarrow> string" where
  "parse_complaint orig msg = ''parsing time '' @ time_quote orig @ msg"

definition out_of_range :: "string \<Rightarrow> string \<Rightarrow> string" where
  "out_of_range orig what = parse_complaint orig ('': '' @ what @ '' out of range'')"

section \<open>The parser\<close>

text \<open>
  One field: the literal text before it (at most one character), the number, its range. The
  value that is left follows.
\<close>

definition rfc_field ::
  "string \<Rightarrow> string \<Rightarrow> string \<Rightarrow> (string \<Rightarrow> (nat \<times> string) option) \<Rightarrow> (nat \<Rightarrow> bool) \<Rightarrow> string \<Rightarrow> string \<Rightarrow>
     string + (nat \<times> string)" where
  "rfc_field orig pre elem num ok what v =
     (if take (length pre) v \<noteq> pre then Inl (cannot_parse orig v pre)
      else let v1 = drop (length pre) v
           in case num v1 of
                None \<Rightarrow> Inl (cannot_parse orig v1 elem)
              | Some (n, v2) \<Rightarrow> if ok n then Inr (n, v2) else Inl (out_of_range orig what))"

text \<open>The offset in seconds, \<open>Z\<close> for none.\<close>

definition rfc_zone :: "string \<Rightarrow> string \<Rightarrow> string + (int \<times> string)" where
  "rfc_zone orig v =
     (if v \<noteq> [] \<and> hd v = CHR ''Z'' then Inr (0, tl v)
      else if length v < 6 \<or> v ! 3 \<noteq> CHR '':'' then Inl (cannot_parse orig v ''Z07:00'')
      else
        let hr = get_num True (take 2 (drop 1 v)); mi = get_num True (take 2 (drop 4 v));
            h = (case hr of Some (n, _) \<Rightarrow> n | None \<Rightarrow> 0);
            m = (if hr = None then 0 else case mi of Some (n, _) \<Rightarrow> n | None \<Rightarrow> 0);
            off = int ((h * 60 + m) * 60)
        in if 60 < m then Inl (out_of_range orig ''time zone offset minute'')
           else if 24 < h then Inl (out_of_range orig ''time zone offset hour'')
           else if hr = None \<or> mi = None \<or> (hd v \<noteq> CHR ''+'' \<and> hd v \<noteq> CHR ''-'')
           then Inl (cannot_parse orig v ''Z07:00'')
           else Inr (if hd v = CHR ''-'' then - off else off, drop 6 v))"

definition rfc_bind :: "string + 'a \<Rightarrow> ('a \<Rightarrow> string + 'b) \<Rightarrow> string + 'b" where
  "rfc_bind r f = (case r of Inl e \<Rightarrow> Inl e | Inr x \<Rightarrow> f x)"

definition parse_rfc3339 :: "string \<Rightarrow> string + instant" where
  "parse_rfc3339 orig =
     rfc_bind (rfc_field orig '''' ''2006'' get_year (\<lambda>_. True) '''' orig) (\<lambda>(y, v1).
     rfc_bind (rfc_field orig ''-'' ''01'' (get_num True) (\<lambda>n. 1 \<le> n \<and> n \<le> 12) ''month'' v1) (\<lambda>(mo, v2).
     rfc_bind (rfc_field orig ''-'' ''02'' (get_num True) (\<lambda>_. True) '''' v2) (\<lambda>(d, v3).
     rfc_bind (rfc_field orig ''T'' ''15'' (get_num False) (\<lambda>n. n < 24) ''hour'' v3) (\<lambda>(hh, v4).
     rfc_bind (rfc_field orig '':'' ''04'' (get_num True) (\<lambda>n. n < 60) ''minute'' v4) (\<lambda>(mi, v5).
     rfc_bind (rfc_field orig '':'' ''05'' (get_num True) (\<lambda>n. n < 60) ''second'' v5) (\<lambda>(ss, v6).
     let (ns, v7) = get_fraction v6 in
     rfc_bind (rfc_zone orig v7) (\<lambda>(off, v8).
       if v8 \<noteq> [] then Inl (parse_complaint orig ('': extra text: '' @ time_quote v8))
       else if d < 1 \<or> days_in mo y < d then Inl (parse_complaint orig '': day out of range'')
       else Inr (date_utc y mo d hh mi ss ns - off * 10 ^ 9))))))))"

lemmas rfc3339_eval = parse_rfc3339_def rfc_bind_def rfc_field_def rfc_zone_def get_year_def get_num_def
  get_fraction_def starts_digit_def is_digit_def digit_val_def digits_val_def byte_of_def
  date_utc_def days_before_year_def days_before_month_def days_in_def is_leap_def

text \<open>An absent time, as an omitted field leaves it, does not parse.\<close>

lemma parse_rfc3339_empty: "parse_rfc3339 '''' = Inl (cannot_parse '''' '''' ''2006'')"
  by (simp add: rfc3339_eval)

end
