(* ===== verification/Set_Ctrl.thy ===== *)
theory Set_Ctrl
  imports Go_RFC3339 Mem_Cluster
begin

text \<open>
  \<open>internal/controller/challengeset_controller.go\<close>: the reconciler that switches a
  ChallengeSet on and off by its schedule, and its properties.
\<close>

section \<open>The reconciler\<close>

record 'w set_reconciler =
  sr_kube :: "'w kube"

definition defaultSetRequeue :: duration where
  "defaultSetRequeue = seconds 30"

definition setSetStatus ::
  "'w set_reconciler \<Rightarrow> challenge_set \<Rightarrow> bool \<Rightarrow> string \<Rightarrow> duration \<Rightarrow> 'w \<Rightarrow> (go_error + ctrl_result) \<times> 'w" where
  "setSetStatus r s active msg after w =
     (case k_status (kb_sets (sr_kube r))
         (s\<lparr>cset_status := (cset_status s)\<lparr>sst_active := active, sst_message := msg\<rparr>\<rparr>) w of
        (Inl e, w1) \<Rightarrow> (Inl e, w1)
      | (Inr _, w1) \<Rightarrow> (Inr (requeue_in after), w1))"

definition reconcileSet ::
  "'w set_reconciler \<Rightarrow> nsname \<Rightarrow> 'w \<Rightarrow> (go_error + ctrl_result) \<times> 'w" where
  "reconcileSet r req w =
     (case k_get (kb_sets (sr_kube r)) req w of
        (Inl e, w1) \<Rightarrow> (if is_not_found e then Inr no_requeue else Inl e, w1)
      | (Inr s, w1) \<Rightarrow>
        (case sets_schedule (cset_spec s) of
           None \<Rightarrow> setSetStatus r s True '''' defaultSetRequeue w1
         | Some sch \<Rightarrow>
           (case parse_rfc3339 (ss_start_at sch) of
              Inl e \<Rightarrow> setSetStatus r s False (''invalid schedule.startAt: '' @ e) defaultSetRequeue w1
            | Inr startAt \<Rightarrow>
              (case parse_rfc3339 (ss_end_at sch) of
                 Inl e \<Rightarrow> setSetStatus r s False (''invalid schedule.endAt: '' @ e) defaultSetRequeue w1
               | Inr endAt \<Rightarrow>
                 (case kb_now (sr_kube r) w1 of
                    (now, w2) \<Rightarrow>
                      if now < startAt
                      then setSetStatus r s False ''waiting for schedule to start'' (time_sub startAt now) w2
                      else if now < endAt then setSetStatus r s True '''' (time_sub endAt now) w2
                      else setSetStatus r s False ''schedule ended'' defaultSetRequeue w2)))))"

section \<open>Its contract\<close>

text \<open>When a set ought to be active: always without a schedule, else from the start to before the end.\<close>

definition activeAt :: "set_spec \<Rightarrow> instant \<Rightarrow> bool" where
  "activeAt spec t \<longleftrightarrow>
     (case sets_schedule spec of
        None \<Rightarrow> True
      | Some sch \<Rightarrow> (case (parse_rfc3339 (ss_start_at sch), parse_rfc3339 (ss_end_at sch)) of
          (Inr s, Inr e) \<Rightarrow> s \<le> t \<and> t < e
        | _ \<Rightarrow> False))"

definition setClock :: "'w set_reconciler \<Rightarrow> nsname \<Rightarrow> 'w \<Rightarrow> instant" where
  "setClock r req w = fst (kb_now (sr_kube r) (snd (k_get (kb_sets (sr_kube r)) req w)))"

text \<open>What a write of the status leaves.\<close>

definition setWritten :: "nsname \<Rightarrow> challenge_set \<Rightarrow> bool \<Rightarrow> string \<Rightarrow> cluster \<Rightarrow> cluster \<Rightarrow> bool" where
  "setWritten k s active msg c c' \<longleftrightarrow>
     (\<exists>stored. user_meta (cset_meta stored) = user_meta (cset_meta s) \<and> cset_spec stored = cset_spec s \<and>
       cset_status stored = \<lparr>sst_active = active, sst_message = msg\<rparr> \<and>
       c' = c\<lparr>cl_sets := (cl_sets c)(k \<mapsto> stored)\<rparr>)"

locale set_controller = cluster_api "sr_kube r" view
  for r :: "'w set_reconciler" and view :: "'w \<Rightarrow> cluster"
begin

lemma setSetStatus_done:
  assumes "setSetStatus r s active msg after w = (Inr res, w')"
    and "cl_sets (view w) (nsname_of (cset_meta s)) = Some s"
  shows "res = requeue_in after \<and> setWritten (nsname_of (cset_meta s)) s active msg (view w) (view w')"
proof -
  from assms(1) obtain y where
    st: "k_status (kb_sets (sr_kube r))
       (s\<lparr>cset_status := (cset_status s)\<lparr>sst_active := active, sst_message := msg\<rparr>\<rparr>) w = (Inr y, w')"
    and res: "res = requeue_in after"
    by (auto simp: setSetStatus_def split: sum.splits prod.splits)
  from res sets.status_done [OF st] assms(2) show ?thesis
    by (auto simp: setWritten_def)
qed

lemma setSetStatus_failed:
  "setSetStatus r s active msg after w = (Inl e, w') \<Longrightarrow> view w' = view w"
  using sets.status_failed by (auto simp: setSetStatus_def split: sum.splits prod.splits)

lemma set_name: "cl_sets (view w) k = Some s \<Longrightarrow> nsname_of (cset_meta s) = k"
  by (rule sets.stored_name)

text \<open>A successful reconcile of a set that exists, as one write of the status.\<close>

lemma reconcile_write:
  assumes run: "reconcileSet r k w = (Inr res, w')"
    and s: "cl_sets (view w) k = Some s"
  shows "\<exists>msg w2. view w2 = view w \<and>
    (case sets_schedule (cset_spec s) of
       None \<Rightarrow> setSetStatus r s True '''' defaultSetRequeue w2 = (Inr res, w')
     | Some sch \<Rightarrow>
       (case (parse_rfc3339 (ss_start_at sch), parse_rfc3339 (ss_end_at sch)) of
          (Inr startAt, Inr endAt) \<Rightarrow>
            (let now = setClock r k w in
             if now < startAt then setSetStatus r s False msg (time_sub startAt now) w2 = (Inr res, w')
             else if now < endAt then setSetStatus r s True '''' (time_sub endAt now) w2 = (Inr res, w')
             else setSetStatus r s False msg defaultSetRequeue w2 = (Inr res, w'))
        | _ \<Rightarrow> setSetStatus r s False msg defaultSetRequeue w2 = (Inr res, w')))"
proof (cases "k_get (kb_sets (sr_kube r)) k w" rule: result_cases)
  case (Err e w1)
  with run have "is_not_found e" by (simp add: reconcileSet_def split: if_splits)
  with sets.get_missing [OF Err] s show ?thesis by simp
next
  case (Ok x w1)
  with sets.get_found [OF Ok] s have x: "x = s" by simp
  note v1 = sets.get_view [OF Ok]
  obtain now w2 where n: "kb_now (sr_kube r) w1 = (now, w2)" by (cases "kb_now (sr_kube r) w1")
  then have v2: "view w2 = view w" and clk: "setClock r k w = now"
    using now_view v1 Ok by (auto simp: setClock_def)
  show ?thesis
  proof (cases "sets_schedule (cset_spec s)")
    case None
    with run Ok x v1 show ?thesis by (intro exI [of _ w1] exI) (simp add: reconcileSet_def)
  next
    case (Some sch)
    have bad: ?thesis
      if "\<exists>u v. parse_rfc3339 (ss_start_at sch) = Inl u \<or> parse_rfc3339 (ss_end_at sch) = Inl v"
        "setSetStatus r s False msg defaultSetRequeue w1 = (Inr res, w')" for msg
      using that v1 Some by (intro exI [of _ msg] exI [of _ w1]) (auto split: sum.split)
    show ?thesis
    proof (cases "\<exists>u v. parse_rfc3339 (ss_start_at sch) = Inl u \<or> parse_rfc3339 (ss_end_at sch) = Inl v")
      case True
      moreover from True run Ok x Some obtain msg where
        "setSetStatus r s False msg defaultSetRequeue w1 = (Inr res, w')"
        by (auto simp: reconcileSet_def split: sum.splits)
      ultimately show ?thesis by (rule bad)
    next
      case False
      then obtain a e where ae: "parse_rfc3339 (ss_start_at sch) = Inr a" "parse_rfc3339 (ss_end_at sch) = Inr e"
        by (metis sum.exhaust)
      show ?thesis
        using run Ok x Some ae n clk v2
        by (intro exI [of _ "if now < a then ''waiting for schedule to start'' else ''schedule ended''"] exI [of _ w2])
          (simp add: reconcileSet_def split: if_splits)
    qed
  qed
qed

end

definition mem_sr :: "mem set_reconciler" where
  "mem_sr = \<lparr>sr_kube = mem_kube\<rparr>"

interpretation mem_sets: set_controller mem_sr mem_view
  unfolding set_controller_def mem_sr_def
  using mem_api.cluster_api_axioms by simp

section \<open>Its properties\<close>

text \<open>The two verdicts of the contract, by the outcome of parsing.\<close>

lemma activeAt_scheduled:
  assumes "sets_schedule spec = Some sch" "parse_rfc3339 (ss_start_at sch) = Inr s" "parse_rfc3339 (ss_end_at sch) = Inr e"
  shows "activeAt spec t \<longleftrightarrow> s \<le> t \<and> t < e"
  using assms by (simp add: activeAt_def)

lemma activeAt_unparsed:
  assumes "sets_schedule spec = Some sch"
    "(\<exists>x. parse_rfc3339 (ss_start_at sch) = Inl x) \<or> (\<exists>x. parse_rfc3339 (ss_end_at sch) = Inl x)"
  shows "\<not> activeAt spec t"
  using assms by (auto simp: activeAt_def split: sum.splits)

text \<open>
  \<open>rightUntil spec now a d\<close>: \<open>a\<close> is the right answer at \<open>now\<close> and stays so for the positive
  delay \<open>d\<close>.
\<close>

definition rightUntil :: "set_spec \<Rightarrow> instant \<Rightarrow> bool \<Rightarrow> duration \<Rightarrow> bool" where
  "rightUntil spec now a d \<longleftrightarrow> a = activeAt spec now \<and> 0 < d \<and>
     (\<forall>t. now \<le> t \<longrightarrow> t < now + d \<longrightarrow> activeAt spec t = activeAt spec now)"

lemma rightUntil_constant:
  assumes "\<And>t. activeAt spec t = a"
  shows "rightUntil spec now a defaultSetRequeue"
  using assms by (simp add: rightUntil_def defaultSetRequeue_def)

lemma rightUntil_window:
  assumes sch: "sets_schedule spec = Some sch" "parse_rfc3339 (ss_start_at sch) = Inr a" "parse_rfc3339 (ss_end_at sch) = Inr e"
  shows "now < a \<Longrightarrow> rightUntil spec now False (time_sub a now)"
    "\<not> now < a \<Longrightarrow> now < e \<Longrightarrow> rightUntil spec now True (time_sub e now)"
    "\<not> now < a \<Longrightarrow> \<not> now < e \<Longrightarrow> rightUntil spec now False defaultSetRequeue"
  using time_sub_le [of now a] time_sub_le [of now e]
  by (auto simp: rightUntil_def activeAt_scheduled [OF sch] time_sub_pos_iff defaultSetRequeue_def)

context set_controller
begin

lemma reconcile_answers:
  assumes run: "reconcileSet r k w = (Inr res, w')" and s: "cl_sets (view w) k = Some s"
  shows "\<exists>a msg d w2. view w2 = view w \<and> setSetStatus r s a msg d w2 = (Inr res, w') \<and>
    rightUntil (cset_spec s) (setClock r k w) a d"
proof -
  from reconcile_write [OF run s] obtain msg w2 where v: "view w2 = view w" and
    wr: "case sets_schedule (cset_spec s) of
       None \<Rightarrow> setSetStatus r s True '''' defaultSetRequeue w2 = (Inr res, w')
     | Some sch \<Rightarrow>
       (case (parse_rfc3339 (ss_start_at sch), parse_rfc3339 (ss_end_at sch)) of
          (Inr startAt, Inr endAt) \<Rightarrow>
            (let now = setClock r k w in
             if now < startAt then setSetStatus r s False msg (time_sub startAt now) w2 = (Inr res, w')
             else if now < endAt then setSetStatus r s True '''' (time_sub endAt now) w2 = (Inr res, w')
             else setSetStatus r s False msg defaultSetRequeue w2 = (Inr res, w'))
        | _ \<Rightarrow> setSetStatus r s False msg defaultSetRequeue w2 = (Inr res, w'))" by blast
  have pick: ?thesis if "setSetStatus r s x m d w2 = (Inr res, w')" "rightUntil (cset_spec s) (setClock r k w) x d" for x m d
    by (rule exI [of _ x], rule exI [of _ m], rule exI [of _ d], rule exI [of _ w2]) (simp add: that v)
  show ?thesis
  proof (cases "sets_schedule (cset_spec s)")
    case None
    then have "rightUntil (cset_spec s) (setClock r k w) True defaultSetRequeue"
      by (intro rightUntil_constant) (simp add: activeAt_def)
    with wr None show ?thesis by (intro pick) simp
  next
    case (Some sch)
    show ?thesis
    proof (cases "(\<exists>x. parse_rfc3339 (ss_start_at sch) = Inl x) \<or> (\<exists>x. parse_rfc3339 (ss_end_at sch) = Inl x)")
      case True
      with wr Some have "setSetStatus r s False msg defaultSetRequeue w2 = (Inr res, w')"
        by (auto split: sum.splits)
      moreover have "rightUntil (cset_spec s) (setClock r k w) False defaultSetRequeue"
        using activeAt_unparsed [OF Some True] by (intro rightUntil_constant) simp
      ultimately show ?thesis by (rule pick)
    next
      case False
      then obtain a e where ae: "parse_rfc3339 (ss_start_at sch) = Inr a" "parse_rfc3339 (ss_end_at sch) = Inr e"
        by (metis sum.exhaust)
      note window = rightUntil_window [OF Some ae, of "setClock r k w"]
      from wr Some ae consider
        (Before) "setClock r k w < a" "setSetStatus r s False msg (time_sub a (setClock r k w)) w2 = (Inr res, w')"
        | (Within) "\<not> setClock r k w < a" "setClock r k w < e" "setSetStatus r s True '''' (time_sub e (setClock r k w)) w2 = (Inr res, w')"
        | (After) "\<not> setClock r k w < a" "\<not> setClock r k w < e" "setSetStatus r s False msg defaultSetRequeue w2 = (Inr res, w')"
        by (auto simp: Let_def split: if_splits)
      then show ?thesis
        by cases (rule pick, assumption, rule window; assumption)+
    qed
  qed
qed

end

text \<open>
  C16: A reconcile of a ChallengeSet that reports no error stores whether the set ought to be
  active when it read the clock, changes nothing else, and asks for a positive delay within
  which the right answer does not change: no start and no end of a window is slept through.
\<close>

theorem set_active_until_next_look:
  assumes ctrl: "set_controller r view"
    and run: "reconcileSet r k w = (Inr res, w')"
    and s: "cl_sets (view w) k = Some s"
  shows "(\<exists>msg. setWritten k s (activeAt (cset_spec s) (setClock r k w)) msg (view w) (view w')) \<and>
    0 < requeue_after res \<and>
    (\<forall>t. setClock r k w \<le> t \<longrightarrow> t < setClock r k w + requeue_after res \<longrightarrow>
       activeAt (cset_spec s) t = activeAt (cset_spec s) (setClock r k w))"
proof -
  from set_controller.reconcile_answers [OF ctrl run s] obtain a msg d w2 where
    v: "view w2 = view w" and put: "setSetStatus r s a msg d w2 = (Inr res, w')"
    and right: "rightUntil (cset_spec s) (setClock r k w) a d" by blast
  have "cl_sets (view w2) (nsname_of (cset_meta s)) = Some s"
    using s v set_controller.set_name [OF ctrl s] by simp
  from set_controller.setSetStatus_done [OF ctrl put this] have
    "requeue_after res = d" "setWritten k s a msg (view w) (view w')"
    using v set_controller.set_name [OF ctrl s] by simp_all
  with right show ?thesis unfolding rightUntil_def by blast
qed

definition smp_set :: challenge_set where
  "smp_set = \<lparr>cset_meta = new_meta ''finals'' ''ctf'' Map.empty,
     cset_spec = \<lparr>sets_challenges = [''web''],
       sets_schedule = Some \<lparr>ss_start_at = ''2026-03-01T12:00:00Z'', ss_end_at = ''2026-03-01T18:00:00Z''\<rparr>\<rparr>,
     cset_status = \<lparr>sst_active = False, sst_message = ''''\<rparr>\<rparr>"

lemma smp_set_times:
  "parse_rfc3339 ''2026-03-01T12:00:00Z'' = Inr 1772366400000000000"
  "parse_rfc3339 ''2026-03-01T18:00:00Z'' = Inr 1772388000000000000"
  by (simp_all add: rfc3339_eval Let_def upt_conv_Cons)

definition smp_set_mem :: mem where
  "smp_set_mem = mem_empty\<lparr>mm_sets := [smp_set], mm_clock := 1772370000000000000\<rparr>"

theorem set_active_until_next_look_witness:
  "\<exists>res w'. reconcileSet mem_sr (''ctf'', ''finals'') smp_set_mem = (Inr res, w') \<and>
     (\<exists>msg. setWritten (''ctf'', ''finals'') smp_set True msg (mem_view smp_set_mem) (mem_view w'))"
proof -
  note ev = smp_set_mem_def smp_set_def mem_empty_def mem_sr_def mem_kube_def mem_kind_def mem_try_def
    mem_put_def mem_find_def mem_lens_defs nsname_of_def
  have run: "\<exists>res w'. reconcileSet mem_sr (''ctf'', ''finals'') smp_set_mem = (Inr res, w')"
    by (simp add: reconcileSet_def setSetStatus_def smp_set_times ev Let_def)
  have s: "cl_sets (mem_view smp_set_mem) (''ctf'', ''finals'') = Some smp_set"
    by (simp add: mem_view_def ev)
  have "setClock mem_sr (''ctf'', ''finals'') smp_set_mem = 1772370000000000000"
    by (simp add: setClock_def ev)
  then have "activeAt (cset_spec smp_set) (setClock mem_sr (''ctf'', ''finals'') smp_set_mem)"
    by (simp add: activeAt_def smp_set_def smp_set_times)
  with run set_active_until_next_look [OF mem_sets.set_controller_axioms, OF _ s] show ?thesis by fastforce
qed

text \<open>
  A set whose schedule leaves out one of its times (both are optional in the resource) is
  never active: the code takes the absent time for an invalid one.
\<close>

theorem set_open_ended_never_active:
  assumes ctrl: "set_controller r view"
    and run: "reconcileSet r k w = (Inr res, w')"
    and s: "cl_sets (view w) k = Some s" "sets_schedule (cset_spec s) = Some sch"
    and absent: "ss_start_at sch = '''' \<or> ss_end_at sch = ''''"
  shows "\<exists>msg. setWritten k s False msg (view w) (view w') \<and> res = requeue_in (seconds 30)"
proof -
  have bad: "(\<exists>x. parse_rfc3339 (ss_start_at sch) = Inl x) \<or> (\<exists>x. parse_rfc3339 (ss_end_at sch) = Inl x)"
    using absent parse_rfc3339_empty by auto
  have k: "nsname_of (cset_meta s) = k" using set_controller.set_name [OF ctrl s(1)] .
  from set_controller.reconcile_write [OF ctrl run s(1)] s(2) bad obtain msg w2 where
    v: "view w2 = view w" and put: "setSetStatus r s False msg defaultSetRequeue w2 = (Inr res, w')"
    by (cases "parse_rfc3339 (ss_start_at sch)"; cases "parse_rfc3339 (ss_end_at sch)") auto
  from set_controller.setSetStatus_done [OF ctrl put] s(1) k v show ?thesis
    by (auto simp: defaultSetRequeue_def)
qed

definition smp_open_set :: challenge_set where
  "smp_open_set = smp_set\<lparr>cset_spec := \<lparr>sets_challenges = [''web''],
     sets_schedule = Some \<lparr>ss_start_at = ''2026-03-01T12:00:00Z'', ss_end_at = ''''\<rparr>\<rparr>\<rparr>"

theorem set_open_ended_never_active_witness:
  "\<exists>w' msg. reconcileSet mem_sr (''ctf'', ''finals'') (smp_set_mem\<lparr>mm_sets := [smp_open_set]\<rparr>) =
       (Inr (requeue_in (seconds 30)), w') \<and>
     setWritten (''ctf'', ''finals'') smp_open_set False msg (mem_view (smp_set_mem\<lparr>mm_sets := [smp_open_set]\<rparr>)) (mem_view w')"
proof -
  note ev = smp_set_mem_def smp_open_set_def smp_set_def mem_empty_def mem_sr_def mem_kube_def mem_kind_def
    mem_try_def mem_put_def mem_find_def mem_lens_defs nsname_of_def
  have run: "\<exists>res w'. reconcileSet mem_sr (''ctf'', ''finals'') (smp_set_mem\<lparr>mm_sets := [smp_open_set]\<rparr>) = (Inr res, w')"
    by (simp add: reconcileSet_def setSetStatus_def smp_set_times parse_rfc3339_empty ev Let_def)
  have s: "cl_sets (mem_view (smp_set_mem\<lparr>mm_sets := [smp_open_set]\<rparr>)) (''ctf'', ''finals'') = Some smp_open_set"
    by (simp add: mem_view_def ev)
  have sch: "sets_schedule (cset_spec smp_open_set) =
      Some \<lparr>ss_start_at = ''2026-03-01T12:00:00Z'', ss_end_at = ''''\<rparr>"
    by (simp add: smp_open_set_def)
  from run set_open_ended_never_active [OF mem_sets.set_controller_axioms, OF _ s sch] show ?thesis by fastforce
qed

end
