(* ===== verification/Template_Ctrl.thy ===== *)
theory Template_Ctrl
  imports Go_Time Mem_Cluster
begin

text \<open>
  \<open>internal/controller/challengetemplate_controller.go\<close>: the reconciler that validates a
  ChallengeTemplate and counts its instances, and its properties.
\<close>

section \<open>The reconciler\<close>

record 'w template_reconciler =
  tr_kube :: "'w kube"

definition setTemplateStatus ::
  "'w template_reconciler \<Rightarrow> challenge_template \<Rightarrow> bool \<Rightarrow> string \<Rightarrow> 'w \<Rightarrow> (go_error + ctrl_result) \<times> 'w" where
  "setTemplateStatus r tmpl ready msg w =
     (case k_status (kb_templates (tr_kube r))
         (tmpl\<lparr>ct_status := (ct_status tmpl)\<lparr>tst_ready := ready, tst_message := msg\<rparr>\<rparr>) w of
        (Inl e, w1) \<Rightarrow> (Inl (WrapErr ''updating status'' e), w1)
      | (Inr _, w1) \<Rightarrow> (Inr (requeue_in (seconds 30)), w1))"

text \<open>The message holds two quotation marks and an em dash, in UTF-8.\<close>

definition restartPolicyMessage :: string where
  "restartPolicyMessage =
     ''container.restartPolicy: only '' @ [CHR 0x22] @ ''Always'' @ [CHR 0x22] @
     '' (or omitted) is supported '' @ [CHR 0xE2, CHR 0x80, CHR 0x94] @
     '' instances are Deployment-managed and Kubernetes requires Always for those; '' @
     ''OnFailure/Never would need bare-Pod support''"

definition reconcileTemplate ::
  "'w template_reconciler \<Rightarrow> nsname \<Rightarrow> 'w \<Rightarrow> (go_error + ctrl_result) \<times> 'w" where
  "reconcileTemplate r req w =
     (case k_get (kb_templates (tr_kube r)) req w of
        (Inl e, w1) \<Rightarrow> (if is_not_found e then Inr no_requeue else Inl e, w1)
      | (Inr tmpl, w1) \<Rightarrow>
        (case k_get (kb_secrets (tr_kube r)) (om_namespace (ct_meta tmpl), ts_flag_secret (ct_spec tmpl)) w1 of
           (Inl e, w2) \<Rightarrow>
             if is_not_found e
             then setTemplateStatus r tmpl False (''flag secret not found: '' @ ts_flag_secret (ct_spec tmpl)) w2
             else (Inl e, w2)
         | (Inr _, w2) \<Rightarrow>
             if cs_image (ts_container (ct_spec tmpl)) = ''''
             then setTemplateStatus r tmpl False ''container image is required'' w2
             else if cs_restart (ts_container (ct_spec tmpl)) \<notin> {RestartUnset, RestartAlways}
             then setTemplateStatus r tmpl False restartPolicyMessage w2
             else (case k_list (kb_instances (tr_kube r))
                 \<lparr>lo_namespace = None, lo_labels = [LabelChallenge \<mapsto> om_name (ct_meta tmpl)]\<rparr> w2 of
               (Inl e, w3) \<Rightarrow> (Inl e, w3)
             | (Inr insts, w3) \<Rightarrow>
                 (case k_status (kb_templates (tr_kube r))
                     (tmpl\<lparr>ct_status := \<lparr>tst_ready = True, tst_count = int (length insts), tst_message = ''''\<rparr>\<rparr>) w3 of
                    (Inl e, w4) \<Rightarrow> (Inl e, w4)
                  | (Inr _, w4) \<Rightarrow> (Inr (requeue_in (seconds 30)), w4)))))"

section \<open>Its contract\<close>

text \<open>What is wrong with a template, the first thing found, or nothing.\<close>

definition templateFault :: "cluster \<Rightarrow> challenge_template \<Rightarrow> string option" where
  "templateFault c tmpl =
     (if cl_secrets c (om_namespace (ct_meta tmpl), ts_flag_secret (ct_spec tmpl)) = None
      then Some (''flag secret not found: '' @ ts_flag_secret (ct_spec tmpl))
      else if cs_image (ts_container (ct_spec tmpl)) = '''' then Some ''container image is required''
      else if cs_restart (ts_container (ct_spec tmpl)) \<in> {RestartOnFailure, RestartNever}
      then Some restartPolicyMessage else None)"

text \<open>The instances that carry the challenge's name as their label, in any namespace.\<close>

definition labelledInstances :: "cluster \<Rightarrow> string \<Rightarrow> nsname set" where
  "labelledInstances c name =
     {k. \<exists>i. cl_instances c k = Some i \<and> om_labels (ci_meta i) LabelChallenge = Some name}"

locale template_controller = cluster_api "tr_kube r" view
  for r :: "'w template_reconciler" and view :: "'w \<Rightarrow> cluster"
begin

lemma listed_count:
  assumes "k_list (kb_instances (tr_kube r)) \<lparr>lo_namespace = None, lo_labels = [LabelChallenge \<mapsto> name]\<rparr> w = (Inr xs, w')"
  shows "length xs = card (labelledInstances (view w) name)"
proof -
  have set: "set xs = {x. cl_instances (view w) (nsname_of (ci_meta x)) = Some x \<and>
      om_labels (ci_meta x) LabelChallenge = Some name}"
    using instances.list_found [OF assms] by (simp add: list_match_def)
  have "set (map (\<lambda>x. nsname_of (ci_meta x)) xs) = labelledInstances (view w) name"
  proof (intro set_eqI iffI)
    fix k assume "k \<in> set (map (\<lambda>x. nsname_of (ci_meta x)) xs)"
    then show "k \<in> labelledInstances (view w) name" by (auto simp: set labelledInstances_def)
  next
    fix k assume "k \<in> labelledInstances (view w) name"
    then obtain i where i: "cl_instances (view w) k = Some i" "om_labels (ci_meta i) LabelChallenge = Some name"
      by (auto simp: labelledInstances_def)
    with instances.stored_name [OF i(1)] show "k \<in> set (map (\<lambda>x. nsname_of (ci_meta x)) xs)"
      by (auto simp: set intro!: image_eqI [of _ _ i])
  qed
  with instances.list_distinct [OF assms] show ?thesis
    by (metis distinct_card length_map)
qed

text \<open>A write of the status leaves the template's spec and the rest of the cluster alone.\<close>

lemma status_written:
  assumes "k_status (kb_templates (tr_kube r)) (tmpl\<lparr>ct_status := s\<rparr>) w = (Inr y, w')"
    and "cl_templates (view w) (nsname_of (ct_meta tmpl)) = Some tmpl"
  shows "user_meta (ct_meta y) = user_meta (ct_meta tmpl) \<and> ct_spec y = ct_spec tmpl \<and> ct_status y = s \<and>
    view w' = (view w)\<lparr>cl_templates := (cl_templates (view w))(nsname_of (ct_meta tmpl) \<mapsto> y)\<rparr>"
  using templates.status_done [OF assms(1)] assms(2) by auto

lemma setTemplateStatus_done:
  assumes "setTemplateStatus r tmpl ready msg w = (Inr res, w')"
    and "cl_templates (view w) (nsname_of (ct_meta tmpl)) = Some tmpl"
  shows "res = requeue_in (seconds 30) \<and>
    (\<exists>y. user_meta (ct_meta y) = user_meta (ct_meta tmpl) \<and> ct_spec y = ct_spec tmpl \<and>
       ct_status y = (ct_status tmpl)\<lparr>tst_ready := ready, tst_message := msg\<rparr> \<and>
       view w' = (view w)\<lparr>cl_templates := (cl_templates (view w))(nsname_of (ct_meta tmpl) \<mapsto> y)\<rparr>)"
proof -
  from assms(1) obtain y where
    "k_status (kb_templates (tr_kube r)) (tmpl\<lparr>ct_status := (ct_status tmpl)\<lparr>tst_ready := ready, tst_message := msg\<rparr>\<rparr>) w = (Inr y, w')"
    "res = requeue_in (seconds 30)"
    by (auto simp: setTemplateStatus_def split: sum.splits prod.splits)
  with status_written [OF _ assms(2)] show ?thesis by blast
qed

lemma template_name: "cl_templates (view w) k = Some t \<Longrightarrow> nsname_of (ct_meta t) = k"
  by (rule templates.stored_name)

lemma reconcile_done:
  assumes run: "reconcileTemplate r k w = (Inr res, w')"
    and t: "cl_templates (view w) k = Some tmpl"
  shows "res = requeue_in (seconds 30) \<and>
    (\<exists>y. user_meta (ct_meta y) = user_meta (ct_meta tmpl) \<and> ct_spec y = ct_spec tmpl \<and>
       ct_status y = (case templateFault (view w) tmpl of
           Some msg \<Rightarrow> (ct_status tmpl)\<lparr>tst_ready := False, tst_message := msg\<rparr>
         | None \<Rightarrow> \<lparr>tst_ready = True,
             tst_count = int (card (labelledInstances (view w) (om_name (ct_meta tmpl)))), tst_message = ''''\<rparr>) \<and>
       view w' = (view w)\<lparr>cl_templates := (cl_templates (view w))(k \<mapsto> y)\<rparr>)"
proof (cases "k_get (kb_templates (tr_kube r)) k w" rule: result_cases)
  case (Err e w1)
  with run have "is_not_found e" by (simp add: reconcileTemplate_def split: if_splits)
  with templates.get_missing [OF Err] t show ?thesis by simp
next
  case (Ok x w1)
  with templates.get_found [OF Ok] t have x: "x = tmpl" by simp
  note v1 = templates.get_view [OF Ok] and k = template_name [OF t]
  let ?sk = "(om_namespace (ct_meta tmpl), ts_flag_secret (ct_spec tmpl))"
  have fail: ?thesis
    if "templateFault (view w) tmpl = Some msg" "setTemplateStatus r tmpl False msg w2 = (Inr res, w')" "view w2 = view w"
    for msg w2
    using setTemplateStatus_done [OF that(2)] that(1,3) t k by auto
  show ?thesis
  proof (cases "k_get (kb_secrets (tr_kube r)) ?sk w1" rule: result_cases)
    case (Err e w2)
    with run Ok x have nf: "is_not_found e" and
      put: "setTemplateStatus r tmpl False (''flag secret not found: '' @ ts_flag_secret (ct_spec tmpl)) w2 = (Inr res, w')"
      by (auto simp: reconcileTemplate_def split: if_splits)
    have "templateFault (view w) tmpl = Some (''flag secret not found: '' @ ts_flag_secret (ct_spec tmpl))"
      using secrets.get_missing [OF Err nf] v1 by (simp add: templateFault_def)
    from fail [OF this put] secrets.get_view [OF Err] v1 show ?thesis by simp
  next
    case sec: (Ok sx w2)
    have v2: "view w2 = view w" using secrets.get_view [OF sec] v1 by simp
    have secret: "cl_secrets (view w) ?sk = Some sx" using secrets.get_found [OF sec] v1 by simp
    show ?thesis
    proof (cases "templateFault (view w) tmpl")
      case (Some msg)
      with run Ok x sec secret have "setTemplateStatus r tmpl False msg w2 = (Inr res, w')"
        by (cases "cs_restart (ts_container (ct_spec tmpl))")
          (simp_all add: reconcileTemplate_def templateFault_def split: if_splits)
      from fail [OF Some this v2] show ?thesis .
    next
      case None
      with secret have ok: "cs_image (ts_container (ct_spec tmpl)) \<noteq> ''''"
        "cs_restart (ts_container (ct_spec tmpl)) \<in> {RestartUnset, RestartAlways}"
        by (cases "cs_restart (ts_container (ct_spec tmpl))"; simp add: templateFault_def split: if_splits)+
      with run Ok x sec obtain xs w3 y where
        list: "k_list (kb_instances (tr_kube r))
          \<lparr>lo_namespace = None, lo_labels = [LabelChallenge \<mapsto> om_name (ct_meta tmpl)]\<rparr> w2 = (Inr xs, w3)" and
        put: "k_status (kb_templates (tr_kube r))
          (tmpl\<lparr>ct_status := \<lparr>tst_ready = True, tst_count = int (length xs), tst_message = ''''\<rparr>\<rparr>) w3 = (Inr y, w')" and
        res: "res = requeue_in (seconds 30)"
        by (auto simp: reconcileTemplate_def split: sum.splits prod.splits)
      have v3: "view w3 = view w" using instances.list_view [OF list] v2 by simp
      from status_written [OF put] t k v3 listed_count [OF list] v2 None res show ?thesis
        by auto
    qed
  qed
qed

end

definition mem_tr :: "mem template_reconciler" where
  "mem_tr = \<lparr>tr_kube = mem_kube\<rparr>"

interpretation mem_templates: template_controller mem_tr mem_view
  unfolding template_controller_def mem_tr_def
  using mem_api.cluster_api_axioms by simp

section \<open>Its properties\<close>

text \<open>
  C17: A reconcile of a ChallengeTemplate that reports no error marks it ready exactly when
  its flag secret exists, it names an image and its restart policy is Always or left out; else
  the message is the first of these that fails. A ready template counts the instances labelled
  with its name, those of other namespaces included; an unready one keeps its old count. It is
  looked at again after 30 seconds and nothing else changes.
\<close>

theorem template_verdict:
  assumes ctrl: "template_controller r view"
    and run: "reconcileTemplate r k w = (Inr res, w')"
    and t: "cl_templates (view w) k = Some tmpl"
  shows "res = requeue_in (seconds 30) \<and>
    (\<exists>y. user_meta (ct_meta y) = user_meta (ct_meta tmpl) \<and> ct_spec y = ct_spec tmpl \<and>
       ct_status y = (case templateFault (view w) tmpl of
           Some msg \<Rightarrow> (ct_status tmpl)\<lparr>tst_ready := False, tst_message := msg\<rparr>
         | None \<Rightarrow> \<lparr>tst_ready = True,
             tst_count = int (card (labelledInstances (view w) (om_name (ct_meta tmpl)))), tst_message = ''''\<rparr>) \<and>
       view w' = (view w)\<lparr>cl_templates := (cl_templates (view w))(k \<mapsto> y)\<rparr>)"
  by (rule template_controller.reconcile_done [OF assms])

definition smp_checked :: challenge_template where
  "smp_checked = \<lparr>ct_meta = new_meta ''web'' ''ctf'' Map.empty,
     ct_spec = \<lparr>ts_category = ''web'', ts_difficulty = ''easy'', ts_points = 100,
       ts_flag_secret = ''flag'', ts_mode = InstanceModePerTeam, ts_ttl = ''1h'',
       ts_max_instances = 0, ts_pow = None,
       ts_container = \<lparr>cs_image = ''nginx'', cs_ports = [],
         cs_resources = \<lparr>rr_requests = Map.empty, rr_limits = Map.empty\<rparr>, cs_env = [],
         cs_readiness = None, cs_restart = RestartNever, cs_threshold = 0\<rparr>\<rparr>,
     ct_status = \<lparr>tst_ready = True, tst_count = 2, tst_message = ''''\<rparr>\<rparr>"

definition smp_checked_mem :: mem where
  "smp_checked_mem = mem_empty\<lparr>mm_templates := [smp_checked],
     mm_secrets := [\<lparr>sec_meta = new_meta ''flag'' ''ctf'' Map.empty\<rparr>]\<rparr>"

theorem template_verdict_witness:
  "\<exists>w' y. reconcileTemplate mem_tr (''ctf'', ''web'') smp_checked_mem = (Inr (requeue_in (seconds 30)), w') \<and>
     cl_templates (mem_view w') (''ctf'', ''web'') = Some y \<and>
     ct_status y = \<lparr>tst_ready = False, tst_count = 2, tst_message = restartPolicyMessage\<rparr>"
proof -
  note ev = smp_checked_mem_def smp_checked_def mem_empty_def mem_tr_def mem_kube_def mem_kind_def
    mem_try_def mem_put_def mem_find_def mem_lens_defs nsname_of_def
  have run: "\<exists>res w'. reconcileTemplate mem_tr (''ctf'', ''web'') smp_checked_mem = (Inr res, w')"
    by (simp add: reconcileTemplate_def setTemplateStatus_def ev Let_def)
  have t: "cl_templates (mem_view smp_checked_mem) (''ctf'', ''web'') = Some smp_checked"
    by (simp add: mem_view_def ev)
  have "templateFault (mem_view smp_checked_mem) smp_checked = Some restartPolicyMessage"
    by (simp add: templateFault_def mem_view_def ev)
  moreover have "(ct_status smp_checked)\<lparr>tst_ready := False, tst_message := restartPolicyMessage\<rparr> =
      \<lparr>tst_ready = False, tst_count = 2, tst_message = restartPolicyMessage\<rparr>"
    by (simp add: smp_checked_def)
  ultimately show ?thesis
    using run template_verdict [OF mem_templates.template_controller_axioms, OF _ t] by fastforce
qed

end
