(* ===== verification/Pow.thy ===== *)
theory Pow
  imports Go_Crypto Kube
begin

text \<open>
  \<open>internal/api/pow.go\<close> and the server's table of puzzles (\<open>storePoW\<close>, \<open>consumePoW\<close> of
  \<open>handlers.go\<close>): proof of work over SHA-256, and puzzles as tokens that can be spent once.
\<close>

section \<open>Puzzles\<close>

record pow_puzzle =
  pz_challenge :: string
  pz_difficulty :: int
  pz_expires :: instant

text \<open>\<open>rand.Read\<close> on a buffer of \<open>n\<close> bytes is \<open>rnd n\<close>; its error is dropped.\<close>

definition GeneratePoWPuzzle ::
  "(nat \<Rightarrow> 'w \<Rightarrow> byte list \<times> 'w) \<Rightarrow> ('w \<Rightarrow> instant \<times> 'w) \<Rightarrow> int \<Rightarrow> 'w \<Rightarrow> pow_puzzle \<times> 'w" where
  "GeneratePoWPuzzle rnd now difficulty w =
     (case rnd 32 w of
        (b, w1) \<Rightarrow> (case now w1 of
          (t, w2) \<Rightarrow>
            (\<lparr>pz_challenge = hex_encode b, pz_difficulty = difficulty,
              pz_expires = time_add t (seconds 300)\<rparr>, w2)))"

section \<open>Verification\<close>

text \<open>
  The inner loop over the bits of a byte, from bit \<open>i - 1\<close> down: \<open>Inl\<close> is its \<open>return count\<close>,
  \<open>Inr\<close> leaving it at the end.
\<close>

fun countBits :: "byte \<Rightarrow> nat \<Rightarrow> nat \<Rightarrow> nat + nat" where
  "countBits b 0 count = Inr count"
| "countBits b (Suc i) count =
     (if b AND push_bit i 1 = 0 then countBits b i (count + 1) else Inl count)"

fun countFrom :: "nat \<Rightarrow> byte list \<Rightarrow> nat" where
  "countFrom count [] = count"
| "countFrom count (b # bs) =
     (if b = 0 then countFrom (count + 8) bs
      else (case countBits b 8 count of
        Inl n \<Rightarrow> n
      | Inr n \<Rightarrow> countFrom n bs))"

definition countLeadingZeroBits :: "byte list \<Rightarrow> nat" where
  "countLeadingZeroBits hash = countFrom 0 hash"

definition VerifyPoW :: "string \<Rightarrow> uint64 \<Rightarrow> int \<Rightarrow> bool" where
  "VerifyPoW challenge nonce difficulty \<longleftrightarrow>
     (let data = challenge @ '':'' @ dec_string (unat nonce);
          hash = sha256 (bytes_of_string data)
      in difficulty \<le> int (countLeadingZeroBits hash))"

text \<open>The search over the nonces below \<open>1 << 30\<close>.\<close>

function solveFrom :: "string \<Rightarrow> int \<Rightarrow> nat \<Rightarrow> uint64 \<times> bool" where
  "solveFrom challenge difficulty n =
     (if n < 2 ^ 30
      then if VerifyPoW challenge (of_nat n) difficulty then (of_nat n, True)
           else solveFrom challenge difficulty (n + 1)
      else (0, False))"
  by pat_completeness auto
termination
  by (relation "measure (\<lambda>(c, d, n). 2 ^ 30 - n)") auto

declare solveFrom.simps [simp del]

definition SolvePoW :: "string \<Rightarrow> int \<Rightarrow> uint64 \<times> bool" where
  "SolvePoW challenge difficulty = solveFrom challenge difficulty 0"

section \<open>What they compute\<close>

text \<open>The bits of a digest, most significant first, and its value as a number.\<close>

definition byte_bits :: "byte \<Rightarrow> bool list" where
  "byte_bits b = map (bit b) (rev [0..<8])"

definition digest_bits :: "byte list \<Rightarrow> bool list" where
  "digest_bits hash = concat (map byte_bits hash)"

definition bits_value :: "bool list \<Rightarrow> nat" where
  "bits_value bs = foldl (\<lambda>n b. 2 * n + of_bool b) 0 bs"

definition leading_zeros :: "bool list \<Rightarrow> nat" where
  "leading_zeros bs = length (takeWhile Not bs)"

lemma and_push_bit_1: "(b AND push_bit i 1 = 0) \<longleftrightarrow> \<not> bit b i" if "i < 8" for b :: byte
proof
  assume "b AND push_bit i 1 = 0"
  then have "\<not> bit (b AND push_bit i 1) i" by simp
  with that show "\<not> bit b i" by (simp add: bit_simps)
next
  assume "\<not> bit b i"
  then show "b AND push_bit i 1 = 0"
    by (intro bit_word_eqI) (auto simp: bit_simps)
qed

lemma countBits_bits:
  assumes "i \<le> 8"
  shows "countBits b i count =
    (if \<forall>j < i. \<not> bit b j then Inr (count + i)
     else Inl (count + leading_zeros (map (bit b) (rev [0..<i]))))"
  using assms
proof (induction i arbitrary: count)
  case 0
  show ?case by simp
next
  case (Suc i)
  then have "(b AND push_bit i 1 = 0) \<longleftrightarrow> \<not> bit b i" by (intro and_push_bit_1) simp
  with Suc show ?case by (auto simp: leading_zeros_def less_Suc_eq)
qed

lemma byte_zero_iff: "b = 0 \<longleftrightarrow> (\<forall>j < 8. \<not> bit b j)" for b :: byte
  by (auto simp: bit_eq_iff bit_simps dest: bit_imp_le_length)

lemma leading_zeros_append:
  "leading_zeros (xs @ ys) = (if True \<in> set xs then leading_zeros xs else length xs + leading_zeros ys)"
proof (cases "True \<in> set xs")
  case True
  then have "takeWhile Not (xs @ ys) = takeWhile Not xs"
    by (intro takeWhile_append1 [of True]) auto
  with True show ?thesis by (simp add: leading_zeros_def)
next
  case False
  then have "\<forall>x \<in> set xs. \<not> x" by auto
  then have "takeWhile Not (xs @ ys) = xs @ takeWhile Not ys"
    by (intro takeWhile_append2) auto
  with False show ?thesis by (simp add: leading_zeros_def)
qed

lemma byte_bits_True: "True \<in> set (byte_bits b) \<longleftrightarrow> b \<noteq> 0"
  by (auto simp: byte_bits_def byte_zero_iff image_iff)

lemma length_byte_bits [simp]: "length (byte_bits b) = 8"
  by (simp add: byte_bits_def)

lemma countFrom_leading: "countFrom n hash = n + leading_zeros (digest_bits hash)"
proof (induction hash arbitrary: n)
  case Nil
  show ?case by (simp add: digest_bits_def leading_zeros_def)
next
  case (Cons b bs)
  show ?case
  proof (cases "b = 0")
    case True
    with Cons byte_bits_True [of b] show ?thesis
      by (simp add: digest_bits_def leading_zeros_append)
  next
    case False
    then have "countBits b 8 n = Inl (n + leading_zeros (byte_bits b))"
      using countBits_bits [of 8 b n] byte_zero_iff [of b] by (simp add: byte_bits_def)
    with False byte_bits_True [of b] show ?thesis
      by (simp add: digest_bits_def leading_zeros_append)
  qed
qed

lemma length_digest_bits: "length (digest_bits hash) = 8 * length hash"
  by (induction hash) (simp_all add: digest_bits_def)

lemma bits_value_Cons: "bits_value (b # bs) = of_bool b * 2 ^ length bs + bits_value bs"
proof -
  have gen: "foldl (\<lambda>n b. 2 * n + of_bool b) m bs = m * 2 ^ length bs + foldl (\<lambda>n b. 2 * n + of_bool b) 0 bs" for m :: nat
  proof (induction bs arbitrary: m)
    case Nil
    show ?case by simp
  next
    case (Cons c cs)
    let ?F = "\<lambda>n b. 2 * n + of_bool b :: nat"
    have step: "foldl ?F (2 * n + of_bool c) cs = (2 * n + of_bool c) * 2 ^ length cs + foldl ?F 0 cs" for n
      by (rule Cons)
    show ?case
      unfolding foldl.simps step by (simp add: add_mult_distrib mult.commute mult.left_commute)
  qed
  from gen [of "of_bool b"] show ?thesis by (simp add: bits_value_def)
qed

lemma bits_value_less: "bits_value bs < 2 ^ length bs"
proof (induction bs)
  case Nil
  show ?case by (simp add: bits_value_def)
next
  case (Cons b bs)
  then show ?case by (cases b) (simp_all add: bits_value_Cons)
qed

text \<open>At least \<open>d\<close> leading zeros is the same as a value below \<open>2 ^ (length - d)\<close>.\<close>

lemma leading_zeros_value:
  assumes "d \<le> length bs"
  shows "d \<le> leading_zeros bs \<longleftrightarrow> bits_value bs < 2 ^ (length bs - d)"
  using assms
proof (induction bs arbitrary: d)
  case Nil
  then show ?case by (simp add: leading_zeros_def bits_value_def)
next
  case (Cons b bs)
  show ?case
  proof (cases d)
    case 0
    with bits_value_less [of "b # bs"] show ?thesis by (simp add: leading_zeros_def)
  next
    case (Suc e)
    have small: "2 ^ (length bs - e) \<le> (2::nat) ^ length bs" by (simp add: power_increasing)
    show ?thesis
    proof (cases b)
      case True
      have "\<not> 2 ^ length bs + bits_value bs < 2 ^ (length bs - e)" using small by linarith
      with True Suc show ?thesis by (simp add: leading_zeros_def bits_value_Cons)
    next
      case False
      with Suc Cons show ?thesis by (simp add: leading_zeros_def bits_value_Cons)
    qed
  qed
qed

end
