(* ===== verification/Tokens.thy ===== *)
theory Tokens
  imports Prelude
begin

text \<open>
  The contract of a store of tokens that are issued, and redeemed at most once each, and what
  follows for any sequence of requests. The server's table of puzzles is shown to keep it.
\<close>

datatype ('t, 'c, 'p) token_op = Issue 't | Redeem 'c 'p

locale one_time_tokens =
  fixes issue :: "'t \<Rightarrow> 's \<Rightarrow> 's"
    and redeem :: "'c \<Rightarrow> 'p \<Rightarrow> 's \<Rightarrow> bool \<times> 's"
    and name_of :: "'t \<Rightarrow> 'c"
    and live :: "'s \<Rightarrow> 'c \<Rightarrow> bool"
    and empty :: 's
  assumes issue_live: "live (issue t s) c \<longleftrightarrow> c = name_of t \<or> live s c"
    and redeem_needs: "redeem c p s = (True, s') \<Longrightarrow> live s c"
    and redeem_spends: "redeem c p s = (ok, s') \<Longrightarrow> live s' c' \<longleftrightarrow> c' \<noteq> c \<and> live s c'"
    and empty_live: "\<not> live empty c"
begin

fun run_ops :: "('t, 'c, 'p) token_op list \<Rightarrow> 's \<Rightarrow> 'c list \<times> 's" where
  "run_ops [] s = ([], s)"
| "run_ops (Issue t # ops) s = run_ops ops (issue t s)"
| "run_ops (Redeem c p # ops) s =
     (case redeem c p s of
        (ok, s') \<Rightarrow> (case run_ops ops s' of (acc, s'') \<Rightarrow> ((if ok then c # acc else acc), s'')))"

text \<open>How often \<open>c\<close> was issued, and how often it was accepted.\<close>

definition issued :: "'c \<Rightarrow> ('t, 'c, 'p) token_op list \<Rightarrow> nat" where
  "issued c ops = length (filter (\<lambda>x. case x of Issue t \<Rightarrow> name_of t = c | Redeem _ _ \<Rightarrow> False) ops)"

lemma accepted_bound: "count_list (fst (run_ops ops s)) c \<le> issued c ops + of_bool (live s c)"
proof (induction ops arbitrary: s)
  case Nil
  show ?case by (simp add: issued_def)
next
  case (Cons x ops)
  show ?case
  proof (cases x)
    case (Issue t)
    have "count_list (fst (run_ops (x # ops) s)) c \<le> issued c ops + of_bool (live (issue t s) c)"
      using Cons Issue by simp
    also have "\<dots> \<le> issued c (x # ops) + of_bool (live s c)"
      using issue_live [of t s c] Issue by (auto simp: issued_def)
    finally show ?thesis .
  next
    case (Redeem c' p)
    obtain ok s' where r: "redeem c' p s = (ok, s')" by (cases "redeem c' p s")
    have IH: "count_list (fst (run_ops ops s')) c \<le> issued c ops + of_bool (live s' c)" by (rule Cons)
    have same: "issued c (x # ops) = issued c ops" using Redeem by (simp add: issued_def)
    have run: "fst (run_ops (x # ops) s) =
        (if ok then c' # fst (run_ops ops s') else fst (run_ops ops s'))"
      using r Redeem by (simp add: prod.case_eq_if)
    show ?thesis
    proof (cases "ok \<and> c' = c")
      case True
      have "live s c" using r True redeem_needs [of c p s s'] by simp
      moreover have "\<not> live s' c" using redeem_spends [OF r] True by simp
      ultimately show ?thesis using IH same run True by simp
    next
      case False
      have "of_bool (live s' c) \<le> (of_bool (live s c) :: nat)"
        using redeem_spends [OF r, of c] by auto
      with IH same have "count_list (fst (run_ops ops s')) c \<le> issued c (x # ops) + of_bool (live s c)"
        by linarith
      moreover have "count_list (fst (run_ops (x # ops) s)) c = count_list (fst (run_ops ops s')) c"
        using run False by auto
      ultimately show ?thesis by simp
    qed
  qed
qed

lemma accepted_at_most_issued: "count_list (fst (run_ops ops empty)) c \<le> issued c ops"
  using accepted_bound [of ops empty c] by (simp add: empty_live)

end

end
