(* ===== verification/Go_Json.thy ===== *)
theory Go_Json
  imports Go_RFC3339 Integrations
begin

text \<open>
  What the backends use of \<open>encoding/json\<close>: the text of a struct of strings, as \<open>Marshal\<close> writes
  it, and the parser behind \<open>Unmarshal\<close> and \<open>Decoder.Decode\<close>. Go strings are bytes, so the
  parser and the printer work on UTF-8 bytes, as the package does. The theory ends with the
  round trip: a struct of strings that is printed parses back to the same fields.
\<close>

section \<open>UTF-8\<close>

definition is_cont :: "char \<Rightarrow> bool" where
  "is_cont c \<longleftrightarrow> 128 \<le> byte_of c \<and> byte_of c < 192"

text \<open>The length of the well-formed character at the front, 0 if there is none.\<close>

definition utf8_len :: "string \<Rightarrow> nat" where
  "utf8_len s =
     (let b = map byte_of (take 4 s); c = map is_cont (take 4 s); n = length s
      in if n = 0 then 0
         else if b ! 0 < 128 then 1
         else if 2 \<le> n \<and> 194 \<le> b ! 0 \<and> b ! 0 < 224 \<and> c ! 1 then 2
         else if 3 \<le> n \<and> 224 \<le> b ! 0 \<and> b ! 0 < 240 \<and> c ! 1 \<and> c ! 2
           \<and> (b ! 0 = 224 \<longrightarrow> 160 \<le> b ! 1) \<and> (b ! 0 = 237 \<longrightarrow> b ! 1 < 160) then 3
         else if 4 \<le> n \<and> 240 \<le> b ! 0 \<and> b ! 0 < 245 \<and> c ! 1 \<and> c ! 2 \<and> c ! 3
           \<and> (b ! 0 = 240 \<longrightarrow> 144 \<le> b ! 1) \<and> (b ! 0 = 244 \<longrightarrow> b ! 1 < 144) then 4
         else 0)"

text \<open>A code point as UTF-8; a surrogate or a number beyond Unicode becomes U+FFFD.\<close>

definition rune_error :: string where
  "rune_error = map char_of [239, 191, 189 :: nat]"

definition encode_rune :: "nat \<Rightarrow> string" where
  "encode_rune r =
     (if r < 128 then [char_of r]
      else if r < 2048 then [char_of (192 + r div 64), char_of (128 + r mod 64)]
      else if (55296 \<le> r \<and> r < 57344) \<or> 1114111 < r then rune_error
      else if r < 65536
      then [char_of (224 + r div 4096), char_of (128 + r div 64 mod 64), char_of (128 + r mod 64)]
      else [char_of (240 + r div 262144), char_of (128 + r div 4096 mod 64), char_of (128 + r div 64 mod 64),
            char_of (128 + r mod 64)])"

section \<open>Printing\<close>

text \<open>
  \<open>Marshal\<close> escapes quotes, backslashes and control characters, the three characters that
  matter to HTML, the two line separators U+2028 and U+2029, and replaces bytes that are not
  UTF-8.
\<close>

definition escape_ascii :: "char \<Rightarrow> string" where
  "escape_ascii c =
     (let b = byte_of c; bs = CHR 0x5C
      in if c = CHR 0x22 \<or> c = bs then [bs, c]
         else if b = 8 then [bs, CHR ''b''] else if b = 12 then [bs, CHR ''f'']
         else if b = 10 then [bs, CHR ''n''] else if b = 13 then [bs, CHR ''r'']
         else if b = 9 then [bs, CHR ''t'']
         else if b < 32 \<or> c \<in> {CHR ''<'', CHR ''>'', CHR ''&''}
         then [bs, CHR ''u'', CHR ''0'', CHR ''0'', hex_digit (b div 16), hex_digit b]
         else [c])"

definition line_separator :: "string \<Rightarrow> string option" where
  "line_separator s =
     (if take 2 s = map char_of [226, 128 :: nat] \<and> 2 < length s \<and> byte_of (s ! 2) \<in> {168, 169}
      then Some ([CHR 0x5C, CHR ''u'', CHR ''2'', CHR ''0'', CHR ''2'', hex_digit (byte_of (s ! 2) - 160)])
      else None)"

function json_chars :: "string \<Rightarrow> string" where
  "json_chars s =
     (let n = utf8_len s
      in if s = [] then []
         else if n = 0 then [CHR 0x5C, CHR ''u'', CHR ''f'', CHR ''f'', CHR ''f'', CHR ''d''] @ json_chars (drop 1 s)
         else if n = 1 then escape_ascii (hd s) @ json_chars (drop 1 s)
         else (case line_separator s of None \<Rightarrow> take n s | Some e \<Rightarrow> e) @ json_chars (drop n s))"
  by pat_completeness auto
termination by (relation "measure length") auto

declare json_chars.simps [simp del]

definition json_string :: "string \<Rightarrow> string" where
  "json_string s = [CHR 0x22] @ json_chars s @ [CHR 0x22]"

text \<open>A struct whose fields are strings (or already printed), in the order of the declaration.\<close>

fun json_fields :: "(string \<times> string) list \<Rightarrow> string" where
  "json_fields [] = []"
| "json_fields ((k, v) # kvs) =
     json_string k @ '':'' @ v @ (if kvs = [] then [] else '','' @ json_fields kvs)"

definition json_object :: "(string \<times> string) list \<Rightarrow> string" where
  "json_object kvs = ''{'' @ json_fields kvs @ ''}''"

section \<open>Parsing\<close>

definition is_space :: "char \<Rightarrow> bool" where
  "is_space c \<longleftrightarrow> byte_of c \<in> {32, 9, 13, 10}"

definition skip_space :: "string \<Rightarrow> string" where
  "skip_space s = dropWhile is_space s"

definition hex_val :: "char \<Rightarrow> nat option" where
  "hex_val c =
     (let b = byte_of c
      in if 48 \<le> b \<and> b \<le> 57 then Some (b - 48)
         else if 97 \<le> b \<and> b \<le> 102 then Some (b - 87)
         else if 65 \<le> b \<and> b \<le> 70 then Some (b - 55) else None)"

text \<open>Four hexadecimal digits.\<close>

definition hex4 :: "string \<Rightarrow> nat option" where
  "hex4 s =
     (case map hex_val (take 4 s) of
        [Some a, Some b, Some c, Some d] \<Rightarrow> Some (a * 4096 + b * 256 + c * 16 + d)
      | _ \<Rightarrow> None)"

text \<open>
  The character after a backslash and \<open>u\<close>: a low surrogate that follows a high one belongs to
  it, any other surrogate is replaced.
\<close>

definition parse_unicode :: "string \<Rightarrow> (string \<times> string) option" where
  "parse_unicode s =
     (case hex4 s of
        None \<Rightarrow> None
      | Some r \<Rightarrow>
          (let rest = drop 4 s;
               low = (if take 2 rest = [CHR 0x5C, CHR ''u''] then hex4 (drop 2 rest) else None)
           in if 55296 \<le> r \<and> r < 56320
              then (case low of
                  Some l \<Rightarrow> if 56320 \<le> l \<and> l < 57344
                    then Some (encode_rune (65536 + (r - 55296) * 1024 + (l - 56320)), drop 6 rest)
                    else Some (rune_error, rest)
                | None \<Rightarrow> Some (rune_error, rest))
              else Some (encode_rune r, rest)))"

definition simple_escape :: "char \<Rightarrow> char option" where
  "simple_escape c =
     (if c \<in> {CHR 0x22, CHR 0x5C, CHR ''/''} then Some c
      else if c = CHR ''b'' then Some (char_of (8 :: nat)) else if c = CHR ''f'' then Some (char_of (12 :: nat))
      else if c = CHR ''n'' then Some (char_of (10 :: nat)) else if c = CHR ''r'' then Some (char_of (13 :: nat))
      else if c = CHR ''t'' then Some (char_of (9 :: nat)) else None)"

text \<open>One character of a string literal: what it stands for, and the rest.\<close>

definition string_char :: "string \<Rightarrow> (string \<times> string) option" where
  "string_char s =
     (case s of
        [] \<Rightarrow> None
      | c # cs \<Rightarrow>
          if c = CHR 0x5C
          then (case cs of
              [] \<Rightarrow> None
            | e # es \<Rightarrow>
                if e = CHR ''u'' then parse_unicode es
                else map_option (\<lambda>x. ([x], es)) (simple_escape e))
          else if byte_of c < 32 then None
          else let n = utf8_len s
               in if n = 0 then Some (rune_error, cs) else Some (take n s, drop n s))"

lemma utf8_len_le: "utf8_len s \<le> length s"
  by (auto simp: utf8_len_def Let_def Suc_le_eq)

lemma parse_unicode_shorter: "parse_unicode s = Some (x, r) \<Longrightarrow> length r \<le> length s"
  by (auto simp: parse_unicode_def Let_def split: option.splits if_splits)

lemma string_char_shorter:
  assumes "string_char s = Some (x, r)"
  shows "length r < length s"
proof (cases s)
  case Nil
  with assms show ?thesis by (simp add: string_char_def)
next
  case (Cons c cs)
  have "0 < utf8_len s \<Longrightarrow> length (drop (utf8_len s) s) < length s" using Cons by simp
  then show ?thesis
    using assms Cons parse_unicode_shorter
    by (auto simp: string_char_def Let_def less_Suc_eq_le le_Suc_eq split: if_splits list.splits)
qed

function parse_chars :: "string \<Rightarrow> (string \<times> string) option" where
  "parse_chars s =
     (if s \<noteq> [] \<and> hd s = CHR 0x22 then Some ([], tl s)
      else case string_char s of
          None \<Rightarrow> None
        | Some (x, r) \<Rightarrow> map_option (\<lambda>(y, r'). (x @ y, r')) (parse_chars r))"
  by pat_completeness auto
termination by (relation "measure length") (auto dest: string_char_shorter)

declare parse_chars.simps [simp del]


text \<open>A number literal: sign, digits without a leading zero, fraction, exponent.\<close>

definition take_digits :: "string \<Rightarrow> (string \<times> string) option" where
  "take_digits s =
     (if s \<noteq> [] \<and> is_digit (hd s) then Some (takeWhile is_digit s, dropWhile is_digit s) else None)"

definition number_int :: "string \<Rightarrow> (string \<times> string) option" where
  "number_int s = (if s \<noteq> [] \<and> hd s = CHR ''0'' then Some (''0'', tl s) else take_digits s)"

definition number_fraction :: "string \<Rightarrow> (string \<times> string) option" where
  "number_fraction s =
     (if s \<noteq> [] \<and> hd s = CHR ''.'' then map_option (\<lambda>(d, r). (''.'' @ d, r)) (take_digits (tl s))
      else Some ([], s))"

definition number_exponent :: "string \<Rightarrow> (string \<times> string) option" where
  "number_exponent s =
     (if s \<noteq> [] \<and> hd s \<in> {CHR ''e'', CHR ''E''}
      then let sign = (if tl s \<noteq> [] \<and> hd (tl s) \<in> {CHR ''+'', CHR ''-''} then take 1 (tl s) else [])
           in map_option (\<lambda>(d, r). ([hd s] @ sign @ d, r)) (take_digits (drop (length sign) (tl s)))
      else Some ([], s))"

definition parse_number :: "string \<Rightarrow> (string \<times> string) option" where
  "parse_number s =
     (let sign = (if s \<noteq> [] \<and> hd s = CHR ''-'' then ''-'' else [])
      in case number_int (drop (length sign) s) of
           None \<Rightarrow> None
         | Some (i, r1) \<Rightarrow>
           (case number_fraction r1 of
              None \<Rightarrow> None
            | Some (f, r2) \<Rightarrow> map_option (\<lambda>(e, r3). (sign @ i @ f @ e, r3)) (number_exponent r2)))"

text \<open>
  How a value starts, at depth \<open>d\<close> of nesting (the package allows 10000): it is complete, or
  the members of an object or the elements of an array follow.
\<close>

datatype value_start = Complete json string | Members string | Elements string

definition parse_word :: "string \<Rightarrow> json \<Rightarrow> string \<Rightarrow> value_start option" where
  "parse_word k v s = (if take (length k) s = k then Some (Complete v (drop (length k) s)) else None)"

definition value_start :: "nat \<Rightarrow> string \<Rightarrow> value_start option" where
  "value_start d s =
     (case skip_space s of
        [] \<Rightarrow> None
      | c # cs \<Rightarrow>
          if c = CHR ''{'' then
            (if 10000 \<le> d then None
             else if take 1 (skip_space cs) = ''}'' then Some (Complete (JObj []) (drop 1 (skip_space cs)))
             else Some (Members cs))
          else if c = CHR ''['' then
            (if 10000 \<le> d then None
             else if take 1 (skip_space cs) = '']'' then Some (Complete (JArr []) (drop 1 (skip_space cs)))
             else Some (Elements cs))
          else if c = CHR 0x22 then map_option (\<lambda>(t, r). Complete (JStr t) r) (parse_chars cs)
          else if c = CHR ''n'' then parse_word ''null'' JNull (c # cs)
          else if c = CHR ''t'' then parse_word ''true'' (JBool True) (c # cs)
          else if c = CHR ''f'' then parse_word ''false'' (JBool False) (c # cs)
          else map_option (\<lambda>(t, r). Complete (JNum t) r) (parse_number (c # cs)))"

text \<open>A key and its colon.\<close>

definition parse_key :: "string \<Rightarrow> (string \<times> string) option" where
  "parse_key s =
     (case skip_space s of
        [] \<Rightarrow> None
      | c # cs \<Rightarrow>
          if c \<noteq> CHR 0x22 then None
          else case parse_chars cs of
              None \<Rightarrow> None
            | Some (k, r) \<Rightarrow>
              (case skip_space r of
                 [] \<Rightarrow> None
               | c1 # r1 \<Rightarrow> if c1 = CHR '':'' then Some (k, r1) else None))"

text \<open>
  Values. \<open>n\<close> is fuel, of which every call uses one. \<open>parse_members\<close> starts at a key,
  \<open>parse_elements\<close> at a value.
\<close>

fun parse_value :: "nat \<Rightarrow> nat \<Rightarrow> string \<Rightarrow> (json \<times> string) option"
  and parse_members :: "nat \<Rightarrow> nat \<Rightarrow> string \<Rightarrow> ((string \<times> json) list \<times> string) option"
  and parse_elements :: "nat \<Rightarrow> nat \<Rightarrow> string \<Rightarrow> (json list \<times> string) option" where
  "parse_value 0 d s = None"
| "parse_value (Suc n) d s =
     (case value_start d s of
        None \<Rightarrow> None
      | Some (Complete v r) \<Rightarrow> Some (v, r)
      | Some (Members r) \<Rightarrow> map_option (\<lambda>(ms, r'). (JObj ms, r')) (parse_members n (Suc d) r)
      | Some (Elements r) \<Rightarrow> map_option (\<lambda>(vs, r'). (JArr vs, r')) (parse_elements n (Suc d) r))"
| "parse_members 0 d s = None"
| "parse_members (Suc n) d s =
     (case parse_key s of
        None \<Rightarrow> None
      | Some (k, r1) \<Rightarrow>
        (case parse_value n d r1 of
           None \<Rightarrow> None
         | Some (v, r2) \<Rightarrow>
           (case skip_space r2 of
              [] \<Rightarrow> None
            | c # r3 \<Rightarrow>
                if c = CHR ''}'' then Some ([(k, v)], r3)
                else if c = CHR '','' then map_option (\<lambda>(ms, r). ((k, v) # ms, r)) (parse_members n d r3)
                else None)))"
| "parse_elements 0 d s = None"
| "parse_elements (Suc n) d s =
     (case parse_value n d s of
        None \<Rightarrow> None
      | Some (v, r1) \<Rightarrow>
        (case skip_space r1 of
           [] \<Rightarrow> None
         | c # r2 \<Rightarrow>
             if c = CHR '']'' then Some ([v], r2)
             else if c = CHR '','' then map_option (\<lambda>(vs, r). (v # vs, r)) (parse_elements n d r2)
             else None))"

subsection \<open>The fuel is enough\<close>

text \<open>A value, the members and the elements each leave less than they were given.\<close>

lemma skip_space_le: "length (skip_space s) \<le> length s"
  by (simp add: skip_space_def length_dropWhile_le)

lemma skip_space_shorter: "skip_space s = c # cs \<Longrightarrow> length cs < length s"
  by (metis skip_space_le length_Cons Suc_le_lessD)

lemma parse_chars_shorter: "parse_chars s = Some (x, r) \<Longrightarrow> length r < length s"
proof (induction s arbitrary: x r rule: parse_chars.induct)
  case (1 s)
  from 1(2) show ?case
  proof (subst (asm) parse_chars.simps, cases "s \<noteq> [] \<and> hd s = CHR 0x22")
    case True
    then have "length (tl s) < length s" by simp
    with True 1(2) show ?thesis by (simp add: parse_chars.simps)
  next
    case False
    with 1(2) obtain y t z where "string_char s = Some (y, t)" "parse_chars t = Some (z, r)"
      by (subst (asm) parse_chars.simps) (auto split: option.splits)
    with 1(1) [OF False] string_char_shorter show ?thesis by fastforce
  qed
qed

lemma take_digits_shorter: "take_digits s = Some (x, r) \<Longrightarrow> length r < length s"
  by (cases s) (auto simp: take_digits_def less_Suc_eq_le length_dropWhile_le split: if_splits)

lemma number_int_shorter: "number_int s = Some (x, r) \<Longrightarrow> length r < length s"
  using take_digits_shorter [of s x r] by (cases s) (auto simp: number_int_def split: if_splits)

lemma number_fraction_le: "number_fraction s = Some (x, r) \<Longrightarrow> length r \<le> length s"
  using take_digits_shorter by (cases s) (fastforce simp: number_fraction_def split: if_splits)+

lemma number_exponent_le: "number_exponent s = Some (x, r) \<Longrightarrow> length r \<le> length s"
  using take_digits_shorter by (cases s) (fastforce simp: number_exponent_def Let_def split: if_splits)+

lemma parse_number_shorter:
  assumes "parse_number s = Some (x, r)"
  shows "length r < length s"
proof -
  let ?k = "length (if s \<noteq> [] \<and> hd s = CHR ''-'' then ''-'' else [])"
  from assms obtain i r1 f r2 e where
    "number_int (drop ?k s) = Some (i, r1)" "number_fraction r1 = Some (f, r2)" "number_exponent r2 = Some (e, r)"
    by (auto simp: parse_number_def Let_def split: option.splits)
  then have "length r < length (drop ?k s)"
    using number_int_shorter number_fraction_le number_exponent_le by (meson order.strict_trans1 order_trans)
  then show ?thesis by (simp only: length_drop)
qed

lemma parse_word_shorter: "parse_word k v s = Some (Complete x r) \<Longrightarrow> k \<noteq> [] \<Longrightarrow> s \<noteq> [] \<Longrightarrow> length r < length s"
  by (auto simp: parse_word_def split: if_splits)

lemma parse_key_shorter: "parse_key s = Some (k, r) \<Longrightarrow> length r < length s"
proof -
  assume "parse_key s = Some (k, r)"
  then obtain cs r1 where "skip_space s = CHR 0x22 # cs" "parse_chars cs = Some (k, r1)" "skip_space r1 = CHR '':'' # r"
    by (auto simp: parse_key_def split: list.splits option.splits if_splits)
  then show ?thesis using skip_space_shorter parse_chars_shorter by (metis order.strict_trans)
qed

fun start_rest :: "value_start \<Rightarrow> string" where
  "start_rest (Complete v r) = r"
| "start_rest (Members r) = r"
| "start_rest (Elements r) = r"

lemma value_start_shorter:
  assumes "value_start d s = Some x"
  shows "length (start_rest x) < length s"
proof (cases "skip_space s")
  case Nil
  with assms show ?thesis by (simp add: value_start_def)
next
  case (Cons c cs)
  have cs: "length (drop 1 (skip_space cs)) \<le> length cs" using skip_space_le [of cs] by simp
  have word: "length (start_rest x) < length (c # cs)" if "parse_word k v (c # cs) = Some x" "k \<noteq> []" for k v
    using parse_word_shorter [of k v "c # cs"] that by (cases x) (auto simp: parse_word_def split: if_splits)
  have "length (start_rest x) < length (c # cs)"
  proof (cases "c \<in> {CHR ''{'', CHR ''['', CHR 0x22}")
    case True
    with assms Cons cs parse_chars_shorter [of cs] show ?thesis
      by (auto simp: value_start_def less_Suc_eq_le split: if_splits)
  next
    case False
    show ?thesis
    proof (cases "c \<in> {CHR ''n'', CHR ''t'', CHR ''f''}")
      case True
      with assms Cons have "parse_word ''null'' JNull (c # cs) = Some x \<or> parse_word ''true'' (JBool True) (c # cs) = Some x \<or>
          parse_word ''false'' (JBool False) (c # cs) = Some x"
        by (auto simp: value_start_def)
      then show ?thesis by (elim disjE) (erule word, simp)+
    next
      case no: False
      with assms Cons \<open>c \<notin> {CHR ''{'', CHR ''['', CHR 0x22}\<close> parse_number_shorter [of "c # cs"] show ?thesis
        by (auto simp: value_start_def)
    qed
  qed
  with Cons skip_space_le [of s] show ?thesis by simp
qed

lemma parse_shorter:
  "(\<forall>d s v r. parse_value n d s = Some (v, r) \<longrightarrow> length r < length s) \<and>
   (\<forall>d s ms r. parse_members n d s = Some (ms, r) \<longrightarrow> length r < length s) \<and>
   (\<forall>d s vs r. parse_elements n d s = Some (vs, r) \<longrightarrow> length r < length s)"
proof (induction n)
  case 0
  show ?case by simp
next
  case (Suc n)
  note IHv = Suc [THEN conjunct1, rule_format]
    and IHm = Suc [THEN conjunct2, THEN conjunct1, rule_format]
    and IHe = Suc [THEN conjunct2, THEN conjunct2, rule_format]
  have "length r < length s" if "parse_value (Suc n) d s = Some (v, r)" for d s v r
    using that value_start_shorter [of d s] IHm IHe
    by (fastforce split: option.splits value_start.splits)
  moreover have "length r < length s" if "parse_members (Suc n) d s = Some (ms, r)" for d s ms r
  proof -
    from that obtain k r1 x r2 c r3 where "parse_key s = Some (k, r1)" "parse_value n d r1 = Some (x, r2)"
      "skip_space r2 = c # r3" "r = r3 \<or> (\<exists>ms'. parse_members n d r3 = Some (ms', r))"
      by (auto split: option.splits list.splits if_splits)
    with parse_key_shorter IHv IHm skip_space_shorter show ?thesis by (metis order.strict_trans)
  qed
  moreover have "length r < length s" if "parse_elements (Suc n) d s = Some (vs, r)" for d s vs r
  proof -
    from that obtain x r1 c r2 where "parse_value n d s = Some (x, r1)" "skip_space r1 = c # r2"
      "r = r2 \<or> (\<exists>vs'. parse_elements n d r2 = Some (vs', r))"
      by (auto split: option.splits list.splits if_splits)
    with IHv IHe skip_space_shorter show ?thesis by (metis order.strict_trans)
  qed
  ultimately show ?case by blast
qed

text \<open>So twice the length of the text is fuel enough: more does not change what is parsed.\<close>

lemma parse_fuel:
  "(\<forall>m d s. 2 * length s < n \<longrightarrow> 2 * length s < m \<longrightarrow> parse_value n d s = parse_value m d s) \<and>
   (\<forall>m d s. 2 * length s < n \<longrightarrow> 2 * length s < m \<longrightarrow> parse_members n d s = parse_members m d s) \<and>
   (\<forall>m d s. 2 * length s + 1 < n \<longrightarrow> 2 * length s + 1 < m \<longrightarrow> parse_elements n d s = parse_elements m d s)"
proof (induction n)
  case 0
  show ?case by simp
next
  case (Suc n)
  note IHv = Suc [THEN conjunct1, rule_format]
    and IHm = Suc [THEN conjunct2, THEN conjunct1, rule_format]
    and IHe = Suc [THEN conjunct2, THEN conjunct2, rule_format]
  have "parse_value (Suc n) d s = parse_value (Suc m) d s" if le: "2 * length s < Suc n" "2 * length s < Suc m" for m d s
  proof (cases "value_start d s")
    case (Some x)
    note x = value_start_shorter [OF Some]
    show ?thesis
    proof (cases x)
      case (Members r)
      have "parse_members n (Suc d) r = parse_members m (Suc d) r" using x le Members by (intro IHm) auto
      with Some Members show ?thesis by simp
    next
      case (Elements r)
      have "parse_elements n (Suc d) r = parse_elements m (Suc d) r" using x le Elements by (intro IHe) auto
      with Some Elements show ?thesis by simp
    qed (simp add: Some)
  qed simp
  moreover have "parse_members (Suc n) d s = parse_members (Suc m) d s"
    if le: "2 * length s < Suc n" "2 * length s < Suc m" for m d s
  proof (cases "parse_key s")
    case (Some kr)
    obtain k r1 where kr: "kr = (k, r1)" by fastforce
    with Some parse_key_shorter have r1: "length r1 < length s" by simp
    then have v: "parse_value n d r1 = parse_value m d r1" using le by (intro IHv) linarith+
    show ?thesis
    proof (cases "parse_value m d r1")
      case vr: (Some vr)
      obtain x r2 where w: "vr = (x, r2)" by fastforce
      with vr r1 parse_shorter have r2: "length r2 < length s" by (metis order.strict_trans)
      show ?thesis
      proof (cases "skip_space r2")
        case (Cons c r3)
        with r2 skip_space_shorter have "length r3 < length s" by fastforce
        then have "parse_members n d r3 = parse_members m d r3" using le by (intro IHm) linarith+
        then show ?thesis by (simp add: Some kr v vr w Cons)
      qed (simp add: Some kr v vr w)
    qed (simp add: Some kr v)
  qed simp
  moreover have "parse_elements (Suc n) d s = parse_elements (Suc m) d s"
    if le: "2 * length s + 1 < Suc n" "2 * length s + 1 < Suc m" for m d s
  proof -
    have v: "parse_value n d s = parse_value m d s" using le by (intro IHv) linarith+
    show ?thesis
    proof (cases "parse_value m d s")
      case (Some vr)
      obtain x r1 where w: "vr = (x, r1)" by fastforce
      with Some parse_shorter have r1: "length r1 < length s" by metis
      show ?thesis
      proof (cases "skip_space r1")
        case (Cons c r2)
        with r1 skip_space_shorter have "length r2 < length s" by fastforce
        then have "parse_elements n d r2 = parse_elements m d r2" using le by (intro IHe) linarith+
        then show ?thesis by (simp add: v Some w Cons)
      qed (simp add: v Some w)
    qed (simp add: v)
  qed
  ultimately have step: "2 * length s < Suc n \<Longrightarrow> 2 * length s < Suc m \<Longrightarrow> parse_value (Suc n) d s = parse_value (Suc m) d s"
    "2 * length s < Suc n \<Longrightarrow> 2 * length s < Suc m \<Longrightarrow> parse_members (Suc n) d s = parse_members (Suc m) d s"
    "2 * length s + 1 < Suc n \<Longrightarrow> 2 * length s + 1 < Suc m \<Longrightarrow> parse_elements (Suc n) d s = parse_elements (Suc m) d s"
    for m d s by blast+
  show ?case
  proof (intro conjI allI impI)
    fix m d s assume le: "2 * length (s :: string) < Suc n" "2 * length s < m"
    then obtain m' where m: "m = Suc m'" by (cases m) auto
    from le show "parse_value (Suc n) d s = parse_value m d s" unfolding m by (rule step(1))
  next
    fix m d s assume le: "2 * length (s :: string) < Suc n" "2 * length s < m"
    then obtain m' where m: "m = Suc m'" by (cases m) auto
    from le show "parse_members (Suc n) d s = parse_members m d s" unfolding m by (rule step(2))
  next
    fix m d s assume le: "2 * length (s :: string) + 1 < Suc n" "2 * length s + 1 < m"
    then obtain m' where m: "m = Suc m'" by (cases m) auto
    from le show "parse_elements (Suc n) d s = parse_elements m d s" unfolding m by (rule step(3))
  qed
qed

text \<open>\<open>Decoder.Decode\<close> reads the first value; \<open>Unmarshal\<close> wants nothing but space after it.\<close>

definition json_first :: "string \<Rightarrow> json option" where
  "json_first s = map_option fst (parse_value (Suc (2 * length s)) 0 s)"

definition json_whole :: "string \<Rightarrow> json option" where
  "json_whole s =
     (case parse_value (Suc (2 * length s)) 0 s of
        Some (v, r) \<Rightarrow> if skip_space r = [] then Some v else None
      | None \<Rightarrow> None)"

lemma json_first_empty [simp]: "json_first [] = None"
  by (simp add: json_first_def value_start_def skip_space_def)

section \<open>The round trip\<close>

function valid_utf8 :: "string \<Rightarrow> bool" where
  "valid_utf8 s = (if s = [] then True else if utf8_len s = 0 then False else valid_utf8 (drop (utf8_len s) s))"
  by pat_completeness auto
termination by (relation "measure length") auto

declare valid_utf8.simps [simp del]

lemma byte_of_inj: "byte_of c = byte_of d \<longleftrightarrow> c = d"
  by (simp add: byte_of_def)

lemma byte_of_lt [simp]: "byte_of c < 256"
  by (simp add: byte_of_def)

lemma char_of_byte [simp]: "char_of (byte_of c) = c"
  by (simp add: byte_of_def)

lemma hex_val_digit: "hex_val (hex_digit n) = Some (n mod 16)"
proof -
  have "hex_val (''0123456789abcdef'' ! k) = Some k" if "k < 16" for k
    using that by (auto simp: less_Suc_eq numeral_eq_Suc) (simp_all add: hex_val_def byte_of_def)
  then show ?thesis by (simp add: hex_digit_def)
qed

lemma escape_ascii_read:
  assumes "byte_of c < 128"
  shows "string_char (escape_ascii c @ t) = Some ([c], t) \<and> escape_ascii c \<noteq> [] \<and> hd (escape_ascii c) \<noteq> CHR 0x22"
proof -
  have named: "byte_of c \<in> {8, 12, 10, 13, 9} \<Longrightarrow> c \<in> {CHR 0x08, CHR 0x0C, CHR 0x0A, CHR 0x0D, CHR 0x09}"
    using byte_of_inj [of c "CHR 0x08"] byte_of_inj [of c "CHR 0x0C"] byte_of_inj [of c "CHR 0x0A"]
      byte_of_inj [of c "CHR 0x0D"] byte_of_inj [of c "CHR 0x09"]
    by (auto simp: byte_of_def)
  consider (Quoted) "c = CHR 0x22 \<or> c = CHR 0x5C" | (Named) "byte_of c \<in> {8, 12, 10, 13, 9}"
    | (Hex) "c \<noteq> CHR 0x22" "c \<noteq> CHR 0x5C" "byte_of c \<notin> {8, 12, 10, 13, 9}" "byte_of c < 32 \<or> c \<in> {CHR ''<'', CHR ''>'', CHR ''&''}"
    | (Plain) "c \<noteq> CHR 0x22" "c \<noteq> CHR 0x5C" "32 \<le> byte_of c" "c \<notin> {CHR ''<'', CHR ''>'', CHR ''&''}"
    by force
  then show ?thesis
  proof cases
    case Quoted
    then show ?thesis by (auto simp: escape_ascii_def string_char_def simple_escape_def)
  next
    case Named
    from named [OF this] show ?thesis
      by (elim insertE emptyE) (simp_all add: escape_ascii_def string_char_def simple_escape_def byte_of_def char_of_def bit_0)
  next
    case Hex
    let ?b = "byte_of c"
    have "hex4 ([CHR ''0'', CHR ''0'', hex_digit (?b div 16), hex_digit ?b] @ t) = Some (?b div 16 mod 16 * 16 + ?b mod 16)"
      by (simp add: hex4_def hex_val_digit) (simp add: hex_val_def byte_of_def)
    also have "?b div 16 mod 16 * 16 + ?b mod 16 = ?b" using assms by simp
    finally have "parse_unicode ([CHR ''0'', CHR ''0'', hex_digit (?b div 16), hex_digit ?b] @ t) = Some ([c], t)"
      using assms by (simp add: parse_unicode_def encode_rune_def)
    with Hex show ?thesis by (auto simp: escape_ascii_def string_char_def Let_def)
  next
    case Plain
    then have "escape_ascii c = [c]" by (auto simp: escape_ascii_def Let_def)
    with Plain assms show ?thesis by (simp add: string_char_def utf8_len_def)
  qed
qed


lemma utf8_len_cases: "utf8_len s \<in> {0, 1, 2, 3, 4}"
  by (simp add: utf8_len_def Let_def)

lemma utf8_len_take:
  assumes "1 < utf8_len s"
  shows "utf8_len (take (utf8_len s) s @ t) = utf8_len s" "194 \<le> byte_of (hd s)"
proof -
  have "utf8_len (take (utf8_len s) s @ t) = utf8_len s \<and> 194 \<le> byte_of (hd s)"
  proof (cases "utf8_len s = 2")
    case True
    then obtain a b u where s: "s = a # b # u" using utf8_len_le [of s]
      by (cases s; cases "tl s") auto
    from True show ?thesis unfolding s by (auto simp: utf8_len_def Let_def split: if_splits)
  next
    case no2: False
    show ?thesis
    proof (cases "utf8_len s = 3")
      case True
      then obtain a b c u where s: "s = a # b # c # u" using utf8_len_le [of s]
        by (cases s; cases "tl s"; cases "tl (tl s)") auto
      from True show ?thesis unfolding s by (auto simp: utf8_len_def Let_def split: if_splits)
    next
      case False
      with no2 assms utf8_len_cases [of s] have 4: "utf8_len s = 4" by auto
      then obtain a b c e u where s: "s = a # b # c # e # u" using utf8_len_le [of s]
        by (cases s; cases "tl s"; cases "tl (tl s)"; cases "tl (tl (tl s))") auto
      from 4 show ?thesis unfolding s by (auto simp: utf8_len_def Let_def split: if_splits)
    qed
  qed
  then show "utf8_len (take (utf8_len s) s @ t) = utf8_len s" "194 \<le> byte_of (hd s)" by simp_all
qed

lemma utf8_len_one: "utf8_len s = 1 \<Longrightarrow> s \<noteq> [] \<and> byte_of (hd s) < 128"
  by (cases s) (auto simp: utf8_len_def Let_def split: if_splits)

lemma multibyte_read:
  assumes n: "1 < utf8_len s"
  shows "string_char (take (utf8_len s) s @ t) = Some (take (utf8_len s) s, t)"
    "take (utf8_len s) s \<noteq> []" "hd (take (utf8_len s) s) \<noteq> CHR 0x22"
proof -
  from n utf8_len_le [of s] have ne: "s \<noteq> []" by auto
  then obtain c cs where s: "s = c # cs" by (cases s) auto
  have c: "194 \<le> byte_of c" using utf8_len_take(2) [OF n] s by simp
  then have q: "c \<noteq> CHR 0x22" "c \<noteq> CHR 0x5C" by (auto simp: byte_of_def)
  let ?p = "take (utf8_len s) s"
  from n s obtain p' where p: "?p = c # p'" by (cases "utf8_len s") auto
  have len: "length ?p = utf8_len s" using utf8_len_le [of s] by simp
  have "string_char (?p @ t) = (let k = utf8_len (?p @ t) in
      if k = 0 then Some (rune_error, p' @ t) else Some (take k (?p @ t), drop k (?p @ t)))"
    unfolding p using c q by (simp add: string_char_def Let_def)
  with utf8_len_take(1) [OF n, of t] n len show "string_char (?p @ t) = Some (?p, t)" by simp
  from p q show "?p \<noteq> []" "hd ?p \<noteq> CHR 0x22" by simp_all
qed

lemma separator_read:
  assumes sep: "line_separator s = Some e" and n: "1 < utf8_len s"
  shows "string_char (e @ t) = Some (take (utf8_len s) s, t)" "e \<noteq> []" "hd e \<noteq> CHR 0x22"
proof -
  from sep have len: "2 < length s" and two: "take 2 s = map char_of [226, 128 :: nat]"
    and b3: "byte_of (s ! 2) = 168 \<or> byte_of (s ! 2) = 169"
    and e: "e = [CHR 0x5C, CHR ''u'', CHR ''2'', CHR ''0'', CHR ''2'', hex_digit (byte_of (s ! 2) - 160)]"
    by (auto simp: line_separator_def split: if_splits)
  from len obtain a b c u where s: "s = a # b # c # u"
    by (cases s; cases "tl s"; cases "tl (tl s)") auto
  have ab: "a = CHR 0xE2" "b = CHR 0x80" using two s by (simp_all add: char_of_def bit_0)
  have c: "c = char_of (168 :: nat) \<or> c = char_of (169 :: nat)"
    using b3 s char_of_byte [of c] by (auto simp del: char_of_byte)
  have l3: "utf8_len s = 3"
    using c by (auto simp: s ab utf8_len_def is_cont_def byte_of_def char_of_def bit_0)
  have h: "hex4 ([CHR ''2'', CHR ''0'', CHR ''2'', hex_digit (byte_of c - 160)] @ t) = Some (8224 + (byte_of c - 160))"
    using b3 s by (auto simp: hex4_def hex_val_digit) (simp_all add: hex_val_def byte_of_def)
  have r: "encode_rune (8224 + (byte_of c - 160)) = [a, b, c]"
    using c by (auto simp: ab encode_rune_def byte_of_def char_of_def bit_0)
  have "8224 + (byte_of c - 160) < 8480" using byte_of_lt [of c] by linarith
  then have "parse_unicode ([CHR ''2'', CHR ''0'', CHR ''2'', hex_digit (byte_of c - 160)] @ t) = Some ([a, b, c], t)"
    using h r by (simp add: parse_unicode_def)
  then show "string_char (e @ t) = Some (take (utf8_len s) s, t)"
    unfolding l3 e by (simp add: s string_char_def)
  show "e \<noteq> []" "hd e \<noteq> CHR 0x22" by (simp_all add: e)
qed

lemma parse_chars_step:
  assumes "string_char (p @ t) = Some (x, t)" "p \<noteq> []" "hd p \<noteq> CHR 0x22" "parse_chars t = Some (y, r)"
  shows "parse_chars (p @ t) = Some (x @ y, r)"
  using assms by (subst parse_chars.simps) simp

lemma parse_json_chars:
  "valid_utf8 s \<Longrightarrow> parse_chars (json_chars s @ CHR 0x22 # r) = Some (s, r)"
proof (induction s rule: json_chars.induct)
  case (1 s)
  show ?case
  proof (cases "s = []")
    case True
    then show ?thesis by (simp add: json_chars.simps parse_chars.simps)
  next
    case ne: False
    with 1(4) have n0: "utf8_len s \<noteq> 0" and v: "valid_utf8 (drop (utf8_len s) s)"
      by (subst (asm) valid_utf8.simps; simp split: if_splits)+
    show ?thesis
    proof (cases "utf8_len s = 1")
      case True
      from utf8_len_one [OF True] have h: "byte_of (hd s) < 128" by simp
      from 1(2) [OF refl ne _ True] v True
      have IH: "parse_chars (json_chars (drop 1 s) @ CHR 0x22 # r) = Some (drop 1 s, r)" by simp
      from escape_ascii_read [OF h, of "json_chars (drop 1 s) @ CHR 0x22 # r"]
      have "parse_chars (escape_ascii (hd s) @ json_chars (drop 1 s) @ CHR 0x22 # r) = Some ([hd s] @ drop 1 s, r)"
        by (intro parse_chars_step [OF _ _ _ IH]) simp_all
      with ne True show ?thesis by (subst json_chars.simps) (cases s; simp)
    next
      case False
      with n0 have n: "1 < utf8_len s" by simp
      from 1(3) [OF refl ne n0 False v]
      have IH: "parse_chars (json_chars (drop (utf8_len s) s) @ CHR 0x22 # r) = Some (drop (utf8_len s) s, r)" .
      let ?p = "case line_separator s of None \<Rightarrow> take (utf8_len s) s | Some e \<Rightarrow> e"
      have "parse_chars (?p @ json_chars (drop (utf8_len s) s) @ CHR 0x22 # r) =
          Some (take (utf8_len s) s @ drop (utf8_len s) s, r)"
        by (intro parse_chars_step [OF _ _ _ IH])
          (use multibyte_read [OF n] separator_read [OF _ n] in \<open>simp_all split: option.split\<close>)
      with ne n0 False show ?thesis by (subst json_chars.simps) (simp add: Let_def)
    qed
  qed
qed


text \<open>A struct of strings, in front of anything.\<close>

lemma skip_space_none: "\<not> is_space c \<Longrightarrow> skip_space (c # s) = c # s"
  by (simp add: skip_space_def)

lemma not_space: "\<not> is_space (CHR 0x22)" "\<not> is_space (CHR ''{'')" "\<not> is_space (CHR ''}'')" "\<not> is_space (CHR '':'')"
  "\<not> is_space (CHR '','')"
  by (simp_all add: is_space_def byte_of_def)

lemma string_start: "value_start d (CHR 0x22 # s) = map_option (\<lambda>(t, r). Complete (JStr t) r) (parse_chars s)"
  by (simp add: value_start_def skip_space_none not_space)

lemma parse_key_read:
  "valid_utf8 k \<Longrightarrow> parse_key (json_string k @ CHR '':'' # t) = Some (k, t)"
  by (simp add: parse_key_def json_string_def skip_space_none not_space parse_json_chars)

lemma parse_string_value:
  assumes "valid_utf8 v"
  shows "parse_value (Suc n) d (json_string v @ t) = Some (JStr v, t)"
  using parse_json_chars [OF assms, of t] by (simp add: json_string_def string_start)

lemma parse_json_fields:
  assumes "kvs \<noteq> []" "\<forall>(k, v) \<in> set kvs. valid_utf8 k \<and> valid_utf8 v" "length kvs < n"
  shows "parse_members n d (json_fields (map (\<lambda>(k, v). (k, json_string v)) kvs) @ CHR ''}'' # t) =
    Some (map (\<lambda>(k, v). (k, JStr v)) kvs, t)"
  using assms
proof (induction kvs arbitrary: n)
  case Nil
  then show ?case by simp
next
  case (Cons kv kvs)
  obtain k v where kv: "kv = (k, v)" by fastforce
  with Cons.prems have valid: "valid_utf8 k" "valid_utf8 v" by auto
  obtain m where n: "n = Suc (Suc m)" using Cons.prems by (cases n; cases "n - 1") auto
  let ?rest = "(if kvs = [] then [] else '','' @ json_fields (map (\<lambda>(k, v). (k, json_string v)) kvs)) @ CHR ''}'' # t"
  have key: "parse_key (json_string k @ CHR '':'' # u) = Some (k, u)" for u by (rule parse_key_read [OF valid(1)])
  have val: "parse_value (Suc m) d (json_string v @ u) = Some (JStr v, u)" for u by (rule parse_string_value [OF valid(2)])
  show ?case
  proof (cases "kvs = []")
    case True
    then show ?thesis using key val
      by (simp add: n kv skip_space_none not_space)
  next
    case False
    have IH: "parse_members (Suc m) d (json_fields (map (\<lambda>(k, v). (k, json_string v)) kvs) @ CHR ''}'' # t) =
        Some (map (\<lambda>(k, v). (k, JStr v)) kvs, t)"
      using Cons.prems False n by (intro Cons.IH) auto
    show ?thesis using key val IH False
      by (simp add: n kv skip_space_none not_space)
  qed
qed

lemma length_json_fields: "kvs \<noteq> [] \<Longrightarrow> length kvs \<le> length (json_fields kvs)"
  by (induction kvs rule: json_fields.induct) (auto simp: json_string_def)

theorem parse_json_object:
  assumes "\<forall>(k, v) \<in> set kvs. valid_utf8 k \<and> valid_utf8 v"
  shows "json_whole (json_object (map (\<lambda>(k, v). (k, json_string v)) kvs)) = Some (JObj (map (\<lambda>(k, v). (k, JStr v)) kvs))"
proof (cases "kvs = []")
  case True
  then show ?thesis
    by (simp add: json_whole_def json_object_def value_start_def skip_space_none not_space numeral_eq_Suc)
      (simp add: skip_space_def)
next
  case False
  let ?f = "json_fields (map (\<lambda>(k, v). (k, json_string v)) kvs)"
  let ?n = "2 * length (json_object (map (\<lambda>(k, v). (k, json_string v)) kvs))"
  have fuel: "length kvs < ?n"
    using length_json_fields [of "map (\<lambda>(k, v). (k, json_string v)) kvs"] False by (simp add: json_object_def)
  obtain u where u: "?f = CHR 0x22 # u"
    using False by (cases kvs) (auto simp: json_string_def split: prod.splits)
  have start: "value_start 0 (json_object (map (\<lambda>(k, v). (k, json_string v)) kvs)) = Some (Members (?f @ ''}''))"
    by (simp add: value_start_def json_object_def skip_space_none not_space u)
  have "parse_members ?n 1 (?f @ CHR ''}'' # []) = Some (map (\<lambda>(k, v). (k, JStr v)) kvs, [])"
    by (rule parse_json_fields [OF False assms fuel])
  then show ?thesis by (simp add: json_whole_def start) (simp add: skip_space_def)
qed

text \<open>Text that needs no escape is printed as it is.\<close>

definition plain :: "char \<Rightarrow> bool" where
  "plain c \<longleftrightarrow> 32 \<le> byte_of c \<and> byte_of c < 128 \<and> c \<notin> {CHR 0x22, CHR 0x5C, CHR ''<'', CHR ''>'', CHR ''&''}"

lemma json_chars_plain: "list_all plain s \<Longrightarrow> json_chars s = s"
proof (induction s)
  case Nil
  then show ?case by (simp add: json_chars.simps)
next
  case (Cons c s)
  then have c: "plain c" and s: "json_chars s = s" by simp_all
  have "utf8_len (c # s) = 1" using c by (simp add: plain_def utf8_len_def)
  moreover have "escape_ascii c = [c]" using c by (auto simp: plain_def escape_ascii_def Let_def)
  ultimately show ?case by (subst json_chars.simps) (simp add: s)
qed

lemma valid_utf8_plain: "list_all plain s \<Longrightarrow> valid_utf8 s"
proof (induction s)
  case Nil
  then show ?case by (simp add: valid_utf8.simps)
next
  case (Cons c s)
  then have "utf8_len (c # s) = 1" "valid_utf8 s" by (simp_all add: plain_def utf8_len_def)
  then show ?case by (subst valid_utf8.simps) simp
qed

section \<open>Times\<close>

text \<open>
  \<open>Time.MarshalJSON\<close> of a time in UTC: RFC 3339 with the fraction's trailing zeros dropped, for
  the years 0 to 9999. \<open>pad_num k n\<close> is \<open>n\<close> in \<open>k\<close> decimal digits.
\<close>

fun pad_num :: "nat \<Rightarrow> nat \<Rightarrow> string" where
  "pad_num 0 n = []"
| "pad_num (Suc k) n = pad_num k (n div 10) @ [''0123456789'' ! (n mod 10)]"

lemma pad_num_numeral [simp]:
  "pad_num (numeral k) n = pad_num (pred_numeral k) (n div 10) @ [''0123456789'' ! (n mod 10)]"
  by (simp only: numeral_eq_Suc [of k] pad_num.simps)

definition year_of_day :: "nat \<Rightarrow> nat" where
  "year_of_day n =
     (let y = n * 400 div 146097
      in if n < days_before_year y then y - 1 else if days_before_year (y + 1) \<le> n then y + 1 else y)"

definition month_of_day :: "nat \<Rightarrow> nat \<Rightarrow> nat" where
  "month_of_day y n = length (filter (\<lambda>m. days_before_month m y \<le> n) [1..<13])"

definition marshal_time :: "instant \<Rightarrow> go_error + string" where
  "marshal_time t =
     (let ns = nat (t mod 10 ^ 9); secs = t div 10 ^ 9 + 719528 * 86400
      in if secs < 0 \<or> int (days_before_year 10000) * 86400 \<le> secs
         then Inl (OtherErr ''Time.MarshalJSON: year outside of range [0,9999]'')
         else
           let day = nat (secs div 86400); s = nat (secs mod 86400); y = year_of_day day;
               n = day - days_before_year y; m = month_of_day y n; d = n - days_before_month m y + 1;
               fraction = rev (dropWhile (\<lambda>c. c = CHR ''0'') (rev (pad_num 9 ns)))
           in Inr ([CHR 0x22] @ pad_num 4 y @ ''-'' @ pad_num 2 m @ ''-'' @ pad_num 2 d @ ''T'' @
                pad_num 2 (s div 3600) @ '':'' @ pad_num 2 (s div 60 mod 60) @ '':'' @ pad_num 2 (s mod 60) @
                (if fraction = [] then [] else ''.'' @ fraction) @ ''Z'' @ [CHR 0x22]))"

section \<open>Decoding into a struct\<close>

text \<open>
  Decoding into a struct with \<open>encoding/json\<close>: keys match field names up to case (with the two
  letters outside ASCII that fold into it), unknown keys are skipped, a later key wins, \<open>null\<close>
  leaves a field alone, and a value of the wrong type makes the whole decoding fail.
\<close>

fun fold_name :: "string \<Rightarrow> string" where
  "fold_name [] = []"
| "fold_name (c # cs) =
     (if 97 \<le> byte_of c \<and> byte_of c \<le> 122 then char_of (byte_of c - 32) # fold_name cs
      else if c = CHR 0xC5 \<and> cs \<noteq> [] \<and> hd cs = CHR 0xBF then CHR ''S'' # fold_name (tl cs)
      else if c = CHR 0xE2 \<and> take 2 cs = [CHR 0x84, CHR 0xAA] then CHR ''K'' # fold_name (drop 2 cs)
      else c # fold_name cs)"

fun decode_fields :: "(string \<Rightarrow> json \<Rightarrow> 'r \<Rightarrow> 'r option) \<Rightarrow> (string \<times> json) list \<Rightarrow> 'r \<Rightarrow> 'r option" where
  "decode_fields field [] r = Some r"
| "decode_fields field ((k, v) # kvs) r =
     (case field (fold_name k) v r of None \<Rightarrow> None | Some r' \<Rightarrow> decode_fields field kvs r')"

definition decode_body :: "(string \<Rightarrow> json \<Rightarrow> 'r \<Rightarrow> 'r option) \<Rightarrow> 'r \<Rightarrow> json option \<Rightarrow> 'r option" where
  "decode_body field zero body =
     (case body of
        Some (JObj kvs) \<Rightarrow> decode_fields field kvs zero
      | Some JNull \<Rightarrow> Some zero
      | _ \<Rightarrow> None)"

definition decode_string :: "(string \<Rightarrow> 'r) \<Rightarrow> 'r \<Rightarrow> json \<Rightarrow> 'r option" where
  "decode_string put r v = (case v of JStr s \<Rightarrow> Some (put s) | JNull \<Rightarrow> Some r | _ \<Rightarrow> None)"

definition decode_uint64 :: "(uint64 \<Rightarrow> 'r) \<Rightarrow> 'r \<Rightarrow> json \<Rightarrow> 'r option" where
  "decode_uint64 put r v =
     (case v of
        JNum lit \<Rightarrow>
          if lit \<noteq> [] \<and> list_all is_digit lit
            \<and> foldl (\<lambda>n c. n * 10 + digit_val c) 0 lit < 2 ^ 64
          then Some (put (of_nat (foldl (\<lambda>n c. n * 10 + digit_val c) 0 lit))) else None
      | JNull \<Rightarrow> Some r
      | _ \<Rightarrow> None)"

lemmas decode_eval = decode_body_def decode_string_def decode_uint64_def byte_of_def is_digit_def
  digit_val_def char_of_def bit_0

end
