(* ===== verification/Api_Server.thy ===== *)
theory Api_Server
  imports Pow Tokens Instance_Ctrl Go_Json
begin

text \<open>
  \<open>internal/api\<close>: the REST server. Every handler of \<open>handlers.go\<close> and \<open>server.go\<close> is a
  definition of its name, from a server, the \<open>name\<close> of the URL, a request and a world to a
  response, the server and the world after it. The server's only mutable state is its table of
  puzzles; each access to it is one atomic step, as its mutex makes it.
\<close>

section \<open>Requests and responses\<close>

text \<open>\<open>ErrorText m\<close> is what \<open>http.Error\<close> writes; the others are what \<open>writeJSON\<close> encodes.\<close>

datatype payload =
    NoBody
  | ErrorText string
  | JsonTemplates "challenge_template list"
  | JsonTemplate challenge_template
  | JsonInstances "challenge_instance list"
  | JsonInstance challenge_instance
  | JsonPuzzle pow_puzzle
  | JsonRequired bool
  | JsonHealth string

record response =
  rs_status :: int
  rs_body :: payload

definition httpError :: "string \<Rightarrow> int \<Rightarrow> response" where
  "httpError msg code = \<lparr>rs_status = code, rs_body = ErrorText msg\<rparr>"

definition writeJSON :: "int \<Rightarrow> payload \<Rightarrow> response" where
  "writeJSON status v = \<lparr>rs_status = status, rs_body = v\<rparr>"

section \<open>The server\<close>

record 'w server =
  sv_client :: "'w kube"
  sv_backend :: "'w backend"
  sv_rand :: "nat \<Rightarrow> 'w \<Rightarrow> byte list \<times> 'w"
  sv_namespace :: string
  sv_puzzles :: "string \<rightharpoonup> pow_puzzle"

definition NewServer :: "'w kube \<Rightarrow> 'w backend \<Rightarrow> (nat \<Rightarrow> 'w \<Rightarrow> byte list \<times> 'w) \<Rightarrow> 'w server" where
  "NewServer c backend rnd =
     \<lparr>sv_client = c, sv_backend = backend, sv_rand = rnd, sv_namespace = ''default'', sv_puzzles = Map.empty\<rparr>"

type_synonym 'w handler = "'w server \<Rightarrow> string \<Rightarrow> http_request \<Rightarrow> 'w \<Rightarrow> response \<times> 'w server \<times> 'w"

section \<open>Puzzles\<close>

definition storePoW :: "pow_puzzle \<Rightarrow> 'w server \<Rightarrow> 'w server" where
  "storePoW puzzle s = s\<lparr>sv_puzzles := (sv_puzzles s)(pz_challenge puzzle \<mapsto> puzzle)\<rparr>"

text \<open>The puzzle is deleted whatever comes next; the clock is read only for a puzzle that was there.\<close>

definition consumePoW :: "'w server \<Rightarrow> string \<Rightarrow> uint64 \<Rightarrow> 'w \<Rightarrow> bool \<times> 'w server \<times> 'w" where
  "consumePoW s challenge nonce w =
     (case sv_puzzles s challenge of
        None \<Rightarrow> (False, s, w)
      | Some puzzle \<Rightarrow>
          (let s' = s\<lparr>sv_puzzles := (sv_puzzles s)(challenge := None)\<rparr> in
           case kb_now (sv_client s) w of
             (now, w1) \<Rightarrow>
               (if pz_expires puzzle < now then (False, s', w1)
                else (VerifyPoW (pz_challenge puzzle) nonce (pz_difficulty puzzle), s', w1))))"

section \<open>Templates\<close>

definition handleListTemplates :: "'w handler" where
  "handleListTemplates s name r w =
     (case k_list (kb_templates (sv_client s)) \<lparr>lo_namespace = Some (sv_namespace s), lo_labels = Map.empty\<rparr> w of
        (Inl e, w1) \<Rightarrow> (httpError (err_text e) 500, s, w1)
      | (Inr items, w1) \<Rightarrow> (writeJSON 200 (JsonTemplates items), s, w1))"

definition handleGetTemplate :: "'w handler" where
  "handleGetTemplate s name r w =
     (case k_get (kb_templates (sv_client s)) (sv_namespace s, name) w of
        (Inl e, w1) \<Rightarrow>
          if is_not_found e then (httpError ''template not found'' 404, s, w1)
          else (httpError (err_text e) 500, s, w1)
      | (Inr tmpl, w1) \<Rightarrow> (writeJSON 200 (JsonTemplate tmpl), s, w1))"

section \<open>Creating an instance\<close>

record create_request =
  crq_template :: string
  crq_team :: string
  crq_player :: string
  crq_challenge :: string
  crq_nonce :: uint64

definition create_request_zero :: create_request where
  "create_request_zero = \<lparr>crq_template = '''', crq_team = '''', crq_player = '''', crq_challenge = '''', crq_nonce = 0\<rparr>"

definition create_field :: "string \<Rightarrow> json \<Rightarrow> create_request \<Rightarrow> create_request option" where
  "create_field k v r =
     (if k = ''TEMPLATE'' then decode_string (\<lambda>x. r\<lparr>crq_template := x\<rparr>) r v
      else if k = ''TEAM'' then decode_string (\<lambda>x. r\<lparr>crq_team := x\<rparr>) r v
      else if k = ''PLAYER'' then decode_string (\<lambda>x. r\<lparr>crq_player := x\<rparr>) r v
      else if k = ''POWCHALLENGE'' then decode_string (\<lambda>x. r\<lparr>crq_challenge := x\<rparr>) r v
      else if k = ''POWNONCE'' then decode_uint64 (\<lambda>x. r\<lparr>crq_nonce := x\<rparr>) r v
      else Some r)"

definition instanceName :: "string \<Rightarrow> string \<Rightarrow> string \<Rightarrow> string" where
  "instanceName template team player =
     (let name = template @ ''-'' @ team in if player \<noteq> '''' then name @ ''-'' @ player else name)"

definition newInstance :: "'w server \<Rightarrow> create_request \<Rightarrow> challenge_instance" where
  "newInstance s body =
     \<lparr>ci_meta = new_meta (instanceName (crq_template body) (crq_team body) (crq_player body)) (sv_namespace s)
        [LabelChallenge \<mapsto> crq_template body, LabelTeam \<mapsto> crq_team body],
      ci_spec = \<lparr>is_template = crq_template body, is_team = crq_team body, is_player = crq_player body,
        is_ttl_override = ''''\<rparr>,
      ci_status = empty_instance_status\<rparr>"

definition createInstance :: "'w server \<Rightarrow> create_request \<Rightarrow> 'w \<Rightarrow> response \<times> 'w server \<times> 'w" where
  "createInstance s body w =
     (case k_create (kb_instances (sv_client s)) (newInstance s body) w of
        (Inl e, w1) \<Rightarrow>
          if is_already_exists e then (httpError ''instance already exists'' 409, s, w1)
          else (httpError (err_text e) 500, s, w1)
      | (Inr inst, w1) \<Rightarrow> (writeJSON 201 (JsonInstance inst), s, w1))"

definition pow_required :: "challenge_template \<Rightarrow> bool" where
  "pow_required tmpl = (case ts_pow (ct_spec tmpl) of None \<Rightarrow> False | Some p \<Rightarrow> pow_enabled p)"

definition handleCreateInstance :: "'w handler" where
  "handleCreateInstance s name r w =
     (case decode_body create_field create_request_zero (json_first (rq_body r)) of
        None \<Rightarrow> (httpError ''invalid body'' 400, s, w)
      | Some body \<Rightarrow>
        (if crq_template body = '''' \<or> crq_team body = ''''
         then (httpError ''template and team are required'' 400, s, w)
         else
           (case k_get (kb_templates (sv_client s)) (sv_namespace s, crq_template body) w of
              (Inl e, w1) \<Rightarrow>
                if is_not_found e then (httpError ''template not found'' 404, s, w1)
                else (httpError (err_text e) 500, s, w1)
            | (Inr tmpl, w1) \<Rightarrow>
                (if \<not> tst_ready (ct_status tmpl) then (httpError ''template is not ready'' 409, s, w1)
                 else if pow_required tmpl
                 then (case consumePoW s (crq_challenge body) (crq_nonce body) w1 of
                    (ok, s1, w2) \<Rightarrow>
                      if \<not> ok then (httpError ''invalid or missing proof of work'' 428, s1, w2)
                      else createInstance s1 body w2)
                 else createInstance s body w1))))"

section \<open>Reading instances\<close>

text \<open>
  The filter by status overwrites the slice it reads: \<open>filtered := items[:0]\<close> shares its array.
  \<open>filterLoop status n i count items\<close> runs the last \<open>n\<close> rounds, from index \<open>i\<close>, with \<open>count\<close>
  items kept so far.
\<close>

fun filterLoop :: "string \<Rightarrow> nat \<Rightarrow> nat \<Rightarrow> nat \<Rightarrow> challenge_instance list \<Rightarrow> challenge_instance list" where
  "filterLoop status 0 i count items = take count items"
| "filterLoop status (Suc n) i count items =
     (let item = items ! i in
      if phase_string (instance_phase_of item) = status
      then filterLoop status n (Suc i) (Suc count) (items[count := item])
      else filterLoop status n (Suc i) count items)"

definition filterStatus :: "string \<Rightarrow> challenge_instance list \<Rightarrow> challenge_instance list" where
  "filterStatus status items = filterLoop status (length items) 0 0 items"

definition listLabels :: "http_request \<Rightarrow> labels" where
  "listLabels r =
     (let team = rq_query r ''team''; challenge = rq_query r ''challenge'';
          l1 = (if team \<noteq> '''' then [LabelTeam \<mapsto> team] else Map.empty)
      in if challenge \<noteq> '''' then l1(LabelChallenge \<mapsto> challenge) else l1)"

definition handleListInstances :: "'w handler" where
  "handleListInstances s name r w =
     (case k_list (kb_instances (sv_client s))
         \<lparr>lo_namespace = Some (sv_namespace s), lo_labels = listLabels r\<rparr> w of
        (Inl e, w1) \<Rightarrow> (httpError (err_text e) 500, s, w1)
      | (Inr items, w1) \<Rightarrow>
          (let status = rq_query r ''status'';
               items' = (if status \<noteq> '''' then filterStatus status items else items)
           in (writeJSON 200 (JsonInstances items'), s, w1)))"

definition handleGetInstance :: "'w handler" where
  "handleGetInstance s name r w =
     (case k_get (kb_instances (sv_client s)) (sv_namespace s, name) w of
        (Inl e, w1) \<Rightarrow>
          if is_not_found e then (httpError ''instance not found'' 404, s, w1)
          else (httpError (err_text e) 500, s, w1)
      | (Inr inst, w1) \<Rightarrow> (writeJSON 200 (JsonInstance inst), s, w1))"

section \<open>Deleting and extending an instance\<close>

definition handleDeleteInstance :: "'w handler" where
  "handleDeleteInstance s name r w =
     (case k_delete (kb_instances (sv_client s)) (sv_namespace s, name) w of
        (Inl e, w1) \<Rightarrow>
          if is_not_found e then (httpError ''instance not found'' 404, s, w1)
          else (httpError (err_text e) 500, s, w1)
      | (Inr _, w1) \<Rightarrow> (\<lparr>rs_status = 204, rs_body = NoBody\<rparr>, s, w1))"

record extend_request =
  erq_ttl :: string

definition extend_field :: "string \<Rightarrow> json \<Rightarrow> extend_request \<Rightarrow> extend_request option" where
  "extend_field k v r = (if k = ''TTL'' then decode_string (\<lambda>x. r\<lparr>erq_ttl := x\<rparr>) r v else Some r)"

definition handleExtendInstance :: "'w handler" where
  "handleExtendInstance s name r w =
     (case decode_body extend_field \<lparr>erq_ttl = ''''\<rparr> (json_first (rq_body r)) of
        None \<Rightarrow> (httpError ''invalid body'' 400, s, w)
      | Some body \<Rightarrow>
        (case parse_duration (erq_ttl body) of
           Inl e \<Rightarrow> (httpError (''invalid ttl: '' @ duration_error_text (erq_ttl body) e) 400, s, w)
         | Inr _ \<Rightarrow>
           (case k_get (kb_instances (sv_client s)) (sv_namespace s, name) w of
              (Inl e, w1) \<Rightarrow>
                if is_not_found e then (httpError ''instance not found'' 404, s, w1)
                else (httpError (err_text e) 500, s, w1)
            | (Inr inst, w1) \<Rightarrow>
                (case k_update (kb_instances (sv_client s))
                    (inst\<lparr>ci_spec := (ci_spec inst)\<lparr>is_ttl_override := erq_ttl body\<rparr>\<rparr>) w1 of
                   (Inl e, w2) \<Rightarrow> (httpError (err_text e) 500, s, w2)
                 | (Inr inst', w2) \<Rightarrow> (writeJSON 200 (JsonInstance inst'), s, w2)))))"

section \<open>Handing out a puzzle\<close>

definition handlePoWChallenge :: "'w handler" where
  "handlePoWChallenge s name r w =
     (let tmplName = rq_query r ''template'' in
      if tmplName = '''' then (httpError ''template query parameter is required'' 400, s, w)
      else
        (case k_get (kb_templates (sv_client s)) (sv_namespace s, tmplName) w of
           (Inl e, w1) \<Rightarrow>
             if is_not_found e then (httpError ''template not found'' 404, s, w1)
             else (httpError (err_text e) 500, s, w1)
         | (Inr tmpl, w1) \<Rightarrow>
             (case ts_pow (ct_spec tmpl) of
                None \<Rightarrow> (writeJSON 200 (JsonRequired False), s, w1)
              | Some p \<Rightarrow>
                  if \<not> pow_enabled p then (writeJSON 200 (JsonRequired False), s, w1)
                  else (case GeneratePoWPuzzle (sv_rand s) (kb_now (sv_client s)) (pow_difficulty p) w1 of
                     (puzzle, w2) \<Rightarrow> (writeJSON 200 (JsonPuzzle puzzle), storePoW puzzle s, w2)))))"

section \<open>Health and webhooks\<close>

definition handleHealth :: "'w handler" where
  "handleHealth s name r w = (writeJSON 200 (JsonHealth ''ok''), s, w)"

record webhook_request =
  wrq_url :: string
  wrq_secret :: string

definition webhook_field :: "string \<Rightarrow> json \<Rightarrow> webhook_request \<Rightarrow> webhook_request option" where
  "webhook_field k v r =
     (if k = ''URL'' then decode_string (\<lambda>x. r\<lparr>wrq_url := x\<rparr>) r v
      else if k = ''SECRET'' then decode_string (\<lambda>x. r\<lparr>wrq_secret := x\<rparr>) r v else Some r)"

definition handleConfigureWebhook :: "'w handler" where
  "handleConfigureWebhook s name r w =
     (case be_registrar (sv_backend s) of
        None \<Rightarrow> (httpError ''active scoring backend does not support webhook registration'' 501, s, w)
      | Some registrar \<Rightarrow>
        (case decode_body webhook_field \<lparr>wrq_url = '''', wrq_secret = ''''\<rparr> (json_first (rq_body r)) of
           None \<Rightarrow> (httpError ''invalid body'' 400, s, w)
         | Some body \<Rightarrow>
             (case registrar (wrq_url body) (wrq_secret body) w of
                (Some e, w1) \<Rightarrow> (httpError (err_text e) 500, s, w1)
              | (None, w1) \<Rightarrow> (\<lparr>rs_status = 200, rs_body = NoBody\<rparr>, s, w1))))"

section \<open>Authentication and routing\<close>

definition authMiddleware :: "'w handler \<Rightarrow> 'w handler" where
  "authMiddleware next_handler s name r w =
     (case be_authenticate (sv_backend s) r w of
        (Inl e, w1) \<Rightarrow> (httpError ''unauthorized'' 401, s, w1)
      | (Inr who, w1) \<Rightarrow> next_handler s name r w1)"

text \<open>
  The routes, in the order they are declared. How chi matches a pattern against a path is not
  code of this repository: \<open>url_match pattern path\<close> gives the value of \<open>{name}\<close> (the empty
  string when the pattern has none) if they match.
\<close>

definition setupRoutes :: "(string \<times> string \<times> 'w handler) list" where
  "setupRoutes = [
     (''GET'', ''/api/v1/health'', handleHealth),
     (''GET'', ''/api/v1/templates'', authMiddleware handleListTemplates),
     (''GET'', ''/api/v1/templates/{name}'', authMiddleware handleGetTemplate),
     (''POST'', ''/api/v1/instances'', authMiddleware handleCreateInstance),
     (''GET'', ''/api/v1/instances'', authMiddleware handleListInstances),
     (''GET'', ''/api/v1/instances/{name}'', authMiddleware handleGetInstance),
     (''DELETE'', ''/api/v1/instances/{name}'', authMiddleware handleDeleteInstance),
     (''PATCH'', ''/api/v1/instances/{name}/extend'', authMiddleware handleExtendInstance),
     (''GET'', ''/api/v1/pow/challenge'', authMiddleware handlePoWChallenge),
     (''POST'', ''/api/v1/webhooks/configure'', authMiddleware handleConfigureWebhook)]"

definition serve :: "(string \<Rightarrow> string \<Rightarrow> string option) \<Rightarrow> 'w server \<Rightarrow> http_request \<Rightarrow> 'w \<Rightarrow> response \<times> 'w server \<times> 'w" where
  "serve url_match s r w =
     (case find (\<lambda>(m, pat, h). m = rq_method r \<and> url_match pat (rq_path r) \<noteq> None) setupRoutes of
        Some (m, pat, h) \<Rightarrow> h s (the (url_match pat (rq_path r))) r w
      | None \<Rightarrow>
          (if find (\<lambda>(m, pat, h :: 'w handler). url_match pat (rq_path r) \<noteq> None) setupRoutes \<noteq> None
           then (\<lparr>rs_status = 405, rs_body = NoBody\<rparr>, s, w)
           else (httpError ''404 page not found'' 404, s, w)))"

end
