(* ===== verification/Api_Lemmas.thy ===== *)
theory Api_Lemmas
  imports Api_Server Mem_Cluster
begin

text \<open>
  What a request does to the cluster: nothing, or it creates one instance, changes one
  instance's TTL override, or deletes one instance.
\<close>

section \<open>The effect of a request\<close>

inductive request_effect :: "string \<Rightarrow> cluster \<Rightarrow> cluster \<Rightarrow> bool" for ns :: string where
  nothing: "request_effect ns c c"
| created: "request_effect ns c (c\<lparr>cl_instances := (cl_instances c)((ns, name) \<mapsto> i)\<rparr>)"
    if "cl_instances c (ns, name) = None" "crq_template (body :: create_request) \<noteq> ''''" "crq_team body \<noteq> ''''"
      "name = instanceName (crq_template body) (crq_team body) (crq_player body)"
      "user_meta (ci_meta i) = new_meta name ns [LabelChallenge \<mapsto> crq_template body, LabelTeam \<mapsto> crq_team body]"
      "ci_spec i = \<lparr>is_template = crq_template body, is_team = crq_team body, is_player = crq_player body, is_ttl_override = ''''\<rparr>"
      "ci_status i = empty_instance_status"
| extended: "request_effect ns c (c\<lparr>cl_instances := (cl_instances c)((ns, name) \<mapsto> j)\<rparr>)"
    if "cl_instances c (ns, name) = Some i" "parse_duration ttl = Inr d"
      "user_meta (ci_meta j) = user_meta (ci_meta i)" "ci_spec j = (ci_spec i)\<lparr>is_ttl_override := ttl\<rparr>"
      "ci_status j = ci_status i"
| deleted: "request_effect ns c (c\<lparr>cl_instances := (cl_instances c)((ns, name) := None)\<rparr>)"
    if "cl_instances c (ns, name) \<noteq> None"

inductive_cases request_effectE: "request_effect ns c c'"

lemma user_meta_new: "user_meta (new_meta n ns l) = new_meta n ns l"
  by (simp add: user_meta_def new_meta_def)

section \<open>Which handler serves a request\<close>

lemma serve_route:
  fixes s :: "'w server"
  assumes run: "serve url_match s r w = (resp, s', w')"
  obtains (found) pat h where "(rq_method r, pat, h) \<in> set (setupRoutes :: (string \<times> string \<times> 'w handler) list)"
      "url_match pat (rq_path r) \<noteq> None" "h s (the (url_match pat (rq_path r))) r w = (resp, s', w')"
    | (none) "\<forall>(m, pat, h) \<in> set (setupRoutes :: (string \<times> string \<times> 'w handler) list).
        m = rq_method r \<longrightarrow> url_match pat (rq_path r) = None"
      "s' = s" "w' = w" "resp \<in> {\<lparr>rs_status = 405, rs_body = NoBody\<rparr>, httpError ''404 page not found'' 404}"
proof (cases "find (\<lambda>(m, pat, h). m = rq_method r \<and> url_match pat (rq_path r) \<noteq> None)
    (setupRoutes :: (string \<times> string \<times> 'w handler) list)")
  case None
  from run have "resp \<in> {\<lparr>rs_status = 405, rs_body = NoBody\<rparr>, httpError ''404 page not found'' 404}" "s' = s" "w' = w"
    unfolding serve_def None by (auto split: if_splits)
  moreover from None have "\<forall>(m, pat, h) \<in> set (setupRoutes :: (string \<times> string \<times> 'w handler) list).
        m = rq_method r \<longrightarrow> url_match pat (rq_path r) = None"
    by (auto simp only: find_None_iff)
  ultimately show thesis using none by blast
next
  case (Some route)
  obtain m pat h where r: "route = (m, pat, h)" by (cases route) auto
  with Some have "(m, pat, h) \<in> set setupRoutes" "m = rq_method r" "url_match pat (rq_path r) \<noteq> None"
    by (auto simp: find_Some_iff in_set_conv_nth)
  moreover from run have "h s (the (url_match pat (rq_path r))) r w = (resp, s', w')" unfolding serve_def Some r by simp
  ultimately show thesis using found by blast
qed

section \<open>The server in its surroundings\<close>

locale api_server = cluster_api "sv_client s" view + backend: scoring_backend "sv_backend s" view
  for s :: "'w server" and view :: "'w \<Rightarrow> cluster" +
  assumes rand_view: "sv_rand s n w = (b, w') \<Longrightarrow> view w' = view w"
begin

lemma createInstance_done:
  assumes run: "createInstance s1 body w = (resp, s', w')" and client: "sv_client s1 = sv_client s"
  shows "s' = s1 \<and> rs_status resp \<in> {201, 409, 500} \<and>
    (if rs_status resp = 201
     then \<exists>i. rs_body resp = JsonInstance i \<and>
       cl_instances (view w) (nsname_of (ci_meta (newInstance s1 body))) = None \<and>
       user_meta (ci_meta i) = ci_meta (newInstance s1 body) \<and> ci_spec i = ci_spec (newInstance s1 body) \<and>
       ci_status i = empty_instance_status \<and>
       view w' = (view w)\<lparr>cl_instances := (cl_instances (view w))(nsname_of (ci_meta (newInstance s1 body)) \<mapsto> i)\<rparr>
     else view w' = view w) \<and>
    (rs_status resp = 409 \<longrightarrow> cl_instances (view w) (nsname_of (ci_meta (newInstance s1 body))) \<noteq> None)"
proof (cases "k_create (kb_instances (sv_client s)) (newInstance s1 body) w" rule: result_cases)
  case (Err e w1)
  with run client instances.create_failed [OF Err] instances.create_exists [OF Err] show ?thesis
    by (auto simp: createInstance_def httpError_def split: if_splits)
next
  case (Ok i w1)
  from instances.create_done [OF Ok] run client Ok show ?thesis
    by (auto simp: createInstance_def writeJSON_def newInstance_def user_meta_new)
qed

lemma createInstance_effect:
  assumes run: "createInstance s1 body w = (resp, s', w')" and client: "sv_client s1 = sv_client s"
    and fields: "crq_template body \<noteq> ''''" "crq_team body \<noteq> ''''"
  shows "request_effect (sv_namespace s1) (view w) (view w')"
proof (cases "rs_status resp = 201")
  case False
  with createInstance_done [OF run client] show ?thesis by (auto intro: request_effect.nothing)
next
  case True
  let ?name = "instanceName (crq_template body) (crq_team body) (crq_player body)"
  have k: "nsname_of (ci_meta (newInstance s1 body)) = (sv_namespace s1, ?name)"
    by (simp add: newInstance_def)
  from createInstance_done [OF run client] True obtain i where
    i: "cl_instances (view w) (sv_namespace s1, ?name) = None"
    "user_meta (ci_meta i) = ci_meta (newInstance s1 body)" "ci_spec i = ci_spec (newInstance s1 body)"
    "ci_status i = empty_instance_status"
    "view w' = (view w)\<lparr>cl_instances := (cl_instances (view w))((sv_namespace s1, ?name) \<mapsto> i)\<rparr>"
    unfolding k by auto
  show ?thesis
    unfolding i(5)
    by (rule request_effect.created [where body = body])
      (use i fields in \<open>simp_all add: newInstance_def\<close>)
qed

lemma consumePoW_done:
  assumes "consumePoW s challenge nonce w = (ok, s', w')"
  shows "view w' = view w \<and> s' = s\<lparr>sv_puzzles := (sv_puzzles s)(challenge := None)\<rparr> \<and>
    (ok \<longleftrightarrow> (\<exists>p. sv_puzzles s challenge = Some p \<and> fst (kb_now (sv_client s) w) \<le> pz_expires p \<and>
       VerifyPoW (pz_challenge p) nonce (pz_difficulty p)))"
  using assms now_view
  by (auto simp: consumePoW_def Let_def fun_upd_idem split: option.splits prod.splits if_splits)

lemma get_template:
  assumes "k_get (kb_templates (sv_client s)) key w = (res, w1)"
  shows "view w1 = view w" "res = Inr t \<Longrightarrow> cl_templates (view w) key = Some t"
    "res = Inl e \<Longrightarrow> is_not_found e \<Longrightarrow> cl_templates (view w) key = None"
  using assms templates.get_view templates.get_found templates.get_missing by simp_all

lemma handleExtendInstance_done:
  assumes run: "handleExtendInstance s name r w = (resp, s', w')"
  shows "s' = s \<and>
    (if rs_status resp = 200
     then \<exists>ttl d i j. parse_duration ttl = Inr d \<and>
       decode_body extend_field \<lparr>erq_ttl = ''''\<rparr> (json_first (rq_body r)) = Some \<lparr>erq_ttl = ttl\<rparr> \<and>
       cl_instances (view w) (sv_namespace s, name) = Some i \<and>
       user_meta (ci_meta j) = user_meta (ci_meta i) \<and> ci_spec j = (ci_spec i)\<lparr>is_ttl_override := ttl\<rparr> \<and>
       ci_status j = ci_status i \<and> rs_body resp = JsonInstance j \<and>
       view w' = (view w)\<lparr>cl_instances := (cl_instances (view w))((sv_namespace s, name) \<mapsto> j)\<rparr>
     else view w' = view w)"
proof (cases "decode_body extend_field \<lparr>erq_ttl = ''''\<rparr> (json_first (rq_body r))")
  case None
  with run show ?thesis by (auto simp: handleExtendInstance_def httpError_def)
next
  case body: (Some body)
  show ?thesis
  proof (cases "parse_duration (erq_ttl body)")
    case (Inl e)
    with run body show ?thesis by (auto simp: handleExtendInstance_def httpError_def)
  next
    case ttl: (Inr d)
    show ?thesis
    proof (cases "k_get (kb_instances (sv_client s)) (sv_namespace s, name) w" rule: result_cases)
      case (Err e w1)
      with run body ttl instances.get_view [OF Err] show ?thesis
        by (auto simp: handleExtendInstance_def httpError_def split: if_splits)
    next
      case get: (Ok i w1)
      note v1 = instances.get_view [OF get] and i = instances.get_found [OF get]
      have key: "nsname_of (ci_meta i) = (sv_namespace s, name)" using instances.stored_name [OF i] .
      let ?new = "i\<lparr>ci_spec := (ci_spec i)\<lparr>is_ttl_override := erq_ttl body\<rparr>\<rparr>"
      show ?thesis
      proof (cases "k_update (kb_instances (sv_client s)) ?new w1" rule: result_cases)
        case (Err e w2)
        with run body ttl get v1 instances.update_failed [OF Err] show ?thesis
          by (auto simp: handleExtendInstance_def httpError_def)
      next
        case (Ok j w2)
        have b: "body = \<lparr>erq_ttl = erq_ttl body\<rparr>" by simp
        from instances.update_done [OF Ok] key v1 i have
          "user_meta (ci_meta j) = user_meta (ci_meta i)" "ci_spec j = ci_spec ?new"
          "ci_status j = ci_status i"
          "view w2 = (view w)\<lparr>cl_instances := (cl_instances (view w))((sv_namespace s, name) \<mapsto> j)\<rparr>"
          by auto
        with run body ttl get Ok i b show ?thesis
          by (auto simp: handleExtendInstance_def writeJSON_def intro!: exI [of _ "erq_ttl body"])
      qed
    qed
  qed
qed

lemma handleDeleteInstance_done:
  assumes run: "handleDeleteInstance s name r w = (resp, s', w')"
  shows "s' = s \<and> rs_status resp \<in> {204, 404, 500} \<and>
    (if rs_status resp = 204
     then cl_instances (view w) (sv_namespace s, name) \<noteq> None \<and>
       view w' = (view w)\<lparr>cl_instances := (cl_instances (view w))((sv_namespace s, name) := None)\<rparr>
     else view w' = view w) \<and>
    (rs_status resp = 404 \<longrightarrow> cl_instances (view w) (sv_namespace s, name) = None)"
proof (cases "k_delete (kb_instances (sv_client s)) (sv_namespace s, name) w" rule: result_cases)
  case (Err e w1)
  with run instances.delete_failed [OF Err] instances.delete_missing [OF Err] show ?thesis
    by (auto simp: handleDeleteInstance_def httpError_def split: if_splits)
next
  case (Ok u w1)
  with run instances.delete_done [OF Ok] show ?thesis
    by (auto simp: handleDeleteInstance_def)
qed

lemma handleCreateInstance_done:
  assumes run: "handleCreateInstance s name r w = (resp, s', w')"
  shows "(rs_status resp \<noteq> 201 \<and> view w' = view w \<and> (\<exists>m. s' = s\<lparr>sv_puzzles := m\<rparr>)) \<or>
    (\<exists>body tmpl w1 s1 w2. decode_body create_field create_request_zero (json_first (rq_body r)) = Some body \<and>
       crq_template body \<noteq> '''' \<and> crq_team body \<noteq> '''' \<and>
       cl_templates (view w) (sv_namespace s, crq_template body) = Some tmpl \<and> tst_ready (ct_status tmpl) \<and>
       view w1 = view w \<and> view w2 = view w \<and>
       (if pow_required tmpl then consumePoW s (crq_challenge body) (crq_nonce body) w1 = (True, s1, w2)
        else s1 = s) \<and>
       createInstance s1 body w2 = (resp, s', w'))"
proof (cases "decode_body create_field create_request_zero (json_first (rq_body r))")
  case None
  with run show ?thesis
    by (auto simp: handleCreateInstance_def httpError_def intro!: exI [of _ "sv_puzzles s"])
next
  case body: (Some body)
  show ?thesis
  proof (cases "crq_template body = '''' \<or> crq_team body = ''''")
    case True
    with run body show ?thesis
      by (auto simp: handleCreateInstance_def httpError_def intro!: exI [of _ "sv_puzzles s"])
  next
    case fields: False
    show ?thesis
    proof (cases "k_get (kb_templates (sv_client s)) (sv_namespace s, crq_template body) w" rule: result_cases)
      case (Err e w1)
      with run body fields templates.get_view [OF Err] show ?thesis
        by (auto simp: handleCreateInstance_def httpError_def intro!: exI [of _ "sv_puzzles s"] split: if_splits)
    next
      case tmpl: (Ok tmpl w1)
      note v1 = templates.get_view [OF tmpl] and t = templates.get_found [OF tmpl]
      show ?thesis
      proof (cases "tst_ready (ct_status tmpl)")
        case False
        with run body fields tmpl v1 show ?thesis
          by (auto simp: handleCreateInstance_def httpError_def intro!: exI [of _ "sv_puzzles s"])
      next
        case ready: True
        show ?thesis
        proof (cases "pow_required tmpl")
          case False
          with run body fields tmpl ready have "createInstance s body w1 = (resp, s', w')"
            by (simp add: handleCreateInstance_def)
          with body fields t ready False v1 show ?thesis by auto
        next
          case pow: True
          obtain ok s1 w2 where c: "consumePoW s (crq_challenge body) (crq_nonce body) w1 = (ok, s1, w2)"
            by (cases "consumePoW s (crq_challenge body) (crq_nonce body) w1") auto
          note cd = consumePoW_done [OF c]
          show ?thesis
          proof (cases ok)
            case True
            with run body fields tmpl ready pow c have "createInstance s1 body w2 = (resp, s', w')"
              by (simp add: handleCreateInstance_def)
            with body fields t ready pow v1 c True cd show ?thesis by auto
          next
            case no: False
            with run body fields tmpl ready pow c v1 cd show ?thesis
              by (auto simp: handleCreateInstance_def httpError_def)
          qed
        qed
      qed
    qed
  qed
qed

text \<open>What a request owes for the proof of work, and that it was paid.\<close>

lemma pow_spent:
  assumes "if pow_required tmpl then consumePoW s challenge nonce w1 = (True, s1, w2) else s1 = s"
  shows "sv_client s1 = sv_client s \<and> sv_namespace s1 = sv_namespace s \<and>
    (pow_required tmpl \<longrightarrow>
       (\<exists>p now. sv_puzzles s challenge = Some p \<and> now \<in> clock_readings (sv_client s) \<and> now \<le> pz_expires p \<and>
          VerifyPoW (pz_challenge p) nonce (pz_difficulty p) \<and>
          sv_puzzles s1 = (sv_puzzles s)(challenge := None)))"
  using assms consumePoW_done [of challenge nonce w1 True s1 w2] clock_reading [of "sv_client s" w1]
  by (cases "pow_required tmpl") auto

lemma handleCreateInstance_refused:
  assumes run: "handleCreateInstance s name r w = (resp, s', w')" and "rs_status resp \<noteq> 201"
  shows "view w' = view w"
  using handleCreateInstance_done [OF run]
proof (elim disjE exE conjE)
  fix body tmpl w1 s1 w2
  assume v: "view w2 = view w" and create: "createInstance s1 body w2 = (resp, s', w')"
    and pow: "if pow_required tmpl then consumePoW s (crq_challenge body) (crq_nonce body) w1 = (True, s1, w2) else s1 = s"
  from createInstance_done [OF create] pow_spent [OF pow] v assms(2) show ?thesis by simp
qed

lemma handlePoWChallenge_effect:
  assumes run: "handlePoWChallenge s name r w = (resp, s', w')"
  shows "view w' = view w \<and> s' = s\<lparr>sv_puzzles := sv_puzzles s'\<rparr>"
proof (cases "rq_query r ''template'' = ''''")
  case True
  with run show ?thesis by (simp add: handlePoWChallenge_def)
next
  case named: False
  show ?thesis
  proof (cases "k_get (kb_templates (sv_client s)) (sv_namespace s, rq_query r ''template'') w" rule: result_cases)
    case (Err e w1)
    with run named templates.get_view [OF Err] show ?thesis
      by (auto simp: handlePoWChallenge_def Let_def split: if_splits)
  next
    case (Ok t w1)
    note v1 = templates.get_view [OF Ok]
    show ?thesis
    proof (cases "pow_required t")
      case False
      with run named Ok v1 show ?thesis
        by (auto simp: handlePoWChallenge_def pow_required_def Let_def split: option.splits)
    next
      case True
      obtain p w2 where g: "GeneratePoWPuzzle (sv_rand s) (kb_now (sv_client s)) (pow_difficulty (the (ts_pow (ct_spec t)))) w1 = (p, w2)"
        by (cases "GeneratePoWPuzzle (sv_rand s) (kb_now (sv_client s)) (pow_difficulty (the (ts_pow (ct_spec t)))) w1")
      then have "view w2 = view w1"
        using now_view rand_view by (auto simp: GeneratePoWPuzzle_def split: prod.splits)
      with run named Ok v1 True g show ?thesis
        by (auto simp: handlePoWChallenge_def pow_required_def storePoW_def Let_def split: option.splits)
    qed
  qed
qed

lemma create_effect:
  assumes "handleCreateInstance s name r w = (resp, s', w')"
  shows "request_effect (sv_namespace s) (view w) (view w') \<and> s' = s\<lparr>sv_puzzles := sv_puzzles s'\<rparr>"
proof (cases "rs_status resp \<noteq> 201 \<and> view w' = view w \<and> (\<exists>m. s' = s\<lparr>sv_puzzles := m\<rparr>)")
  case True
  then show ?thesis by (auto intro: request_effect.nothing)
next
  case False
  with handleCreateInstance_done [OF assms] obtain body tmpl w1 s1 w2 where
    fields: "crq_template body \<noteq> ''''" "crq_team body \<noteq> ''''" and v: "view w1 = view w" "view w2 = view w" and
    pow: "if pow_required tmpl then consumePoW s (crq_challenge body) (crq_nonce body) w1 = (True, s1, w2) else s1 = s" and
    create: "createInstance s1 body w2 = (resp, s', w')"
    by blast
  have "\<exists>m. s1 = s\<lparr>sv_puzzles := m\<rparr>"
  proof (cases "pow_required tmpl")
    case True
    with pow consumePoW_done [of "crq_challenge body" "crq_nonce body" w1 True s1 w2] show ?thesis by auto
  next
    case False
    with pow show ?thesis by (auto intro: exI [of _ "sv_puzzles s"])
  qed
  then obtain m where s1: "s1 = s\<lparr>sv_puzzles := m\<rparr>" ..
  then have same: "sv_client s1 = sv_client s" "sv_namespace s1 = sv_namespace s" by simp_all
  from createInstance_effect [OF create same(1) fields] createInstance_done [OF create same(1)] s1 same v
  show ?thesis by simp
qed

lemma extend_effect:
  assumes "handleExtendInstance s name r w = (resp, s', w')"
  shows "request_effect (sv_namespace s) (view w) (view w') \<and> s' = s\<lparr>sv_puzzles := sv_puzzles s'\<rparr>"
  using handleExtendInstance_done [OF assms]
  by (auto split: if_splits intro: request_effect.nothing request_effect.extended)

lemma delete_effect:
  assumes "handleDeleteInstance s name r w = (resp, s', w')"
  shows "request_effect (sv_namespace s) (view w) (view w') \<and> s' = s\<lparr>sv_puzzles := sv_puzzles s'\<rparr>"
  using handleDeleteInstance_done [OF assms]
  by (auto split: if_splits intro: request_effect.nothing request_effect.deleted)

lemma reading_handlers:
  assumes "h \<in> {handleListTemplates, handleGetTemplate, handleListInstances, handleGetInstance, handleHealth,
      handlePoWChallenge, handleConfigureWebhook}"
    and "h s name r w = (resp, s', w')"
  shows "view w' = view w \<and> s' = s\<lparr>sv_puzzles := sv_puzzles s'\<rparr>"
proof -
  have 1: "view w' = view w \<and> s' = s" if "handleListTemplates s name r w = (resp, s', w')"
    using that templates.list_view
    by (auto simp: handleListTemplates_def split: prod.splits sum.splits)
  have 2: "view w' = view w \<and> s' = s" if "handleGetTemplate s name r w = (resp, s', w')"
    using that templates.get_view
    by (auto simp: handleGetTemplate_def split: prod.splits sum.splits if_splits)
  have 3: "view w' = view w \<and> s' = s" if "handleListInstances s name r w = (resp, s', w')"
    using that instances.list_view
    by (auto simp: handleListInstances_def Let_def split: prod.splits sum.splits)
  have 4: "view w' = view w \<and> s' = s" if "handleGetInstance s name r w = (resp, s', w')"
    using that instances.get_view
    by (auto simp: handleGetInstance_def split: prod.splits sum.splits if_splits)
  have 5: "view w' = view w \<and> s' = s" if "handleHealth s name r w = (resp, s', w')"
    using that by (simp add: handleHealth_def)
  have 6: "view w' = view w \<and> s' = s" if "handleConfigureWebhook s name r w = (resp, s', w')"
    using that backend.register_view
    by (auto simp: handleConfigureWebhook_def split: prod.splits option.splits)
  have 7: "view w' = view w \<and> s' = s\<lparr>sv_puzzles := sv_puzzles s'\<rparr>" if "handlePoWChallenge s name r w = (resp, s', w')"
    by (rule handlePoWChallenge_effect [OF that])
  from assms 1 2 3 4 5 6 7 show ?thesis by auto
qed

text \<open>The effect of one request, whichever handler it reaches.\<close>

lemma authenticated_effect:
  assumes "authMiddleware h s name r w = (resp, s', w')"
    and inner: "\<And>w1. h s name r w1 = (resp, s', w') \<Longrightarrow>
      request_effect (sv_namespace s) (view w1) (view w') \<and> s' = s\<lparr>sv_puzzles := sv_puzzles s'\<rparr>"
  shows "request_effect (sv_namespace s) (view w) (view w') \<and> s' = s\<lparr>sv_puzzles := sv_puzzles s'\<rparr>"
proof (cases "be_authenticate (sv_backend s) r w" rule: result_cases)
  case (Err e w1)
  with assms(1) backend.authenticate_view [OF Err] show ?thesis
    by (auto simp: authMiddleware_def intro: request_effect.nothing)
next
  case (Ok x w1)
  with assms(1) have "h s name r w1 = (resp, s', w')" by (simp add: authMiddleware_def)
  from inner [OF this] backend.authenticate_view [OF Ok] show ?thesis by simp
qed

lemma routes_cases:
  assumes "(m, pat, h) \<in> set setupRoutes"
  shows "h = handleHealth \<or> (\<exists>h'. h = authMiddleware h' \<and>
    (h' \<in> {handleListTemplates, handleGetTemplate, handleListInstances, handleGetInstance, handleHealth,
      handlePoWChallenge, handleConfigureWebhook} \<or>
     h' \<in> {handleCreateInstance, handleExtendInstance, handleDeleteInstance}))"
  using assms unfolding setupRoutes_def by auto

lemma handlers_effect:
  assumes route: "(m, pat, h) \<in> set setupRoutes" and run: "h s name r w = (resp, s', w')"
  shows "request_effect (sv_namespace s) (view w) (view w') \<and> s' = s\<lparr>sv_puzzles := sv_puzzles s'\<rparr>"
proof -
  have read: "request_effect (sv_namespace s) (view w1) (view w') \<and> s' = s\<lparr>sv_puzzles := sv_puzzles s'\<rparr>"
    if "h' s name r w1 = (resp, s', w')" "h' \<in> {handleListTemplates, handleGetTemplate, handleListInstances,
      handleGetInstance, handleHealth, handlePoWChallenge, handleConfigureWebhook}" for h' w1
    using reading_handlers [OF that(2,1)] by (metis request_effect.nothing)
  have change: "request_effect (sv_namespace s) (view w1) (view w') \<and> s' = s\<lparr>sv_puzzles := sv_puzzles s'\<rparr>"
    if "h' s name r w1 = (resp, s', w')" "h' \<in> {handleCreateInstance, handleExtendInstance, handleDeleteInstance}" for h' w1
    using that create_effect extend_effect delete_effect by blast
  from routes_cases [OF route] show ?thesis
  proof (elim disjE exE conjE)
    assume "h = handleHealth"
    with read [of handleHealth w] run show ?thesis by simp
  next
    fix h' assume "h = authMiddleware h'" and h': "h' \<in> {handleListTemplates, handleGetTemplate, handleListInstances,
      handleGetInstance, handleHealth, handlePoWChallenge, handleConfigureWebhook}"
    with run have "authMiddleware h' s name r w = (resp, s', w')" by simp
    then show ?thesis by (rule authenticated_effect) (rule read [OF _ h'])
  next
    fix h' assume "h = authMiddleware h'" and h': "h' \<in> {handleCreateInstance, handleExtendInstance, handleDeleteInstance}"
    with run have "authMiddleware h' s name r w = (resp, s', w')" by simp
    then show ?thesis by (rule authenticated_effect) (rule change [OF _ h'])
  qed
qed

lemma serve_effect:
  assumes "serve url_match s r w = (resp, s', w')"
  shows "request_effect (sv_namespace s) (view w) (view w') \<and> s' = s\<lparr>sv_puzzles := sv_puzzles s'\<rparr>"
  using assms
proof (cases rule: serve_route)
  case (found pat h)
  with handlers_effect show ?thesis by blast
next
  case none
  then show ?thesis by (simp add: request_effect.nothing)
qed

end

end
