(* ===== verification/Pow_Props.thy ===== *)
theory Pow_Props
  imports Api_Server
begin

text \<open>
  The properties of the proof of work: what its functions compute, and that a puzzle handed out
  once is accepted at most once.
\<close>

section \<open>The functions\<close>

text \<open>
  Counting the leading zero bits byte by byte, with the early return inside the loop over
  the bits of a byte, gives the number of leading zeros of the whole bit string, most
  significant bit of each byte first; so at most eight times the length.
\<close>

theorem leading_zero_bits_counted:
  "countLeadingZeroBits hash = leading_zeros (digest_bits hash) \<and>
   countLeadingZeroBits hash \<le> 8 * length hash"
proof -
  have "countLeadingZeroBits hash = leading_zeros (digest_bits hash)"
    by (simp add: countLeadingZeroBits_def countFrom_leading)
  moreover have "leading_zeros (digest_bits hash) \<le> 8 * length hash"
    by (simp add: leading_zeros_def length_takeWhile_le flip: length_digest_bits)
  ultimately show ?thesis by simp
qed

lemma VerifyPoW_value:
  "VerifyPoW challenge nonce d \<longleftrightarrow>
     d \<le> 256 \<and>
     bits_value (digest_bits (sha256 (bytes_of_string (challenge @ '':'' @ dec_string (unat nonce))))) < 2 ^ nat (256 - max d 0)"
proof -
  let ?h = "digest_bits (sha256 (bytes_of_string (challenge @ '':'' @ dec_string (unat nonce))))"
  have len: "length ?h = 256" by (simp add: length_digest_bits)
  have v: "VerifyPoW challenge nonce d \<longleftrightarrow> d \<le> int (leading_zeros ?h)"
    by (simp add: VerifyPoW_def countLeadingZeroBits_def countFrom_leading)
  have most: "leading_zeros ?h \<le> 256"
    unfolding leading_zeros_def using length_takeWhile_le [of Not ?h] len by linarith
  show ?thesis
  proof (cases "d \<le> 256")
    case False
    with v most show ?thesis by linarith
  next
    case True
    then have "nat d \<le> length ?h" unfolding len by simp
    from leading_zeros_value [OF this] have
      "nat d \<le> leading_zeros ?h \<longleftrightarrow> bits_value ?h < 2 ^ (256 - nat d)"
      unfolding len .
    moreover have "nat d \<le> leading_zeros ?h \<longleftrightarrow> d \<le> int (leading_zeros ?h)" by linarith
    moreover have "256 - nat d = nat (256 - max d 0)" by linarith
    ultimately show ?thesis using True v by simp
  qed
qed

text \<open>
  C19: A nonce solves a puzzle exactly when the SHA-256 digest of the challenge, a colon and the
  nonce in decimal, read as a 256-bit number, is below \<open>2 ^ (256 - difficulty)\<close>: any nonce at
  difficulty 0 or less, no nonce above 256, and a solution at one difficulty is one at every
  lower one.
\<close>

theorem verify_is_a_target_test:
  "(VerifyPoW challenge nonce d \<longleftrightarrow>
     d \<le> 256 \<and>
     bits_value (digest_bits (sha256 (bytes_of_string (challenge @ '':'' @ dec_string (unat nonce))))) < 2 ^ nat (256 - max d 0)) \<and>
   VerifyPoW challenge nonce (min d 0) \<and> \<not> VerifyPoW challenge nonce (257 + max d 0)"
proof (intro conjI)
  show "VerifyPoW challenge nonce d \<longleftrightarrow>
     d \<le> 256 \<and>
     bits_value (digest_bits (sha256 (bytes_of_string (challenge @ '':'' @ dec_string (unat nonce))))) < 2 ^ nat (256 - max d 0)"
    by (rule VerifyPoW_value)
  show "VerifyPoW challenge nonce (min d 0)"
    by (simp add: VerifyPoW_def)
  have "\<not> 257 + max d 0 \<le> 256" by linarith
  then show "\<not> VerifyPoW challenge nonce (257 + max d 0)"
    unfolding VerifyPoW_value by blast
qed

lemma solveFrom_spec:
  "n \<le> 2 ^ 30 \<Longrightarrow> solveFrom c d n = (x, ok) \<Longrightarrow>
     (ok \<longrightarrow> n \<le> unat x \<and> unat x < 2 ^ 30 \<and> VerifyPoW c x d \<and> (\<forall>m. n \<le> m \<and> m < unat x \<longrightarrow> \<not> VerifyPoW c (of_nat m) d)) \<and>
     (\<not> ok \<longrightarrow> x = 0 \<and> (\<forall>m. n \<le> m \<and> m < 2 ^ 30 \<longrightarrow> \<not> VerifyPoW c (of_nat m) d))"
proof (induction c d n rule: solveFrom.induct)
  case (1 c d n)
  show ?case
  proof (cases "n < 2 ^ 30")
    case False
    with "1.prems" show ?thesis by (auto simp: solveFrom.simps [of c d n])
  next
    case lt: True
    then have un: "unat (of_nat n :: uint64) = n" by (simp add: unat_of_nat)
    show ?thesis
    proof (cases "VerifyPoW c (of_nat n) d")
      case True
      with "1.prems" lt have "x = of_nat n" "ok" by (auto simp: solveFrom.simps [of c d n])
      with True lt un show ?thesis by auto
    next
      case False
      with "1.prems" lt have "solveFrom c d (n + 1) = (x, ok)" by (simp add: solveFrom.simps [of c d n])
      have "n + 1 \<le> 2 ^ 30" using lt by simp
      from "1.IH" [OF lt False this \<open>solveFrom c d (n + 1) = (x, ok)\<close>]
      have IH: "ok \<longrightarrow> n + 1 \<le> unat x \<and> unat x < 2 ^ 30 \<and> VerifyPoW c x d \<and>
          (\<forall>m. n + 1 \<le> m \<and> m < unat x \<longrightarrow> \<not> VerifyPoW c (of_nat m) d)"
        "\<not> ok \<longrightarrow> x = 0 \<and> (\<forall>m. n + 1 \<le> m \<and> m < 2 ^ 30 \<longrightarrow> \<not> VerifyPoW c (of_nat m) d)"
        by blast+
      have split: "n \<le> m \<longleftrightarrow> m = n \<or> n + 1 \<le> m" for m by auto
      show ?thesis
      proof (cases ok)
        case True
        with IH(1) False show ?thesis unfolding split by auto
      next
        case no: False
        with IH(2) False show ?thesis unfolding split by blast
      qed
    qed
  qed
qed

text \<open>
  C31: The search always ends. It answers with the smallest nonce below \<open>2 ^ 30\<close> that solves the
  puzzle, and with no solution only when none of these nonces solves it.
\<close>

theorem solve_finds_the_least:
  "case SolvePoW challenge difficulty of (nonce, ok) \<Rightarrow>
     if ok then unat nonce < 2 ^ 30 \<and> VerifyPoW challenge nonce difficulty \<and>
       (\<forall>m < unat nonce. \<not> VerifyPoW challenge (of_nat m) difficulty)
     else nonce = 0 \<and> (\<forall>m < 2 ^ 30. \<not> VerifyPoW challenge (of_nat m) difficulty)"
proof (cases "SolvePoW challenge difficulty")
  case (Pair nonce ok)
  then have "solveFrom challenge difficulty 0 = (nonce, ok)" by (simp add: SolvePoW_def)
  from solveFrom_spec [OF _ this] Pair show ?thesis by simp
qed

theorem solve_finds_the_least_witness:
  "\<not> (\<exists>nonce. SolvePoW ''x'' 300 = (nonce, True))"
proof -
  have "\<not> VerifyPoW ''x'' n 300" for n by (simp add: VerifyPoW_value)
  with solve_finds_the_least [of "''x''" 300] show ?thesis by auto
qed

section \<open>Puzzles are spent once\<close>

text \<open>
  The table without the server around it: \<open>redeemPuzzle\<close> is \<open>consumePoW\<close> with the clock at
  \<open>now\<close>.
\<close>

definition redeemPuzzle ::
  "string \<Rightarrow> uint64 \<times> instant \<Rightarrow> (string \<rightharpoonup> pow_puzzle) \<Rightarrow> bool \<times> (string \<rightharpoonup> pow_puzzle)" where
  "redeemPuzzle challenge nt m =
     (case m challenge of
        None \<Rightarrow> (False, m)
      | Some p \<Rightarrow>
          (snd nt \<le> pz_expires p \<and> VerifyPoW (pz_challenge p) (fst nt) (pz_difficulty p), m(challenge := None)))"

definition issuePuzzle :: "pow_puzzle \<Rightarrow> (string \<rightharpoonup> pow_puzzle) \<Rightarrow> (string \<rightharpoonup> pow_puzzle)" where
  "issuePuzzle p m = m(pz_challenge p \<mapsto> p)"

lemma storePoW_table: "sv_puzzles (storePoW p s) = issuePuzzle p (sv_puzzles s)"
  by (simp add: storePoW_def issuePuzzle_def)

lemma consumePoW_table:
  assumes "consumePoW s challenge nonce w = (ok, s', w')"
  shows "s' = s\<lparr>sv_puzzles := sv_puzzles s'\<rparr> \<and>
    redeemPuzzle challenge (nonce, fst (kb_now (sv_client s) w)) (sv_puzzles s) = (ok, sv_puzzles s')"
  using assms
  by (auto simp: consumePoW_def redeemPuzzle_def Let_def split: option.splits prod.splits if_splits)

interpretation puzzles: one_time_tokens issuePuzzle redeemPuzzle pz_challenge "\<lambda>m c. m c \<noteq> None" Map.empty
  by unfold_locales (auto simp: issuePuzzle_def redeemPuzzle_def split: option.splits if_splits)

text \<open>
  What the server does with puzzles, request by request: \<open>Issue p\<close> stores one, \<open>Redeem c
  nonce\<close> tries to spend one. The result lists the challenges accepted.
\<close>

fun powRequests :: "(pow_puzzle, string, uint64) token_op list \<Rightarrow> 'w server \<Rightarrow> 'w \<Rightarrow> string list" where
  "powRequests [] s w = []"
| "powRequests (Issue p # ops) s w = powRequests ops (storePoW p s) w"
| "powRequests (Redeem c nonce # ops) s w =
     (case consumePoW s c nonce w of
        (ok, s', w') \<Rightarrow> (if ok then c # powRequests ops s' w' else powRequests ops s' w'))"

text \<open>The challenges of the puzzles handed out.\<close>

definition issuedChallenges :: "(pow_puzzle, 'c, 'p) token_op list \<Rightarrow> string list" where
  "issuedChallenges ops =
     concat (map (\<lambda>x. case x of Issue p \<Rightarrow> [pz_challenge p] | Redeem _ _ \<Rightarrow> []) ops)"

lemma powRequests_tokens:
  "\<exists>ts. powRequests ops s w = fst (puzzles.run_ops ts (sv_puzzles s)) \<and>
     (\<forall>c. puzzles.issued c ts = count_list (issuedChallenges ops) c)"
proof (induction ops arbitrary: s w)
  case Nil
  show ?case by (intro exI [of _ "[]"]) (simp add: puzzles.issued_def issuedChallenges_def)
next
  case (Cons x ops)
  show ?case
  proof (cases x)
    case (Issue p)
    from Cons [of "storePoW p s" w] obtain ts where
      "powRequests ops (storePoW p s) w = fst (puzzles.run_ops ts (issuePuzzle p (sv_puzzles s)))"
      "\<forall>c. puzzles.issued c ts = count_list (issuedChallenges ops) c"
      by (auto simp: storePoW_table)
    with Issue show ?thesis
      by (intro exI [of _ "Issue p # ts"]) (simp add: puzzles.issued_def issuedChallenges_def)
  next
    case (Redeem c nonce)
    obtain ok s' w' where run: "consumePoW s c nonce w = (ok, s', w')" by (cases "consumePoW s c nonce w") auto
    note tab = consumePoW_table [OF run, THEN conjunct2]
    from Cons [of s' w'] obtain ts where
      ts: "powRequests ops s' w' = fst (puzzles.run_ops ts (sv_puzzles s'))"
      "\<forall>c. puzzles.issued c ts = count_list (issuedChallenges ops) c" by auto
    with Redeem run tab show ?thesis
      by (intro exI [of _ "Redeem c (nonce, fst (kb_now (sv_client s) w)) # ts"])
        (simp add: puzzles.issued_def issuedChallenges_def prod.case_eq_if)
  qed
qed

text \<open>
  C15: From a fresh server, whatever requests come in whatever order, a challenge is accepted at
  most as often as a puzzle with it was handed out, so at most once as long as challenges do not
  repeat; in particular a solution cannot be replayed.
\<close>

theorem challenge_spent_at_most_once:
  "count_list (powRequests ops (NewServer c backend rnd) w) ch \<le>
     count_list (issuedChallenges ops) ch"
proof -
  from powRequests_tokens [of ops "NewServer c backend rnd" w] obtain ts where
    "powRequests ops (NewServer c backend rnd) w = fst (puzzles.run_ops ts Map.empty)"
    "puzzles.issued ch ts =
       count_list (issuedChallenges ops) ch"
    by (auto simp: NewServer_def)
  with puzzles.accepted_at_most_issued [of ts ch] show ?thesis by simp
qed

end
