(* ===== verification/Api_Props.thy ===== *)
theory Api_Props
  imports Api_Lemmas Samples Pow_Props
begin

text \<open>The properties of the REST server's handlers.\<close>

section \<open>A sample server\<close>

definition mem_sv :: "(string \<rightharpoonup> pow_puzzle) \<Rightarrow> mem server" where
  "mem_sv ps = \<lparr>sv_client = mem_kube, sv_backend = mem_backend, sv_rand = (\<lambda>n m. (replicate n 0, m)),
     sv_namespace = ''ctf'', sv_puzzles = ps\<rparr>"

interpretation mem_server: api_server "mem_sv ps" mem_view
  by (intro api_server.intro api_server_axioms.intro)
    (use mem_api.cluster_api_axioms mem_scoring.scoring_backend_axioms in \<open>auto simp: mem_sv_def\<close>)

text \<open>The sample template guarded by a puzzle no nonce solves.\<close>

definition smp_hard :: challenge_template where
  "smp_hard = smp_template\<lparr>ct_spec := (ct_spec smp_template)\<lparr>ts_pow :=
     Some \<lparr>pow_enabled = True, pow_difficulty = 300, pow_algorithm = ''sha256'', pow_ttl = ''5m''\<rparr>\<rparr>\<rparr>"

definition smp_easy_puzzle :: pow_puzzle where
  "smp_easy_puzzle = \<lparr>pz_challenge = ''c0ffee'', pz_difficulty = 0, pz_expires = 10 ^ 18 + 1\<rparr>"

definition smp_create :: http_request where
  "smp_create = \<lparr>rq_method = ''POST'', rq_path = ''/api/v1/instances'', rq_query = (\<lambda>_. ''''),
     rq_header = (\<lambda>_. ''''),
     rq_body = json_object [(''template'', json_string ''web''), (''Team'', json_string ''red''),
       (''powChallenge'', json_string ''c0ffee''), (''powNonce'', ''7'')]\<rparr>"

lemma smp_create_body: "json_first (rq_body smp_create) =
    Some (JObj [(''template'', JStr ''web''), (''Team'', JStr ''red''), (''powChallenge'', JStr ''c0ffee''), (''powNonce'', JNum ''7'')])"
  by code_simp

lemma smp_create_decodes:
  "decode_body create_field create_request_zero (json_first (rq_body smp_create)) =
     Some \<lparr>crq_template = ''web'', crq_team = ''red'', crq_player = '''', crq_challenge = ''c0ffee'', crq_nonce = 7\<rparr>"
  by (simp add: smp_create_body create_field_def create_request_zero_def decode_eval)

section \<open>Creating an instance\<close>

text \<open>
  C1: A request answered with 201 had a body with a template and a team, the template exists
  and is ready, and if the template demands proof of work the request spent a puzzle the server
  had handed out, not expired and solved; the name was free and the one new object in the
  cluster is the instance those fields describe, with an empty status. Any other answer leaves
  the cluster as it was.
\<close>

theorem created_only_with_rights:
  assumes api: "api_server s view"
    and run: "handleCreateInstance s name r w = (resp, s', w')"
  shows "if rs_status resp = 201
    then \<exists>body tmpl i. decode_body create_field create_request_zero (json_first (rq_body r)) = Some body \<and>
      crq_template body \<noteq> '''' \<and> crq_team body \<noteq> '''' \<and>
      cl_templates (view w) (sv_namespace s, crq_template body) = Some tmpl \<and> tst_ready (ct_status tmpl) \<and>
      (pow_required tmpl \<longrightarrow>
         (\<exists>p now. sv_puzzles s (crq_challenge body) = Some p \<and> now \<in> clock_readings (sv_client s) \<and>
            now \<le> pz_expires p \<and> VerifyPoW (pz_challenge p) (crq_nonce body) (pz_difficulty p) \<and>
            sv_puzzles s' = (sv_puzzles s)(crq_challenge body := None))) \<and>
      cl_instances (view w) (nsname_of (ci_meta (newInstance s body))) = None \<and>
      rs_body resp = JsonInstance i \<and> user_meta (ci_meta i) = ci_meta (newInstance s body) \<and>
      ci_spec i = ci_spec (newInstance s body) \<and> ci_status i = empty_instance_status \<and>
      view w' = (view w)\<lparr>cl_instances := (cl_instances (view w))(nsname_of (ci_meta (newInstance s body)) \<mapsto> i)\<rparr>
    else view w' = view w"
proof (cases "rs_status resp = 201")
  case True
  with api_server.handleCreateInstance_done [OF api run] obtain body tmpl w1 s1 w2 where
    b: "decode_body create_field create_request_zero (json_first (rq_body r)) = Some body"
      "crq_template body \<noteq> ''''" "crq_team body \<noteq> ''''"
      "cl_templates (view w) (sv_namespace s, crq_template body) = Some tmpl" "tst_ready (ct_status tmpl)" and
    v: "view w1 = view w" "view w2 = view w" and
    pow: "if pow_required tmpl then consumePoW s (crq_challenge body) (crq_nonce body) w1 = (True, s1, w2) else s1 = s" and
    create: "createInstance s1 body w2 = (resp, s', w')"
    by blast
  note spent = api_server.pow_spent [OF api pow]
  have "newInstance s1 body = newInstance s body" using spent by (simp add: newInstance_def)
  with api_server.createInstance_done [OF api create] spent v True obtain i where
    i: "s' = s1" "rs_body resp = JsonInstance i"
      "cl_instances (view w) (nsname_of (ci_meta (newInstance s body))) = None"
      "user_meta (ci_meta i) = ci_meta (newInstance s body)"
      "ci_spec i = ci_spec (newInstance s body)" "ci_status i = empty_instance_status"
      "view w' = (view w)\<lparr>cl_instances := (cl_instances (view w))(nsname_of (ci_meta (newInstance s body)) \<mapsto> i)\<rparr>"
    by auto
  from b i spent [unfolded i(1) [symmetric]] show ?thesis unfolding if_P [OF True] by blast
next
  case False
  with api_server.handleCreateInstance_refused [OF api run] show ?thesis by simp
qed

definition smp_pow_mem :: mem where
  "smp_pow_mem = smp_mem [smp_hard] [] []"

definition smp_pow_server :: "mem server" where
  "smp_pow_server = mem_sv [''c0ffee'' \<mapsto> smp_easy_puzzle]"

lemma VerifyPoW_easy: "VerifyPoW c n 0"
  by (simp add: VerifyPoW_def)

lemma smp_create_run:
  "\<exists>resp s' w'. handleCreateInstance smp_pow_server n smp_create smp_pow_mem = (resp, s', w') \<and> rs_status resp = 201"
proof -
  have "sv_puzzles smp_pow_server ''c0ffee'' = Some smp_easy_puzzle"
    by (simp add: smp_pow_server_def mem_sv_def)
  then show ?thesis
    by (simp add: handleCreateInstance_def smp_create_decodes consumePoW_def smp_easy_puzzle_def VerifyPoW_easy
        createInstance_def smp_pow_server_def mem_sv_def smp_pow_mem_def smp_hard_def mem_eval smp_defs
        newInstance_def writeJSON_def pow_required_def instanceName_def Let_def)
qed

theorem created_only_with_rights_witness:
  "\<exists>resp s' w' i. handleCreateInstance smp_pow_server '''' smp_create smp_pow_mem = (resp, s', w') \<and>
     rs_body resp = JsonInstance i \<and> cl_instances (mem_view w') (''ctf'', ''web-red'') = Some i"
proof -
  from smp_create_run obtain resp s' w' where
    run: "handleCreateInstance smp_pow_server '''' smp_create smp_pow_mem = (resp, s', w')" "rs_status resp = 201"
    by blast
  have api: "api_server smp_pow_server mem_view"
    unfolding smp_pow_server_def by (rule mem_server.api_server_axioms)
  have key: "nsname_of (ci_meta (newInstance smp_pow_server
      \<lparr>crq_template = ''web'', crq_team = ''red'', crq_player = '''', crq_challenge = ''c0ffee'', crq_nonce = 7\<rparr>)) = (''ctf'', ''web-red'')"
    by (simp add: newInstance_def smp_pow_server_def mem_sv_def instanceName_def)
  from created_only_with_rights [OF api, OF run(1)] run(2) obtain i where
    "rs_body resp = JsonInstance i" "cl_instances (mem_view w') (''ctf'', ''web-red'') = Some i"
    by (auto simp: smp_create_decodes key)
  with run(1) show ?thesis by blast
qed

end
