(* ===== verification/Api_Contract.thy ===== *)
theory Api_Contract
  imports Api_Lemmas
begin

text \<open>
  The contract of the REST API: for every route the answers it may give and what each of them
  tells about the cluster, the request and the puzzles; and that the handlers of \<open>handlers.go\<close>
  keep it.
\<close>

section \<open>The answers\<close>

text \<open>
  \<open>answers c s view r name meth pat resp\<close>: in a cluster \<open>c\<close>, the server \<open>s\<close> may answer the request
  \<open>r\<close>, on the route for the method \<open>meth\<close> and the pattern \<open>pat\<close>, whose \<open>{name}\<close> is \<open>name\<close>, by
  \<open>resp\<close>. There is a rule for every answer of every route, with what it tells about the cluster,
  the request and the puzzles. The answer 500 is left to errors: \<open>failing c view call p e\<close> says
  that \<open>call\<close> returned the error \<open>e\<close>, which is not one that \<open>p\<close> tells apart, in this cluster.
\<close>

definition failing :: "cluster \<Rightarrow> ('w \<Rightarrow> cluster) \<Rightarrow> ('w \<Rightarrow> (go_error + 'a) \<times> 'w) \<Rightarrow> (go_error \<Rightarrow> bool) \<Rightarrow> go_error \<Rightarrow> bool" where
  "failing c view call p e \<longleftrightarrow> (\<exists>w w'. view w = c \<and> call w = (Inl e, w') \<and> \<not> p e)"

lemma failingI: "call w = (Inl e, w') \<Longrightarrow> view w = c \<Longrightarrow> \<not> p e \<Longrightarrow> failing c view call p e"
  unfolding failing_def by blast

definition paid :: "'w server \<Rightarrow> create_request \<Rightarrow> instant \<Rightarrow> bool" where
  "paid s body now \<longleftrightarrow> (\<exists>p. sv_puzzles s (crq_challenge body) = Some p \<and> now \<le> pz_expires p \<and>
     VerifyPoW (pz_challenge p) (crq_nonce body) (pz_difficulty p))"

definition createKey :: "'w server \<Rightarrow> create_request \<Rightarrow> nsname" where
  "createKey s body = (sv_namespace s, instanceName (crq_template body) (crq_team body) (crq_player body))"

inductive answers :: "cluster \<Rightarrow> 'w server \<Rightarrow> ('w \<Rightarrow> cluster) \<Rightarrow> http_request \<Rightarrow> string \<Rightarrow>
    string \<Rightarrow> string \<Rightarrow> response \<Rightarrow> bool" for c s view r name where
  health: "answers c s view r name ''GET'' ''/api/v1/health'' (writeJSON 200 (JsonHealth ''ok''))"
| unauthorized: "answers c s view r name m pat (httpError ''unauthorized'' 401)"
    if "pat \<noteq> ''/api/v1/health''" "failing c view (be_authenticate (sv_backend s) r) (\<lambda>_. False) e"
| templates: "answers c s view r name ''GET'' ''/api/v1/templates'' (writeJSON 200 (JsonTemplates ts))"
    if "set ts = {t. cl_templates c (nsname_of (ct_meta t)) = Some t \<and> om_namespace (ct_meta t) = sv_namespace s}"
| templates_failed: "answers c s view r name ''GET'' ''/api/v1/templates'' (httpError (err_text e) 500)"
    if "failing c view (k_list (kb_templates (sv_client s)) opts) (\<lambda>_. False) e"
| template: "answers c s view r name ''GET'' ''/api/v1/templates/{name}'' (writeJSON 200 (JsonTemplate t))"
    if "cl_templates c (sv_namespace s, name) = Some t"
| template_missing: "answers c s view r name ''GET'' ''/api/v1/templates/{name}'' (httpError ''template not found'' 404)"
    if "cl_templates c (sv_namespace s, name) = None"
| template_failed: "answers c s view r name ''GET'' ''/api/v1/templates/{name}'' (httpError (err_text e) 500)"
    if "failing c view (k_get (kb_templates (sv_client s)) (sv_namespace s, name)) is_not_found e"
| create_bad_body: "answers c s view r name ''POST'' ''/api/v1/instances'' (httpError ''invalid body'' 400)"
    if "decode_body create_field create_request_zero (json_first (rq_body r)) = None"
| create_incomplete: "answers c s view r name ''POST'' ''/api/v1/instances'' (httpError ''template and team are required'' 400)"
    if "decode_body create_field create_request_zero (json_first (rq_body r)) = Some body" "crq_template body = '''' \<or> crq_team body = ''''"
| create_no_template: "answers c s view r name ''POST'' ''/api/v1/instances'' (httpError ''template not found'' 404)"
    if "decode_body create_field create_request_zero (json_first (rq_body r)) = Some body"
      "cl_templates c (sv_namespace s, crq_template body) = None"
| create_template_failed: "answers c s view r name ''POST'' ''/api/v1/instances'' (httpError (err_text e) 500)"
    if "decode_body create_field create_request_zero (json_first (rq_body r)) = Some body"
      "failing c view (k_get (kb_templates (sv_client s)) (sv_namespace s, crq_template body)) is_not_found e"
| create_not_ready: "answers c s view r name ''POST'' ''/api/v1/instances'' (httpError ''template is not ready'' 409)"
    if "decode_body create_field create_request_zero (json_first (rq_body r)) = Some body"
      "cl_templates c (sv_namespace s, crq_template body) = Some t" "\<not> tst_ready (ct_status t)"
| create_unpaid: "answers c s view r name ''POST'' ''/api/v1/instances'' (httpError ''invalid or missing proof of work'' 428)"
    if "decode_body create_field create_request_zero (json_first (rq_body r)) = Some body"
      "cl_templates c (sv_namespace s, crq_template body) = Some t" "tst_ready (ct_status t)" "pow_required t"
      "now \<in> clock_readings (sv_client s)" "\<not> paid s body now"
| create_taken: "answers c s view r name ''POST'' ''/api/v1/instances'' (httpError ''instance already exists'' 409)"
    if "decode_body create_field create_request_zero (json_first (rq_body r)) = Some body" "cl_instances c (createKey s body) \<noteq> None"
| create_failed: "answers c s view r name ''POST'' ''/api/v1/instances'' (httpError (err_text e) 500)"
    if "decode_body create_field create_request_zero (json_first (rq_body r)) = Some body"
      "failing c view (k_create (kb_instances (sv_client s)) (newInstance s body)) is_already_exists e"
| created: "answers c s view r name ''POST'' ''/api/v1/instances'' (writeJSON 201 (JsonInstance i))"
    if "decode_body create_field create_request_zero (json_first (rq_body r)) = Some body" "crq_template body \<noteq> ''''" "crq_team body \<noteq> ''''"
      "cl_templates c (sv_namespace s, crq_template body) = Some t" "tst_ready (ct_status t)"
      "now \<in> clock_readings (sv_client s)" "pow_required t \<Longrightarrow> paid s body now"
      "cl_instances c (createKey s body) = None" "nsname_of (ci_meta i) = createKey s body"
| listed: "answers c s view r name ''GET'' ''/api/v1/instances'' (writeJSON 200 (JsonInstances xs))"
    if "\<And>i. i \<in> set xs \<Longrightarrow> cl_instances c (nsname_of (ci_meta i)) = Some i \<and> om_namespace (ci_meta i) = sv_namespace s"
| list_failed: "answers c s view r name ''GET'' ''/api/v1/instances'' (httpError (err_text e) 500)"
    if "failing c view (k_list (kb_instances (sv_client s)) opts) (\<lambda>_. False) e"
| inst: "answers c s view r name ''GET'' ''/api/v1/instances/{name}'' (writeJSON 200 (JsonInstance i))"
    if "cl_instances c (sv_namespace s, name) = Some i"
| inst_missing: "answers c s view r name ''GET'' ''/api/v1/instances/{name}'' (httpError ''instance not found'' 404)"
    if "cl_instances c (sv_namespace s, name) = None"
| inst_failed: "answers c s view r name ''GET'' ''/api/v1/instances/{name}'' (httpError (err_text e) 500)"
    if "failing c view (k_get (kb_instances (sv_client s)) (sv_namespace s, name)) is_not_found e"
| deleted: "answers c s view r name ''DELETE'' ''/api/v1/instances/{name}'' \<lparr>rs_status = 204, rs_body = NoBody\<rparr>"
    if "cl_instances c (sv_namespace s, name) \<noteq> None"
| delete_missing: "answers c s view r name ''DELETE'' ''/api/v1/instances/{name}'' (httpError ''instance not found'' 404)"
    if "cl_instances c (sv_namespace s, name) = None"
| delete_failed: "answers c s view r name ''DELETE'' ''/api/v1/instances/{name}'' (httpError (err_text e) 500)"
    if "failing c view (k_delete (kb_instances (sv_client s)) (sv_namespace s, name)) is_not_found e"
| extend_bad_body: "answers c s view r name ''PATCH'' ''/api/v1/instances/{name}/extend'' (httpError ''invalid body'' 400)"
    if "decode_body extend_field \<lparr>erq_ttl = ''''\<rparr> (json_first (rq_body r)) = None"
| extend_bad_ttl: "answers c s view r name ''PATCH'' ''/api/v1/instances/{name}/extend''
      (httpError (''invalid ttl: '' @ duration_error_text ttl e) 400)"
    if "decode_body extend_field \<lparr>erq_ttl = ''''\<rparr> (json_first (rq_body r)) = Some \<lparr>erq_ttl = ttl\<rparr>" "parse_duration ttl = Inl e"
| extend_missing: "answers c s view r name ''PATCH'' ''/api/v1/instances/{name}/extend'' (httpError ''instance not found'' 404)"
    if "cl_instances c (sv_namespace s, name) = None"
| extend_get_failed: "answers c s view r name ''PATCH'' ''/api/v1/instances/{name}/extend'' (httpError (err_text e) 500)"
    if "failing c view (k_get (kb_instances (sv_client s)) (sv_namespace s, name)) is_not_found e"
| extend_failed: "answers c s view r name ''PATCH'' ''/api/v1/instances/{name}/extend'' (httpError (err_text e) 500)"
    if "decode_body extend_field \<lparr>erq_ttl = ''''\<rparr> (json_first (rq_body r)) = Some \<lparr>erq_ttl = ttl\<rparr>"
      "cl_instances c (sv_namespace s, name) = Some i"
      "failing c view (k_update (kb_instances (sv_client s)) (i\<lparr>ci_spec := (ci_spec i)\<lparr>is_ttl_override := ttl\<rparr>\<rparr>)) (\<lambda>_. False) e"
| extended: "answers c s view r name ''PATCH'' ''/api/v1/instances/{name}/extend'' (writeJSON 200 (JsonInstance j))"
    if "decode_body extend_field \<lparr>erq_ttl = ''''\<rparr> (json_first (rq_body r)) = Some \<lparr>erq_ttl = ttl\<rparr>" "parse_duration ttl = Inr d"
      "cl_instances c (sv_namespace s, name) = Some i" "ci_spec j = (ci_spec i)\<lparr>is_ttl_override := ttl\<rparr>"
| puzzle_no_name: "answers c s view r name ''GET'' ''/api/v1/pow/challenge'' (httpError ''template query parameter is required'' 400)"
    if "rq_query r ''template'' = ''''"
| puzzle_no_template: "answers c s view r name ''GET'' ''/api/v1/pow/challenge'' (httpError ''template not found'' 404)"
    if "rq_query r ''template'' \<noteq> ''''" "cl_templates c (sv_namespace s, rq_query r ''template'') = None"
| puzzle_failed: "answers c s view r name ''GET'' ''/api/v1/pow/challenge'' (httpError (err_text e) 500)"
    if "rq_query r ''template'' \<noteq> ''''"
      "failing c view (k_get (kb_templates (sv_client s)) (sv_namespace s, rq_query r ''template'')) is_not_found e"
| puzzle_unneeded: "answers c s view r name ''GET'' ''/api/v1/pow/challenge'' (writeJSON 200 (JsonRequired False))"
    if "cl_templates c (sv_namespace s, rq_query r ''template'') = Some t" "\<not> pow_required t"
| puzzle: "answers c s view r name ''GET'' ''/api/v1/pow/challenge'' (writeJSON 200 (JsonPuzzle p))"
    if "cl_templates c (sv_namespace s, rq_query r ''template'') = Some t" "ts_pow (ct_spec t) = Some q" "pow_enabled q"
      "pz_difficulty p = pow_difficulty q"
| hook_unsupported: "answers c s view r name ''POST'' ''/api/v1/webhooks/configure''
      (httpError ''active scoring backend does not support webhook registration'' 501)"
    if "be_registrar (sv_backend s) = None"
| hook_bad_body: "answers c s view r name ''POST'' ''/api/v1/webhooks/configure'' (httpError ''invalid body'' 400)"
    if "be_registrar (sv_backend s) \<noteq> None" "decode_body webhook_field \<lparr>wrq_url = '''', wrq_secret = ''''\<rparr> (json_first (rq_body r)) = None"
| hook_failed: "answers c s view r name ''POST'' ''/api/v1/webhooks/configure'' (httpError (err_text e) 500)"
    if "be_registrar (sv_backend s) = Some f"
      "decode_body webhook_field \<lparr>wrq_url = '''', wrq_secret = ''''\<rparr> (json_first (rq_body r)) = Some body"
      "view w = c" "f (wrq_url body) (wrq_secret body) w = (Some e, w')"
| hooked: "answers c s view r name ''POST'' ''/api/v1/webhooks/configure'' \<lparr>rs_status = 200, rs_body = NoBody\<rparr>"
    if "be_registrar (sv_backend s) = Some f"
      "decode_body webhook_field \<lparr>wrq_url = '''', wrq_secret = ''''\<rparr> (json_first (rq_body r)) = Some body"
      "view w = c" "f (wrq_url body) (wrq_secret body) w = (None, w')"

inductive_cases answers_healthE: "answers c s view r name ''GET'' ''/api/v1/health'' resp"
inductive_cases answers_deleteE: "answers c s view r name ''DELETE'' ''/api/v1/instances/{name}'' resp"

section \<open>The handlers keep it\<close>

context api_server
begin

lemma list_templates_answers:
  assumes "handleListTemplates s name r w = (resp, s', w')"
  shows "answers (view w) s view r name ''GET'' ''/api/v1/templates'' resp"
proof (cases "k_list (kb_templates (sv_client s)) \<lparr>lo_namespace = Some (sv_namespace s), lo_labels = Map.empty\<rparr> w"
    rule: result_cases)
  case (Err e w1)
  have fails: "\<not> p e \<Longrightarrow> failing (view w) view (k_list (kb_templates (sv_client s)) \<lparr>lo_namespace = Some (sv_namespace s), lo_labels = Map.empty\<rparr>) p e" for p
    by (rule failingI, rule Err, rule refl)
  from answers.templates_failed [OF fails] assms Err show ?thesis
    by (auto simp: handleListTemplates_def)
next
  case (Ok ts w1)
  have "set ts = {t. cl_templates (view w) (nsname_of (ct_meta t)) = Some t \<and> om_namespace (ct_meta t) = sv_namespace s}"
    using templates.list_found [OF Ok] by (simp add: list_match_def)
  from answers.templates [OF this] assms Ok show ?thesis by (simp add: handleListTemplates_def)
qed

lemma get_template_answers:
  assumes "handleGetTemplate s name r w = (resp, s', w')"
  shows "answers (view w) s view r name ''GET'' ''/api/v1/templates/{name}'' resp"
proof (cases "k_get (kb_templates (sv_client s)) (sv_namespace s, name) w" rule: result_cases)
  case (Err e w1)
  have fails: "\<not> p e \<Longrightarrow> failing (view w) view (k_get (kb_templates (sv_client s)) (sv_namespace s, name)) p e" for p
    by (rule failingI, rule Err, rule refl)
  with Err assms show ?thesis
    using answers.template_failed [OF fails] answers.template_missing [OF templates.get_missing [OF Err]]
    by (cases "is_not_found e") (simp_all add: handleGetTemplate_def)
next
  case (Ok t w1)
  from answers.template [OF templates.get_found [OF Ok]] assms Ok show ?thesis by (simp add: handleGetTemplate_def)
qed

lemma get_instance_answers:
  assumes "handleGetInstance s name r w = (resp, s', w')"
  shows "answers (view w) s view r name ''GET'' ''/api/v1/instances/{name}'' resp"
proof (cases "k_get (kb_instances (sv_client s)) (sv_namespace s, name) w" rule: result_cases)
  case (Err e w1)
  have fails: "\<not> p e \<Longrightarrow> failing (view w) view (k_get (kb_instances (sv_client s)) (sv_namespace s, name)) p e" for p
    by (rule failingI, rule Err, rule refl)
  with Err assms show ?thesis
    using answers.inst_failed [OF fails] answers.inst_missing [OF instances.get_missing [OF Err]]
    by (cases "is_not_found e") (simp_all add: handleGetInstance_def)
next
  case (Ok i w1)
  from answers.inst [OF instances.get_found [OF Ok]] assms Ok show ?thesis by (simp add: handleGetInstance_def)
qed

lemma delete_answers:
  assumes "handleDeleteInstance s name r w = (resp, s', w')"
  shows "answers (view w) s view r name ''DELETE'' ''/api/v1/instances/{name}'' resp"
proof (cases "k_delete (kb_instances (sv_client s)) (sv_namespace s, name) w" rule: result_cases)
  case (Err e w1)
  have fails: "\<not> p e \<Longrightarrow> failing (view w) view (k_delete (kb_instances (sv_client s)) (sv_namespace s, name)) p e" for p
    by (rule failingI, rule Err, rule refl)
  with Err assms show ?thesis
    using answers.delete_failed [OF fails] answers.delete_missing [OF instances.delete_missing [OF Err]]
    by (cases "is_not_found e") (simp_all add: handleDeleteInstance_def)
next
  case (Ok u w1)
  from answers.deleted [OF instances.delete_done [OF Ok, THEN conjunct1]] assms Ok show ?thesis
    by (simp add: handleDeleteInstance_def)
qed

lemma set_filterLoop: "count \<le> i \<Longrightarrow> i + n = length items \<Longrightarrow> set (filterLoop status n i count items) \<subseteq> set items"
proof (induction n arbitrary: i count items)
  case 0
  then show ?case by (simp add: set_take_subset)
next
  case (Suc n)
  have sub: "set (items[count := items ! i]) \<subseteq> set items"
    using Suc.prems by (auto dest!: set_update_subset_insert [THEN subsetD])
  from Suc.IH [of "Suc count" "Suc i" "items[count := items ! i]"] Suc.IH [of count "Suc i" items] Suc.prems sub
  show ?case by (auto simp: Let_def)
qed

lemma list_answers:
  assumes "handleListInstances s name r w = (resp, s', w')"
  shows "answers (view w) s view r name ''GET'' ''/api/v1/instances'' resp"
proof (cases "k_list (kb_instances (sv_client s)) \<lparr>lo_namespace = Some (sv_namespace s), lo_labels = listLabels r\<rparr> w"
    rule: result_cases)
  case (Err e w1)
  have fails: "\<not> p e \<Longrightarrow> failing (view w) view (k_list (kb_instances (sv_client s)) \<lparr>lo_namespace = Some (sv_namespace s), lo_labels = listLabels r\<rparr>) p e" for p
    by (rule failingI, rule Err, rule refl)
  from answers.list_failed [OF fails] assms Err show ?thesis by (auto simp: handleListInstances_def)
next
  case (Ok xs w1)
  have all: "cl_instances (view w) (nsname_of (ci_meta i)) = Some i \<and> om_namespace (ci_meta i) = sv_namespace s"
    if "i \<in> set xs" for i
    using instances.list_found [OF Ok] that by (simp add: list_match_def)
  have sub: "set (filterStatus status xs) \<subseteq> set xs" for status
    unfolding filterStatus_def by (rule set_filterLoop) simp_all
  have "answers (view w) s view r name ''GET'' ''/api/v1/instances'' (writeJSON 200 (JsonInstances ys))" if "set ys \<subseteq> set xs" for ys
    by (rule answers.listed, rule all) (use that in blast)
  from this [OF order_refl] this [OF sub] assms Ok show ?thesis
    by (auto simp: handleListInstances_def Let_def split: if_splits)
qed

lemma extend_answers:
  assumes run: "handleExtendInstance s name r w = (resp, s', w')"
  shows "answers (view w) s view r name ''PATCH'' ''/api/v1/instances/{name}/extend'' resp"
proof (cases "decode_body extend_field \<lparr>erq_ttl = ''''\<rparr> (json_first (rq_body r))")
  case None
  with answers.extend_bad_body [OF None] run show ?thesis by (simp add: handleExtendInstance_def)
next
  case (Some b)
  define ttl where "ttl = erq_ttl b"
  have body: "decode_body extend_field \<lparr>erq_ttl = ''''\<rparr> (json_first (rq_body r)) = Some \<lparr>erq_ttl = ttl\<rparr>" unfolding Some ttl_def by simp
  show ?thesis
  proof (cases "parse_duration ttl")
    case (Inl e)
    with answers.extend_bad_ttl [OF body Inl] run body show ?thesis by (simp add: handleExtendInstance_def)
  next
    case ttl: (Inr d)
    show ?thesis
    proof (cases "k_get (kb_instances (sv_client s)) (sv_namespace s, name) w" rule: result_cases)
      case (Err e w1)
      have fails: "\<not> p e \<Longrightarrow> failing (view w) view (k_get (kb_instances (sv_client s)) (sv_namespace s, name)) p e" for p
        by (rule failingI, rule Err, rule refl)
      with Err run body ttl show ?thesis
        using answers.extend_get_failed [OF fails] answers.extend_missing [OF instances.get_missing [OF Err]]
        by (cases "is_not_found e") (simp_all add: handleExtendInstance_def)
    next
      case get: (Ok i w1)
      note i = instances.get_found [OF get] and v1 = instances.get_view [OF get]
      let ?new = "i\<lparr>ci_spec := (ci_spec i)\<lparr>is_ttl_override := ttl\<rparr>\<rparr>"
      show ?thesis
      proof (cases "k_update (kb_instances (sv_client s)) ?new w1" rule: result_cases)
        case (Err e w2)
        have fails: "\<not> p e \<Longrightarrow> failing (view w) view (k_update (kb_instances (sv_client s)) ?new) p e" for p
          by (rule failingI, rule Err, rule v1)
        with Err answers.extend_failed [OF body i fails] run body ttl get show ?thesis
          by (simp add: handleExtendInstance_def)
      next
        case (Ok j w2)
        then have "ci_spec j = (ci_spec i)\<lparr>is_ttl_override := ttl\<rparr>" using instances.update_done [OF Ok] by simp
        from answers.extended [OF body ttl i this] run body ttl get Ok show ?thesis
          by (simp add: handleExtendInstance_def)
      qed
    qed
  qed
qed

lemma create_call_answers:
  assumes run: "createInstance s1 body w = (resp, s', w')" and s1: "sv_client s1 = sv_client s" "sv_namespace s1 = sv_namespace s"
    and body: "decode_body create_field create_request_zero (json_first (rq_body r)) = Some body" "crq_template body \<noteq> ''''" "crq_team body \<noteq> ''''"
    and t: "cl_templates (view w) (sv_namespace s, crq_template body) = Some t" "tst_ready (ct_status t)"
    and now: "now \<in> clock_readings (sv_client s)" "pow_required t \<Longrightarrow> paid s body now"
  shows "answers (view w) s view r name ''POST'' ''/api/v1/instances'' resp"
proof (cases "k_create (kb_instances (sv_client s)) (newInstance s body) w" rule: result_cases)
  case (Err e w1)
  have fails: "\<not> p e \<Longrightarrow> failing (view w) view (k_create (kb_instances (sv_client s)) (newInstance s body)) p e" for p
    by (rule failingI, rule Err, rule refl)
  have "newInstance s1 body = newInstance s body" by (simp add: newInstance_def s1)
  moreover have "nsname_of (ci_meta (newInstance s body)) = createKey s body" by (simp add: newInstance_def createKey_def)
  moreover note instances.create_exists [OF Err]
  ultimately show ?thesis
    using run s1 Err answers.create_failed [OF body(1) fails] answers.create_taken [OF body(1)]
    by (cases "is_already_exists e") (simp_all add: createInstance_def)
next
  case (Ok i w1)
  have new: "newInstance s1 body = newInstance s body" by (simp add: newInstance_def s1)
  have key: "nsname_of (ci_meta (newInstance s body)) = createKey s body" by (simp add: newInstance_def createKey_def)
  note created = instances.create_done [OF Ok]
  then have "cl_instances (view w) (createKey s body) = None" using key by simp
  moreover have "nsname_of (ci_meta i) = createKey s body"
    using created user_meta_eqD [of "ci_meta i" "ci_meta (newInstance s body)"] key by (auto simp: nsname_of_def)
  ultimately have "answers (view w) s view r name ''POST'' ''/api/v1/instances'' (writeJSON 201 (JsonInstance i))"
    using answers.created [OF body t now(1)] now(2) by blast
  with run s1 Ok new show ?thesis by (simp add: createInstance_def)
qed

lemma create_answers:
  assumes run: "handleCreateInstance s name r w = (resp, s', w')"
  shows "answers (view w) s view r name ''POST'' ''/api/v1/instances'' resp"
proof (cases "decode_body create_field create_request_zero (json_first (rq_body r))")
  case None
  with answers.create_bad_body [OF None] run show ?thesis by (simp add: handleCreateInstance_def)
next
  case body: (Some body)
  show ?thesis
  proof (cases "crq_template body = '''' \<or> crq_team body = ''''")
    case True
    with answers.create_incomplete [OF body True] run body show ?thesis by (auto simp: handleCreateInstance_def)
  next
    case fields: False
    show ?thesis
    proof (cases "k_get (kb_templates (sv_client s)) (sv_namespace s, crq_template body) w" rule: result_cases)
      case (Err e w1)
      have fails: "\<not> p e \<Longrightarrow> failing (view w) view (k_get (kb_templates (sv_client s)) (sv_namespace s, crq_template body)) p e" for p
        by (rule failingI, rule Err, rule refl)
      with Err run body fields show ?thesis
        using answers.create_template_failed [OF body fails]
          answers.create_no_template [OF body templates.get_missing [OF Err]]
        by (cases "is_not_found e") (simp_all add: handleCreateInstance_def)
    next
      case get: (Ok t w1)
      note v1 = templates.get_view [OF get] and t = templates.get_found [OF get]
      show ?thesis
      proof (cases "tst_ready (ct_status t)")
        case False
        with answers.create_not_ready [OF body t False] run body fields get show ?thesis by (simp add: handleCreateInstance_def)
      next
        case ready: True
        show ?thesis
        proof (cases "pow_required t")
          case False
          with run body fields get ready have "createInstance s body w1 = (resp, s', w')" by (simp add: handleCreateInstance_def)
          from create_call_answers [OF this refl refl body _ _ _ ready clock_reading] fields t False v1 show ?thesis by simp
        next
          case pow: True
          obtain ok s1 w2 where c: "consumePoW s (crq_challenge body) (crq_nonce body) w1 = (ok, s1, w2)" by (metis prod_cases3)
          note cd = consumePoW_done [OF c]
          have pay: "ok \<longleftrightarrow> paid s body (fst (kb_now (sv_client s) w1))" using cd by (simp add: paid_def)
          show ?thesis
          proof (cases ok)
            case True
            with run body fields get ready pow c have create: "createInstance s1 body w2 = (resp, s', w')"
              by (simp add: handleCreateInstance_def)
            from create_call_answers [OF create _ _ body _ _ _ ready clock_reading [of "sv_client s" w1]] cd fields t v1 pay True show ?thesis by simp
          next
            case False
            with answers.create_unpaid [OF body t ready pow clock_reading] run body fields get ready pow c pay show ?thesis
              by (simp add: handleCreateInstance_def)
          qed
        qed
      qed
    qed
  qed
qed

lemma puzzle_answers:
  assumes run: "handlePoWChallenge s name r w = (resp, s', w')"
  shows "answers (view w) s view r name ''GET'' ''/api/v1/pow/challenge'' resp"
proof (cases "rq_query r ''template'' = ''''")
  case True
  with answers.puzzle_no_name [OF True] run show ?thesis by (simp add: handlePoWChallenge_def)
next
  case named: False
  show ?thesis
  proof (cases "k_get (kb_templates (sv_client s)) (sv_namespace s, rq_query r ''template'') w" rule: result_cases)
    case (Err e w1)
    have fails: "\<not> p e \<Longrightarrow> failing (view w) view (k_get (kb_templates (sv_client s)) (sv_namespace s, rq_query r ''template'')) p e" for p
      by (rule failingI, rule Err, rule refl)
    with Err run named show ?thesis
      using answers.puzzle_failed [OF named fails]
        answers.puzzle_no_template [OF named templates.get_missing [OF Err]]
      by (cases "is_not_found e") (simp_all add: handlePoWChallenge_def)
  next
    case (Ok t w1)
    note t = templates.get_found [OF Ok]
    have unneeded: "answers (view w) s view r name ''GET'' ''/api/v1/pow/challenge'' (writeJSON 200 (JsonRequired False))"
      if "\<not> pow_required t"
      by (rule answers.puzzle_unneeded [OF t that])
    show ?thesis
    proof (cases "ts_pow (ct_spec t)")
      case None
      with unneeded run named Ok show ?thesis by (simp add: handlePoWChallenge_def pow_required_def)
    next
      case (Some q)
      obtain p w2 where p: "GeneratePoWPuzzle (sv_rand s) (kb_now (sv_client s)) (pow_difficulty q) w1 = (p, w2)" by fastforce
      then have "pz_difficulty p = pow_difficulty q" by (auto simp: GeneratePoWPuzzle_def split: prod.splits)
      with answers.puzzle [OF t Some] unneeded run named Ok Some p show ?thesis
        by (cases "pow_enabled q") (auto simp: handlePoWChallenge_def pow_required_def)
    qed
  qed
qed

lemma hook_answers:
  assumes run: "handleConfigureWebhook s name r w = (resp, s', w')"
  shows "answers (view w) s view r name ''POST'' ''/api/v1/webhooks/configure'' resp"
proof (cases "be_registrar (sv_backend s)")
  case None
  with answers.hook_unsupported [OF None] run show ?thesis by (simp add: handleConfigureWebhook_def)
next
  case reg: (Some f)
  show ?thesis
  proof (cases "decode_body webhook_field \<lparr>wrq_url = '''', wrq_secret = ''''\<rparr> (json_first (rq_body r))")
    case None
    have "answers (view w) s view r name ''POST'' ''/api/v1/webhooks/configure'' (httpError ''invalid body'' 400)"
      by (rule answers.hook_bad_body) (use reg None in simp_all)
    with run reg None show ?thesis by (simp add: handleConfigureWebhook_def)
  next
    case body: (Some body)
    obtain eo w1 where f: "f (wrq_url body) (wrq_secret body) w = (eo, w1)" by fastforce
    show ?thesis
    proof (cases eo)
      case None
      from answers.hooked [OF reg body refl f [unfolded None]] run reg body f None show ?thesis
        by (simp add: handleConfigureWebhook_def)
    next
      case (Some e)
      from answers.hook_failed [OF reg body refl f [unfolded Some]] run reg body f Some show ?thesis
        by (auto simp: handleConfigureWebhook_def)
    qed
  qed
qed

lemma guarded_answers:
  assumes run: "authMiddleware h s name r w = (resp, s', w')" and pat: "pat \<noteq> ''/api/v1/health''"
    and h: "\<And>w1. h s name r w1 = (resp, s', w') \<Longrightarrow> answers (view w1) s view r name m pat resp"
  shows "answers (view w) s view r name m pat resp"
proof (cases "be_authenticate (sv_backend s) r w" rule: result_cases)
  case (Err e w1)
  have fails: "\<not> p e \<Longrightarrow> failing (view w) view (be_authenticate (sv_backend s) r) p e" for p
    by (rule failingI, rule Err, rule refl)
  from answers.unauthorized [OF pat fails] run Err show ?thesis by (simp add: authMiddleware_def)
next
  case (Ok who w1)
  with run have "h s name r w1 = (resp, s', w')" by (simp add: authMiddleware_def)
  from h [OF this] backend.authenticate_view [OF Ok] show ?thesis by simp
qed

lemmas handler_answers = list_templates_answers get_template_answers list_answers get_instance_answers
  delete_answers extend_answers create_answers puzzle_answers hook_answers

lemma health_answers:
  "handleHealth s name r w = (resp, s', w') \<Longrightarrow> answers (view w) s view r name ''GET'' ''/api/v1/health'' resp"
  using answers.health [of "view w" s view r name] by (simp add: handleHealth_def)

lemma guarded_route:
  assumes "\<And>w resp s' w'. h s name r w = (resp, s', w') \<Longrightarrow> answers (view w) s view r name m pat resp"
    "pat \<noteq> ''/api/v1/health''"
  shows "\<forall>w resp s' w'. authMiddleware h s name r w = (resp, s', w') \<longrightarrow> answers (view w) s view r name m pat resp"
  using guarded_answers assms by blast

lemma route_answers:
  assumes "(m, pat, h) \<in> set setupRoutes" "h s name r w = (resp, s', w')"
  shows "answers (view w) s view r name m pat resp"
proof -
  have "list_all (\<lambda>(m, pat, h). \<forall>w resp s' w'. h s name r w = (resp, s', w') \<longrightarrow>
      answers (view w) s view r name m pat resp) setupRoutes"
    unfolding setupRoutes_def list.pred_inject prod.case
    using health_answers
    by (intro conjI TrueI guarded_route handler_answers) (blast, simp_all)
  with assms show ?thesis by (auto simp: list_all_iff)
qed

end

end
