(* ===== verification/Backends.thy ===== *)
theory Backends
  imports Go_Crypto Go_Json
begin

text \<open>
  The two scoring backends, \<open>internal/integrations/generic.go\<close> and \<open>ctfd.go\<close>: their
  configuration, \<open>Notify\<close>, \<open>Authenticate\<close> and \<open>RegisterWebhook\<close>. The servers they talk to,
  the URL parser of \<open>net/http\<close> and the order in which Go ranges over a map are outside this
  repository: they are a record of functions, \<open>network\<close>, on a world of an arbitrary type. What a
  property needs of them is the locale \<open>http_network\<close>.
\<close>

section \<open>The network\<close>

text \<open>
  A request as it goes out (header names in their canonical spelling), a response with its body
  as text. \<open>nw_url_error\<close> is the error \<open>http.NewRequestWithContext\<close> gives for a URL, if any.
\<close>

record http_out =
  ho_method :: string
  ho_url :: string
  ho_header :: "(string \<times> string) list"
  ho_body :: string

record http_in =
  hi_status :: int
  hi_body :: string

record 'n network =
  nw_url_error :: "string \<Rightarrow> go_error option"
  nw_do :: "http_out \<Rightarrow> 'n \<Rightarrow> (go_error + http_in) \<times> 'n"
  nw_range :: "(string \<rightharpoonup> string) \<Rightarrow> 'n \<Rightarrow> (string \<times> string) list \<times> 'n"

text \<open>A status code in decimal.\<close>

definition dec_int :: "int \<Rightarrow> string" where
  "dec_int n = (if n < 0 then ''-'' @ dec_string (nat (- n)) else dec_string (nat n))"

text \<open>The part of a request both backends share: build it, send it, complain about the status.\<close>

definition send :: "'n network \<Rightarrow> http_out \<Rightarrow> (int \<Rightarrow> string option) \<Rightarrow> 'n \<Rightarrow> (go_error + http_in) \<times> 'n" where
  "send nw req complaint n =
     (case nw_url_error nw (ho_url req) of
        Some e \<Rightarrow> (Inl e, n)
      | None \<Rightarrow>
        (case nw_do nw req n of
           (Inl e, n1) \<Rightarrow> (Inl e, n1)
         | (Inr resp, n1) \<Rightarrow>
             (case complaint (hi_status resp) of
                Some m \<Rightarrow> (Inl (OtherErr m), n1)
              | None \<Rightarrow> (Inr resp, n1))))"

section \<open>The generic backend\<close>

record generic_config =
  gc_api_key :: string

definition generic_field :: "string \<Rightarrow> json \<Rightarrow> generic_config \<Rightarrow> generic_config option" where
  "generic_field k v c = (if k = ''APIKEY'' then decode_string (\<lambda>x. c\<lparr>gc_api_key := x\<rparr>) c v else Some c)"

text \<open>
  \<open>json.Marshal(event)\<close>: \<open>Event\<close> has no field tags, so the keys are the names of the fields.
\<close>

definition marshal_event :: "event \<Rightarrow> go_error + string" where
  "marshal_event ev =
     (case marshal_time (evt_timestamp ev) of
        Inl e \<Rightarrow> Inl e
      | Inr t \<Rightarrow> Inr (json_object [
          (''Type'', json_string (event_type_string (evt_type ev))),
          (''Instance'', json_string (evt_instance ev)),
          (''Challenge'', json_string (evt_challenge ev)),
          (''Team'', json_string (evt_team ev)),
          (''Player'', json_string (evt_player ev)),
          (''Endpoint'', json_string (evt_endpoint ev)),
          (''Reason'', json_string (evt_reason ev)),
          (''Timestamp'', t)]))"

definition signature :: "string \<Rightarrow> string \<Rightarrow> string" where
  "signature secret payload = hex_encode (hmac_sha256 (bytes_of_string secret) (bytes_of_string payload))"

definition signedPost :: "string \<Rightarrow> string \<Rightarrow> string \<Rightarrow> http_out" where
  "signedPost url secret payload =
     \<lparr>ho_method = ''POST'', ho_url = url,
      ho_header = [(''Content-Type'', ''application/json''), (''X-Kimo-Signature'', signature secret payload)],
      ho_body = payload\<rparr>"

definition postSigned :: "'n network \<Rightarrow> string \<Rightarrow> string \<Rightarrow> string \<Rightarrow> 'n \<Rightarrow> go_error option \<times> 'n" where
  "postSigned nw url secret payload n =
     (case send nw (signedPost url secret payload)
         (\<lambda>st. if 300 \<le> st then Some (''webhook '' @ url @ '' returned '' @ dec_int st) else None) n of
        (Inl e, n1) \<Rightarrow> (Some e, n1)
      | (Inr _, n1) \<Rightarrow> (None, n1))"

text \<open>The loop over the hooks, and \<open>errors.Join\<close> of what went wrong.\<close>

fun postAll :: "'n network \<Rightarrow> string \<Rightarrow> (string \<times> string) list \<Rightarrow> 'n \<Rightarrow> go_error list \<times> 'n" where
  "postAll nw payload [] n = ([], n)"
| "postAll nw payload ((url, secret) # hooks) n =
     (case postSigned nw url secret payload n of
        (e, n1) \<Rightarrow>
          (case postAll nw payload hooks n1 of
             (errs, n2) \<Rightarrow> ((case e of None \<Rightarrow> errs | Some x \<Rightarrow> x # errs), n2)))"

fun joinErrors :: "go_error list \<Rightarrow> go_error option" where
  "joinErrors [] = None"
| "joinErrors (e # es) =
     Some (OtherErr (err_text e @ concat (map (\<lambda>x. CHR 0x0A # err_text x) es)))"

text \<open>
  A backend lives in a world that holds its table of hooks, from URL to secret, next to the
  network. \<open>Notify\<close> and \<open>RegisterWebhook\<close> each hold the lock while they touch the table.
\<close>

record 'n backend_world =
  bw_hooks :: "string \<rightharpoonup> string"
  bw_net :: 'n

definition RegisterWebhook :: "string \<Rightarrow> string \<Rightarrow> 'n backend_world \<Rightarrow> go_error option \<times> 'n backend_world" where
  "RegisterWebhook url secret w = (None, w\<lparr>bw_hooks := (bw_hooks w)(url \<mapsto> secret)\<rparr>)"

definition genericNotify :: "'n network \<Rightarrow> event \<Rightarrow> 'n backend_world \<Rightarrow> go_error option \<times> 'n backend_world" where
  "genericNotify nw ev w =
     (let hooks = bw_hooks w in
      case marshal_event ev of
        Inl e \<Rightarrow> (Some e, w)
      | Inr payload \<Rightarrow>
        (case nw_range nw hooks (bw_net w) of
           (pairs, n1) \<Rightarrow>
             (case postAll nw payload pairs n1 of
                (errs, n2) \<Rightarrow> (joinErrors errs, w\<lparr>bw_net := n2\<rparr>))))"

definition genericAuthenticate :: "string \<Rightarrow> http_request \<Rightarrow> 'w \<Rightarrow> (go_error + principal) \<times> 'w" where
  "genericAuthenticate apiKey r w =
     (if rq_header r ''Authorization'' \<noteq> ''Bearer '' @ apiKey
      then (Inl (OtherErr ''unauthorized''), w)
      else (Inr \<lparr>pr_subject = ''api-key'', pr_team = '''', pr_scopes = [''admin'']\<rparr>, w))"

definition genericBackend :: "'n network \<Rightarrow> generic_config \<Rightarrow> 'n backend_world backend" where
  "genericBackend nw c =
     \<lparr>be_name = ''generic'', be_notify = genericNotify nw,
      be_authenticate = genericAuthenticate (gc_api_key c), be_registrar = Some RegisterWebhook\<rparr>"

text \<open>
  The constructor. An empty configuration is not parsed at all. What \<open>encoding/json\<close> says about
  a bad one is not modelled. The table of hooks of a new backend is empty.
\<close>

definition newGenericBackend :: "'n network \<Rightarrow> 'n backend_world factory" where
  "newGenericBackend nw cfg =
     (case (if 0 < length cfg then decode_body generic_field \<lparr>gc_api_key = ''''\<rparr> (json_whole cfg)
            else Some \<lparr>gc_api_key = ''''\<rparr>) of
        None \<Rightarrow> Inl (OtherErr ''parsing generic backend config'')
      | Some c \<Rightarrow> Inr (genericBackend nw c))"

definition newBackendWorld :: "'n \<Rightarrow> 'n backend_world" where
  "newBackendWorld n = \<lparr>bw_hooks = Map.empty, bw_net = n\<rparr>"

section \<open>The CTFd backend\<close>

record ctfd_config =
  cc_base_url :: string
  cc_webhook_url :: string
  cc_api_key :: string

definition ctfd_zero :: ctfd_config where
  "ctfd_zero = \<lparr>cc_base_url = '''', cc_webhook_url = '''', cc_api_key = ''''\<rparr>"

definition ctfd_field :: "string \<Rightarrow> json \<Rightarrow> ctfd_config \<Rightarrow> ctfd_config option" where
  "ctfd_field k v c =
     (if k = ''BASEURL'' then decode_string (\<lambda>x. c\<lparr>cc_base_url := x\<rparr>) c v
      else if k = ''WEBHOOKURL'' then decode_string (\<lambda>x. c\<lparr>cc_webhook_url := x\<rparr>) c v
      else if k = ''APIKEY'' then decode_string (\<lambda>x. c\<lparr>cc_api_key := x\<rparr>) c v
      else Some c)"

definition ctfdPayload :: "event \<Rightarrow> string" where
  "ctfdPayload ev = json_object [
     (''type'', json_string (event_type_string (evt_type ev))),
     (''challenge_id'', json_string (evt_challenge ev)),
     (''team_id'', json_string (evt_team ev)),
     (''instance_url'', json_string (evt_endpoint ev))]"

definition ctfdPost :: "ctfd_config \<Rightarrow> event \<Rightarrow> http_out" where
  "ctfdPost c ev =
     \<lparr>ho_method = ''POST'', ho_url = cc_webhook_url c,
      ho_header = [(''Content-Type'', ''application/json''), (''Authorization'', ''Token '' @ cc_api_key c)],
      ho_body = ctfdPayload ev\<rparr>"

definition ctfdNotify :: "'n network \<Rightarrow> ctfd_config \<Rightarrow> event \<Rightarrow> 'n \<Rightarrow> go_error option \<times> 'n" where
  "ctfdNotify nw c ev n =
     (if cc_webhook_url c = '''' then (None, n)
      else (case send nw (ctfdPost c ev)
          (\<lambda>st. if 300 \<le> st then Some (''ctfd webhook returned '' @ dec_int st) else None) n of
         (Inl e, n1) \<Rightarrow> (Some e, n1)
       | (Inr _, n1) \<Rightarrow> (None, n1)))"

text \<open>
  The answer of \<open>/api/v1/users/me\<close>: a struct in a struct. \<open>team_id\<close> is a Go \<open>int\<close>: a number
  literal without fraction or exponent that fits 64 bits.
\<close>

record ctfd_user =
  cu_name :: string
  cu_team_id :: int

definition ctfd_user_zero :: ctfd_user where
  "ctfd_user_zero = \<lparr>cu_name = '''', cu_team_id = 0\<rparr>"

definition int_literal :: "string \<Rightarrow> int option" where
  "int_literal lit =
     (let neg = (lit \<noteq> [] \<and> hd lit = CHR ''-''); ds = (if neg then tl lit else lit);
          n = int (digits_val ds) in
      if ds \<noteq> [] \<and> list_all is_digit ds \<and> (if neg then n \<le> 2 ^ 63 else n < 2 ^ 63)
      then Some (if neg then - n else n) else None)"

definition decode_int :: "(int \<Rightarrow> 'r) \<Rightarrow> 'r \<Rightarrow> json \<Rightarrow> 'r option" where
  "decode_int put r v =
     (case v of JNum lit \<Rightarrow> map_option put (int_literal lit) | JNull \<Rightarrow> Some r | _ \<Rightarrow> None)"

definition ctfd_data_field :: "string \<Rightarrow> json \<Rightarrow> ctfd_user \<Rightarrow> ctfd_user option" where
  "ctfd_data_field k v u =
     (if k = ''NAME'' then decode_string (\<lambda>x. u\<lparr>cu_name := x\<rparr>) u v
      else if k = ''TEAM_ID'' then decode_int (\<lambda>x. u\<lparr>cu_team_id := x\<rparr>) u v
      else Some u)"

definition ctfd_body_field :: "string \<Rightarrow> json \<Rightarrow> ctfd_user \<Rightarrow> ctfd_user option" where
  "ctfd_body_field k v u = (if k = ''DATA'' then decode_body ctfd_data_field u (Some v) else Some u)"

definition meRequest :: "ctfd_config \<Rightarrow> string \<Rightarrow> http_out" where
  "meRequest c token =
     \<lparr>ho_method = ''GET'', ho_url = cc_base_url c @ ''/api/v1/users/me'',
      ho_header = [(''Authorization'', token), (''Content-Type'', ''application/json'')], ho_body = ''''\<rparr>"

definition ctfdAuthenticate :: "'n network \<Rightarrow> ctfd_config \<Rightarrow> http_request \<Rightarrow> 'n \<Rightarrow> (go_error + principal) \<times> 'n" where
  "ctfdAuthenticate nw c r n =
     (let token = rq_header r ''Authorization'' in
      if token = '''' then (Inl (OtherErr ''missing authorization header''), n)
      else (case send nw (meRequest c token)
          (\<lambda>st. if st \<noteq> 200 then Some (''ctfd rejected credentials: '' @ dec_int st) else None) n of
         (Inl e, n1) \<Rightarrow> (Inl e, n1)
       | (Inr resp, n1) \<Rightarrow>
           (case decode_body ctfd_body_field ctfd_user_zero (json_first (hi_body resp)) of
              None \<Rightarrow> (Inl (OtherErr ''decoding the CTFd user''), n1)
            | Some u \<Rightarrow> (Inr \<lparr>pr_subject = cu_name u, pr_team = dec_int (cu_team_id u), pr_scopes = []\<rparr>, n1))))"

text \<open>The backend runs on the network alone: it has no state of its own.\<close>

definition on_net :: "('n \<Rightarrow> 'a \<times> 'n) \<Rightarrow> 'n backend_world \<Rightarrow> 'a \<times> 'n backend_world" where
  "on_net f w = (case f (bw_net w) of (x, n) \<Rightarrow> (x, w\<lparr>bw_net := n\<rparr>))"

definition ctfdBackend :: "'n network \<Rightarrow> ctfd_config \<Rightarrow> 'n backend_world backend" where
  "ctfdBackend nw c =
     \<lparr>be_name = ''ctfd'', be_notify = (\<lambda>ev. on_net (ctfdNotify nw c ev)),
      be_authenticate = (\<lambda>r. on_net (ctfdAuthenticate nw c r)), be_registrar = None\<rparr>"

definition newCTFdBackend :: "'n network \<Rightarrow> 'n backend_world factory" where
  "newCTFdBackend nw cfg =
     (case decode_body ctfd_field ctfd_zero (json_whole cfg) of
        None \<Rightarrow> Inl (OtherErr ''parsing ctfd backend config'')
      | Some c \<Rightarrow>
          if cc_base_url c = '''' then Inl (OtherErr ''ctfd backend requires baseUrl'')
          else Inr (ctfdBackend nw c))"

section \<open>The registry\<close>

text \<open>The two \<open>init\<close> functions.\<close>

definition kimoRegistry :: "'n network \<Rightarrow> 'n backend_world registry" where
  "kimoRegistry nw = Register ''generic'' (newGenericBackend nw) (Register ''ctfd'' (newCTFdBackend nw) Map.empty)"

end
