(* ===== verification/Backend_Props.thy ===== *)
theory Backend_Props
  imports Backends "HOL-Library.List_Lexorder" "HOL-Library.Char_ord"
begin

text \<open>What the two scoring backends send, what a receiver reads, and whom they let in.\<close>

section \<open>What is relied on of the network\<close>

text \<open>
  \<open>log\<close> lists the requests handed to \<open>http.Client.Do\<close> so far with what came of each; ranging
  over a map visits each entry once, in any order, and sends nothing.
\<close>

locale http_network =
  fixes nw :: "'n network" and log :: "'n \<Rightarrow> (http_out \<times> (go_error + http_in)) list"
  assumes do_log: "nw_do nw req n = (r, n') \<Longrightarrow> log n' = log n @ [(req, r)]"
    and range_log: "nw_range nw m n = (ps, n') \<Longrightarrow> log n' = log n"
    and range_entries: "nw_range nw m n = (ps, n') \<Longrightarrow> finite (dom m) \<Longrightarrow>
      set ps = {(k, v). m k = Some v} \<and> distinct (map fst ps)"
begin

text \<open>\<open>exchanged n n'\<close>: what was sent between two moments.\<close>

lemma send_log:
  assumes "send nw req complaint n = (res, n')"
  shows "(nw_url_error nw (ho_url req) \<noteq> None \<and> n' = n \<and> (\<exists>e. res = Inl e)) \<or>
    (nw_url_error nw (ho_url req) = None \<and> (\<exists>r. log n' = log n @ [(req, r)] \<and>
       (case r of Inl e \<Rightarrow> res = Inl e
        | Inr resp \<Rightarrow> (case complaint (hi_status resp) of Some m \<Rightarrow> res = Inl (OtherErr m) | None \<Rightarrow> res = Inr resp))))"
proof (cases "nw_url_error nw (ho_url req)")
  case (Some e)
  with assms show ?thesis by (auto simp: send_def)
next
  case None
  obtain r n1 where r: "nw_do nw req n = (r, n1)" by fastforce
  with do_log [OF r] assms None show ?thesis
    by (auto simp: send_def split: sum.splits option.splits)
qed

lemma postSigned_log:
  assumes "postSigned nw url secret payload n = (e, n')"
  shows "(nw_url_error nw url \<noteq> None \<and> n' = n \<and> e \<noteq> None) \<or>
    (nw_url_error nw url = None \<and>
     (\<exists>r. log n' = log n @ [(signedPost url secret payload, r)] \<and>
       (e = None \<longleftrightarrow> (\<exists>resp. r = Inr resp \<and> hi_status resp < 300))))"
proof -
  let ?c = "\<lambda>st. if 300 \<le> st then Some (''webhook '' @ url @ '' returned '' @ dec_int st) else None"
  obtain res n1 where s: "send nw (signedPost url secret payload) ?c n = (res, n1)" by fastforce
  with assms have "n1 = n'" "e = (case res of Inl x \<Rightarrow> Some x | Inr _ \<Rightarrow> None)"
    by (auto simp: postSigned_def split: sum.splits)
  have url: "ho_url (signedPost url secret payload) = url" by (simp add: signedPost_def)
  from send_log [OF s] show ?thesis
    unfolding url \<open>n1 = n'\<close>
  proof (elim disjE conjE exE)
    fix x assume "nw_url_error nw url \<noteq> None" "n' = n" "res = Inl x"
    with \<open>e = _\<close> show ?thesis by simp
  next
    fix r assume ok: "nw_url_error nw url = None" and l: "log n' = log n @ [(signedPost url secret payload, r)]"
      and o: "case r of Inl x \<Rightarrow> res = Inl x
        | Inr resp \<Rightarrow> (case ?c (hi_status resp) of Some m \<Rightarrow> res = Inl (OtherErr m) | None \<Rightarrow> res = Inr resp)"
    have "e = None \<longleftrightarrow> (\<exists>resp. r = Inr resp \<and> hi_status resp < 300)"
      using o \<open>e = _\<close> by (cases r) (simp_all split: if_splits)
    with ok l show ?thesis by blast
  qed
qed

lemma postAll_log:
  assumes "postAll nw payload ps n = (errs, n')"
  shows "\<exists>rs. log n' = log n @ zip (map (\<lambda>(u, s). signedPost u s payload) (filter (\<lambda>(u, s). nw_url_error nw u = None) ps)) rs \<and>
    length rs = length (filter (\<lambda>(u, s). nw_url_error nw u = None) ps) \<and>
    (errs = [] \<longleftrightarrow> (\<forall>(u, s) \<in> set ps. nw_url_error nw u = None) \<and> (\<forall>r \<in> set rs. \<exists>resp. r = Inr resp \<and> hi_status resp < 300))"
  using assms
proof (induction ps arbitrary: n errs)
  case Nil
  then show ?case by simp
next
  case (Cons p ps)
  obtain u s where p: "p = (u, s)" by fastforce
  obtain e n1 where e: "postSigned nw u s payload n = (e, n1)" by fastforce
  obtain es n2 where es: "postAll nw payload ps n1 = (es, n2)" by fastforce
  from Cons.prems p e es have n2: "n2 = n'" and errs: "errs = (case e of None \<Rightarrow> es | Some x \<Rightarrow> x # es)" by auto
  from Cons.IH [OF es [unfolded n2]] obtain rs where rs:
    "log n' = log n1 @ zip (map (\<lambda>(u, s). signedPost u s payload) (filter (\<lambda>(u, s). nw_url_error nw u = None) ps)) rs"
    "length rs = length (filter (\<lambda>(u, s). nw_url_error nw u = None) ps)"
    "es = [] \<longleftrightarrow> (\<forall>(u, s) \<in> set ps. nw_url_error nw u = None) \<and> (\<forall>r \<in> set rs. \<exists>resp. r = Inr resp \<and> hi_status resp < 300)"
    by blast
  from postSigned_log [OF e] show ?case
  proof (elim disjE conjE exE)
    assume "nw_url_error nw u \<noteq> None" "n1 = n" "e \<noteq> None"
    with rs errs p show ?thesis by (intro exI [of _ rs]) auto
  next
    fix r assume "nw_url_error nw u = None" "log n1 = log n @ [(signedPost u s payload, r)]"
      "e = None \<longleftrightarrow> (\<exists>resp. r = Inr resp \<and> hi_status resp < 300)"
    with rs errs p show ?thesis by (intro exI [of _ "r # rs"]) (auto split: option.splits)
  qed
qed

lemma genericNotify_log:
  assumes run: "genericNotify nw ev w = (res, w')" and payload: "marshal_event ev = Inr payload"
    and fin: "finite (dom (bw_hooks w))"
  shows "\<exists>ps rs. set ps = {(u, s). bw_hooks w u = Some s} \<and> distinct (map fst ps) \<and>
    length rs = length (filter (\<lambda>(u, s). nw_url_error nw u = None) ps) \<and>
    log (bw_net w') = log (bw_net w) @
      zip (map (\<lambda>(u, s). signedPost u s payload) (filter (\<lambda>(u, s). nw_url_error nw u = None) ps)) rs \<and>
    (res = None \<longleftrightarrow> (\<forall>(u, s) \<in> set ps. nw_url_error nw u = None) \<and> (\<forall>r \<in> set rs. \<exists>resp. r = Inr resp \<and> hi_status resp < 300)) \<and>
    bw_hooks w' = bw_hooks w"
proof -
  obtain ps n1 where r: "nw_range nw (bw_hooks w) (bw_net w) = (ps, n1)" by fastforce
  obtain errs n2 where p: "postAll nw payload ps n1 = (errs, n2)" by fastforce
  from run payload r p have w': "w' = w\<lparr>bw_net := n2\<rparr>" and res: "res = joinErrors errs"
    by (auto simp: genericNotify_def)
  have none: "res = None \<longleftrightarrow> errs = []" using res by (cases errs) auto
  have net: "bw_net w' = n2" "bw_hooks w' = bw_hooks w" using w' by simp_all
  from postAll_log [OF p] range_entries [OF r fin] show ?thesis
    unfolding net none range_log [OF r] by blast
qed

lemma ctfdAuthenticate_log:
  assumes "ctfdAuthenticate nw c r n = (res, n')"
  shows "n' = n \<and> (\<exists>e. res = Inl e) \<or>
    rq_header r ''Authorization'' \<noteq> '''' \<and>
    (\<exists>a. log n' = log n @ [(meRequest c (rq_header r ''Authorization''), a)] \<and>
       (\<forall>p. res = Inr p \<longleftrightarrow> (\<exists>resp u. a = Inr resp \<and> hi_status resp = 200 \<and>
          decode_body ctfd_body_field ctfd_user_zero (json_first (hi_body resp)) = Some u \<and>
          p = \<lparr>pr_subject = cu_name u, pr_team = dec_int (cu_team_id u), pr_scopes = []\<rparr>)))"
proof (cases "rq_header r ''Authorization'' = ''''")
  case True
  with assms show ?thesis by (auto simp: ctfdAuthenticate_def)
next
  case False
  let ?q = "meRequest c (rq_header r ''Authorization'')"
  let ?c = "\<lambda>st. if st \<noteq> 200 then Some (''ctfd rejected credentials: '' @ dec_int st) else None"
  obtain sent n1 where s: "send nw ?q ?c n = (sent, n1)" by fastforce
  have n1: "n1 = n'" and res: "res = (case sent of Inl e \<Rightarrow> Inl e
     | Inr resp \<Rightarrow> (case decode_body ctfd_body_field ctfd_user_zero (json_first (hi_body resp)) of
        None \<Rightarrow> Inl (OtherErr ''decoding the CTFd user'')
      | Some u \<Rightarrow> Inr \<lparr>pr_subject = cu_name u, pr_team = dec_int (cu_team_id u), pr_scopes = []\<rparr>))"
    using assms False s by (auto simp: ctfdAuthenticate_def Let_def split: sum.splits option.splits)
  from send_log [OF s] show ?thesis
    unfolding n1
  proof (elim disjE conjE exE)
    fix e assume "n' = n" "sent = Inl e"
    with res show ?thesis by simp
  next
    fix a assume l: "log n' = log n @ [(?q, a)]"
      and o: "case a of Inl e \<Rightarrow> sent = Inl e
        | Inr resp \<Rightarrow> (case ?c (hi_status resp) of Some m \<Rightarrow> sent = Inl (OtherErr m) | None \<Rightarrow> sent = Inr resp)"
    have "res = Inr p \<longleftrightarrow> (\<exists>resp u. a = Inr resp \<and> hi_status resp = 200 \<and>
          decode_body ctfd_body_field ctfd_user_zero (json_first (hi_body resp)) = Some u \<and>
          p = \<lparr>pr_subject = cu_name u, pr_team = dec_int (cu_team_id u), pr_scopes = []\<rparr>)" for p
      using o res by (cases a) (auto split: if_splits option.splits)
    with l False show ?thesis by blast
  qed
qed

end


section \<open>The API key\<close>

lemma configured_key:
  assumes "valid_utf8 key"
  shows "newGenericBackend nw (json_object [(''apiKey'', json_string key)]) = Inr (genericBackend nw \<lparr>gc_api_key = key\<rparr>)"
proof -
  have "valid_utf8 ''apiKey''" by (rule valid_utf8_plain) (simp add: plain_def byte_of_def)
  with parse_json_object [of "[(''apiKey'', key)]"] assms have
    j: "json_whole (json_object [(''apiKey'', json_string key)]) = Some (JObj [(''apiKey'', JStr key)])" by simp
  then show ?thesis
    by (simp add: newGenericBackend_def json_object_def generic_field_def decode_eval)
qed

section \<open>A sample network\<close>

text \<open>It keeps its log, answers every request with a given function and ranges in order.\<close>

type_synonym exchanges = "(http_out \<times> (go_error + http_in)) list"

definition smp_network :: "(http_out \<Rightarrow> go_error + http_in) \<Rightarrow> exchanges network" where
  "smp_network answer =
     \<lparr>nw_url_error = (\<lambda>_. None),
      nw_do = (\<lambda>req l. (answer req, l @ [(req, answer req)])),
      nw_range = (\<lambda>m l. (map (\<lambda>k. (k, the (m k))) (sorted_list_of_set (dom m)), l))\<rparr>"

interpretation smp_net: http_network "smp_network answer" "\<lambda>l. l"
proof
  fix m :: "string \<rightharpoonup> string" and n ps n'
  assume r: "nw_range (smp_network answer) m n = (ps, n')" and fin: "finite (dom m)"
  have "map fst ps = sorted_list_of_set (dom m)"
    using r by (auto simp: smp_network_def comp_def)
  moreover have "set ps = {(k, v). m k = Some v}"
    using r fin by (force simp: smp_network_def)
  ultimately show "set ps = {(k, v). m k = Some v} \<and> distinct (map fst ps)" by simp
qed (auto simp: smp_network_def)

section \<open>Properties\<close>

text \<open>
  C21: After any sequence of webhook registrations, a \<open>Notify\<close> of the generic backend POSTs the
  event once to each registered URL (that parses), signed with the secret last registered for
  it; a hook that fails does not keep the others from being told. It reports no error exactly
  when every URL parsed and every answer had a status below 300.
\<close>

theorem notify_reaches_every_hook:
  assumes net: "http_network nw log"
    and run: "genericNotify nw ev (foldl (\<lambda>w (u, s). snd (RegisterWebhook u s w)) (newBackendWorld n) regs) = (res, w')"
    and payload: "marshal_event ev = Inr payload"
  shows "\<exists>ps rs. set ps = {(u, s). map_of (rev regs) u = Some s} \<and> distinct (map fst ps) \<and>
    length rs = length (filter (\<lambda>(u, s). nw_url_error nw u = None) ps) \<and>
    log (bw_net w') = log n @
      zip (map (\<lambda>(u, s). signedPost u s payload) (filter (\<lambda>(u, s). nw_url_error nw u = None) ps)) rs \<and>
    (res = None \<longleftrightarrow> (\<forall>(u, s) \<in> set ps. nw_url_error nw u = None) \<and>
       (\<forall>r \<in> set rs. \<exists>resp. r = Inr resp \<and> hi_status resp < 300))"
proof -
  have reg: "foldl (\<lambda>w (u, s). snd (RegisterWebhook u s w)) w regs = w\<lparr>bw_hooks := bw_hooks w ++ map_of (rev regs)\<rparr>"
    for w :: "'a backend_world"
    by (induction regs arbitrary: w) (auto simp: RegisterWebhook_def map_add_def fun_eq_iff split: option.splits)
  have w: "foldl (\<lambda>w (u, s). snd (RegisterWebhook u s w)) (newBackendWorld n) regs =
      \<lparr>bw_hooks = map_of (rev regs), bw_net = n\<rparr>"
    by (simp add: reg newBackendWorld_def)
  have "finite (dom (bw_hooks \<lparr>bw_hooks = map_of (rev regs), bw_net = n\<rparr>))" by (simp add: finite_dom_map_of)
  from http_network.genericNotify_log [OF net, OF run [unfolded w] payload this]
  show ?thesis by (simp only: backend_world.select_convs) blast
qed

definition smp_event :: event where
  "smp_event = \<lparr>evt_type = EventRunning, evt_instance = ''web-red'', evt_challenge = ''web'', evt_team = ''red'',
     evt_player = '''', evt_endpoint = '''', evt_reason = '''', evt_timestamp = zero_time\<rparr>"

lemma marshal_zero_time: "marshal_time zero_time = Inr (json_string ''0001-01-01T00:00:00Z'')"
proof -
  have t: "zero_time mod 10 ^ 9 = 0" "zero_time div 10 ^ 9 + 719528 * 86400 = 366 * 86400"
    by (simp_all add: zero_time_def)
  have y: "days_before_year 10000 = 3652425" "year_of_day 366 = 1" "days_before_year 1 = 366"
    by (simp_all add: year_of_day_def days_before_year_def)
  have m: "month_of_day 1 0 = 1" "days_before_month 1 1 = 0"
    by (simp_all add: month_of_day_def days_before_month_def days_in_def is_leap_def upt_conv_Cons)
  have "marshal_time zero_time = Inr ([CHR 0x22] @ ''0001-01-01T00:00:00Z'' @ [CHR 0x22])"
    unfolding marshal_time_def t y by (simp add: Let_def y [unfolded One_nat_def] m [unfolded One_nat_def])
  moreover have "list_all plain ''0001-01-01T00:00:00Z''" by (simp add: plain_def byte_of_def)
  ultimately show ?thesis by (simp add: json_string_def json_chars_plain)
qed


definition event_json :: "event \<Rightarrow> json" where
  "event_json ev = JObj [
     (''Type'', JStr (event_type_string (evt_type ev))), (''Instance'', JStr (evt_instance ev)),
     (''Challenge'', JStr (evt_challenge ev)), (''Team'', JStr (evt_team ev)), (''Player'', JStr (evt_player ev)),
     (''Endpoint'', JStr (evt_endpoint ev)), (''Reason'', JStr (evt_reason ev)),
     (''Timestamp'', JStr ''0001-01-01T00:00:00Z'')]"

lemma valid_event_type: "valid_utf8 (event_type_string t)"
  by (rule valid_utf8_plain) (cases t; simp add: plain_def byte_of_def)

text \<open>
  C20: What a webhook receives reads back as the event: for any instance, challenge, team,
  player, endpoint and reason that are UTF-8, quotes, backslashes and control characters
  included, both payloads parse as JSON to exactly the fields of the event, so no field can
  forge another. The events the controllers build carry no time: every payload says year 1.
\<close>

theorem event_payload_roundtrip:
  assumes valid: "list_all valid_utf8 [evt_instance ev, evt_challenge ev, evt_team ev, evt_player ev,
      evt_endpoint ev, evt_reason ev]"
    and time: "evt_timestamp ev = zero_time"
  shows "(\<exists>payload. marshal_event ev = Inr payload \<and> json_whole payload = Some (event_json ev)) \<and>
    json_whole (ctfdPayload ev) = Some (JObj [
      (''type'', JStr (event_type_string (evt_type ev))), (''challenge_id'', JStr (evt_challenge ev)),
      (''team_id'', JStr (evt_team ev)), (''instance_url'', JStr (evt_endpoint ev))])"
proof -
  have plains: "valid_utf8 ''Type''" "valid_utf8 ''Instance''" "valid_utf8 ''Challenge''" "valid_utf8 ''Team''"
    "valid_utf8 ''Player''" "valid_utf8 ''Endpoint''" "valid_utf8 ''Reason''" "valid_utf8 ''Timestamp''"
    "valid_utf8 ''0001-01-01T00:00:00Z''" "valid_utf8 ''type''" "valid_utf8 ''challenge_id''"
    "valid_utf8 ''team_id''" "valid_utf8 ''instance_url''"
    by (rule valid_utf8_plain; simp add: plain_def byte_of_def)+
  let ?kvs = "[(''Type'', event_type_string (evt_type ev)), (''Instance'', evt_instance ev),
     (''Challenge'', evt_challenge ev), (''Team'', evt_team ev), (''Player'', evt_player ev),
     (''Endpoint'', evt_endpoint ev), (''Reason'', evt_reason ev), (''Timestamp'', ''0001-01-01T00:00:00Z'')]"
  have "json_whole (json_object (map (\<lambda>(k, v). (k, json_string v)) ?kvs)) = Some (JObj (map (\<lambda>(k, v). (k, JStr v)) ?kvs))"
    by (rule parse_json_object) (use valid plains valid_event_type in simp)
  moreover have "marshal_event ev = Inr (json_object (map (\<lambda>(k, v). (k, json_string v)) ?kvs))"
    by (simp add: marshal_event_def time marshal_zero_time)
  moreover have "event_json ev = JObj (map (\<lambda>(k, v). (k, JStr v)) ?kvs)" by (simp add: event_json_def)
  ultimately have generic: "\<exists>payload. marshal_event ev = Inr payload \<and> json_whole payload = Some (event_json ev)"
    by simp
  let ?cs = "[(''type'', event_type_string (evt_type ev)), (''challenge_id'', evt_challenge ev),
     (''team_id'', evt_team ev), (''instance_url'', evt_endpoint ev)]"
  have "json_whole (json_object (map (\<lambda>(k, v). (k, json_string v)) ?cs)) = Some (JObj (map (\<lambda>(k, v). (k, JStr v)) ?cs))"
    by (rule parse_json_object) (use valid plains valid_event_type in simp)
  with generic show ?thesis by (simp add: ctfdPayload_def)
qed

lemma smp_event_valid:
  "list_all valid_utf8 [evt_instance smp_event, evt_challenge smp_event, evt_team smp_event, evt_player smp_event,
      evt_endpoint smp_event, evt_reason smp_event]"
  by (simp add: smp_event_def; intro conjI; rule valid_utf8_plain; simp add: plain_def byte_of_def)

text \<open>A team that tries to close the string and forge a field.\<close>

definition smp_forger :: event where
  "smp_forger = smp_event\<lparr>evt_team := [CHR 0x22] @ '',x'' @ [CHR 0x5C, CHR 0x0A]\<rparr>"

theorem event_payload_roundtrip_witness:
  "\<exists>payload. marshal_event smp_forger = Inr payload \<and> json_whole payload = Some (event_json smp_forger)"
proof -
  have "valid_utf8 (evt_team smp_forger)"
    by (simp add: smp_forger_def valid_utf8.simps utf8_len_def byte_of_def)
  with smp_event_valid have v: "list_all valid_utf8 [evt_instance smp_forger, evt_challenge smp_forger, evt_team smp_forger,
      evt_player smp_forger, evt_endpoint smp_forger, evt_reason smp_forger]"
    by (simp add: smp_forger_def)
  have "evt_timestamp smp_forger = zero_time" by (simp add: smp_forger_def smp_event_def)
  from event_payload_roundtrip [OF v this] show ?thesis by blast
qed

theorem notify_reaches_every_hook_witness:
  "\<exists>res w' payload r. marshal_event smp_event = Inr payload \<and>
     genericNotify (smp_network (\<lambda>_. Inr \<lparr>hi_status = 200, hi_body = ''''\<rparr>)) smp_event
       (foldl (\<lambda>w (u, s). snd (RegisterWebhook u s w)) (newBackendWorld []) [(''http://a'', ''old''), (''http://a'', ''new'')]) =
       (res, w') \<and>
     bw_net w' = [(signedPost ''http://a'' ''new'' payload, r)]"
proof -
  let ?nw = "smp_network (\<lambda>_. Inr \<lparr>hi_status = 200, hi_body = ''''\<rparr>)"
  let ?regs = "[(''http://a'', ''old''), (''http://a'', ''new'')]"
  let ?w = "foldl (\<lambda>w (u, s). snd (RegisterWebhook u s w)) (newBackendWorld []) ?regs"
  obtain payload where p: "marshal_event smp_event = Inr payload"
    by (auto simp: marshal_event_def smp_event_def marshal_zero_time)
  obtain res w' where run: "genericNotify ?nw smp_event ?w = (res, w')" by fastforce
  from notify_reaches_every_hook [OF smp_net.http_network_axioms, OF run p] obtain ps rs where
    ps: "set ps = {(u, s). map_of (rev ?regs) u = Some s}" "distinct (map fst ps)"
    and rs: "length rs = length (filter (\<lambda>(u, s). nw_url_error ?nw u = None) ps)"
    and log: "bw_net w' = [] @ zip (map (\<lambda>(u, s). signedPost u s payload) (filter (\<lambda>(u, s). nw_url_error ?nw u = None) ps)) rs"
    by blast
  have "set ps = {(''http://a'', ''new'')}" using ps(1) by (auto split: if_splits)
  with ps(2) have one: "ps = [(''http://a'', ''new'')]"
    by (cases ps; cases "tl ps") auto
  with rs obtain r where "rs = [r]" by (cases rs) (auto simp: smp_network_def)
  with log one have "bw_net w' = [(signedPost ''http://a'' ''new'' payload, r)]" by (simp add: smp_network_def)
  with p run show ?thesis by blast
qed


text \<open>
  C32: The CTFd backend vouches for nobody itself. Whoever it lets in sent an Authorization
  header, which was passed on in one request to \<open>/api/v1/users/me\<close> that CTFd answered with
  200, and is the user named in that answer; any other outcome of that one request, or no
  header at all, refuses the caller. A user without a team (\<open>team_id\<close> absent or null) becomes
  team 0.
\<close>

theorem ctfd_admits_only_known_users:
  assumes net: "http_network nw log"
    and run: "ctfdAuthenticate nw c r n = (res, n')"
  shows "(case res of
      Inl e \<Rightarrow> n' = n \<or> (\<exists>a. log n' = log n @ [(meRequest c (rq_header r ''Authorization''), a)])
    | Inr p \<Rightarrow> rq_header r ''Authorization'' \<noteq> '''' \<and>
        (\<exists>resp u. log n' = log n @ [(meRequest c (rq_header r ''Authorization''), Inr resp)] \<and>
           hi_status resp = 200 \<and>
           decode_body ctfd_body_field ctfd_user_zero (json_first (hi_body resp)) = Some u \<and>
           p = \<lparr>pr_subject = cu_name u, pr_team = dec_int (cu_team_id u), pr_scopes = []\<rparr>))"
proof (cases res)
  case (Inl e)
  with http_network.ctfdAuthenticate_log [OF net, OF run] show ?thesis by auto
next
  case (Inr p)
  with http_network.ctfdAuthenticate_log [OF net, OF run] show ?thesis by (simp only: sum.case) blast
qed

definition smp_ctfd :: ctfd_config where
  "smp_ctfd = \<lparr>cc_base_url = ''http://ctfd'', cc_webhook_url = '''', cc_api_key = ''''\<rparr>"

definition smp_bearer :: http_request where
  "smp_bearer = \<lparr>rq_method = ''GET'', rq_path = ''/api/v1/instances'', rq_query = (\<lambda>_. ''''),
     rq_header = (\<lambda>h. if h = ''Authorization'' then ''Token t'' else ''''), rq_body = ''''\<rparr>"

theorem ctfd_admits_only_known_users_witness:
  "\<exists>e n'. ctfdAuthenticate (smp_network (\<lambda>_. Inr \<lparr>hi_status = 302, hi_body = ''''\<rparr>)) smp_ctfd smp_bearer [] = (Inl e, n') \<and>
     (n' = [] \<or> (\<exists>a. n' = [(meRequest smp_ctfd ''Token t'', a)]))"
proof -
  let ?nw = "smp_network (\<lambda>_. Inr \<lparr>hi_status = 302, hi_body = ''''\<rparr>)"
  have "\<exists>e n'. ctfdAuthenticate ?nw smp_ctfd smp_bearer [] = (Inl e, n')"
    by (simp add: ctfdAuthenticate_def send_def smp_network_def smp_bearer_def)
  then obtain e n' where run: "ctfdAuthenticate ?nw smp_ctfd smp_bearer [] = (Inl e, n')" by blast
  have "rq_header smp_bearer ''Authorization'' = ''Token t''" by (simp add: smp_bearer_def)
  with run ctfd_admits_only_known_users [OF smp_net.http_network_axioms, OF run] show ?thesis by auto
qed

lemma backend_sel [simp]:
  "be_name (genericBackend nw g) = ''generic''" "be_registrar (genericBackend nw g) = Some RegisterWebhook"
  "be_name (ctfdBackend nw c) = ''ctfd''" "be_registrar (ctfdBackend nw c) = None"
  by (simp_all add: genericBackend_def ctfdBackend_def)

text \<open>
  Which backend a name and a configuration give: the one registered under the name, which
  calls itself that; only the generic one takes webhook registrations, and a CTFd backend has a
  base URL. Any other name is an error.
\<close>

theorem backend_selected:
  "case New (kimoRegistry nw) quoted name cfg of
     Inl e \<Rightarrow> name = ''generic'' \<longrightarrow> cfg \<noteq> ''''
   | Inr B \<Rightarrow> be_name B = name \<and>
       (name = ''generic'' \<and> (\<exists>c. B = genericBackend nw c) \<or>
        name = ''ctfd'' \<and> (\<exists>c. B = ctfdBackend nw c \<and> cc_base_url c \<noteq> '''')) \<and>
       (be_registrar B \<noteq> None \<longleftrightarrow> name = ''generic'')"
proof (cases "name = ''generic''")
  case True
  then show ?thesis
    by (auto simp: kimoRegistry_def New_Register newGenericBackend_def split: option.splits)
next
  case gen: False
  show ?thesis
  proof (cases "name = ''ctfd''")
    case True
    then show ?thesis
      by (auto simp: kimoRegistry_def New_Register newCTFdBackend_def split: option.splits)
  next
    case False
    with gen show ?thesis by (simp add: kimoRegistry_def New_def Register_def)
  qed
qed

theorem backend_selected_witness:
  "\<exists>B. New (kimoRegistry (smp_network (\<lambda>_. Inl (OtherErr ''down'')))) (\<lambda>s. s) ''generic'' '''' = Inr B \<and>
     be_registrar B \<noteq> None"
proof -
  let ?nw = "smp_network (\<lambda>_. Inl (OtherErr ''down''))"
  have "\<exists>B. New (kimoRegistry ?nw) (\<lambda>s. s) ''generic'' '''' = Inr B"
    by (simp add: kimoRegistry_def New_Register newGenericBackend_def)
  then obtain B where B: "New (kimoRegistry ?nw) (\<lambda>s. s) ''generic'' '''' = Inr B" ..
  with backend_selected [where nw = ?nw and quoted = "\<lambda>s. s" and name = "''generic''" and cfg = "''''"]
  show ?thesis by auto
qed

end
