(* ===== verification/Api_Answers.thy ===== *)
theory Api_Answers
  imports Api_Props Api_Contract Backend_Props
begin

text \<open>
  What the REST server answers: the list of instances against the in-place filter that computes
  it, the names instances get, the statuses and bodies of every route, and who is let in.
\<close>

section \<open>The filter by status\<close>

text \<open>
  The slice under construction and the slice being read share an array: the loop never
  overwrites an item it has not read, because it has not kept more items than it has read.
\<close>

lemma filterLoop_eq:
  assumes "count \<le> i" "i + n = length items"
  shows "filterLoop status n i count items =
    take count items @ filter (\<lambda>x. phase_string (instance_phase_of x) = status) (drop i items)"
  using assms
proof (induction n arbitrary: i count items)
  case 0
  then show ?case by simp
next
  case (Suc n)
  then have i: "i < length items" by simp
  note drop_i = Cons_nth_drop_Suc [OF i, symmetric]
  show ?case
  proof (cases "phase_string (instance_phase_of (items ! i)) = status")
    case True
    from Suc.prems i have "take (Suc count) (items[count := items ! i]) = take count items @ [items ! i]"
      by (simp add: take_Suc_conv_app_nth)
    with Suc.IH [of "Suc count" "Suc i" "items[count := items ! i]"] Suc.prems True show ?thesis
      by (simp add: drop_i)
  next
    case False
    with Suc.IH [of count "Suc i" items] Suc.prems show ?thesis by (simp add: drop_i)
  qed
qed

lemma filterStatus_eq: "filterStatus status items = filter (\<lambda>x. phase_string (instance_phase_of x) = status) items"
  by (simp add: filterStatus_def filterLoop_eq)

lemma listLabels_match:
  "listLabels r \<subseteq>\<^sub>m l \<longleftrightarrow>
     (rq_query r ''team'' = '''' \<or> l LabelTeam = Some (rq_query r ''team'')) \<and>
     (rq_query r ''challenge'' = '''' \<or> l LabelChallenge = Some (rq_query r ''challenge''))"
  using labels_distinct by (auto simp: listLabels_def map_le_def Let_def)

context api_server
begin

lemma handleListInstances_done:
  assumes run: "handleListInstances s name r w = (resp, s', w')"
  shows "s' = s \<and> view w' = view w \<and>
    ((\<exists>e. resp = httpError (err_text e) 500) \<or>
     (\<exists>xs. resp = writeJSON 200 (JsonInstances xs) \<and> distinct (map (\<lambda>i. nsname_of (ci_meta i)) xs) \<and>
        set xs = {i. cl_instances (view w) (nsname_of (ci_meta i)) = Some i \<and> om_namespace (ci_meta i) = sv_namespace s \<and>
          listLabels r \<subseteq>\<^sub>m om_labels (ci_meta i) \<and>
          (rq_query r ''status'' = '''' \<or> phase_string (instance_phase_of i) = rq_query r ''status'')}))"
proof (cases "k_list (kb_instances (sv_client s)) \<lparr>lo_namespace = Some (sv_namespace s), lo_labels = listLabels r\<rparr> w"
    rule: result_cases)
  case (Err e w1)
  with run instances.list_view [OF Err] show ?thesis by (auto simp: handleListInstances_def)
next
  case (Ok items w1)
  let ?status = "rq_query r ''status''"
  let ?xs = "if ?status \<noteq> '''' then filterStatus ?status items else items"
  from run Ok have "resp = writeJSON 200 (JsonInstances ?xs)" "s' = s" "w' = w1"
    by (auto simp: handleListInstances_def Let_def)
  moreover have "distinct (map (\<lambda>i. nsname_of (ci_meta i)) ?xs)"
    using instances.list_distinct [OF Ok] by (simp add: filterStatus_eq distinct_map_filter)
  moreover have "set ?xs = {i. cl_instances (view w) (nsname_of (ci_meta i)) = Some i \<and> om_namespace (ci_meta i) = sv_namespace s \<and>
          listLabels r \<subseteq>\<^sub>m om_labels (ci_meta i) \<and> (?status = '''' \<or> phase_string (instance_phase_of i) = ?status)}"
    using instances.list_found [OF Ok] by (auto simp: filterStatus_eq list_match_def)
  ultimately show ?thesis using instances.list_view [OF Ok] by blast
qed

end

text \<open>
  C26: A list request is answered with exactly the instances of the server's namespace that
  carry the asked team and challenge and are in the asked phase, each once, or with the error of
  the call. The filter that works in place, on the array it reads, loses none and repeats none.
\<close>

theorem listed_instances:
  assumes api: "api_server s view"
    and run: "handleListInstances s name r w = (resp, s', w')"
  shows "s' = s \<and> view w' = view w \<and>
    ((\<exists>e. resp = httpError (err_text e) 500) \<or>
     (\<exists>xs. resp = writeJSON 200 (JsonInstances xs) \<and> distinct (map (\<lambda>i. nsname_of (ci_meta i)) xs) \<and>
        set xs = {i. cl_instances (view w) (nsname_of (ci_meta i)) = Some i \<and> om_namespace (ci_meta i) = sv_namespace s \<and>
          (rq_query r ''team'' = '''' \<or> om_labels (ci_meta i) LabelTeam = Some (rq_query r ''team'')) \<and>
          (rq_query r ''challenge'' = '''' \<or> om_labels (ci_meta i) LabelChallenge = Some (rq_query r ''challenge'')) \<and>
          (rq_query r ''status'' = '''' \<or> phase_string (instance_phase_of i) = rq_query r ''status'')}))"
  using api_server.handleListInstances_done [OF api run] unfolding listLabels_match conj_assoc .

text \<open>Of an instance that runs and one that waits, the one that runs.\<close>

definition smp_list :: http_request where
  "smp_list = \<lparr>rq_method = ''GET'', rq_path = ''/api/v1/instances'', rq_query = (\<lambda>q. if q = ''status'' then ''Running'' else ''''),
     rq_header = (\<lambda>_. ''''), rq_body = ''''\<rparr>"

definition smp_two :: mem where
  "smp_two = smp_mem [] [smp_instance,
     \<lparr>ci_meta = new_meta ''web-blue'' ''ctf'' Map.empty,
      ci_spec = \<lparr>is_template = ''web'', is_team = ''blue'', is_player = '''', is_ttl_override = ''''\<rparr>,
      ci_status = empty_instance_status\<lparr>st_phase := InstancePhaseRunning\<rparr>\<rparr>] []"

theorem listed_instances_witness:
  "\<exists>s' w' i. handleListInstances (mem_sv Map.empty) '''' smp_list smp_two = (writeJSON 200 (JsonInstances [i]), s', w') \<and>
     phase_string (instance_phase_of i) = ''Running''"
proof -
  obtain resp s' w' where run: "handleListInstances (mem_sv Map.empty) '''' smp_list smp_two = (resp, s', w')"
    by (metis prod_cases3)
  have "\<exists>i. resp = writeJSON 200 (JsonInstances [i])"
    using run by (auto simp: handleListInstances_def mem_sv_def mem_eval smp_two_def smp_defs smp_list_def
        filterStatus_eq listLabels_def Let_def)
  then obtain i where i: "resp = writeJSON 200 (JsonInstances [i])" ..
  have "rq_query smp_list ''status'' = ''Running''" by (simp add: smp_list_def)
  with listed_instances [OF mem_server.api_server_axioms, OF run] i have
    "phase_string (instance_phase_of i) = ''Running''"
    by (auto simp: writeJSON_def httpError_def)
  with run i show ?thesis by auto
qed

section \<open>Extending\<close>

text \<open>
  C33: To extend an instance is to set its TTL override, to a text that parses as a duration, and
  nothing else: the status, with an expiry that is already set, stays as it is. A body or a TTL
  that does not parse is answered 400 before any call is made, and with any answer but 200 the
  cluster is as it was.
\<close>

theorem extend_sets_only_the_override:
  assumes api: "api_server s view"
    and run: "handleExtendInstance s name r w = (resp, s', w')"
  shows "s' = s \<and>
    (case decode_body extend_field \<lparr>erq_ttl = ''''\<rparr> (json_first (rq_body r)) of
       None \<Rightarrow> rs_status resp = 400 \<and> w' = w
     | Some body \<Rightarrow>
         if isl (parse_duration (erq_ttl body)) then rs_status resp = 400 \<and> w' = w
         else rs_status resp \<in> {404, 500} \<and> view w' = view w \<or>
           rs_status resp = 200 \<and>
           (\<exists>i j. cl_instances (view w) (sv_namespace s, name) = Some i \<and> rs_body resp = JsonInstance j \<and>
              user_meta (ci_meta j) = user_meta (ci_meta i) \<and>
              ci_spec j = (ci_spec i)\<lparr>is_ttl_override := erq_ttl body\<rparr> \<and> ci_status j = ci_status i \<and>
              view w' = (view w)\<lparr>cl_instances := (cl_instances (view w))((sv_namespace s, name) \<mapsto> j)\<rparr>))"
proof -
  have status: "rs_status resp \<in> {404, 500, 200}"
    if "decode_body extend_field \<lparr>erq_ttl = ''''\<rparr> (json_first (rq_body r)) = Some body" "\<not> isl (parse_duration (erq_ttl body))" for body
    using run that by (auto simp: handleExtendInstance_def httpError_def writeJSON_def
        split: option.splits sum.splits prod.splits if_splits)
  have early: "rs_status resp = 400 \<and> w' = w \<and> s' = s"
    if "case decode_body extend_field \<lparr>erq_ttl = ''''\<rparr> (json_first (rq_body r)) of None \<Rightarrow> True | Some body \<Rightarrow> isl (parse_duration (erq_ttl body))"
    using run that by (auto simp: handleExtendInstance_def httpError_def isl_def split: option.splits)
  show ?thesis
    using api_server.handleExtendInstance_done [OF api run] status early
    by (auto split: option.splits if_splits)
qed

definition smp_extend :: http_request where
  "smp_extend = \<lparr>rq_method = ''PATCH'', rq_path = '''', rq_query = (\<lambda>_. ''''), rq_header = (\<lambda>_. ''''),
     rq_body = json_object [(''ttl'', json_string ''1h'')]\<rparr>"

lemma smp_extend_body: "json_first (rq_body smp_extend) = Some (JObj [(''ttl'', JStr ''1h'')])"
  by code_simp

theorem extend_sets_only_the_override_witness:
  "\<exists>resp s' w' j. handleExtendInstance (mem_sv Map.empty) ''web-red'' smp_extend smp_two = (resp, s', w') \<and>
     cl_instances (mem_view w') (''ctf'', ''web-red'') = Some j \<and> is_ttl_override (ci_spec j) = ''1h''"
proof -
  obtain resp s' w' where run: "handleExtendInstance (mem_sv Map.empty) ''web-red'' smp_extend smp_two = (resp, s', w')"
    by (metis prod_cases3)
  have body: "decode_body extend_field \<lparr>erq_ttl = ''''\<rparr> (json_first (rq_body smp_extend)) = Some \<lparr>erq_ttl = ''1h''\<rparr>"
    by (simp add: smp_extend_body extend_field_def decode_eval)
  have "rs_status resp = 200"
    using run by (auto simp: handleExtendInstance_def body parse_1h mem_sv_def mem_eval smp_two_def smp_defs writeJSON_def Let_def)
  moreover have "sv_namespace (mem_sv Map.empty) = ''ctf''" by (simp add: mem_sv_def)
  ultimately show ?thesis
    using extend_sets_only_the_override [OF mem_server.api_server_axioms, OF run] run by (auto simp: body parse_1h)
qed

section \<open>Who is let in\<close>

text \<open>
  C10: A request whose caller the backend does not vouch for gets nothing but 401: no handler
  runs, no state changes. The only exceptions read nothing and change nothing: the health
  check, and paths or methods that no route has.
\<close>

theorem refused_without_credentials:
  fixes s :: "'w server"
  assumes refused: "be_authenticate (sv_backend s) r w = (Inl e, w1)"
    and run: "serve url_match s r w = (resp, s', w')"
  shows "s' = s \<and>
    (resp = httpError ''unauthorized'' 401 \<and> w' = w1 \<or>
     w' = w \<and> resp = writeJSON 200 (JsonHealth ''ok'') \<and> rq_method r = ''GET'' \<and>
       url_match ''/api/v1/health'' (rq_path r) \<noteq> None \<or>
     w' = w \<and> rs_status resp \<in> {404, 405} \<and>
       (\<forall>(m, pat, h) \<in> set (setupRoutes :: (string \<times> string \<times> 'w handler) list).
          m = rq_method r \<longrightarrow> url_match pat (rq_path r) = None))"
  using run
proof (cases rule: serve_route)
  case (found pat h)
  then have "(rq_method r, pat, h) = (''GET'', ''/api/v1/health'', handleHealth) \<or> (\<exists>h'. h = authMiddleware h')"
    unfolding setupRoutes_def by auto
  with found refused show ?thesis by (auto simp: handleHealth_def authMiddleware_def)
next
  case none
  then show ?thesis by (auto simp: httpError_def)
qed

theorem refused_without_credentials_witness:
  "\<exists>w'. serve (\<lambda>pat path. if pat = path then Some '''' else None)
      ((mem_sv Map.empty)\<lparr>sv_backend := mem_backend\<lparr>be_authenticate := genericAuthenticate ''key''\<rparr>\<rparr>) smp_create smp_pow_mem =
    (httpError ''unauthorized'' 401, (mem_sv Map.empty)\<lparr>sv_backend := mem_backend\<lparr>be_authenticate := genericAuthenticate ''key''\<rparr>\<rparr>, w')"
proof -
  let ?s = "(mem_sv Map.empty)\<lparr>sv_backend := mem_backend\<lparr>be_authenticate := genericAuthenticate ''key''\<rparr>\<rparr>"
  let ?m = "\<lambda>pat path. if pat = path then Some '''' else None"
  obtain resp s' w' where run: "serve ?m ?s smp_create smp_pow_mem = (resp, s', w')" by (metis prod_cases3)
  have "be_authenticate (sv_backend ?s) smp_create smp_pow_mem = (Inl (OtherErr ''unauthorized''), smp_pow_mem)"
    by (simp add: genericAuthenticate_def smp_create_def)
  from refused_without_credentials [OF this run] have "resp = httpError ''unauthorized'' 401" "s' = ?s"
    by (auto simp: smp_create_def setupRoutes_def)
  with run show ?thesis by blast
qed

text \<open>
  C35: The key the generic backend asks for is the one its configuration gives, whatever UTF-8
  text it is, and it is compared as it is. Without a configuration the key is empty, and since
  no header value that comes over the wire ends in a space, nobody is let in.
\<close>

theorem configured_key_admits:
  assumes key: "valid_utf8 key"
  shows "(\<exists>B. newGenericBackend nw (json_object [(''apiKey'', json_string key)]) = Inr B \<and>
      (\<forall>r w. be_authenticate B r w =
         (if rq_header r ''Authorization'' = ''Bearer '' @ key
          then (Inr \<lparr>pr_subject = ''api-key'', pr_team = '''', pr_scopes = [''admin'']\<rparr>, w)
          else (Inl (OtherErr ''unauthorized''), w)))) \<and>
    (\<exists>B. newGenericBackend nw '''' = Inr B \<and>
      (\<forall>r w. rq_header r ''Authorization'' = '''' \<or> last (rq_header r ''Authorization'') \<noteq> CHR '' '' \<longrightarrow>
         be_authenticate B r w = (Inl (OtherErr ''unauthorized''), w)))"
proof (rule conjI)
  show "\<exists>B. newGenericBackend nw (json_object [(''apiKey'', json_string key)]) = Inr B \<and>
      (\<forall>r w. be_authenticate B r w =
         (if rq_header r ''Authorization'' = ''Bearer '' @ key
          then (Inr \<lparr>pr_subject = ''api-key'', pr_team = '''', pr_scopes = [''admin'']\<rparr>, w)
          else (Inl (OtherErr ''unauthorized''), w)))"
    by (simp add: configured_key [OF key] genericBackend_def genericAuthenticate_def)
qed (auto simp: newGenericBackend_def genericBackend_def genericAuthenticate_def)

theorem configured_key_admits_witness:
  "\<exists>B. newGenericBackend (smp_network (\<lambda>_. Inl (OtherErr ''down''))) (json_object [(''apiKey'', json_string ''Token t'')]) = Inr B \<and>
     fst (be_authenticate B smp_bearer (newBackendWorld [])) = Inl (OtherErr ''unauthorized'')"
proof -
  have "valid_utf8 ''Token t''" by (rule valid_utf8_plain) (simp add: plain_def byte_of_def)
  from configured_key_admits [OF this, of "smp_network (\<lambda>_. Inl (OtherErr ''down''))"]
  show ?thesis by (auto simp: smp_bearer_def)
qed

section \<open>The shape of the answers\<close>








end
