(* ===== verification/Watches.thy ===== *)
theory Watches
  imports Lifecycle_Props Fence_Ctrl Set_Ctrl Template_Ctrl
begin

text \<open>
  The five \<open>SetupWithManager\<close> functions: what each controller asks to be woken up by. How the
  builder of controller-runtime turns that into requests is not code of this repository; the
  locale \<open>controller_runtime\<close> states what its documentation promises. With it: what wakes the
  controllers of an instance, and why an instance in its last minute never comes to rest.
\<close>

section \<open>SetupWithManager\<close>

text \<open>The kind under \<open>For\<close>, the kinds under \<open>Owns\<close>, the map of \<open>Watches(&corev1.Pod{}, ...)\<close>, the name.\<close>

record watch_setup =
  su_for :: string
  su_owns :: "string list"
  su_pods :: "(pod \<Rightarrow> nsname list) option"
  su_name :: string

definition instanceSetup :: watch_setup where
  "instanceSetup = \<lparr>su_for = ''ChallengeInstance'', su_owns = [''Deployment'', ''Service''],
     su_pods = Some mapPodToInstance, su_name = ''challengeinstance''\<rparr>"

definition setSetup :: watch_setup where
  "setSetup = \<lparr>su_for = ''ChallengeSet'', su_owns = [], su_pods = None, su_name = ''challengeset''\<rparr>"

definition templateSetup :: watch_setup where
  "templateSetup = \<lparr>su_for = ''ChallengeTemplate'', su_owns = [], su_pods = None, su_name = ''challengetemplate''\<rparr>"

definition lifecycleSetup :: watch_setup where
  "lifecycleSetup = \<lparr>su_for = ''ChallengeInstance'', su_owns = [], su_pods = None, su_name = ''lifecycle''\<rparr>"

definition fenceSetup :: watch_setup where
  "fenceSetup = \<lparr>su_for = ''NetworkFence'', su_owns = [''NetworkPolicy''], su_pods = None, su_name = ''networkfence''\<rparr>"

lemmas setup_defs = instanceSetup_def setSetup_def templateSetup_def lifecycleSetup_def fenceSetup_def

section \<open>Changes and requests\<close>

text \<open>An object that was created, changed or deleted.\<close>

datatype change =
    TemplateChange challenge_template
  | InstanceChange challenge_instance
  | SetChange challenge_set
  | FenceChange network_fence
  | DeploymentChange deployment
  | ServiceChange service
  | PolicyChange network_policy
  | PodChange pod

fun ch_kind :: "change \<Rightarrow> string" where
  "ch_kind (TemplateChange _) = ''ChallengeTemplate''"
| "ch_kind (InstanceChange _) = ''ChallengeInstance''"
| "ch_kind (SetChange _) = ''ChallengeSet''"
| "ch_kind (FenceChange _) = ''NetworkFence''"
| "ch_kind (DeploymentChange _) = ''Deployment''"
| "ch_kind (ServiceChange _) = ''Service''"
| "ch_kind (PolicyChange _) = ''NetworkPolicy''"
| "ch_kind (PodChange _) = ''Pod''"

fun ch_meta :: "change \<Rightarrow> obj_meta" where
  "ch_meta (TemplateChange x) = ct_meta x"
| "ch_meta (InstanceChange x) = ci_meta x"
| "ch_meta (SetChange x) = cset_meta x"
| "ch_meta (FenceChange x) = nf_meta x"
| "ch_meta (DeploymentChange x) = dp_meta x"
| "ch_meta (ServiceChange x) = sv_meta x"
| "ch_meta (PolicyChange x) = np_meta x"
| "ch_meta (PodChange x) = pd_meta x"

text \<open>
  \<open>requests s x\<close>: the keys a change of \<open>x\<close> puts into the queue of the controller set up by \<open>s\<close>.
  \<open>For\<close> enqueues the object itself, \<open>Owns\<close> its controlling owner of the \<open>For\<close> kind, \<open>Watches\<close>
  what its function says; nothing else enqueues.
\<close>

locale controller_runtime =
  fixes requests :: "watch_setup \<Rightarrow> change \<Rightarrow> nsname list"
  assumes requests_iff: "k \<in> set (requests s x) \<longleftrightarrow>
      ch_kind x = su_for s \<and> k = nsname_of (ch_meta x) \<or>
      ch_kind x \<in> set (su_owns s) \<and> (\<exists>n. om_owner (ch_meta x) = Some (su_for s, n) \<and> k = (om_namespace (ch_meta x), n)) \<or>
      (\<exists>p f. x = PodChange p \<and> su_pods s = Some f \<and> k \<in> set (f p))"
begin

lemma instance_wakes:
  "set (requests instanceSetup (InstanceChange i)) = {nsname_of (ci_meta i)}"
  "set (requests lifecycleSetup (InstanceChange i)) = {nsname_of (ci_meta i)}"
  by (simp_all add: set_eq_iff requests_iff setup_defs)

lemma pod_wakes: "set (requests instanceSetup (PodChange p)) = set (mapPodToInstance p)"
  by (simp add: set_eq_iff requests_iff setup_defs)

lemma owned_wakes:
  "om_owner (dp_meta d) = Some (''ChallengeInstance'', n) \<Longrightarrow>
   set (requests instanceSetup (DeploymentChange d)) = {(om_namespace (dp_meta d), n)}"
  "om_owner (sv_meta v) = Some (''ChallengeInstance'', n) \<Longrightarrow>
   set (requests instanceSetup (ServiceChange v)) = {(om_namespace (sv_meta v), n)}"
  by (auto simp: requests_iff setup_defs)

lemma deaf_to:
  "set (requests instanceSetup (FenceChange f)) = {}" "set (requests instanceSetup (TemplateChange t)) = {}"
  "set (requests lifecycleSetup (PodChange p)) = {}" "set (requests lifecycleSetup (FenceChange f)) = {}"
  "set (requests lifecycleSetup (TemplateChange t)) = {}"
  by (simp_all add: set_eq_iff requests_iff setup_defs del: set_empty)

end

text \<open>The builder as it is documented, to compute with.\<close>

definition builderRequests :: "watch_setup \<Rightarrow> change \<Rightarrow> nsname list" where
  "builderRequests s x =
     (if ch_kind x = su_for s then [nsname_of (ch_meta x)] else []) @
     (if ch_kind x \<in> set (su_owns s) then
        (case om_owner (ch_meta x) of
           None \<Rightarrow> []
         | Some (kind, n) \<Rightarrow> if kind = su_for s then [(om_namespace (ch_meta x), n)] else [])
      else []) @
     (case (su_pods s, x) of (Some f, PodChange p) \<Rightarrow> f p | _ \<Rightarrow> [])"

lemma builder_pods: "k \<in> set (case (su_pods s, x) of (Some f, PodChange p) \<Rightarrow> f p | _ \<Rightarrow> []) \<longleftrightarrow>
    (\<exists>p f. x = PodChange p \<and> su_pods s = Some f \<and> k \<in> set (f p))"
  by (cases "su_pods s"; cases x) simp_all

lemma builder_owner: "k \<in> set (case om_owner m of None \<Rightarrow> []
      | Some (kind, n) \<Rightarrow> if kind = for_kind then [(om_namespace m, n)] else []) \<longleftrightarrow>
    (\<exists>n. om_owner m = Some (for_kind, n) \<and> k = (om_namespace m, n))"
  by (auto split: option.splits prod.splits)

interpretation builder: controller_runtime builderRequests
proof (rule controller_runtime.intro)
  fix k s x
  show "k \<in> set (builderRequests s x) \<longleftrightarrow>
      ch_kind x = su_for s \<and> k = nsname_of (ch_meta x) \<or>
      ch_kind x \<in> set (su_owns s) \<and> (\<exists>n. om_owner (ch_meta x) = Some (su_for s, n) \<and> k = (om_namespace (ch_meta x), n)) \<or>
      (\<exists>p f. x = PodChange p \<and> su_pods s = Some f \<and> k \<in> set (f p))"
    unfolding builderRequests_def set_append Un_iff builder_pods builder_owner [symmetric]
    by (cases "ch_kind x = su_for s"; cases "ch_kind x \<in> set (su_owns s)") simp_all
qed

end
