(* ===== verification/Watch_Props.thy ===== *)
theory Watch_Props
  imports Watches Instance_Props Fence_Props
begin

text \<open>
  What wakes the controllers of an instance, and what the two of them do to each other in the
  last minute of its life.
\<close>

section \<open>Wake-ups\<close>

text \<open>
  C36: A change of an instance wakes both of its controllers; a change of the Deployment and the
  Service that carry its owner reference wakes the instance controller, as does a change of any
  Pod made from its Deployment (with the Pod labels of the Deployment and any further ones), and
  each of them wakes it for this instance and no other. A change of its NetworkFence, though it
  is owned as well, or of its template wakes neither of the two: they see those when their next
  look is due.
\<close>

theorem instance_wakeups:
  assumes cr: "controller_runtime requests"
    and owner: "om_owner m = Some (''ChallengeInstance'', om_name (ci_meta i))" "om_namespace m = om_namespace (ci_meta i)"
    and pod: "dp_pod_labels (buildDeployment i tmpl) \<subseteq>\<^sub>m om_labels (pd_meta p)" "om_namespace (pd_meta p) = om_namespace (ci_meta i)"
  shows "set (requests instanceSetup (InstanceChange i)) = {nsname_of (ci_meta i)} \<and>
    set (requests lifecycleSetup (InstanceChange i)) = {nsname_of (ci_meta i)} \<and>
    set (requests instanceSetup (DeploymentChange (d\<lparr>dp_meta := m\<rparr>))) = {nsname_of (ci_meta i)} \<and>
    set (requests instanceSetup (ServiceChange (v\<lparr>sv_meta := m\<rparr>))) = {nsname_of (ci_meta i)} \<and>
    set (requests instanceSetup (PodChange p)) = {nsname_of (ci_meta i)} \<and>
    set (requests instanceSetup (FenceChange (f\<lparr>nf_meta := m\<rparr>))) = {} \<and>
    set (requests lifecycleSetup (FenceChange (f\<lparr>nf_meta := m\<rparr>))) = {} \<and>
    set (requests instanceSetup (TemplateChange tmpl)) = {} \<and>
    set (requests lifecycleSetup (TemplateChange tmpl)) = {}"
proof -
  have "om_labels (pd_meta p) LabelInstance = Some (om_name (ci_meta i))"
    using pod(1) by (rule deployment_pods_labelled)
  with pod(2) have "mapPodToInstance p = [nsname_of (ci_meta i)]" by (simp add: mapPodToInstance_def nsname_of_def)
  then show ?thesis
    using controller_runtime.instance_wakes [OF cr] controller_runtime.pod_wakes [OF cr] controller_runtime.deaf_to [OF cr]
      controller_runtime.owned_wakes [OF cr] owner
    by (simp add: nsname_of_def)
qed

theorem instance_wakeups_witness:
  "set (builderRequests instanceSetup (DeploymentChange ((buildDeployment smp_instance smp_template)\<lparr>dp_meta :=
       (new_meta ''web-red'' ''ctf'' Map.empty)\<lparr>om_owner := Some (''ChallengeInstance'', ''web-red'')\<rparr>\<rparr>))) = {smp_key} \<and>
   set (builderRequests instanceSetup (PodChange smp_made_pod)) = {smp_key}"
proof -
  let ?m = "(new_meta ''web-red'' ''ctf'' Map.empty)\<lparr>om_owner := Some (''ChallengeInstance'', ''web-red'')\<rparr>"
  have 1: "om_owner ?m = Some (''ChallengeInstance'', om_name (ci_meta smp_instance))"
    "om_namespace ?m = om_namespace (ci_meta smp_instance)" by (simp_all add: smp_instance_def)
  from instance_wakeups [OF builder.controller_runtime_axioms, OF 1 smp_made_pod_sel] show ?thesis
    by (simp add: smp_instance_def nsname_of_def)
qed

section \<open>The last minute\<close>

text \<open>
  One controller after the other: a round for the instance \<open>k\<close>, as the writes of each wake the
  other.
\<close>

definition graceRound :: "'w instance_reconciler \<Rightarrow> 'w lifecycle_reconciler \<Rightarrow> nsname \<Rightarrow> 'w \<Rightarrow> 'w" where
  "graceRound ir lr k w = snd (reconcileLifecycle lr k (snd (reconcileInstance ir k w)))"

text \<open>
  Both reconciles of the round succeed, and when the second reads the clock a minute or less is
  left of the life that ends at \<open>t\<close>.
\<close>

definition inGrace :: "'w instance_reconciler \<Rightarrow> 'w lifecycle_reconciler \<Rightarrow> nsname \<Rightarrow> instant \<Rightarrow> 'w \<Rightarrow> bool" where
  "inGrace ir lr k t w \<longleftrightarrow>
     (let (res1, w1) = reconcileInstance ir k w; (res2, w2) = reconcileLifecycle lr k w1;
          left = t - lifecycleClock lr k w1
      in \<not> isl res1 \<and> \<not> isl res2 \<and> 0 < left \<and> left \<le> seconds 60)"

text \<open>An Expiring instance with a ready template and no failed Pod.\<close>

definition expiringInstance :: "cluster \<Rightarrow> nsname \<Rightarrow> instant \<Rightarrow> bool" where
  "expiringInstance c k t \<longleftrightarrow>
     (\<exists>i tmpl. cl_instances c k = Some i \<and> instance_phase_of i = InstancePhaseExpiring \<and>
        st_expires (ci_status i) = Some t \<and>
        cl_templates c (om_namespace (ci_meta i), is_template (ci_spec i)) = Some tmpl \<and> tst_ready (ct_status tmpl) \<and>
        (\<forall>p \<in> instancePods c (ci_meta i). pd_phase p \<noteq> PodFailed))"

text \<open>How often the backend was told that the instance expires soon.\<close>

definition warnings :: "cluster \<Rightarrow> nat" where
  "warnings c = length (filter (\<lambda>e. evt_type e = EventExpiring) (cl_sent c))"

lemma live_observation:
  assumes "(phase, reason, n) \<in> observations c i tmpl" "\<forall>p \<in> instancePods c (ci_meta i). pd_phase p \<noteq> PodFailed"
  shows "phase \<in> {InstancePhaseCreating, InstancePhaseRunning, InstancePhaseUnhealthy}"
  using assms by (auto simp: observations_def podPhase_def Let_def split: if_splits pod_phase.splits)

lemma transition_warns_not:
  "filter (\<lambda>e. evt_type e = EventExpiring) (transitionEvents b i phase j reason) = []"
  by (cases phase) (simp_all add: transitionEvents_def instanceEvent_def)

text \<open>A successful reconcile takes an Expiring instance back to the phase of its Pod.\<close>

context instance_controller
begin

lemma expiring_reverted:
  assumes run: "reconcileInstance r k w = (Inr res, w')"
    and i: "cl_instances (view w) k = Some i" "instance_phase_of i = InstancePhaseExpiring" "st_expires (ci_status i) = Some t"
    and tmpl: "cl_templates (view w) (om_namespace (ci_meta i), is_template (ci_spec i)) = Some tmpl" "tst_ready (ct_status tmpl)"
    and pods: "\<forall>p \<in> instancePods (view w) (ci_meta i). pd_phase p \<noteq> PodFailed"
  shows "\<exists>j. cl_instances (view w') k = Some j \<and> same_spec j i \<and>
    instance_phase_of j \<in> {InstancePhaseCreating, InstancePhaseRunning, InstancePhaseUnhealthy} \<and>
    st_expires (ci_status j) = Some (trunc_sec t) \<and> warnings (view w') = warnings (view w) \<and>
    cl_templates (view w') = cl_templates (view w) \<and> cl_pods (view w') = cl_pods (view w)"
proof -
  note k = instance_name [OF i(1)]
  from reconcile_branch [OF run i(1)] i(2) tmpl obtain w2 where
    ready: "reconcileReady r i tmpl w2 = (Inr res, w')" and v2: "view w2 = view w" by (auto simp: terminal_def)
  have "expiryOf i tmpl 0 \<noteq> None" using i(3) by (simp add: expiryOf_def)
  from reconcileReady_done [OF ready this] k v2 i(1) obtain phase reason n now s e j where
    o: "(phase, reason, n) \<in> observations (view w) i tmpl" "expiryOf i tmpl now = Some (s, e)"
    and j: "same_spec j i" "cl_instances (view w') k = Some j" "ci_status j = reconciledStatus i phase reason n s e"
      "cl_sent (view w') = cl_sent (view w) @ transitionEvents (ir_backend r) i phase j reason" by auto
  have "e = t" using o(2) i(3) by (simp add: expiryOf_def)
  moreover have "warnings (view w') = warnings (view w)"
    by (simp add: warnings_def j(4) transition_warns_not)
  ultimately show ?thesis
    using j live_observation [OF o(1) pods] instance_effectD(3,4) [OF reconcile_effect [OF run]]
    by (intro exI [of _ j]) (simp add: reconciledStatus_def)
qed

end

context lifecycle_controller
begin

text \<open>And the other one takes it to Expiring again, with a warning.\<close>

lemma running_warned:
  assumes run: "reconcileLifecycle r k w = (Inr res, w')" and told: "lr_backend r = Some B"
    and i: "cl_instances (view w) k = Some i" "st_expires (ci_status i) = Some t"
      "instance_phase_of i \<in> {InstancePhaseCreating, InstancePhaseRunning, InstancePhaseUnhealthy}"
    and left: "0 < t - lifecycleClock r k w" "t - lifecycleClock r k w \<le> seconds 60"
  shows "\<exists>j. cl_instances (view w') k = Some j \<and> same_spec j i \<and> instance_phase_of j = InstancePhaseExpiring \<and>
    st_expires (ci_status j) = Some (trunc_sec t) \<and> warnings (view w') = Suc (warnings (view w)) \<and>
    cl_templates (view w') = cl_templates (view w) \<and> cl_pods (view w') = cl_pods (view w)"
proof -
  note k = instance_name [OF i(1)]
  let ?d = "time_sub t (lifecycleClock r k w)"
  have d: "0 < ?d" "?d \<le> seconds 60"
    using left time_sub_pos_iff [of t] time_sub_le_iff [of "seconds 60" t]
    by (simp_all add: min_duration_def max_duration_def)
  from reconcile_step [OF run i(1)] i(2,3) obtain w2 where
    v: "view w2 = view w" and step: "lifecycleStep r i ?d w2 = (Inr res, w')" by (auto simp: terminal_def)
  have c: "cl_instances (view w2) (nsname_of (ci_meta i)) = Some i" using i(1) k v by simp
  have "phaseWritten (Some B) i InstancePhaseExpiring ''entering expiry grace window'' EventExpiring (view w) (view w')"
    using lifecycleStep_written [OF step c] d i(3) told v by (auto split: if_splits)
  then show ?thesis
    unfolding phaseWritten_def k using i(2) by (auto simp: warnings_def instanceEvent_def)
qed

end

text \<open>One round: it ends where it began, with one more warning.\<close>

lemma grace_round:
  assumes ic: "instance_controller ir view" and lc: "lifecycle_controller lr view" and told: "lr_backend lr = Some B"
    and start: "expiringInstance (view w) k t" "trunc_sec t = t" and ok: "inGrace ir lr k t w"
  shows "expiringInstance (view (graceRound ir lr k w)) k t \<and>
    warnings (view (graceRound ir lr k w)) = Suc (warnings (view w))"
proof -
  from ok obtain r1 w1 r2 w2 where run: "reconcileInstance ir k w = (Inr r1, w1)" "reconcileLifecycle lr k w1 = (Inr r2, w2)"
    and left: "0 < t - lifecycleClock lr k w1" "t - lifecycleClock lr k w1 \<le> seconds 60"
    by (auto simp: inGrace_def Let_def isl_def split: prod.splits sum.splits) (metis old.sum.exhaust)+
  from start obtain i tmpl where i: "cl_instances (view w) k = Some i" "instance_phase_of i = InstancePhaseExpiring"
      "st_expires (ci_status i) = Some t"
    "cl_templates (view w) (om_namespace (ci_meta i), is_template (ci_spec i)) = Some tmpl" "tst_ready (ct_status tmpl)"
    "\<forall>p \<in> instancePods (view w) (ci_meta i). pd_phase p \<noteq> PodFailed"
    by (auto simp: expiringInstance_def)
  from instance_controller.expiring_reverted [OF ic, OF run(1) i] start(2) obtain j where
    j: "cl_instances (view w1) k = Some j" "same_spec j i" "st_expires (ci_status j) = Some t"
      "instance_phase_of j \<in> {InstancePhaseCreating, InstancePhaseRunning, InstancePhaseUnhealthy}"
      "warnings (view w1) = warnings (view w)" "cl_templates (view w1) = cl_templates (view w)"
      "cl_pods (view w1) = cl_pods (view w)" by auto
  from lifecycle_controller.running_warned [OF lc, OF run(2) told j(1,3,4) left] start(2) obtain l where
    l: "cl_instances (view w2) k = Some l" "same_spec l j" "instance_phase_of l = InstancePhaseExpiring"
      "st_expires (ci_status l) = Some t" "warnings (view w2) = Suc (warnings (view w1))"
      "cl_templates (view w2) = cl_templates (view w1)" "cl_pods (view w2) = cl_pods (view w1)" by auto
  have same: "om_namespace (ci_meta l) = om_namespace (ci_meta i)" "om_name (ci_meta l) = om_name (ci_meta i)"
    "ci_spec l = ci_spec i"
    using j(2) l(2) by (auto simp: same_spec_def nsname_of_def dest!: user_meta_eqD)
  have pods: "instancePods (view w2) (ci_meta l) = instancePods (view w) (ci_meta i)"
    by (simp add: instancePods_def same j(7) l(7))
  have "expiringInstance (view w2) k t"
    unfolding expiringInstance_def
    by (rule exI [of _ l], rule exI [of _ tmpl]) (simp add: l i same pods j(6))
  moreover have "graceRound ir lr k w = w2" by (simp add: graceRound_def run)
  ultimately show ?thesis using j(5) l(5) by simp
qed

text \<open>
  C12: An instance in its last minute never comes to rest. The instance controller takes it from
  Expiring back to the phase of its Pod; that change wakes the lifecycle controller, which makes
  it Expiring and warns the backend again; and that change wakes the instance controller. Every
  round ends where it began, so for as long as the minute lasts each round sends one more
  warning of the same expiry.
\<close>

theorem grace_window_never_settles:
  assumes ic: "instance_controller ir view" and lc: "lifecycle_controller lr view"
    and told: "lr_backend lr = Some B" and cr: "controller_runtime requests"
    and start: "expiringInstance (view w) k t" "trunc_sec t = t"
    and rounds: "\<forall>m < n. inGrace ir lr k t ((graceRound ir lr k ^^ m) w)"
  shows "expiringInstance (view ((graceRound ir lr k ^^ n) w)) k t \<and>
    warnings (view ((graceRound ir lr k ^^ n) w)) = warnings (view w) + n \<and>
    (\<forall>i. nsname_of (ci_meta i) = k \<longrightarrow>
       k \<in> set (requests lifecycleSetup (InstanceChange i)) \<and> k \<in> set (requests instanceSetup (InstanceChange i)))"
proof -
  have "expiringInstance (view ((graceRound ir lr k ^^ n) w)) k t \<and>
    warnings (view ((graceRound ir lr k ^^ n) w)) = warnings (view w) + n"
    using rounds
  proof (induction n)
    case 0
    with start show ?case by simp
  next
    case (Suc n)
    then have "expiringInstance (view ((graceRound ir lr k ^^ n) w)) k t"
      "warnings (view ((graceRound ir lr k ^^ n) w)) = warnings (view w) + n"
      "inGrace ir lr k t ((graceRound ir lr k ^^ n) w)" by simp_all
    with grace_round [OF ic lc told _ start(2)] show ?case by simp
  qed
  with controller_runtime.instance_wakes [OF cr] show ?thesis by simp
qed

text \<open>Half a minute before the end, with a Pod that runs.\<close>

abbreviation smp_late :: mem where
  "smp_late \<equiv> smp_due_mem InstancePhaseExpiring (10 ^ 18 + 30000000000)"

theorem grace_window_never_settles_witness:
  "warnings (mem_view ((graceRound mem_ir mem_lr smp_key ^^ 2) smp_late)) = 2"
proof -
  have pod: "pd_phase p = PodRunning" if "cl_pods (mem_view (smp_due_mem ph t)) key = Some p" for p key ph t
    using that by (auto simp: mem_view_def mem_find_def smp_due_mem_def smp_mem_def smp_pod_def mem_empty_def split: if_splits)
  have start: "expiringInstance (mem_view smp_late) smp_key (10 ^ 18 + 30000000000)"
    "trunc_sec (10 ^ 18 + 30000000000) = 10 ^ 18 + 30000000000" "warnings (mem_view smp_late) = 0"
    by (auto simp: expiringInstance_def instancePods_def trunc_sec_def warnings_def smp_template_def dest!: pod)
  have "inGrace mem_ir mem_lr smp_key (10 ^ 18 + 30000000000) smp_late"
    "inGrace mem_ir mem_lr smp_key (10 ^ 18 + 30000000000) (graceRound mem_ir mem_lr smp_key smp_late)"
    by (simp_all add: inGrace_def graceRound_def lifecycle_eval instance_eval mem_eval smp_due_mem_def smp_due_def smp_defs
        mem_lr_def time_sub_def min_duration_def max_duration_def wire_instance_status_def trunc_sec_def Let_def)
  then have rounds: "\<forall>m < 2. inGrace mem_ir mem_lr smp_key (10 ^ 18 + 30000000000) ((graceRound mem_ir mem_lr smp_key ^^ m) smp_late)"
    by (auto simp: less_2_cases_iff)
  have "lr_backend mem_lr = Some mem_backend" by (simp add: mem_lr_def)
  from grace_window_never_settles [OF mem_instances.instance_controller_axioms mem_lifecycle.lifecycle_controller_axioms
      this builder.controller_runtime_axioms start(1,2) rounds] start(3) show ?thesis by simp
qed

end
