(* ===== verification/Life_Spec.thy ===== *)
theory Life_Spec
  imports Phase_Contract Api_Lemmas
begin

text \<open>
  The life of instances, abstractly: a machine whose state is the table of instances and the
  list of events the backend was told, and whose steps are what the program may do to them. It
  knows nothing of clients, errors, templates, Pods or requests. Invariants and the properties
  of long runs are proved of this machine; the theory \<open>System\<close> shows that the program refines it.
\<close>

section \<open>The machine\<close>

type_synonym life = "(nsname \<rightharpoonup> challenge_instance) \<times> event list"

text \<open>The event of a phase change, if the backend is told of it.\<close>

definition trackEvents :: "challenge_instance \<Rightarrow> challenge_instance \<Rightarrow> event list" where
  "trackEvents i j =
     (if instance_phase_of i = instance_phase_of j then []
      else case eventForPhase (instance_phase_of j) of
          None \<Rightarrow> []
        | Some t \<Rightarrow> [instanceEvent t j (st_reason (ci_status j))])"

text \<open>What every write of a status keeps: the rest of the object, the endpoint, a set expiry.\<close>

definition status_write :: "challenge_instance \<Rightarrow> challenge_instance \<Rightarrow> bool" where
  "status_write i j \<longleftrightarrow> same_spec j i \<and> wire_instance_status (ci_status j) = ci_status j \<and>
     st_endpoint (ci_status j) = st_endpoint (ci_status i) \<and>
     (\<forall>t. st_expires (ci_status i) = Some t \<longrightarrow> st_expires (ci_status j) = Some (trunc_sec t))"

definition running_phases :: "instance_phase set" where
  "running_phases = {InstancePhaseCreating, InstancePhaseRunning, InstancePhaseUnhealthy}"

text \<open>
  \<open>ns\<close> is the namespace of the server, \<open>clocks\<close> the readings the clock may give. The three
  steps of a status write are those of the instance controller (\<open>tracked\<close>) and of the
  lifecycle controller (\<open>expiring\<close>, \<open>expired\<close>).
\<close>

inductive life_step :: "string \<Rightarrow> instant set \<Rightarrow> life \<Rightarrow> life \<Rightarrow> bool" for ns clocks where
  stutter: "life_step ns clocks \<sigma> \<sigma>"
| created: "life_step ns clocks (m, evs) (m((ns, name) \<mapsto> i), evs)"
    if "m (ns, name) = None" "crq_template (body :: create_request) \<noteq> ''''" "crq_team body \<noteq> ''''"
      "name = instanceName (crq_template body) (crq_team body) (crq_player body)"
      "user_meta (ci_meta i) = new_meta name ns [LabelChallenge \<mapsto> crq_template body, LabelTeam \<mapsto> crq_team body]"
      "ci_spec i = \<lparr>is_template = crq_template body, is_team = crq_team body, is_player = crq_player body, is_ttl_override = ''''\<rparr>"
      "ci_status i = empty_instance_status"
| extended: "life_step ns clocks (m, evs) (m((ns, name) \<mapsto> j), evs)"
    if "m (ns, name) = Some i" "parse_duration ttl = Inr d"
      "user_meta (ci_meta j) = user_meta (ci_meta i)" "ci_spec j = (ci_spec i)\<lparr>is_ttl_override := ttl\<rparr>"
      "ci_status j = ci_status i"
| deleted: "life_step ns clocks (m, evs) (m((ns, name) := None), evs)" if "m (ns, name) \<noteq> None"
| tracked: "life_step ns clocks (m, evs) (m(k \<mapsto> j), evs @ trackEvents i j)"
    if "m k = Some i" "\<not> terminal (instance_phase_of i)" "status_write i j"
      "instance_phase_of j \<in> instance_phases"
      "instance_phase_of j \<in> running_phases \<Longrightarrow> st_expires (ci_status j) \<noteq> None"
| expiring: "life_step ns clocks (m, evs) (m(k \<mapsto> j), evs @ [instanceEvent EventExpiring j (st_reason (ci_status j))])"
    if "m k = Some i" "\<not> terminal (instance_phase_of i)" "status_write i j"
      "instance_phase_of i \<noteq> InstancePhaseExpiring" "instance_phase_of j = InstancePhaseExpiring"
      "st_expires (ci_status i) = Some t" "now \<in> clocks" "now < t" "t - now \<le> seconds 60"
| expired: "life_step ns clocks (m, evs) (m(k \<mapsto> j), evs @ [instanceEvent EventExpired j (st_reason (ci_status j))])"
    if "m k = Some i" "\<not> terminal (instance_phase_of i)" "status_write i j"
      "instance_phase_of j = InstancePhaseExpired"
      "st_expires (ci_status i) = Some t" "now \<in> clocks" "t \<le> now"

inductive_cases life_stepE: "life_step ns clocks \<sigma> \<tau>"

abbreviation life_steps :: "string \<Rightarrow> instant set \<Rightarrow> life \<Rightarrow> life \<Rightarrow> bool" where
  "life_steps ns clocks \<equiv> (life_step ns clocks)\<^sup>*\<^sup>*"

section \<open>Stored instances are well formed\<close>

text \<open>
  The name and the labels of an instance are those its fields give, its override, once set,
  parses, it is in one of eight phases and never Terminating, it has an expiry from Creating
  on, with whole seconds, and its endpoint is empty.
\<close>

definition instance_ok :: "string \<Rightarrow> nsname \<Rightarrow> challenge_instance \<Rightarrow> bool" where
  "instance_ok ns k i \<longleftrightarrow>
     (let sp = ci_spec i in
      user_meta (ci_meta i) = new_meta (snd k) ns [LabelChallenge \<mapsto> is_template sp, LabelTeam \<mapsto> is_team sp] \<and>
      k = (ns, instanceName (is_template sp) (is_team sp) (is_player sp)) \<and>
      is_template sp \<noteq> '''' \<and> is_team sp \<noteq> '''' \<and>
      (is_ttl_override sp = '''' \<or> (\<exists>d. parse_duration (is_ttl_override sp) = Inr d)) \<and>
      instance_phase_of i \<noteq> InstancePhaseTerminating \<and>
      (instance_phase_of i \<in> running_phases \<union> lifecycle_phases \<longrightarrow> st_expires (ci_status i) \<noteq> None) \<and>
      wire_instance_status (ci_status i) = ci_status i \<and> st_endpoint (ci_status i) = '''')"

text \<open>What an event says: of an instance with a challenge and a team, without endpoint or time.\<close>

definition event_ok :: "event \<Rightarrow> bool" where
  "event_ok e \<longleftrightarrow> evt_type e \<noteq> EventDeleted \<and> evt_endpoint e = '''' \<and> evt_timestamp e = zero_time \<and>
     evt_instance e = instanceName (evt_challenge e) (evt_team e) (evt_player e) \<and>
     evt_challenge e \<noteq> '''' \<and> evt_team e \<noteq> ''''"

definition life_ok :: "string \<Rightarrow> life \<Rightarrow> bool" where
  "life_ok ns \<sigma> \<longleftrightarrow> (\<forall>k i. fst \<sigma> k = Some i \<longrightarrow> instance_ok ns k i) \<and> (\<forall>e \<in> set (snd \<sigma>). event_ok e)"

lemma instance_ok_meta:
  assumes "instance_ok ns k i"
  shows "om_name (ci_meta i) = instanceName (is_template (ci_spec i)) (is_team (ci_spec i)) (is_player (ci_spec i))"
proof -
  from assms have "user_meta (ci_meta i) = new_meta (snd k) ns [LabelChallenge \<mapsto> is_template (ci_spec i), LabelTeam \<mapsto> is_team (ci_spec i)]"
    and "k = (ns, instanceName (is_template (ci_spec i)) (is_team (ci_spec i)) (is_player (ci_spec i)))"
    by (simp_all add: instance_ok_def Let_def)
  then show ?thesis by (metis new_meta_sel(1) snd_conv user_meta_sel(1))
qed

lemma instance_ok_event:
  assumes "instance_ok ns k i" "t \<noteq> EventDeleted"
  shows "event_ok (instanceEvent t i reason)"
  using assms instance_ok_meta [OF assms(1)]
  by (simp add: event_ok_def instanceEvent_def instance_ok_def Let_def)

text \<open>A write of the status keeps an instance well formed when the phase it writes allows it.\<close>

lemma instance_ok_write:
  assumes ok: "instance_ok ns k i" and wr: "status_write i j"
    and phase: "instance_phase_of j \<noteq> InstancePhaseTerminating"
      "instance_phase_of j \<in> running_phases \<union> lifecycle_phases \<longrightarrow> st_expires (ci_status j) \<noteq> None"
  shows "instance_ok ns k j"
proof -
  from wr have same: "user_meta (ci_meta j) = user_meta (ci_meta i)" "ci_spec j = ci_spec i"
    and st: "wire_instance_status (ci_status j) = ci_status j" "st_endpoint (ci_status j) = st_endpoint (ci_status i)"
    by (simp_all add: status_write_def same_spec_def)
  from ok phase st show ?thesis
    unfolding instance_ok_def Let_def same by simp
qed

lemma eventForPhase_not_deleted: "eventForPhase p = Some t \<Longrightarrow> t \<noteq> EventDeleted"
  by (cases p) auto

lemma life_okD: "life_ok ns (m, evs) \<Longrightarrow> m k = Some i \<Longrightarrow> instance_ok ns k i"
  by (cases k) (simp add: life_ok_def)

lemma life_okI:
  assumes "life_ok ns (m, evs)" "instance_ok ns k j" "\<forall>e \<in> set new. event_ok e"
  shows "life_ok ns (m(k \<mapsto> j), evs @ new)"
  using assms by (auto simp: life_ok_def)

lemma life_ok_step:
  assumes step: "life_step ns clocks \<sigma> \<tau>" and ok: "life_ok ns \<sigma>"
  shows "life_ok ns \<tau>"
  using step
proof cases
  case stutter
  with ok show ?thesis by simp
next
  case (created m name body i evs)
  have "instance_ok ns (ns, name) i"
    unfolding instance_ok_def Let_def created(6-9)
    by (simp add: created(4,5,6) empty_instance_status_def running_phases_def lifecycle_phases_def wire_instance_status_def)
  then show ?thesis using life_okI [of ns m evs "(ns, name)" i "[]"] ok created by simp
next
  case (extended m name i ttl d j evs)
  from life_okD [OF ok [unfolded extended(1)] extended(3)] have i: "instance_ok ns (ns, name) i" .
  have "instance_ok ns (ns, name) j"
    using i extended(4) unfolding instance_ok_def Let_def extended(5-7) by simp
  then show ?thesis using life_okI [of ns m evs "(ns, name)" j "[]"] ok extended by simp
next
  case (deleted m name evs)
  with ok show ?thesis by (auto simp: life_ok_def)
next
  case (tracked m k i j evs)
  with ok life_okD have i: "instance_ok ns k i" by blast
  have j: "instance_ok ns k j"
    by (rule instance_ok_write [OF i tracked(5)])
      (use tracked(6,7) in \<open>auto simp: instance_phases_def lifecycle_phases_def\<close>)
  have "\<forall>e \<in> set (trackEvents i j). event_ok e"
    using instance_ok_event [OF j] eventForPhase_not_deleted by (auto simp: trackEvents_def split: option.splits)
  from life_okI [OF _ j this] ok tracked show ?thesis by simp
next
  case (expiring m k i j t now evs)
  with ok life_okD have i: "instance_ok ns k i" by blast
  have j: "instance_ok ns k j"
    by (rule instance_ok_write [OF i expiring(5)]) (use expiring in \<open>auto simp: status_write_def\<close>)
  from life_okI [OF _ j] instance_ok_event [OF j] ok expiring show ?thesis by simp
next
  case (expired m k i j t now evs)
  with ok life_okD have i: "instance_ok ns k i" by blast
  have j: "instance_ok ns k j"
    by (rule instance_ok_write [OF i expired(5)]) (use expired in \<open>auto simp: status_write_def\<close>)
  from life_okI [OF _ j] instance_ok_event [OF j] ok expired show ?thesis by simp
qed

lemma life_ok_steps: "life_steps ns clocks \<sigma> \<tau> \<Longrightarrow> life_ok ns \<sigma> \<Longrightarrow> life_ok ns \<tau>"
  by (induction rule: rtranclp_induct) (auto intro: life_ok_step)


section \<open>Expiring and Expired are never early\<close>

lemma stored_expiry:
  assumes "wire_instance_status s = s" "st_expires s = Some t"
  shows "trunc_sec t = t"
proof -
  have "st_expires (wire_instance_status s) = Some t" using assms by simp
  with assms(2) show ?thesis by simp
qed

lemma write_expiry:
  assumes "status_write i j" "wire_instance_status (ci_status i) = ci_status i" "st_expires (ci_status i) = Some t"
  shows "st_expires (ci_status j) = Some t"
  using assms stored_expiry [OF assms(2,3)] by (simp add: status_write_def)

definition not_early :: "instant set \<Rightarrow> challenge_instance \<Rightarrow> bool" where
  "not_early clocks i \<longleftrightarrow>
     (instance_phase_of i \<in> lifecycle_phases \<longrightarrow>
       (\<exists>t now. st_expires (ci_status i) = Some t \<and> now \<in> clocks \<and>
          t - now \<le> (if instance_phase_of i = InstancePhaseExpired then 0 else seconds 60)))"

definition life_due :: "instant set \<Rightarrow> life \<Rightarrow> bool" where
  "life_due clocks \<sigma> \<longleftrightarrow> (\<forall>k i. fst \<sigma> k = Some i \<longrightarrow> not_early clocks i)"

lemma life_dueI: "life_due clocks (m, evs) \<Longrightarrow> not_early clocks j \<Longrightarrow> life_due clocks (m(k \<mapsto> j), evs')"
  by (simp add: life_due_def)

lemma life_due_step:
  assumes step: "life_step ns clocks \<sigma> \<tau>" and ok: "life_ok ns \<sigma>" and due: "life_due clocks \<sigma>"
  shows "life_due clocks \<tau>"
  using step
proof cases
  case stutter
  with due show ?thesis by simp
next
  case (created m name body i evs)
  then have "not_early clocks i" by (simp add: not_early_def empty_instance_status_def lifecycle_phases_def)
  with due created show ?thesis by (simp add: life_dueI)
next
  case (extended m name i ttl d j evs)
  with due have "not_early clocks i" by (simp add: life_due_def)
  with extended have "not_early clocks j" by (simp add: not_early_def)
  with due extended show ?thesis by (simp add: life_dueI)
next
  case (deleted m name evs)
  with due show ?thesis by (simp add: life_due_def)
next
  case (tracked m k i j evs)
  then have "not_early clocks j" by (auto simp: not_early_def instance_phases_def lifecycle_phases_def)
  with due tracked show ?thesis by (simp add: life_dueI)
next
  case (expiring m k i j t now evs)
  with ok life_okD have "instance_ok ns k i" by blast
  with write_expiry [OF expiring(5) _ expiring(8)] have "st_expires (ci_status j) = Some t"
    by (simp add: instance_ok_def Let_def)
  with expiring have "not_early clocks j" by (auto simp: not_early_def)
  with due expiring show ?thesis by (simp add: life_dueI)
next
  case (expired m k i j t now evs)
  with ok life_okD have "instance_ok ns k i" by blast
  with write_expiry [OF expired(5) _ expired(7)] have "st_expires (ci_status j) = Some t"
    by (simp add: instance_ok_def Let_def)
  with expired have "not_early clocks j" by (auto simp: not_early_def)
  with due expired show ?thesis by (simp add: life_dueI)
qed

lemma life_due_steps:
  "life_steps ns clocks \<sigma> \<tau> \<Longrightarrow> life_ok ns \<sigma> \<Longrightarrow> life_due clocks \<sigma> \<Longrightarrow> life_due clocks \<tau>"
  by (induction rule: rtranclp_induct) (auto intro: life_due_step life_ok_steps)

section \<open>What an instance keeps until it is deleted\<close>

definition same_life :: "challenge_instance \<Rightarrow> challenge_instance \<Rightarrow> bool" where
  "same_life i j \<longleftrightarrow> user_meta (ci_meta j) = user_meta (ci_meta i) \<and>
     is_template (ci_spec j) = is_template (ci_spec i) \<and> is_team (ci_spec j) = is_team (ci_spec i) \<and>
     is_player (ci_spec j) = is_player (ci_spec i) \<and>
     (st_expires (ci_status i) \<noteq> None \<longrightarrow> st_expires (ci_status j) = st_expires (ci_status i)) \<and>
     (terminal (instance_phase_of i) \<longrightarrow> ci_status j = ci_status i)"

lemma same_life_refl [simp]: "same_life i i"
  by (simp add: same_life_def)

lemma same_life_trans: "same_life i j \<Longrightarrow> same_life j l \<Longrightarrow> same_life i l"
  by (auto simp: same_life_def)

lemma same_life_write:
  assumes "status_write i j" "wire_instance_status (ci_status i) = ci_status i" "\<not> terminal (instance_phase_of i)"
  shows "same_life i j"
  using assms(1,3) write_expiry [OF assms(1,2)] by (auto simp: same_life_def status_write_def same_spec_def)

lemma same_life_step:
  assumes step: "life_step ns clocks \<sigma> \<tau>" and ok: "life_ok ns \<sigma>"
    and i: "fst \<sigma> k = Some i" and j: "fst \<tau> k = Some j"
  shows "same_life i j"
proof -
  have wire: "wire_instance_status (ci_status i) = ci_status i"
    using life_okD [of ns "fst \<sigma>" "snd \<sigma>" k i] ok i by (simp add: instance_ok_def Let_def)
  from step show ?thesis
  proof cases
    case stutter
    with i j show ?thesis by simp
  next
    case created
    with i j show ?thesis by (auto split: if_splits)
  next
    case (extended m name i' ttl d j' evs)
    with i j show ?thesis by (auto simp: same_life_def split: if_splits)
  next
    case deleted
    with i j show ?thesis by (auto split: if_splits)
  next
    case (tracked m k' i' j' evs)
    with i j same_life_write [OF _ wire] show ?thesis by (auto split: if_splits)
  next
    case (expiring m k' i' j' t now evs)
    with i j same_life_write [OF _ wire] show ?thesis by (auto split: if_splits)
  next
    case (expired m k' i' j' t now evs)
    with i j same_life_write [OF _ wire] show ?thesis by (auto split: if_splits)
  qed
qed

text \<open>A path along which the instance is never missing.\<close>

abbreviation life_path :: "string \<Rightarrow> instant set \<Rightarrow> nsname \<Rightarrow> life \<Rightarrow> life \<Rightarrow> bool" where
  "life_path ns clocks k \<equiv> (\<lambda>\<sigma> \<tau>. life_step ns clocks \<sigma> \<tau> \<and> fst \<tau> k \<noteq> None)\<^sup>*\<^sup>*"

lemma same_life_path:
  assumes "life_path ns clocks k \<sigma> \<tau>" "life_ok ns \<sigma>" "fst \<sigma> k = Some i"
  shows "life_ok ns \<tau> \<and> (\<exists>j. fst \<tau> k = Some j \<and> same_life i j)"
  using assms(1)
proof (induction rule: rtranclp_induct)
  case base
  with assms show ?case by simp
next
  case (step \<tau> \<upsilon>)
  then obtain j where j: "fst \<tau> k = Some j" "same_life i j" and ok: "life_ok ns \<tau>" by blast
  from step obtain l where l: "fst \<upsilon> k = Some l" by blast
  from step have s: "life_step ns clocks \<tau> \<upsilon>" by simp
  from same_life_step [OF s ok j(1) l] j(2) same_life_trans life_ok_step [OF s ok] l
  show ?case by blast
qed

text \<open>The backend's log only grows.\<close>

lemma events_step: "life_step ns clocks \<sigma> \<tau> \<Longrightarrow> \<exists>new. snd \<tau> = snd \<sigma> @ new"
  by (erule life_stepE) auto

lemma events_steps: "life_steps ns clocks \<sigma> \<tau> \<Longrightarrow> \<exists>new. snd \<tau> = snd \<sigma> @ new"
proof (induction rule: rtranclp_induct)
  case base
  show ?case by simp
next
  case (step \<tau> \<upsilon>)
  with events_step show ?case by (metis append_assoc)
qed

end
