(* ===== verification/Manager.thy ===== *)
theory Manager
  imports Watches Api_Server
begin

text \<open>
  \<open>cmd/manager/main.go\<close>: from the flags and the environment to the running program. What the
  manager of controller-runtime does with its options is not code of this repository: creating
  it, registering a controller or a health check with it are parameters that may fail. The
  program is the five reconcilers and the REST server it ends up with.
\<close>

section \<open>Flags\<close>

record manager_flags =
  mf_metrics_addr :: string
  mf_probe_addr :: string
  mf_leader_elect :: bool
  mf_secure_metrics :: bool
  mf_webhook_cert_path :: string
  mf_webhook_cert_name :: string
  mf_webhook_cert_key :: string
  mf_metrics_cert_path :: string
  mf_metrics_cert_name :: string
  mf_metrics_cert_key :: string
  mf_enable_http2 :: bool

text \<open>What the flags are when none is given.\<close>

definition defaultFlags :: manager_flags where
  "defaultFlags = \<lparr>mf_metrics_addr = ''0'', mf_probe_addr = '':8081'', mf_leader_elect = False,
     mf_secure_metrics = True,
     mf_webhook_cert_path = '''', mf_webhook_cert_name = ''tls.crt'', mf_webhook_cert_key = ''tls.key'',
     mf_metrics_cert_path = '''', mf_metrics_cert_name = ''tls.crt'', mf_metrics_cert_key = ''tls.key'',
     mf_enable_http2 = False\<rparr>"

section \<open>Options of the manager\<close>

text \<open>A TLS option is a function on the configuration, of which the code touches \<open>NextProtos\<close>.\<close>

record tls_config =
  tls_next_protos :: "string list"

definition disableHTTP2 :: "tls_config \<Rightarrow> tls_config" where
  "disableHTTP2 c = c\<lparr>tls_next_protos := [''http/1.1'']\<rparr>"

definition tlsOptions :: "manager_flags \<Rightarrow> (tls_config \<Rightarrow> tls_config) list" where
  "tlsOptions f = (if \<not> mf_enable_http2 f then [disableHTTP2] else [])"

record endpoint_options =
  eo_bind :: string
  eo_secure :: bool
  eo_tls :: "(tls_config \<Rightarrow> tls_config) list"
  eo_authenticated :: bool
  eo_cert_dir :: string
  eo_cert_name :: string
  eo_key_name :: string

definition webhookOptions :: "manager_flags \<Rightarrow> endpoint_options" where
  "webhookOptions f =
     (let o0 = \<lparr>eo_bind = '''', eo_secure = False, eo_tls = tlsOptions f, eo_authenticated = False,
        eo_cert_dir = '''', eo_cert_name = '''', eo_key_name = ''''\<rparr>
      in if 0 < length (mf_webhook_cert_path f)
         then o0\<lparr>eo_cert_dir := mf_webhook_cert_path f, eo_cert_name := mf_webhook_cert_name f,
                 eo_key_name := mf_webhook_cert_key f\<rparr>
         else o0)"

text \<open>\<open>eo_authenticated\<close>: \<open>FilterProvider\<close> is \<open>WithAuthenticationAndAuthorization\<close>.\<close>

definition metricsOptions :: "manager_flags \<Rightarrow> endpoint_options" where
  "metricsOptions f =
     (let o0 = \<lparr>eo_bind = mf_metrics_addr f, eo_secure = mf_secure_metrics f, eo_tls = tlsOptions f,
        eo_authenticated = False, eo_cert_dir = '''', eo_cert_name = '''', eo_key_name = ''''\<rparr>;
          o1 = (if mf_secure_metrics f then o0\<lparr>eo_authenticated := True\<rparr> else o0)
      in if 0 < length (mf_metrics_cert_path f)
         then o1\<lparr>eo_cert_dir := mf_metrics_cert_path f, eo_cert_name := mf_metrics_cert_name f,
                 eo_key_name := mf_metrics_cert_key f\<rparr>
         else o1)"

record manager_options =
  mo_metrics :: endpoint_options
  mo_webhook :: endpoint_options
  mo_probe :: string
  mo_leader_election :: bool
  mo_leader_id :: string

definition managerOptions :: "manager_flags \<Rightarrow> manager_options" where
  "managerOptions f = \<lparr>mo_metrics = metricsOptions f, mo_webhook = webhookOptions f,
     mo_probe = mf_probe_addr f, mo_leader_election = mf_leader_elect f, mo_leader_id = ''d8ccebf9.kimo.io''\<rparr>"

section \<open>The program\<close>

text \<open>A manager: its client, and what registering a controller or a check answers.\<close>

record 'w manager =
  mg_client :: "'w kube"
  mg_setup :: "watch_setup \<Rightarrow> go_error option"
  mg_healthz :: "go_error option"
  mg_readyz :: "go_error option"

record 'w kimo =
  km_template :: "'w template_reconciler"
  km_instance :: "'w instance_reconciler"
  km_set :: "'w set_reconciler"
  km_fence :: "'w fence_reconciler"
  km_lifecycle :: "'w lifecycle_reconciler"
  km_server :: "'w server"

text \<open>Exit status 1 after logging a message, or the program that starts to run.\<close>

datatype 'w startup = Exit1 string | Started "'w kimo"

definition backendName :: "(string \<Rightarrow> string) \<Rightarrow> string" where
  "backendName env = (if env ''KIMO_BACKEND'' = '''' then ''generic'' else env ''KIMO_BACKEND'')"

text \<open>The controllers, in the order they are set up.\<close>

definition controllerSetups :: "watch_setup list" where
  "controllerSetups = [templateSetup, instanceSetup, setSetup, fenceSetup, lifecycleSetup]"

definition buildKimo :: "'w kube \<Rightarrow> 'w backend \<Rightarrow> (nat \<Rightarrow> 'w \<Rightarrow> byte list \<times> 'w) \<Rightarrow> 'w kimo" where
  "buildKimo c backend rnd = \<lparr>km_template = \<lparr>tr_kube = c\<rparr>,
     km_instance = \<lparr>ir_kube = c, ir_backend = Some backend\<rparr>,
     km_set = \<lparr>sr_kube = c\<rparr>, km_fence = \<lparr>nr_kube = c\<rparr>,
     km_lifecycle = \<lparr>lr_kube = c, lr_backend = Some backend\<rparr>,
     km_server = NewServer c backend rnd\<rparr>"

definition main ::
  "(manager_options \<Rightarrow> go_error + 'w manager) \<Rightarrow> 'w registry \<Rightarrow> (string \<Rightarrow> string) \<Rightarrow> (string \<Rightarrow> string) \<Rightarrow>
     (nat \<Rightarrow> 'w \<Rightarrow> byte list \<times> 'w) \<Rightarrow> manager_flags \<Rightarrow> 'w startup" where
  "main new_manager reg quoted env rnd f =
     (case new_manager (managerOptions f) of
        Inl e \<Rightarrow> Exit1 ''Failed to start manager''
      | Inr mgr \<Rightarrow>
        (case New reg quoted (backendName env) (env ''KIMO_BACKEND_CONFIG'') of
           Inl e \<Rightarrow> Exit1 ''Failed to initialize scoring backend''
         | Inr backend \<Rightarrow>
             if find (\<lambda>c. mg_setup mgr c \<noteq> None) controllerSetups \<noteq> None then Exit1 ''Failed to create controller''
             else if mg_healthz mgr \<noteq> None then Exit1 ''Failed to set up health check''
             else if mg_readyz mgr \<noteq> None then Exit1 ''Failed to set up ready check''
             else Started (buildKimo (mg_client mgr) backend rnd)))"

end
