(* ===== verification/System.thy ===== *)
theory System
  imports Life_Spec Manager Pow_Props Samples
begin

text \<open>
  The program as a whole: the five reconcilers and the REST server of \<open>main\<close>, each acting on the
  same API server and the same scoring backend, in any order, with anything else happening in
  the cluster in between that leaves instances and the backend alone. A reconcile and a request
  are one step each. The program refines the machine of \<open>Life_Spec\<close>.
\<close>

section \<open>Frames of the other reconcilers\<close>

context template_controller
begin

lemma status_frame:
  assumes "k_status (kb_templates (tr_kube r)) x w = (res, w')"
  shows "cl_instances (view w') = cl_instances (view w) \<and> cl_sent (view w') = cl_sent (view w)"
proof (cases res)
  case (Inl e)
  with templates.status_failed assms show ?thesis by simp
next
  case (Inr y)
  with templates.status_done [of x w y w'] assms show ?thesis by auto
qed

lemma setTemplateStatus_frame:
  assumes "setTemplateStatus r tmpl ready msg w = (res, w')"
  shows "cl_instances (view w') = cl_instances (view w) \<and> cl_sent (view w') = cl_sent (view w)"
  using assms status_frame by (auto simp: setTemplateStatus_def split: sum.splits prod.splits)

lemma reconcile_frame:
  assumes run: "reconcileTemplate r k w = (res, w')"
  shows "cl_instances (view w') = cl_instances (view w) \<and> cl_sent (view w') = cl_sent (view w)"
proof (cases "k_get (kb_templates (tr_kube r)) k w" rule: result_cases)
  case (Err e w1)
  with run templates.get_view [OF Err] show ?thesis by (simp add: reconcileTemplate_def)
next
  case (Ok t w1)
  note v1 = templates.get_view [OF Ok]
  let ?sk = "(om_namespace (ct_meta t), ts_flag_secret (ct_spec t))"
  show ?thesis
  proof (cases "k_get (kb_secrets (tr_kube r)) ?sk w1" rule: result_cases)
    case (Err e w2)
    with run Ok setTemplateStatus_frame secrets.get_view [OF Err] v1 show ?thesis
      by (auto simp: reconcileTemplate_def split: if_splits)
  next
    case sec: (Ok x w2)
    note v2 = secrets.get_view [OF sec]
    let ?bad = "cs_image (ts_container (ct_spec t)) = '''' \<or> cs_restart (ts_container (ct_spec t)) \<notin> {RestartUnset, RestartAlways}"
    show ?thesis
    proof (cases ?bad)
      case True
      with run Ok sec obtain msg where "setTemplateStatus r t False msg w2 = (res, w')"
        by (auto simp: reconcileTemplate_def split: if_splits)
      with setTemplateStatus_frame v1 v2 show ?thesis by simp
    next
      case False
      show ?thesis
      proof (cases "k_list (kb_instances (tr_kube r))
          \<lparr>lo_namespace = None, lo_labels = [LabelChallenge \<mapsto> om_name (ct_meta t)]\<rparr> w2" rule: result_cases)
        case (Err e w3)
        with run Ok sec False instances.list_view [OF Err] v1 v2 show ?thesis
          by (simp add: reconcileTemplate_def)
      next
        case list: (Ok xs w3)
        obtain put w4 where p: "k_status (kb_templates (tr_kube r))
            (t\<lparr>ct_status := \<lparr>tst_ready = True, tst_count = int (length xs), tst_message = ''''\<rparr>\<rparr>) w3 = (put, w4)"
          by fastforce
        with run Ok sec False list have "w' = w4"
          by (auto simp: reconcileTemplate_def split: sum.splits)
        with status_frame [OF p] instances.list_view [OF list] v1 v2 show ?thesis by simp
      qed
    qed
  qed
qed

end

context set_controller
begin

lemma setSetStatus_frame:
  assumes "setSetStatus r s active msg after w = (res, w')"
  shows "cl_instances (view w') = cl_instances (view w) \<and> cl_sent (view w') = cl_sent (view w)"
proof (cases res)
  case (Inl e)
  with setSetStatus_failed assms show ?thesis by simp
next
  case (Inr x)
  with assms obtain y where
    "k_status (kb_sets (sr_kube r)) (s\<lparr>cset_status := (cset_status s)\<lparr>sst_active := active, sst_message := msg\<rparr>\<rparr>) w = (Inr y, w')"
    by (auto simp: setSetStatus_def split: sum.splits prod.splits)
  from sets.status_done [OF this] show ?thesis by auto
qed

lemma reconcile_frame:
  assumes run: "reconcileSet r k w = (res, w')"
  shows "cl_instances (view w') = cl_instances (view w) \<and> cl_sent (view w') = cl_sent (view w)"
proof (cases "k_get (kb_sets (sr_kube r)) k w" rule: result_cases)
  case (Err e w1)
  with run sets.get_view [OF Err] show ?thesis by (simp add: reconcileSet_def)
next
  case (Ok s w1)
  obtain now w2 where n: "kb_now (sr_kube r) w1 = (now, w2)" by fastforce
  note v = sets.get_view [OF Ok] now_view [OF n]
  have "\<exists>active msg after w3. setSetStatus r s active msg after w3 = (res, w') \<and> view w3 = view w"
    using run Ok n v by (auto simp: reconcileSet_def split: option.splits sum.splits if_splits)
  with setSetStatus_frame show ?thesis by metis
qed

end

section \<open>What the reconcilers of an instance do, as steps of the machine\<close>

definition life_of :: "cluster \<Rightarrow> life" where
  "life_of c = (cl_instances c, cl_sent c)"

lemma life_of_eq: "cl_instances c' = cl_instances c \<Longrightarrow> cl_sent c' = cl_sent c \<Longrightarrow> life_of c' = life_of c"
  by (simp add: life_of_def)

lemma trackEvents_transition:
  assumes "ci_status j = wire_instance_status (s\<lparr>st_phase := phase, st_reason := reason\<rparr>)"
  shows "transitionEvents (Some B) i phase j reason = trackEvents i j"
  using assms by (simp add: transitionEvents_def trackEvents_def split: option.split)

context instance_controller
begin

lemma transition_life:
  assumes run: "transition r i phase reason w1 = (Inr x, w')"
    and at: "view w1 = view w" "cl_instances (view w) k = Some i" "nsname_of (ci_meta i) = k"
    and live: "\<not> terminal (instance_phase_of i)" "phase \<in> instance_phases" "phase \<notin> running_phases"
    and told: "ir_backend r = Some B"
  shows "life_step ns clocks (life_of (view w)) (life_of (view w'))"
proof -
  from transition_done [OF run] at obtain j where same: "same_spec j i"
    and st: "ci_status j = wire_instance_status ((ci_status i)\<lparr>st_phase := phase, st_reason := reason\<rparr>)"
    and v: "view w' = (view w)\<lparr>cl_instances := (cl_instances (view w))(k \<mapsto> j),
         cl_sent := cl_sent (view w) @ transitionEvents (ir_backend r) i phase j reason\<rparr>"
    by auto
  have wr: "status_write i j" using same st by (simp add: status_write_def)
  from life_step.tracked [of "cl_instances (view w)" k i j, OF at(2) live(1) wr] live(2,3) st
  show ?thesis by (simp add: life_of_def v told trackEvents_transition [OF st])
qed

lemma reconcile_life:
  assumes run: "reconcileInstance r k w = (res, w')" and told: "ir_backend r = Some B"
  shows "life_step ns clocks (life_of (view w)) (life_of (view w'))"
proof (cases res)
  case (Inl e)
  with reconcile_failed run life_of_eq show ?thesis by (metis life_step.stutter)
next
  case (Inr x)
  note run' = run [unfolded Inr]
  show ?thesis
  proof (cases "cl_instances (view w) k")
    case None
    then have "cl_instances (view w') = cl_instances (view w) \<and> cl_sent (view w') = cl_sent (view w)"
    proof (cases "k_get (kb_instances (ir_kube r)) k w" rule: result_cases)
      case (Err e w1)
      with run instances.get_view [OF Err] show ?thesis by (auto simp: reconcileInstance_def split: if_splits)
    next
      case (Ok i w1)
      with instances.get_found [OF Ok] None show ?thesis by simp
    qed
    with life_of_eq show ?thesis by (metis life_step.stutter)
  next
    case (Some i)
    note k = instance_name [OF Some]
    show ?thesis
    proof (cases "terminal (instance_phase_of i)")
      case True
      with reconcile_branch [OF run' Some] show ?thesis by (simp add: life_step.stutter)
    next
      case live: False
      note move = transition_life [OF _ _ Some k live _ _ told]
      show ?thesis
      proof (cases "cl_templates (view w) (om_namespace (ci_meta i), is_template (ci_spec i))")
        case None
        with reconcile_branch [OF run' Some] live move show ?thesis
          by (auto simp: instance_phases_def running_phases_def)
      next
        case tmpl: (Some tmpl)
        show ?thesis
        proof (cases "tst_ready (ct_status tmpl)")
          case False
          with reconcile_branch [OF run' Some] live tmpl move show ?thesis
            by (auto simp: instance_phases_def running_phases_def)
        next
          case True
          with reconcile_branch [OF run' Some] live tmpl obtain w2 where
            ready: "reconcileReady r i tmpl w2 = (Inr x, w')" and v2: "view w2 = view w" by auto
          note other = instance_effectD(1) [OF reconcile_effect [OF run]]
          have step: ?thesis
            if "cl_instances (view w') k = Some j" "status_write i j" "instance_phase_of j \<in> instance_phases"
              "instance_phase_of j \<in> running_phases \<Longrightarrow> st_expires (ci_status j) \<noteq> None"
              "cl_sent (view w') = cl_sent (view w) @ trackEvents i j" for j
          proof -
            have "cl_instances (view w') = (cl_instances (view w))(k \<mapsto> j)"
              using other that(1) by (auto simp: fun_eq_iff)
            with life_step.tracked [of "cl_instances (view w)" k i j, OF Some live that(2-4)] that(5)
            show ?thesis by (simp add: life_of_def)
          qed
          show ?thesis
          proof (cases "expiryOf i tmpl 0 = None")
            case True
            from reconcileReady_bad_ttl [OF ready True] k v2 Some obtain j where
              j: "same_spec j i" "cl_instances (view w') k = Some j" "instance_phase_of j = InstancePhaseFailed"
                "wire_instance_status (ci_status j) = ci_status j" "st_endpoint (ci_status j) = st_endpoint (ci_status i)"
                "st_reason (ci_status j) = ''invalid TTL: '' @ ttlInForce i tmpl"
                "cl_sent (view w') = cl_sent (view w) @ transitionEvents (ir_backend r) i InstancePhaseFailed j
                   (''invalid TTL: '' @ ttlInForce i tmpl)" by auto
            have none: "st_expires (ci_status i) = None"
              using True by (auto simp: expiryOf_def split: option.splits)
            have "transitionEvents (Some B) i InstancePhaseFailed j (''invalid TTL: '' @ ttlInForce i tmpl) = trackEvents i j"
              by (simp add: transitionEvents_def trackEvents_def j)
            with step [of j] j none told show ?thesis
              by (simp add: status_write_def instance_phases_def running_phases_def)
          next
            case False
            from reconcileReady_done [OF ready False] k v2 Some obtain phase reason n now s t j where
              j: "(phase, reason, n) \<in> observations (view w) i tmpl" "expiryOf i tmpl now = Some (s, t)"
                "same_spec j i" "cl_instances (view w') k = Some j" "ci_status j = reconciledStatus i phase reason n s t"
                "cl_sent (view w') = cl_sent (view w) @ transitionEvents (ir_backend r) i phase j reason" by auto
            have wr: "status_write i j"
              using j(3) expiryOf_some [of i _ tmpl now] j(2)
              by (auto simp: status_write_def j(5) reconciledStatus_def)
            have "transitionEvents (Some B) i phase j reason = trackEvents i j"
              by (simp add: transitionEvents_def trackEvents_def j(5) reconciledStatus_def split: option.split)
            with step [of j] j wr told observations_phases [OF j(1)] show ?thesis
              by (simp add: reconciledStatus_def)
          qed
        qed
      qed
    qed
  qed
qed

end


context lifecycle_controller
begin

lemma reconcile_life:
  assumes run: "reconcileLifecycle r k w = (res, w')" and told: "lr_backend r = Some B"
  shows "life_step ns (clock_readings (lr_kube r)) (life_of (view w)) (life_of (view w'))"
proof (cases "view w' = view w")
  case True
  then show ?thesis by (simp add: life_step.stutter)
next
  case False
  with reconcile_missing [OF run] obtain i where i: "cl_instances (view w) k = Some i" by fastforce
  note k = instance_name [OF i]
  let ?now = "lifecycleClock r k w"
  have clk: "?now \<in> clock_readings (lr_kube r)" by (simp add: lifecycleClock_def clock_reading)
  from reconcile_step [OF run i] False obtain t w2 where t: "st_expires (ci_status i) = Some t"
    and live: "\<not> terminal (instance_phase_of i)" and v2: "view w2 = view w"
    and step: "lifecycleStep r i (time_sub t ?now) w2 = (res, w')"
    by (auto split: option.splits if_splits)
  have put: "\<exists>j. status_write i j \<and> instance_phase_of j = phase \<and>
      life_of (view w') = ((cl_instances (view w))(k \<mapsto> j), cl_sent (view w) @ [instanceEvent evt j (st_reason (ci_status j))])"
    if "notifyAndSetPhase r i phase reason evt after w2 = (res, w')" for phase reason evt after
  proof (cases res)
    case (Inl e)
    with notifyAndSetPhase_failed that v2 False show ?thesis by simp
  next
    case (Inr x)
    from notifyAndSetPhase_done [OF that [unfolded Inr]] k v2 i told obtain j where
      "same_spec j i" "ci_status j = wire_instance_status ((ci_status i)\<lparr>st_phase := phase, st_reason := reason\<rparr>)"
      "view w' = (view w)\<lparr>cl_instances := (cl_instances (view w))(k \<mapsto> j),
         cl_sent := cl_sent (view w) @ [instanceEvent evt j reason]\<rparr>"
      by auto
    then show ?thesis by (intro exI [of _ j]) (simp add: status_write_def life_of_def)
  qed
  show ?thesis
  proof (cases "t \<le> ?now")
    case True
    then have "time_sub t ?now \<le> 0" using time_sub_pos_iff [of t ?now] by linarith
    with step have "notifyAndSetPhase r i InstancePhaseExpired ''TTL expired'' EventExpired (seconds 60) w2 = (res, w')"
      by (simp add: lifecycleStep_def)
    from put [OF this] obtain j where j: "status_write i j" "instance_phase_of j = InstancePhaseExpired"
      "life_of (view w') = ((cl_instances (view w))(k \<mapsto> j), cl_sent (view w) @ [instanceEvent EventExpired j (st_reason (ci_status j))])"
      by blast
    from life_step.expired [of "cl_instances (view w)" k i j t ?now "clock_readings (lr_kube r)" ns "cl_sent (view w)",
      OF i live j(1,2) t clk True] j(3) show ?thesis by (simp add: life_of_def)
  next
    case later: False
    then have pos: "\<not> time_sub t ?now \<le> 0" using time_sub_pos_iff [of t ?now] by linarith
    show ?thesis
    proof (cases "time_sub t ?now \<le> expiringGraceWindow \<and> instance_phase_of i \<noteq> InstancePhaseExpiring")
      case True
      with step pos have "notifyAndSetPhase r i InstancePhaseExpiring ''entering expiry grace window'' EventExpiring
          (time_sub t ?now) w2 = (res, w')"
        by (simp add: lifecycleStep_def)
      from put [OF this] obtain j where j: "status_write i j" "instance_phase_of j = InstancePhaseExpiring"
        "life_of (view w') = ((cl_instances (view w))(k \<mapsto> j), cl_sent (view w) @ [instanceEvent EventExpiring j (st_reason (ci_status j))])"
        by blast
      have "t - ?now \<le> seconds 60"
        using True time_sub_le_iff [of "seconds 60" t ?now]
        by (simp add: expiringGraceWindow_def min_duration_def max_duration_def)
      with life_step.expiring [of "cl_instances (view w)" k i j t ?now "clock_readings (lr_kube r)" ns "cl_sent (view w)",
        OF i live j(1) _ j(2) t clk] True later j(3) show ?thesis by (simp add: life_of_def)
    next
      case False
      with step pos have "view w' = view w2" by (auto simp: lifecycleStep_def)
      with v2 \<open>view w' \<noteq> view w\<close> show ?thesis by simp
    qed
  qed
qed

end

lemma request_life:
  assumes "request_effect ns c c'"
  shows "life_step ns clocks (life_of c) (life_of c')"
  using assms
proof cases
  case nothing
  then show ?thesis by (simp add: life_step.stutter)
next
  case (created name body i)
  with life_step.created [of "cl_instances c" ns name body i] show ?thesis by (simp add: life_of_def)
next
  case (extended name i ttl d j)
  with life_step.extended [of "cl_instances c" ns name i ttl d j] show ?thesis by (simp add: life_of_def)
next
  case (deleted name)
  with life_step.deleted [of "cl_instances c" ns name] show ?thesis by (simp add: life_of_def)
qed

section \<open>The system\<close>

text \<open>
  One step of the running program, from the server and the world to those after it. \<open>outside\<close>
  is anything another client or controller of Kubernetes does, time passing included, as long as
  it leaves the instances alone and does not speak to the scoring backend for the program.
\<close>

inductive kimo_step :: "(string \<Rightarrow> string \<Rightarrow> string option) \<Rightarrow> 'w kimo \<Rightarrow> ('w \<Rightarrow> cluster) \<Rightarrow>
    'w server \<times> 'w \<Rightarrow> 'w server \<times> 'w \<Rightarrow> bool" for url_match P view where
  template: "reconcileTemplate (km_template P) k w = (res, w') \<Longrightarrow> kimo_step url_match P view (s, w) (s, w')"
| challenge: "reconcileInstance (km_instance P) k w = (res, w') \<Longrightarrow> kimo_step url_match P view (s, w) (s, w')"
| set: "reconcileSet (km_set P) k w = (res, w') \<Longrightarrow> kimo_step url_match P view (s, w) (s, w')"
| fence: "reconcileFence (km_fence P) k w = (res, w') \<Longrightarrow> kimo_step url_match P view (s, w) (s, w')"
| lifecycle: "reconcileLifecycle (km_lifecycle P) k w = (res, w') \<Longrightarrow> kimo_step url_match P view (s, w) (s, w')"
| request: "serve url_match s r w = (resp, s', w') \<Longrightarrow> kimo_step url_match P view (s, w) (s', w')"
| outside: "cl_instances (view w') = cl_instances (view w) \<Longrightarrow> cl_sent (view w') = cl_sent (view w) \<Longrightarrow>
    kimo_step url_match P view (s, w) (s, w')"



text \<open>The program that \<open>main\<close> starts, in surroundings that keep their contracts.\<close>

locale kimo_system = cluster_api c view + backend: scoring_backend B view
  for c :: "'w kube" and B :: "'w backend" and view :: "'w \<Rightarrow> cluster" +
  fixes rnd :: "nat \<Rightarrow> 'w \<Rightarrow> byte list \<times> 'w"
  assumes rnd_view: "rnd n w = (b, w') \<Longrightarrow> view w' = view w"
begin

text \<open>The server never changes but in its table of puzzles.\<close>

definition serving :: "'w server \<Rightarrow> bool" where
  "serving s \<longleftrightarrow> (\<exists>ps. s = (NewServer c B rnd)\<lparr>sv_puzzles := ps\<rparr>)"

lemma server_ok:
  assumes "serving s"
  shows "api_server s view" "sv_namespace s = ''default''"
  using assms rnd_view cluster_api_axioms backend.scoring_backend_axioms
  by (auto simp: serving_def NewServer_def intro!: api_server.intro api_server_axioms.intro)

lemma refines_step:
  assumes "kimo_step url_match (buildKimo c B rnd) view \<sigma> \<tau>" "serving (fst \<sigma>)"
  shows "serving (fst \<tau>) \<and>
    life_step ''default'' (clock_readings c) (life_of (view (snd \<sigma>))) (life_of (view (snd \<tau>)))"
proof -
  have ctrl: "controllers c view (Some B)"
    by (intro controllers.intro controllers_axioms.intro cluster_api_axioms) (use backend.scoring_backend_axioms in simp)
  have quiet: "life_step ''default'' (clock_readings c) (life_of c1) (life_of c2)"
    if "cl_instances c2 = cl_instances c1 \<and> cl_sent c2 = cl_sent c1" for c1 c2
    using that life_of_eq [of c2 c1] by (simp add: life_step.stutter)
  from assms(1) show ?thesis
  proof (cases rule: kimo_step.cases)
    case (template k w res w' s)
    with template_controller.reconcile_frame [of "\<lparr>tr_kube = c\<rparr>" view k w res w'] quiet assms(2) cluster_api_axioms
    show ?thesis by (simp add: template_controller_def buildKimo_def)
  next
    case (challenge k w res w' s)
    with instance_controller.reconcile_life [of "\<lparr>ir_kube = c, ir_backend = Some B\<rparr>" view k w res w' B] assms(2) ctrl
    show ?thesis by (simp add: instance_controller_def buildKimo_def)
  next
    case (set k w res w' s)
    with set_controller.reconcile_frame [of "\<lparr>sr_kube = c\<rparr>" view k w res w'] quiet assms(2) cluster_api_axioms
    show ?thesis by (simp add: set_controller_def buildKimo_def)
  next
    case (fence k w res w' s)
    then have "reconcileFence \<lparr>nr_kube = c\<rparr> k w = (res, w')" by (simp add: buildKimo_def)
    with fence_controller.reconcile_effect [of "\<lparr>nr_kube = c\<rparr>" view k w res w'] cluster_api_axioms
    have "cl_instances (view w') = cl_instances (view w) \<and> cl_sent (view w') = cl_sent (view w)"
      by (auto simp: fence_controller_def)
    with quiet fence assms(2) show ?thesis by simp
  next
    case (lifecycle k w res w' s)
    with lifecycle_controller.reconcile_life [of "\<lparr>lr_kube = c, lr_backend = Some B\<rparr>" view k w res w' B] assms(2) ctrl
    show ?thesis by (simp add: lifecycle_controller_def buildKimo_def)
  next
    case (request s r w resp s' w')
    with assms(2) have s: "serving s" by simp
    from api_server.serve_effect [OF server_ok(1) [OF s], OF request(3)] have
      eff: "request_effect (sv_namespace s) (view w) (view w')" and s': "s' = s\<lparr>sv_puzzles := sv_puzzles s'\<rparr>" by simp_all
    have "serving s'" using s s' unfolding serving_def by (metis server.surjective server.update_convs(5))
    with request_life [OF eff [unfolded server_ok(2) [OF s]]] request show ?thesis by simp
  next
    case (outside w' w s)
    with quiet assms(2) show ?thesis by simp
  qed
qed

end

end
