(* ===== verification/Hosting.thy ===== *)
theory Hosting
  imports Backend_Props Kube
begin

text \<open>
  One world for the whole program. The API server's client runs on one world and the scoring
  backend on another; \<open>kimo_world\<close> is the pair, and \<open>host_kube\<close> and \<open>host_backend\<close> run each on its
  part. It also records the events handed to the backend, which no code reads. Whatever client
  obeys \<open>cluster_api\<close> still does on the pair, and every backend whatsoever obeys
  \<open>scoring_backend\<close> there: in particular the two of this repository.
\<close>

record ('k, 'b) kimo_world =
  kw_cluster :: 'k
  kw_backend :: 'b
  kw_handed :: "event list"

definition on_cluster :: "('k \<Rightarrow> 'a \<times> 'k) \<Rightarrow> ('k, 'b) kimo_world \<Rightarrow> 'a \<times> ('k, 'b) kimo_world" where
  "on_cluster f w = (case f (kw_cluster w) of (x, c) \<Rightarrow> (x, w\<lparr>kw_cluster := c\<rparr>))"

definition on_backend :: "('b \<Rightarrow> 'a \<times> 'b) \<Rightarrow> ('k, 'b) kimo_world \<Rightarrow> 'a \<times> ('k, 'b) kimo_world" where
  "on_backend f w = (case f (kw_backend w) of (x, b) \<Rightarrow> (x, w\<lparr>kw_backend := b\<rparr>))"

definition host_kind :: "('k, 'o) kind_api \<Rightarrow> (('k, 'b) kimo_world, 'o) kind_api" where
  "host_kind K = \<lparr>k_get = (\<lambda>key. on_cluster (k_get K key)), k_list = (\<lambda>opts. on_cluster (k_list K opts)),
     k_create = (\<lambda>x. on_cluster (k_create K x)), k_update = (\<lambda>x. on_cluster (k_update K x)),
     k_status = (\<lambda>x. on_cluster (k_status K x)), k_delete = (\<lambda>key. on_cluster (k_delete K key))\<rparr>"

definition host_kube :: "'k kube \<Rightarrow> ('k, 'b) kimo_world kube" where
  "host_kube K = \<lparr>kb_templates = host_kind (kb_templates K), kb_instances = host_kind (kb_instances K),
     kb_sets = host_kind (kb_sets K), kb_fences = host_kind (kb_fences K),
     kb_deployments = host_kind (kb_deployments K), kb_services = host_kind (kb_services K),
     kb_policies = host_kind (kb_policies K), kb_pods = host_kind (kb_pods K),
     kb_secrets = host_kind (kb_secrets K), kb_set_ref = kb_set_ref K, kb_now = on_cluster (kb_now K)\<rparr>"

definition host_backend :: "'b backend \<Rightarrow> ('k, 'b) kimo_world backend" where
  "host_backend B = \<lparr>be_name = be_name B,
     be_notify = (\<lambda>ev w. on_backend (be_notify B ev) (w\<lparr>kw_handed := kw_handed w @ [ev]\<rparr>)),
     be_authenticate = (\<lambda>r. on_backend (be_authenticate B r)),
     be_registrar = map_option (\<lambda>f url secret. on_backend (f url secret)) (be_registrar B)\<rparr>"

definition host_factory :: "'b factory \<Rightarrow> ('k, 'b) kimo_world factory" where
  "host_factory f cfg = (case f cfg of Inl e \<Rightarrow> Inl e | Inr B \<Rightarrow> Inr (host_backend B))"

definition host_registry :: "'b registry \<Rightarrow> ('k, 'b) kimo_world registry" where
  "host_registry reg name = map_option host_factory (reg name)"

definition kimo_view :: "('k \<Rightarrow> cluster) \<Rightarrow> ('k, 'b) kimo_world \<Rightarrow> cluster" where
  "kimo_view view w = (view (kw_cluster w))\<lparr>cl_sent := kw_handed w\<rparr>"

section \<open>The client still obeys its laws\<close>

lemma host_kind_sel [simp]:
  "k_get (host_kind K) key = on_cluster (k_get K key)" "k_list (host_kind K) opts = on_cluster (k_list K opts)"
  "k_create (host_kind K) x = on_cluster (k_create K x)" "k_update (host_kind K) x = on_cluster (k_update K x)"
  "k_status (host_kind K) x = on_cluster (k_status K x)" "k_delete (host_kind K) key = on_cluster (k_delete K key)"
  by (simp_all add: host_kind_def)

lemma host_kube_sel [simp]:
  "kb_templates (host_kube K) = host_kind (kb_templates K)" "kb_instances (host_kube K) = host_kind (kb_instances K)"
  "kb_sets (host_kube K) = host_kind (kb_sets K)" "kb_fences (host_kube K) = host_kind (kb_fences K)"
  "kb_deployments (host_kube K) = host_kind (kb_deployments K)" "kb_services (host_kube K) = host_kind (kb_services K)"
  "kb_policies (host_kube K) = host_kind (kb_policies K)" "kb_pods (host_kube K) = host_kind (kb_pods K)"
  "kb_secrets (host_kube K) = host_kind (kb_secrets K)" "kb_set_ref (host_kube K) = kb_set_ref K"
  "kb_now (host_kube K) = on_cluster (kb_now K)"
  by (simp_all add: host_kube_def)

lemma on_clusterD:
  assumes "on_cluster f w = (x, w')"
  shows "f (kw_cluster w) = (x, kw_cluster w')" "kw_handed w' = kw_handed w" "kw_backend w' = kw_backend w"
  using assms by (auto simp: on_cluster_def split: prod.splits)

lemma on_backendD:
  assumes "on_backend f w = (x, w')"
  shows "f (kw_backend w) = (x, kw_backend w')" "kw_handed w' = kw_handed w" "kw_cluster w' = kw_cluster w"
  using assms by (auto simp: on_backend_def split: prod.splits)

lemma kimo_view_cong: "view (kw_cluster w') = view (kw_cluster w) \<Longrightarrow> kw_handed w' = kw_handed w \<Longrightarrow>
  kimo_view view w' = kimo_view view w"
  by (simp add: kimo_view_def)

context kind_store
begin

text \<open>What a kind's map and its update have to do with the events: nothing.\<close>

definition ignores_events :: bool where
  "ignores_events \<longleftrightarrow> (\<forall>c evs. sel (c\<lparr>cl_sent := evs\<rparr>) = sel c) \<and>
     (\<forall>m c evs. (upd m c)\<lparr>cl_sent := evs\<rparr> = upd m (c\<lparr>cl_sent := evs\<rparr>))"

lemma hosted_store:
  assumes ignores_events
  shows "kind_store (host_kind K :: (('w, 'v) kimo_world, 'o) kind_api) (kimo_view view) sel upd meta_of body_of status_of wire status0"
proof -
  have sel: "sel (kimo_view view w) = sel (view (kw_cluster w))" for w :: "('w, 'v) kimo_world"
    using assms by (simp add: ignores_events_def kimo_view_def)
  have upd: "kimo_view view w' = upd m (kimo_view view w)"
    if "view (kw_cluster w') = upd m (view (kw_cluster w))" "kw_handed w' = kw_handed w" for m and w w' :: "('w, 'v) kimo_world"
    using assms that by (simp add: ignores_events_def kimo_view_def)
  show ?thesis
  proof (unfold_locales, unfold host_kind_sel sel, goal_cases)
    case (1 w key x)
    then show ?case by (rule stored_name)
  next
    case (2 key w r w')
    note d = on_clusterD [OF 2]
    from get_view [OF d(1)] d(2) show ?case by (rule kimo_view_cong)
  next
    case (3 key w x w')
    then show ?case by (intro get_found) (rule on_clusterD(1))
  next
    case (4 key w e w')
    then show ?case by (intro get_missing) (rule on_clusterD(1))
  next
    case (5 opts w s w')
    note d = on_clusterD [OF 5]
    from list_view [OF d(1)] d(2) show ?case by (rule kimo_view_cong)
  next
    case (6 opts w xs w')
    from list_found [OF on_clusterD(1) [OF 6]] show ?case .
  next
    case (7 opts w xs w')
    from list_distinct [OF on_clusterD(1) [OF 7]] show ?case .
  next
    case (8 x w e w')
    note d = on_clusterD [OF 8]
    from create_failed [OF d(1)] d(2) show ?case by (rule kimo_view_cong)
  next
    case (9 x w e w')
    from create_exists [OF on_clusterD(1) [OF 9(1)] 9(2)] show ?case .
  next
    case (10 x w y w')
    note d = on_clusterD [OF 10]
    from create_done [OF d(1)] d(2) show ?case by (auto intro: upd)
  next
    case (11 x w e w')
    note d = on_clusterD [OF 11]
    from update_failed [OF d(1)] d(2) show ?case by (rule kimo_view_cong)
  next
    case (12 x w y w')
    note d = on_clusterD [OF 12]
    from update_done [OF d(1)] d(2) show ?case by (auto intro: upd)
  next
    case (13 x w e w')
    note d = on_clusterD [OF 13]
    from status_failed [OF d(1)] d(2) show ?case by (rule kimo_view_cong)
  next
    case (14 x w y w')
    note d = on_clusterD [OF 14]
    from status_done [OF d(1)] d(2) show ?case by (auto intro: upd)
  next
    case (15 key w e w')
    note d = on_clusterD [OF 15]
    from delete_failed [OF d(1)] d(2) show ?case by (rule kimo_view_cong)
  next
    case (16 key w e w')
    from delete_missing [OF on_clusterD(1) [OF 16(1)] 16(2)] show ?case .
  next
    case (17 key w u w')
    note d = on_clusterD [OF 17]
    from delete_done [OF d(1)] d(2) show ?case by (auto intro: upd)
  next
    case (18 m c)
    show ?case by (rule sel_upd)
  qed
qed

end

context cluster_api
begin

lemma hosted_cluster: "cluster_api (host_kube K) (kimo_view view)"
proof (intro cluster_api.intro cluster_api_axioms.intro, unfold host_kube_sel, goal_cases)
  case 1
  show ?case by (rule templates.hosted_store) (simp add: templates.ignores_events_def)
next
  case 2
  show ?case by (rule instances.hosted_store) (simp add: instances.ignores_events_def)
next
  case 3
  show ?case by (rule sets.hosted_store) (simp add: sets.ignores_events_def)
next
  case 4
  show ?case by (rule fences.hosted_store) (simp add: fences.ignores_events_def)
next
  case 5
  show ?case by (rule deployments.hosted_store) (simp add: deployments.ignores_events_def)
next
  case 6
  show ?case by (rule services.hosted_store) (simp add: services.ignores_events_def)
next
  case 7
  show ?case by (rule policies.hosted_store) (simp add: policies.ignores_events_def)
next
  case 8
  show ?case by (rule pods.hosted_store) (simp add: pods.ignores_events_def)
next
  case 9
  show ?case by (rule secrets.hosted_store) (simp add: secrets.ignores_events_def)
next
  case (10 w t w')
  note d = on_clusterD [OF 10]
  from now_view [OF d(1)] d(2) show ?case by (rule kimo_view_cong)
next
  case (11 kind owner m m')
  then show ?case by (rule set_ref_done)
qed

end

section \<open>Any backend keeps the contract\<close>

lemma host_backend_sel [simp]:
  "be_name (host_backend B) = be_name B"
  "be_notify (host_backend B) ev w = on_backend (be_notify B ev) (w\<lparr>kw_handed := kw_handed w @ [ev]\<rparr>)"
  "be_authenticate (host_backend B) r = on_backend (be_authenticate B r)"
  "be_registrar (host_backend B) = map_option (\<lambda>f url secret. on_backend (f url secret)) (be_registrar B)"
  by (simp_all add: host_backend_def)

lemma hosted_backend: "scoring_backend (host_backend B :: ('k, 'b) kimo_world backend) (kimo_view view)"
proof
  fix ev r and w w' :: "('k, 'b) kimo_world"
  assume "be_notify (host_backend B) ev w = (r, w')"
  with on_backendD [of "be_notify B ev" _ r w'] show
    "kimo_view view w' = (kimo_view view w)\<lparr>cl_sent := cl_sent (kimo_view view w) @ [ev]\<rparr>"
    by (simp add: kimo_view_def)
next
  fix req p and w w' :: "('k, 'b) kimo_world"
  assume "be_authenticate (host_backend B) req w = (p, w')"
  with on_backendD [of "be_authenticate B req" w p w'] show "kimo_view view w' = kimo_view view w"
    by (simp add: kimo_view_def)
next
  fix f url secret e and w w' :: "('k, 'b) kimo_world"
  assume "be_registrar (host_backend B) = Some f" "f url secret w = (e, w')"
  then obtain z where "on_backend (z url secret) w = (e, w')" by auto
  from on_backendD [OF this] show "kimo_view view w' = kimo_view view w" by (simp add: kimo_view_def)
qed

interpretation generic_hosted: scoring_backend "host_backend (genericBackend nw c)" "kimo_view view"
  by (rule hosted_backend)

interpretation ctfd_hosted: scoring_backend "host_backend (ctfdBackend nw c)" "kimo_view view"
  by (rule hosted_backend)

end
