(* ===== verification/System_Samples.thy ===== *)
theory System_Samples
  imports System Hosting Lifecycle_Props
begin

text \<open>
  A concrete run of the whole program, which the witnesses of its properties evaluate: \<open>main\<close>
  without a flag starts the generic backend, with an API key, on the client of \<open>Mem_Cluster\<close>;
  a team creates an instance through the REST API, the instance controller takes it to
  Creating, its hour passes, and the lifecycle controller finds it overdue.
\<close>

section \<open>The program\<close>

type_synonym smp_world = "(mem, exchanges backend_world) kimo_world"

definition sys_net :: "exchanges network" where
  "sys_net = smp_network (\<lambda>_. Inr \<lparr>hi_status = 200, hi_body = ''''\<rparr>)"

definition sys_manager :: "manager_options \<Rightarrow> go_error + smp_world manager" where
  "sys_manager opts = Inr \<lparr>mg_client = host_kube mem_kube, mg_setup = (\<lambda>_. None), mg_healthz = None, mg_readyz = None\<rparr>"

definition sys_rnd :: "nat \<Rightarrow> smp_world \<Rightarrow> byte list \<times> smp_world" where
  "sys_rnd n w = (replicate n 0, w)"

text \<open>\<open>{"apiKey":"key"}\<close>.\<close>

definition sys_config :: string where
  "sys_config = json_object [(''apiKey'', json_string ''key'')]"

definition sys_env :: "string \<Rightarrow> string" where
  "sys_env v = (if v = ''KIMO_BACKEND_CONFIG'' then sys_config else '''')"

definition sys_backend :: "smp_world backend" where
  "sys_backend = host_backend (genericBackend sys_net \<lparr>gc_api_key = ''key''\<rparr>)"

definition sys_kimo :: "smp_world kimo" where
  "sys_kimo = buildKimo (host_kube mem_kube) sys_backend sys_rnd"

abbreviation sys_main :: "smp_world startup" where
  "sys_main \<equiv> main sys_manager (host_registry (kimoRegistry sys_net)) (\<lambda>s. s) sys_env sys_rnd defaultFlags"

lemma sys_started: "sys_main = Started sys_kimo"
proof -
  have "find (\<lambda>c. (None :: go_error option) \<noteq> None) controllerSetups = None"
    by (simp add: find_None_iff)
  moreover have "newGenericBackend sys_net sys_config = Inr (genericBackend sys_net \<lparr>gc_api_key = ''key''\<rparr>)"
    unfolding sys_config_def by (rule configured_key) (rule valid_utf8_plain, simp add: plain_def byte_of_def)
  ultimately show ?thesis
    by (simp add: main_def sys_manager_def New_def host_registry_def host_factory_def backendName_def kimoRegistry_def
        Register_def sys_kimo_def sys_backend_def sys_env_def)
qed

interpretation sys: kimo_system "host_kube mem_kube" sys_backend "kimo_view mem_view" sys_rnd
  unfolding kimo_system_def kimo_system_axioms_def sys_backend_def
  using cluster_api.hosted_cluster [OF mem_api.cluster_api_axioms] hosted_backend by (auto simp: sys_rnd_def)

section \<open>The run\<close>

definition sys_template :: challenge_template where
  "sys_template = smp_template\<lparr>ct_meta := new_meta ''web'' ''default'' Map.empty\<rparr>"

definition sys_start :: smp_world where
  "sys_start = \<lparr>kw_cluster = smp_mem [sys_template] [] [], kw_backend = newBackendWorld [], kw_handed = []\<rparr>"

definition sys_create :: http_request where
  "sys_create = \<lparr>rq_method = ''POST'', rq_path = ''/api/v1/instances'', rq_query = (\<lambda>_. ''''),
     rq_header = (\<lambda>h. if h = ''Authorization'' then ''Bearer key'' else ''''),
     rq_body = json_object [(''template'', json_string ''web''), (''team'', json_string ''red'')]\<rparr>"

lemma sys_create_body: "json_first (rq_body sys_create) = Some (JObj [(''template'', JStr ''web''), (''team'', JStr ''red'')])"
  by code_simp

text \<open>Enough of chi for paths without a name.\<close>

definition sys_match :: "string \<Rightarrow> string \<Rightarrow> string option" where
  "sys_match pat path = (if pat = path then Some '''' else None)"

abbreviation sys_key :: nsname where
  "sys_key \<equiv> (''default'', ''web-red'')"

definition sys_created :: smp_world where
  "sys_created = snd (snd (serve sys_match (km_server sys_kimo) sys_create sys_start))"

definition sys_running :: smp_world where
  "sys_running = snd (reconcileInstance (km_instance sys_kimo) sys_key sys_created)"

text \<open>Two hours later.\<close>

definition sys_later :: smp_world where
  "sys_later = sys_running\<lparr>kw_cluster := (kw_cluster sys_running)\<lparr>mm_clock := 10 ^ 18 + 2 * 3600000000000\<rparr>\<rparr>"

definition sys_expired :: smp_world where
  "sys_expired = snd (reconcileLifecycle (km_lifecycle sys_kimo) sys_key sys_later)"

text \<open>No webhook is registered, so telling the backend only leaves its mark in \<open>kw_handed\<close>.\<close>

lemma sys_notify:
  assumes "evt_timestamp ev = zero_time" "kw_backend w = newBackendWorld []"
  shows "be_notify sys_backend ev w = (None, w\<lparr>kw_handed := kw_handed w @ [ev]\<rparr>)"
  using assms
  by (simp add: sys_backend_def host_backend_def genericBackend_def on_backend_def genericNotify_def newBackendWorld_def
      marshal_event_def marshal_zero_time sys_net_def smp_network_def Let_def)

lemma sys_authenticate:
  "rq_header r ''Authorization'' = ''Bearer key'' \<Longrightarrow>
   be_authenticate sys_backend r w = (Inr \<lparr>pr_subject = ''api-key'', pr_team = '''', pr_scopes = [''admin'']\<rparr>, w)"
  by (simp add: sys_backend_def host_backend_def genericBackend_def on_backend_def genericAuthenticate_def)

lemmas sys_eval = sys_kimo_def buildKimo_def host_kube_def host_kind_def on_cluster_def

lemma sys_create_decodes:
  "decode_body create_field create_request_zero (json_first (rq_body sys_create)) =
     Some \<lparr>crq_template = ''web'', crq_team = ''red'', crq_player = '''', crq_challenge = '''', crq_nonce = 0\<rparr>"
  by (simp add: sys_create_body create_field_def create_request_zero_def decode_eval)

lemma sys_served:
  "serve sys_match (km_server sys_kimo) sys_create sys_start =
   authMiddleware handleCreateInstance (km_server sys_kimo) '''' sys_create sys_start"
  by (simp add: serve_def sys_match_def setupRoutes_def sys_create_def)

definition sys_instance :: "nat \<Rightarrow> instance_status \<Rightarrow> challenge_instance" where
  "sys_instance rv st = \<lparr>ci_meta = (new_meta ''web-red'' ''default'' [LabelChallenge \<mapsto> ''web'', LabelTeam \<mapsto> ''red''])\<lparr>om_rv := rv\<rparr>,
     ci_spec = \<lparr>is_template = ''web'', is_team = ''red'', is_player = '''', is_ttl_override = ''''\<rparr>,
     ci_status = st\<rparr>"

lemma sys_header: "rq_header sys_create ''Authorization'' = ''Bearer key''"
  by (simp add: sys_create_def)

lemma sys_created_run:
  "serve sys_match (km_server sys_kimo) sys_create sys_start =
     (writeJSON 201 (JsonInstance (sys_instance 1 empty_instance_status)), km_server sys_kimo,
      sys_start\<lparr>kw_cluster := (smp_mem [sys_template] [sys_instance 1 empty_instance_status] [])\<lparr>mm_rv := 1\<rparr>\<rparr>)"
proof -
  have "sv_backend (km_server sys_kimo) = sys_backend" by (simp add: sys_kimo_def buildKimo_def NewServer_def)
  then have "serve sys_match (km_server sys_kimo) sys_create sys_start =
      handleCreateInstance (km_server sys_kimo) '''' sys_create sys_start"
    unfolding sys_served by (simp add: authMiddleware_def sys_authenticate [OF sys_header])
  then show ?thesis
    by (simp add: handleCreateInstance_def sys_create_decodes
      sys_eval NewServer_def createInstance_def newInstance_def instanceName_def sys_start_def
      mem_eval smp_defs sys_template_def sys_instance_def pow_required_def writeJSON_def Let_def)
qed

lemma sys_created:
  "sys_created = sys_start\<lparr>kw_cluster := (smp_mem [sys_template] [sys_instance 1 empty_instance_status] [])\<lparr>mm_rv := 1\<rparr>\<rparr>"
  by (simp add: sys_created_def sys_created_run)

definition sys_creating :: instance_status where
  "sys_creating = wire_instance_status \<lparr>st_phase = InstancePhaseCreating, st_reason = ''waiting for pod to be scheduled'',
     st_endpoint = '''', st_started = Some (10 ^ 18), st_expires = Some (10 ^ 18 + 3600000000000),
     st_pod_name = ''web-red'', st_unhealthy = 0, st_message = ''''\<rparr>"

lemma time_add_1h: "time_add (10 ^ 18) 3600000000000 = 10 ^ 18 + 3600000000000"
  by (simp add: time_add_def)

lemma sys_running_run:
  "\<exists>w. reconcileInstance (km_instance sys_kimo) sys_key sys_created = (Inr (requeue_in (seconds 15)), w) \<and>
    mm_instances (kw_cluster w) = [sys_instance 5 sys_creating] \<and> mm_rv (kw_cluster w) = 5 \<and>
    mm_faults (kw_cluster w) = [] \<and> kw_backend w = newBackendWorld [] \<and>
    kw_handed w = [instanceEvent EventCreating (sys_instance 5 sys_creating) ''waiting for pod to be scheduled'']"
  unfolding sys_created
  by (simp add: sys_eval instance_eval mem_eval smp_defs sys_start_def sys_template_def sys_instance_def parse_1h
    sys_notify time_add_1h [simplified] sys_creating_def Let_def instanceEvent_def)

lemma sys_running:
  "mm_instances (kw_cluster sys_running) = [sys_instance 5 sys_creating]" "mm_rv (kw_cluster sys_running) = 5"
  "mm_faults (kw_cluster sys_running) = []" "kw_backend sys_running = newBackendWorld []"
  "kw_handed sys_running = [instanceEvent EventCreating (sys_instance 5 sys_creating) ''waiting for pod to be scheduled'']"
  using sys_running_run by (auto simp: sys_running_def)

lemma sys_due:
  "sys_creating = \<lparr>st_phase = InstancePhaseCreating, st_reason = ''waiting for pod to be scheduled'',
     st_endpoint = '''', st_started = Some (10 ^ 18), st_expires = Some (10 ^ 18 + 3600000000000),
     st_pod_name = ''web-red'', st_unhealthy = 0, st_message = ''''\<rparr>"
  by (simp add: sys_creating_def wire_instance_status_def trunc_sec_def)

lemma sys_later:
  "mm_instances (kw_cluster sys_later) = [sys_instance 5 sys_creating]" "mm_rv (kw_cluster sys_later) = 5"
  "mm_faults (kw_cluster sys_later) = []" "kw_backend sys_later = newBackendWorld []"
  "mm_clock (kw_cluster sys_later) = 1000007200000000000"
  by (simp_all add: sys_later_def sys_running)

lemma sys_clock: "lifecycleClock (km_lifecycle sys_kimo) sys_key sys_later = 1000007200000000000"
  by (simp add: lifecycleClock_def sys_eval mem_eval sys_later sys_instance_def)

lemma sys_expired_run:
  "\<exists>w. reconcileLifecycle (km_lifecycle sys_kimo) sys_key sys_later = (Inr (requeue_in (seconds 60)), w)"
  by (simp add: lifecycle_eval sys_eval mem_eval sys_later sys_instance_def sys_due sys_notify instanceEvent_def
      time_sub_def min_duration_def max_duration_def Let_def)

text \<open>The cluster as the properties see it.\<close>

lemma sys_lookup:
  "cl_instances (kimo_view mem_view sys_start) = Map.empty" "kw_handed sys_start = []"
  "cl_sent (kimo_view mem_view sys_start) = []"
  "cl_instances (kimo_view mem_view sys_later) sys_key = Some (sys_instance 5 sys_creating)"
  "cl_instances (kimo_view mem_view sys_running) sys_key = Some (sys_instance 5 sys_creating)"
  by (simp_all add: kimo_view_def mem_view_def sys_start_def smp_mem_def mem_empty_def mem_find_def fun_eq_iff
      sys_later sys_running sys_instance_def nsname_of_def)

end
