(* ===== verification/System_Props.thy ===== *)
theory System_Props
  imports System_Samples
begin

text \<open>
  What holds of every run of the program, from \<open>main\<close> on: the refinement of the machine of
  instance lives, the invariants it brings, and what an instance keeps as long as it exists.
\<close>

section \<open>Runs\<close>

abbreviation kimo_steps where
  "kimo_steps url_match P view \<equiv> (kimo_step url_match P view)\<^sup>*\<^sup>*"

text \<open>A run along which the instance \<open>k\<close> is never missing.\<close>

abbreviation kimo_path where
  "kimo_path url_match P view k \<equiv>
     (\<lambda>\<sigma> \<tau>. kimo_step url_match P view \<sigma> \<tau> \<and> cl_instances (view (snd \<tau>)) k \<noteq> None)\<^sup>*\<^sup>*"

context kimo_system
begin

lemma serving_start: "serving (NewServer c B rnd)"
  unfolding serving_def by (rule exI [of _ Map.empty]) (simp add: NewServer_def)

lemma refines_steps:
  assumes "kimo_steps url_match (buildKimo c B rnd) view \<sigma> \<tau>" "serving (fst \<sigma>)"
  shows "serving (fst \<tau>) \<and>
    life_steps ''default'' (clock_readings c) (life_of (view (snd \<sigma>))) (life_of (view (snd \<tau>)))"
  using assms
proof (induction rule: rtranclp_induct)
  case base
  then show ?case by simp
next
  case (step \<tau> \<upsilon>)
  with refines_step show ?case by (meson rtranclp.rtrancl_into_rtrancl)
qed

lemma refines_path:
  assumes "kimo_path url_match (buildKimo c B rnd) view k \<sigma> \<tau>" "serving (fst \<sigma>)"
  shows "serving (fst \<tau>) \<and>
    life_path ''default'' (clock_readings c) k (life_of (view (snd \<sigma>))) (life_of (view (snd \<tau>)))"
  using assms
proof (induction rule: rtranclp_induct)
  case base
  then show ?case by simp
next
  case (step \<tau> \<upsilon>)
  then have s: "serving (fst \<tau>)"
    and p: "life_path ''default'' (clock_readings c) k (life_of (view (snd \<sigma>))) (life_of (view (snd \<tau>)))"
    by simp_all
  from step have one: "kimo_step url_match (buildKimo c B rnd) view \<tau> \<upsilon>" and there: "cl_instances (view (snd \<upsilon>)) k \<noteq> None"
    by simp_all
  from refines_step [OF one s] have s': "serving (fst \<upsilon>)"
    and l: "life_step ''default'' (clock_readings c) (life_of (view (snd \<tau>))) (life_of (view (snd \<upsilon>)))" by simp_all
  from there have "fst (life_of (view (snd \<upsilon>))) k \<noteq> None" by (simp add: life_of_def)
  with l have last: "life_step ''default'' (clock_readings c) (life_of (view (snd \<tau>))) (life_of (view (snd \<upsilon>))) \<and>
      fst (life_of (view (snd \<upsilon>))) k \<noteq> None" by simp
  have "life_path ''default'' (clock_readings c) k (life_of (view (snd \<sigma>))) (life_of (view (snd \<upsilon>)))"
    by (rule rtranclp.rtrancl_into_rtrancl, rule p, rule last)
  with s' show ?case by simp
qed

text \<open>From a cluster without instances, everything stored and everything told is well formed.\<close>

lemma reachable_ok:
  assumes "kimo_steps url_match (buildKimo c B rnd) view (NewServer c B rnd, w0) (s, w)"
    and "cl_instances (view w0) = Map.empty" "cl_sent (view w0) = []"
  shows "life_ok ''default'' (life_of (view w)) \<and> life_due (clock_readings c) (life_of (view w)) \<and> serving s"
proof -
  from refines_steps [OF assms(1)] serving_start have
    l: "life_steps ''default'' (clock_readings c) (life_of (view w0)) (life_of (view w))" and s: "serving s" by simp_all
  have "life_ok ''default'' (life_of (view w0))" "life_due (clock_readings c) (life_of (view w0))"
    using assms(2,3) by (simp_all add: life_ok_def life_due_def life_of_def)
  with life_ok_steps [OF l] life_due_steps [OF l] s show ?thesis by simp
qed

lemma reachable_path:
  assumes reach: "kimo_steps url_match (buildKimo c B rnd) view (NewServer c B rnd, w0) (s, w)"
    and start: "cl_instances (view w0) = Map.empty" "cl_sent (view w0) = []"
    and path: "kimo_path url_match (buildKimo c B rnd) view k (s, w) (s', w')"
    and i: "cl_instances (view w) k = Some i"
  shows "\<exists>j. cl_instances (view w') k = Some j \<and> same_life i j"
proof -
  from reachable_ok [OF reach start] have ok: "life_ok ''default'' (life_of (view w))" and s: "serving s" by simp_all
  from refines_path [OF path] s have
    p: "life_path ''default'' (clock_readings c) k (life_of (view w)) (life_of (view w'))" by simp
  from same_life_path [OF p ok] i show ?thesis by (simp add: life_of_def)
qed

end

section \<open>The program main starts\<close>

text \<open>
  C23: Whatever the flags and the environment, \<open>main\<close> exits with status 1 because a step of the
  startup failed, or none failed and it starts one program in which every reconciler and the
  server use the manager's client, and the two reconcilers that notify and the server that
  authenticates use one and the same backend: the one named by \<open>KIMO_BACKEND\<close>, generic when that is empty, built from \<open>KIMO_BACKEND_CONFIG\<close>. The
  server starts without puzzles. Unless the flag enables it, no endpoint speaks HTTP/2, and the
  metrics are served without authentication only with \<open>--metrics-secure=false\<close>.
\<close>

theorem main_starts_one_program:
  "(case main new_manager reg quoted env rnd f of
      Exit1 msg \<Rightarrow>
        (\<exists>e. new_manager (managerOptions f) = Inl e) \<or>
        (\<exists>e. New reg quoted (if env ''KIMO_BACKEND'' = '''' then ''generic'' else env ''KIMO_BACKEND'')
           (env ''KIMO_BACKEND_CONFIG'') = Inl e) \<or>
        (\<exists>mgr. new_manager (managerOptions f) = Inr mgr \<and>
           ((\<exists>c \<in> set controllerSetups. mg_setup mgr c \<noteq> None) \<or> mg_healthz mgr \<noteq> None \<or> mg_readyz mgr \<noteq> None))
    | Started P \<Rightarrow> \<exists>mgr backend. new_manager (managerOptions f) = Inr mgr \<and>
        (\<forall>c \<in> set controllerSetups. mg_setup mgr c = None) \<and> mg_healthz mgr = None \<and> mg_readyz mgr = None \<and>
        New reg quoted (if env ''KIMO_BACKEND'' = '''' then ''generic'' else env ''KIMO_BACKEND'')
          (env ''KIMO_BACKEND_CONFIG'') = Inr backend \<and>
        tr_kube (km_template P) = mg_client mgr \<and> ir_kube (km_instance P) = mg_client mgr \<and>
        sr_kube (km_set P) = mg_client mgr \<and> nr_kube (km_fence P) = mg_client mgr \<and>
        lr_kube (km_lifecycle P) = mg_client mgr \<and> sv_client (km_server P) = mg_client mgr \<and>
        ir_backend (km_instance P) = Some backend \<and> lr_backend (km_lifecycle P) = Some backend \<and>
        sv_backend (km_server P) = backend \<and> sv_puzzles (km_server P) = Map.empty) \<and>
   (\<not> mf_enable_http2 f \<longrightarrow>
      (\<forall>e \<in> {mo_metrics (managerOptions f), mo_webhook (managerOptions f)}.
         \<forall>t. tls_next_protos (fold (\<lambda>g. g) (eo_tls e) t) = [''http/1.1''])) \<and>
   (eo_authenticated (mo_metrics (managerOptions f)) \<longleftrightarrow> mf_secure_metrics f)"
  by (cases "new_manager (managerOptions f)"; cases "New reg quoted (backendName env) (env ''KIMO_BACKEND_CONFIG'')")
    (auto simp: main_def backendName_def buildKimo_def NewServer_def find_None_iff managerOptions_def metricsOptions_def
      webhookOptions_def tlsOptions_def disableHTTP2_def Let_def split: if_splits)

theorem main_starts_one_program_witness:
  "main sys_manager (host_registry (kimoRegistry sys_net)) (\<lambda>s. s) sys_env sys_rnd defaultFlags = Started sys_kimo \<and>
   ir_backend (km_instance sys_kimo) = lr_backend (km_lifecycle sys_kimo) \<and>
   eo_authenticated (mo_metrics (managerOptions defaultFlags)) \<and>
   tls_next_protos (fold (\<lambda>g. g) (eo_tls (mo_webhook (managerOptions defaultFlags))) \<lparr>tls_next_protos = [''h2'']\<rparr>) = [''http/1.1'']"
proof -
  have "\<not> mf_enable_http2 defaultFlags" "mf_secure_metrics defaultFlags" by (simp_all add: defaultFlags_def)
  with main_starts_one_program [where new_manager = sys_manager and reg = "host_registry (kimoRegistry sys_net)"
      and quoted = "\<lambda>s. s" and env = sys_env and rnd = sys_rnd and f = defaultFlags] sys_started
  show ?thesis by auto
qed

text \<open>The steps of the sample run.\<close>

lemma sys_steps:
  "kimo_steps sys_match sys_kimo (kimo_view mem_view) (km_server sys_kimo, sys_start) (km_server sys_kimo, sys_running)"
  "kimo_path sys_match sys_kimo (kimo_view mem_view) sys_key (km_server sys_kimo, sys_running) (km_server sys_kimo, sys_later)"
  "kimo_steps sys_match sys_kimo (kimo_view mem_view) (km_server sys_kimo, sys_start) (km_server sys_kimo, sys_later)"
proof -
  let ?step = "kimo_step sys_match sys_kimo (kimo_view mem_view)" and ?s = "km_server sys_kimo"
  have 1: "?step (?s, sys_start) (?s, sys_created)"
    by (rule kimo_step.request) (use sys_created_run sys_created in simp)
  have 2: "?step (?s, sys_created) (?s, sys_running)"
    by (rule kimo_step.challenge) (simp add: sys_running_def prod_eq_iff)
  have 3: "?step (?s, sys_running) (?s, sys_later)"
    by (rule kimo_step.outside) (simp_all add: sys_later_def kimo_view_def mem_view_def)
  from 1 2 show two: "?step\<^sup>*\<^sup>* (?s, sys_start) (?s, sys_running)" by (meson r_into_rtranclp rtranclp_trans)
  with 3 show "?step\<^sup>*\<^sup>* (?s, sys_start) (?s, sys_later)" by (meson r_into_rtranclp rtranclp_trans)
  show "kimo_path sys_match sys_kimo (kimo_view mem_view) sys_key (?s, sys_running) (?s, sys_later)"
    by (rule r_into_rtranclp) (use 3 sys_lookup(4) in simp)
qed

lemma sys_server: "km_server sys_kimo = NewServer (host_kube mem_kube) sys_backend sys_rnd"
  by (simp add: sys_kimo_def buildKimo_def)

section \<open>Refinement\<close>

text \<open>
  C2: Every run of the program, whatever its requests, reconciles, failed calls and outside
  changes, is a run of the machine of instance lives: nothing the five reconcilers and the
  server do to the instances and to the backend's log goes beyond creating, extending and
  deleting an instance, the status writes of a live instance and the events that go with them.
\<close>

theorem program_refines_life_machine:
  assumes sys: "kimo_system c B view rnd"
    and run: "kimo_steps url_match (buildKimo c B rnd) view (NewServer c B rnd, w) (s, w')"
  shows "life_steps ''default'' (clock_readings c) (life_of (view w)) (life_of (view w')) \<and>
    (\<exists>ps. s = (NewServer c B rnd)\<lparr>sv_puzzles := ps\<rparr>)"
  using kimo_system.refines_steps [OF sys, OF run] kimo_system.serving_start [OF sys]
  by (simp add: kimo_system.serving_def [OF sys])

theorem program_refines_life_machine_witness:
  "life_steps ''default'' (clock_readings (host_kube mem_kube :: smp_world kube))
     (Map.empty, []) (life_of (kimo_view mem_view sys_running)) \<and>
   fst (life_of (kimo_view mem_view sys_running)) sys_key = Some (sys_instance 5 sys_creating)"
proof -
  have "life_of (kimo_view mem_view sys_start) = (Map.empty, [])" using sys_lookup(1,3) by (simp add: life_of_def)
  with program_refines_life_machine [OF sys.kimo_system_axioms, folded sys_kimo_def, folded sys_server, OF sys_steps(1)]
    sys_lookup(5) show ?thesis by (simp add: life_of_def)
qed

section \<open>Invariants of the program main starts\<close>

lemma hosted_clock: "clock_readings (host_kube c) = clock_readings c"
proof -
  have "\<exists>w w'. kb_now (host_kube c) w = (t, w')" if "kb_now c k = (t, k')" for t k k'
  proof -
    have "kb_now (host_kube c) \<lparr>kw_cluster = k, kw_backend = undefined, kw_handed = []\<rparr> =
        (t, \<lparr>kw_cluster = k', kw_backend = undefined, kw_handed = []\<rparr>)"
      using that by (simp add: on_cluster_def)
    then show ?thesis by blast
  qed
  moreover have "\<exists>k k'. kb_now c k = (t, k')" if "kb_now (host_kube c) w = (t, w')"
    for t and w w' :: "('a, 'b) kimo_world"
    using that on_clusterD(1) [of "kb_now c" w t w'] by auto
  ultimately show ?thesis unfolding clock_readings_def by blast
qed

lemma started_system:
  assumes api: "cluster_api c view"
    and mgr: "new_manager (managerOptions f) = Inr mgr" "mg_client mgr = host_kube c"
    and started: "main new_manager (host_registry (kimoRegistry nw)) quoted env rnd f = Started P"
    and rnd: "\<forall>n w. kimo_view view (snd (rnd n w)) = kimo_view view w"
  shows "\<exists>B. P = buildKimo (host_kube c) B rnd \<and> kimo_system (host_kube c) B (kimo_view view) rnd"
proof -
  from started mgr obtain backend where
    b: "New (host_registry (kimoRegistry nw)) quoted (backendName env) (env ''KIMO_BACKEND_CONFIG'') = Inr backend"
    and P: "P = buildKimo (host_kube c) backend rnd"
    by (auto simp: main_def split: sum.splits if_splits)
  from b obtain B where "backend = host_backend B"
    by (auto simp: New_def host_registry_def host_factory_def split: option.splits sum.splits)
  then have "scoring_backend backend (kimo_view view)" using hosted_backend by simp
  moreover have "kimo_view view w' = kimo_view view w" if "rnd n w = (bs, w')" for n w bs w'
    using rnd that by (metis snd_conv)
  ultimately have "kimo_system (host_kube c) backend (kimo_view view) rnd"
    using cluster_api.hosted_cluster [OF api] by (simp add: kimo_system_def kimo_system_axioms_def)
  with P show ?thesis by blast
qed

lemma started_ok:
  assumes api: "cluster_api c view"
    and mgr: "new_manager (managerOptions f) = Inr mgr" "mg_client mgr = host_kube c"
    and started: "main new_manager (host_registry (kimoRegistry nw)) quoted env rnd f = Started P"
    and rnd: "\<forall>n w. kimo_view view (snd (rnd n w)) = kimo_view view w"
    and run: "kimo_steps url_match P (kimo_view view) (km_server P, w0) (s, w)"
    and start: "cl_instances (kimo_view view w0) = Map.empty" "kw_handed w0 = []"
  shows "life_ok ''default'' (cl_instances (kimo_view view w), kw_handed w) \<and>
    life_due (clock_readings c) (cl_instances (kimo_view view w), kw_handed w)"
proof -
  from started_system [OF api mgr started rnd] obtain B where P: "P = buildKimo (host_kube c) B rnd"
    and sys: "kimo_system (host_kube c) B (kimo_view view) rnd" by blast
  have sv: "km_server P = NewServer (host_kube c) B rnd" by (simp add: P buildKimo_def)
  have sent: "cl_sent (kimo_view view w) = kw_handed w" for w :: "('a, 'b backend_world) kimo_world"
    by (simp add: kimo_view_def)
  from kimo_system.reachable_ok [OF sys, OF run [unfolded sv, unfolded P] start(1)] start(2) sent
  show ?thesis by (simp add: life_of_def hosted_clock)
qed

text \<open>
  C5: In every state the program reaches from a cluster without instances, with either backend
  of this repository, whatever its network does: the name and labels of an instance are those
  its template, team and player give, an override parses, the phase is never Terminating, an
  instance has an expiry from Creating on, it is Expiring at most a minute before it and Expired
  not before it by a reading of the clock, and its endpoint is empty. So no event ever carries
  an endpoint, nor a time, and none is a deletion.
\<close>

theorem program_keeps_instances_well_formed:
  assumes api: "cluster_api c view"
    and mgr: "new_manager (managerOptions f) = Inr mgr" "mg_client mgr = host_kube c"
    and started: "main new_manager (host_registry (kimoRegistry nw)) quoted env rnd f = Started P"
    and rnd: "\<forall>n w. kimo_view view (snd (rnd n w)) = kimo_view view w"
    and run: "kimo_steps url_match P (kimo_view view) (km_server P, w0) (s, w)"
    and start: "cl_instances (kimo_view view w0) = Map.empty" "kw_handed w0 = []"
  shows "(\<forall>k i. cl_instances (kimo_view view w) k = Some i \<longrightarrow>
      instance_ok ''default'' k i \<and> not_early (clock_readings c) i) \<and>
    (\<forall>e \<in> set (kw_handed w). event_ok e)"
  using started_ok [OF assms] by (simp add: life_ok_def life_due_def)

theorem program_keeps_instances_well_formed_witness:
  "kw_handed sys_later = [instanceEvent EventCreating (sys_instance 5 sys_creating) ''waiting for pod to be scheduled''] \<and>
   instance_ok ''default'' sys_key (sys_instance 5 sys_creating) \<and> event_ok (hd (kw_handed sys_later))"
proof -
  have rnd: "\<forall>n w. kimo_view mem_view (snd (sys_rnd n w)) = kimo_view mem_view w" by (simp add: sys_rnd_def)
  have mgr: "sys_manager (managerOptions defaultFlags) =
      Inr \<lparr>mg_client = host_kube mem_kube, mg_setup = (\<lambda>_. None), mg_healthz = None, mg_readyz = None\<rparr>"
    by (simp add: sys_manager_def)
  from program_keeps_instances_well_formed [OF mem_api.cluster_api_axioms mgr _ sys_started rnd sys_steps(3) sys_lookup(1,2)]
    sys_lookup(4) sys_running(5) show ?thesis by (auto simp: sys_later_def)
qed

text \<open>
  C22: In every state the program reaches, a template, a team and a player have at most one
  instance. And not every three may have one: the name of an instance joins the parts with a
  dash, so three parts that join to the same text exclude each other. While a player has an
  instance, the team whose name is that of the player's team, a dash and the player's name can
  have none of that template, nor the player while that team has; and likewise when the dash is
  in the name of the template (template \<open>a\<close> for team \<open>b-c\<close>, template \<open>a-b\<close> for team \<open>c\<close>) or of a
  player (team \<open>a-b\<close> with player \<open>c\<close>, team \<open>a\<close> with player \<open>b-c\<close>).
\<close>

theorem one_instance_per_owner:
  assumes api: "cluster_api c view"
    and mgr: "new_manager (managerOptions f) = Inr mgr" "mg_client mgr = host_kube c"
    and started: "main new_manager (host_registry (kimoRegistry nw)) quoted env rnd f = Started P"
    and rnd: "\<forall>n w. kimo_view view (snd (rnd n w)) = kimo_view view w"
    and run: "kimo_steps url_match P (kimo_view view) (km_server P, w0) (s, w)"
    and start: "cl_instances (kimo_view view w0) = Map.empty" "kw_handed w0 = []"
    and two: "cl_instances (kimo_view view w) k = Some i" "cl_instances (kimo_view view w) l = Some j"
  shows "(instanceName (is_template (ci_spec i)) (is_team (ci_spec i)) (is_player (ci_spec i)) =
        instanceName (is_template (ci_spec j)) (is_team (ci_spec j)) (is_player (ci_spec j)) \<longrightarrow> k = l \<and> i = j) \<and>
    (is_template (ci_spec i) = is_template (ci_spec j) \<and> is_team (ci_spec i) = is_team (ci_spec j) \<and>
      is_player (ci_spec i) = is_player (ci_spec j) \<longrightarrow> k = l) \<and>
    (is_player (ci_spec i) \<noteq> '''' \<and> is_template (ci_spec i) = is_template (ci_spec j) \<longrightarrow>
      \<not> (is_team (ci_spec j) = is_team (ci_spec i) @ ''-'' @ is_player (ci_spec i) \<and> is_player (ci_spec j) = '''')) \<and>
    \<not> (\<exists>a b c. is_template (ci_spec i) = a \<and> is_team (ci_spec i) = b @ ''-'' @ c \<and>
         is_template (ci_spec j) = a @ ''-'' @ b \<and> is_team (ci_spec j) = c \<and> is_player (ci_spec i) = is_player (ci_spec j)) \<and>
    \<not> (\<exists>a b c. c \<noteq> '''' \<and> is_template (ci_spec i) = is_template (ci_spec j) \<and>
         is_team (ci_spec i) = a @ ''-'' @ b \<and> is_player (ci_spec i) = c \<and>
         is_team (ci_spec j) = a \<and> is_player (ci_spec j) = b @ ''-'' @ c)"
proof -
  from started_ok [OF api mgr started rnd run start] two have
    ok: "instance_ok ''default'' k i" "instance_ok ''default'' l j" by (cases k; cases l; simp add: life_ok_def)+
  then have key: "k = (''default'', instanceName (is_template (ci_spec i)) (is_team (ci_spec i)) (is_player (ci_spec i)))"
    "l = (''default'', instanceName (is_template (ci_spec j)) (is_team (ci_spec j)) (is_player (ci_spec j)))"
    by (simp_all add: instance_ok_def Let_def)
  let ?join = "\<lambda>x. instanceName (is_template (ci_spec x)) (is_team (ci_spec x)) (is_player (ci_spec x))"
  have same: "k = l \<and> i = j" if "?join i = ?join j" using key that two by simp
  have dash_in_player: "\<not> (is_player (ci_spec i) \<noteq> '''' \<and> is_template (ci_spec i) = is_template (ci_spec j) \<and>
      is_team (ci_spec j) = is_team (ci_spec i) @ ''-'' @ is_player (ci_spec i) \<and> is_player (ci_spec j) = '''')"
    using same by (auto simp: instanceName_def Let_def)
  have dash_in_template: "\<not> (is_template (ci_spec i) = a \<and> is_team (ci_spec i) = b @ ''-'' @ c \<and>
      is_template (ci_spec j) = a @ ''-'' @ b \<and> is_team (ci_spec j) = c \<and> is_player (ci_spec i) = is_player (ci_spec j))" for a b c
  proof
    assume *: "is_template (ci_spec i) = a \<and> is_team (ci_spec i) = b @ ''-'' @ c \<and>
      is_template (ci_spec j) = a @ ''-'' @ b \<and> is_team (ci_spec j) = c \<and> is_player (ci_spec i) = is_player (ci_spec j)"
    then have "?join i = ?join j" by (simp add: instanceName_def Let_def)
    with same have "i = j" by simp
    with * show False by auto
  qed
  have dash_between: "\<not> (c \<noteq> '''' \<and> is_template (ci_spec i) = is_template (ci_spec j) \<and> is_team (ci_spec i) = a @ ''-'' @ b \<and>
      is_player (ci_spec i) = c \<and> is_team (ci_spec j) = a \<and> is_player (ci_spec j) = b @ ''-'' @ c)" for a b c
  proof
    assume *: "c \<noteq> '''' \<and> is_template (ci_spec i) = is_template (ci_spec j) \<and> is_team (ci_spec i) = a @ ''-'' @ b \<and>
      is_player (ci_spec i) = c \<and> is_team (ci_spec j) = a \<and> is_player (ci_spec j) = b @ ''-'' @ c"
    then have "?join i = ?join j" by (simp add: instanceName_def Let_def)
    with same have "i = j" by simp
    with * show False by auto
  qed
  have owner: "k = l" if "is_template (ci_spec i) = is_template (ci_spec j)" "is_team (ci_spec i) = is_team (ci_spec j)"
      "is_player (ci_spec i) = is_player (ci_spec j)"
    using same that by simp
  from same owner dash_in_player dash_in_template dash_between show ?thesis by blast
qed

text \<open>The only instance of the sample run is that of its owner.\<close>

theorem one_instance_per_owner_witness:
  "{l. cl_instances (kimo_view mem_view sys_later) l = Some (sys_instance 5 sys_creating)} = {sys_key}"
proof -
  have rnd: "\<forall>n w. kimo_view mem_view (snd (sys_rnd n w)) = kimo_view mem_view w" by (simp add: sys_rnd_def)
  have mgr: "sys_manager (managerOptions defaultFlags) =
      Inr \<lparr>mg_client = host_kube mem_kube, mg_setup = (\<lambda>_. None), mg_healthz = None, mg_readyz = None\<rparr>"
    by (simp add: sys_manager_def)
  have client: "mg_client \<lparr>mg_client = host_kube mem_kube, mg_setup = (\<lambda>_. None), mg_healthz = None, mg_readyz = None\<rparr> =
      (host_kube mem_kube :: smp_world kube)" by simp
  have "l = sys_key" if "cl_instances (kimo_view mem_view sys_later) l = Some (sys_instance 5 sys_creating)" for l
    by (rule one_instance_per_owner [OF mem_api.cluster_api_axioms mgr client sys_started rnd sys_steps(3) sys_lookup(1,2)
          that sys_lookup(4), THEN conjunct1, THEN mp, THEN conjunct1]) (rule refl)
  with sys_lookup(4) show ?thesis by blast
qed

section \<open>As long as it exists\<close>

text \<open>
  C8: Once it has an expiry, an instance keeps it as long as it exists, through any requests to
  extend it and any reconciles; its name, labels, owner, template, team and player never
  change; and an Expired or Failed instance keeps its whole status.
\<close>

theorem instance_keeps_its_life:
  assumes sys: "kimo_system c B view rnd"
    and reach: "kimo_steps url_match (buildKimo c B rnd) view (NewServer c B rnd, w0) (s, w)"
    and start: "cl_instances (view w0) = Map.empty" "cl_sent (view w0) = []"
    and path: "kimo_path url_match (buildKimo c B rnd) view k (s, w) (s', w')"
    and i: "cl_instances (view w) k = Some i"
  shows "\<exists>j. cl_instances (view w') k = Some j \<and>
    user_meta (ci_meta j) = user_meta (ci_meta i) \<and>
    is_template (ci_spec j) = is_template (ci_spec i) \<and> is_team (ci_spec j) = is_team (ci_spec i) \<and>
    is_player (ci_spec j) = is_player (ci_spec i) \<and>
    (st_expires (ci_status i) \<noteq> None \<longrightarrow> st_expires (ci_status j) = st_expires (ci_status i)) \<and>
    (terminal (instance_phase_of i) \<longrightarrow> ci_status j = ci_status i)"
  using kimo_system.reachable_path [OF sys, OF reach start path i] by (simp add: same_life_def)

theorem instance_keeps_its_life_witness:
  "\<exists>j. cl_instances (kimo_view mem_view sys_later) sys_key = Some j \<and>
     st_expires (ci_status j) = Some (10 ^ 18 + 3600000000000)"
proof -
  have "st_expires (ci_status (sys_instance 5 sys_creating)) = Some (10 ^ 18 + 3600000000000)"
    by (simp add: sys_instance_def sys_due)
  with instance_keeps_its_life [OF sys.kimo_system_axioms, folded sys_kimo_def, folded sys_server,
      OF sys_steps(1) sys_lookup(1,3) sys_steps(2) sys_lookup(5)]
  show ?thesis by auto
qed

text \<open>
  C14: One successful reconcile of the lifecycle controller after its expiry, whenever it comes,
  is enough: the instance, unless it had failed, is Expired from then on, until it is deleted.
\<close>

theorem expired_for_good:
  assumes sys: "kimo_system c B view rnd"
    and reach: "kimo_steps url_match (buildKimo c B rnd) view (NewServer c B rnd, w0) (s, w)"
    and start: "cl_instances (view w0) = Map.empty" "cl_sent (view w0) = []"
    and i: "cl_instances (view w) k = Some i" "instance_phase_of i \<noteq> InstancePhaseFailed"
      "st_expires (ci_status i) = Some t"
    and look: "reconcileLifecycle (km_lifecycle (buildKimo c B rnd)) k w = (Inr res, w1)"
      "t \<le> lifecycleClock (km_lifecycle (buildKimo c B rnd)) k w"
    and path: "kimo_path url_match (buildKimo c B rnd) view k (s, w1) (s', w')"
  shows "\<exists>j. cl_instances (view w') k = Some j \<and> instance_phase_of j = InstancePhaseExpired"
proof -
  let ?r = "km_lifecycle (buildKimo c B rnd)"
  have ctrl: "lifecycle_controller ?r view"
    using sys unfolding kimo_system_def lifecycle_controller_def buildKimo_def
    by (auto intro!: controllers.intro controllers_axioms.intro)
  note k = lifecycle_controller.instance_name [OF ctrl, OF i(1)]
  have "\<exists>j. cl_instances (view w1) k = Some j \<and> instance_phase_of j = InstancePhaseExpired"
  proof (cases "terminal (instance_phase_of i)")
    case True
    with i have "instance_phase_of i = InstancePhaseExpired" by (auto simp: terminal_def)
    with lifecycle_controller.reconcile_terminal [OF ctrl, OF look(1) i(1) True] i(1) show ?thesis by simp
  next
    case False
    have due: "time_sub t (lifecycleClock ?r k w) \<le> 0" using look(2) time_sub_pos_iff [of t] by (metis linorder_not_le)
    from lifecycle_controller.reconcile_step [OF ctrl, OF look(1) i(1)] i(3) False obtain w2 where
      v: "view w2 = view w" and step: "lifecycleStep ?r i (time_sub t (lifecycleClock ?r k w)) w2 = (Inr res, w1)" by auto
    from lifecycle_controller.lifecycleStep_written [OF ctrl, OF step] due i(1) k v show ?thesis
      by (auto simp: phaseWritten_def)
  qed
  then obtain j where j: "cl_instances (view w1) k = Some j" "instance_phase_of j = InstancePhaseExpired" by blast
  have "kimo_step url_match (buildKimo c B rnd) view (s, w) (s, w1)" by (rule kimo_step.lifecycle) (rule look(1))
  with reach have reach1: "kimo_steps url_match (buildKimo c B rnd) view (NewServer c B rnd, w0) (s, w1)"
    by (rule rtranclp.rtrancl_into_rtrancl)
  from kimo_system.reachable_path [OF sys, OF reach1 start path j(1)] j(2) show ?thesis
    by (auto simp: same_life_def terminal_def)
qed

theorem expired_for_good_witness:
  "\<exists>j. cl_instances (kimo_view mem_view sys_expired) sys_key = Some j \<and> instance_phase_of j = InstancePhaseExpired"
proof -
  let ?i = "sys_instance 5 sys_creating"
  have i: "instance_phase_of ?i \<noteq> InstancePhaseFailed" "st_expires (ci_status ?i) = Some (10 ^ 18 + 3600000000000)"
    by (simp_all add: sys_instance_def sys_due)
  have look: "reconcileLifecycle (km_lifecycle sys_kimo) sys_key sys_later = (Inr (requeue_in (seconds 60)), sys_expired)"
    "10 ^ 18 + 3600000000000 \<le> lifecycleClock (km_lifecycle sys_kimo) sys_key sys_later"
    using sys_expired_run by (auto simp: sys_expired_def sys_clock)
  from expired_for_good [OF sys.kimo_system_axioms, folded sys_kimo_def, folded sys_server,
      OF sys_steps(3) sys_lookup(1,3,4) i look rtranclp.rtrancl_refl]
  show ?thesis .
qed

end
