(* ===== verification/Contention.thy ===== *)
theory Contention
  imports Manager Life_Spec
begin

text \<open>
  Contention: what the program does to the instances when others act between any two of its
  calls, its own other workers and replicas included, when its reads are stale, as those of an
  informer cache are, and when a call that reports an error may have taken effect. Nothing is
  assumed of the others. Of the API server only that a status update or an update is applied
  to the version it was made from, and that one version is one object.

  A world is observed through the history of the instances, the list of all changes so far,
  each marked as the program's own or not.
\<close>

section \<open>Histories\<close>

record revision =
  ch_own :: bool
  ch_key :: nsname
  ch_new :: "challenge_instance option"

definition own :: "nsname \<Rightarrow> challenge_instance option \<Rightarrow> revision" where
  "own key new = \<lparr>ch_own = True, ch_key = key, ch_new = new\<rparr>"

lemma own_sel [simp]: "ch_own (own key new)" "ch_key (own key new) = key" "ch_new (own key new) = new"
  by (simp_all add: own_def)

text \<open>The instances stored after a history.\<close>

definition table :: "revision list \<Rightarrow> nsname \<rightharpoonup> challenge_instance" where
  "table h = foldl (\<lambda>m c. m(ch_key c := ch_new c)) Map.empty h"

lemma table_Nil [simp]: "table [] k = None"
  by (simp add: table_def)

lemma table_snoc [simp]: "table (h @ [c]) k = (if k = ch_key c then ch_new c else table h k)"
  by (simp add: table_def)

lemma table_in:
  assumes "table h k = Some x"
  shows "\<exists>c \<in> set h. ch_key c = k \<and> ch_new c = Some x"
  using assms
proof (induction h rule: rev_induct)
  case Nil
  then show ?case by simp
next
  case (snoc c h)
  then show ?case by (cases "k = ch_key c") auto
qed

text \<open>An object is stored under its name, and objects of the same version are the same.\<close>

definition versions_ok :: "revision list \<Rightarrow> bool" where
  "versions_ok h \<longleftrightarrow>
     (\<forall>c \<in> set h. \<forall>x. ch_new c = Some x \<longrightarrow> nsname_of (ci_meta x) = ch_key c) \<and>
     (\<forall>c \<in> set h. \<forall>c' \<in> set h. \<forall>x x'. ch_new c = Some x \<longrightarrow> ch_new c' = Some x' \<longrightarrow>
        om_rv (ci_meta x) = om_rv (ci_meta x') \<longrightarrow> x = x')"

section \<open>What a change may do\<close>

text \<open>
  \<open>careful old new\<close>: a creation has an empty status; a write of the status is made on an instance
  that is not Expired or Failed and keeps what \<open>status_write\<close> says; any other write changes the
  override only, to one that parses. Deleting what is there is allowed.
\<close>

definition override_write :: "challenge_instance \<Rightarrow> challenge_instance \<Rightarrow> bool" where
  "override_write i j \<longleftrightarrow> user_meta (ci_meta j) = user_meta (ci_meta i) \<and> ci_status j = ci_status i \<and>
     (\<exists>ttl d. parse_duration ttl = Inr d \<and> ci_spec j = (ci_spec i)\<lparr>is_ttl_override := ttl\<rparr>)"

fun careful :: "challenge_instance option \<Rightarrow> challenge_instance option \<Rightarrow> bool" where
  "careful None None = False"
| "careful None (Some j) = (ci_status j = empty_instance_status)"
| "careful (Some i) None = True"
| "careful (Some i) (Some j) = (\<not> terminal (instance_phase_of i) \<and> status_write i j \<or> override_write i j)"

text \<open>All the changes that satisfy \<open>who\<close> are careful, when \<open>h\<close> continues with \<open>cs\<close>.\<close>

fun careful_from :: "(revision \<Rightarrow> bool) \<Rightarrow> revision list \<Rightarrow> revision list \<Rightarrow> bool" where
  "careful_from who h [] = True"
| "careful_from who h (c # cs) =
     ((who c \<longrightarrow> careful (table h (ch_key c)) (ch_new c)) \<and> careful_from who (h @ [c]) cs)"

lemma careful_from_append:
  "careful_from who h (cs @ ds) \<longleftrightarrow> careful_from who h cs \<and> careful_from who (h @ cs) ds"
  by (induction cs arbitrary: h) auto

lemma careful_from_none: "\<forall>c \<in> set cs. \<not> who c \<Longrightarrow> careful_from who h cs"
  by (induction cs arbitrary: h) auto

lemma careful_from_all:
  "careful_from (\<lambda>_. True) h cs \<longleftrightarrow> careful_from ch_own h cs \<and> careful_from (\<lambda>c. \<not> ch_own c) h cs"
  by (induction cs arbitrary: h) auto

text \<open>Careful changes do not touch the status of an instance that is Expired or Failed.\<close>

lemma careful_terminal:
  assumes "careful (Some i) (Some j)" "terminal (instance_phase_of i)"
  shows "ci_status j = ci_status i" "is_template (ci_spec j) = is_template (ci_spec i)"
    "is_team (ci_spec j) = is_team (ci_spec i)" "is_player (ci_spec j) = is_player (ci_spec i)"
  using assms by (auto simp: override_write_def)

definition deleted :: "revision list \<Rightarrow> nsname set" where
  "deleted cs = set (map ch_key (filter (\<lambda>c. ch_new c = None) cs))"

lemma careful_from_terminal:
  assumes "careful_from (\<lambda>_. True) h cs" "table h k = Some i" "terminal (instance_phase_of i)" "k \<notin> deleted cs"
  shows "\<exists>j. table (h @ cs) k = Some j \<and> ci_status j = ci_status i \<and>
    is_template (ci_spec j) = is_template (ci_spec i) \<and> is_team (ci_spec j) = is_team (ci_spec i) \<and>
    is_player (ci_spec j) = is_player (ci_spec i)"
  using assms
proof (induction cs arbitrary: h i)
  case Nil
  then show ?case by simp
next
  case (Cons c cs)
  have rest: "k \<notin> deleted cs" using Cons.prems(4) by (auto simp: deleted_def)
  show ?case
  proof (cases "ch_key c = k")
    case False
    with Cons.IH [of "h @ [c]" i] Cons.prems rest show ?thesis by simp
  next
    case True
    with Cons.prems(4) obtain j where j: "ch_new c = Some j" by (cases "ch_new c") (auto simp: deleted_def)
    with Cons.prems True have "careful (Some i) (Some j)" by simp
    note same = careful_terminal [OF this Cons.prems(3)]
    from True j have "table (h @ [c]) k = Some j" by simp
    with Cons.IH [of "h @ [c]" j] Cons.prems(1,3) same rest show ?thesis by simp
  qed
qed

section \<open>Others act\<close>

definition others_only :: "revision list \<Rightarrow> revision list \<Rightarrow> bool" where
  "others_only h h' \<longleftrightarrow> (\<exists>cs. h' = h @ cs \<and> (\<forall>c \<in> set cs. \<not> ch_own c))"

lemma others_only_refl [simp]: "others_only h h"
  by (simp add: others_only_def)

lemma others_only_trans [trans]: "others_only h g \<Longrightarrow> others_only g h' \<Longrightarrow> others_only h h'"
  by (auto simp: others_only_def)

lemma others_only_set: "others_only h h' \<Longrightarrow> set h \<subseteq> set h'"
  by (auto simp: others_only_def)

definition quiet :: "('w \<Rightarrow> revision list) \<Rightarrow> 'w \<Rightarrow> 'w \<Rightarrow> bool" where
  "quiet hist w w' \<longleftrightarrow> others_only (hist w) (hist w')"

lemma quiet_refl [simp]: "quiet hist w w"
  by (simp add: quiet_def)

lemma quiet_trans [trans]: "quiet hist w w1 \<Longrightarrow> quiet hist w1 w2 \<Longrightarrow> quiet hist w w2"
  unfolding quiet_def by (rule others_only_trans)

text \<open>The program makes one change, on an instance of which \<open>P\<close> holds at that moment.\<close>

definition commits :: "(challenge_instance option \<Rightarrow> bool) \<Rightarrow> nsname \<Rightarrow> challenge_instance option \<Rightarrow>
    revision list \<Rightarrow> revision list \<Rightarrow> bool" where
  "commits P key new h h' \<longleftrightarrow>
     (\<exists>g. others_only h g \<and> P (table g key) \<and> others_only (g @ [own key new]) h')"

lemma commits_mono: "commits P key new h h' \<Longrightarrow> (\<And>old. P old \<Longrightarrow> Q old) \<Longrightarrow> commits Q key new h h'"
  unfolding commits_def by blast

definition at_version :: "challenge_instance \<Rightarrow> (challenge_instance \<Rightarrow> bool) \<Rightarrow> challenge_instance option \<Rightarrow> bool" where
  "at_version x P stored \<longleftrightarrow> (\<exists>z. stored = Some z \<and> om_rv (ci_meta z) = om_rv (ci_meta x) \<and> P z)"

text \<open>
  At most one change of the program's own, one that \<open>Q\<close> allows: \<open>Q g key new\<close> is asked of the
  history \<open>g\<close> at the moment of the change.
\<close>

type_synonym allowance = "revision list \<Rightarrow> nsname \<Rightarrow> challenge_instance option \<Rightarrow> bool"

definition one_change :: "allowance \<Rightarrow> revision list \<Rightarrow> revision list \<Rightarrow> bool" where
  "one_change Q h h' \<longleftrightarrow> others_only h h' \<or>
     (\<exists>g key new. others_only h g \<and> Q g key new \<and> others_only (g @ [own key new]) h')"

lemma one_change_refl [simp]: "one_change Q h h"
  by (simp add: one_change_def)

lemma one_change_quiet: "others_only h g \<Longrightarrow> one_change Q g h' \<Longrightarrow> one_change Q h h'"
  unfolding one_change_def by (meson others_only_trans)

lemma one_change_then: "one_change Q h g \<Longrightarrow> others_only g h' \<Longrightarrow> one_change Q h h'"
  unfolding one_change_def by (meson others_only_trans)

lemma one_change_mono:
  assumes "one_change Q h h'" "\<And>g key new. others_only h g \<Longrightarrow> Q g key new \<Longrightarrow> R g key new"
  shows "one_change R h h'"
  using assms unfolding one_change_def by meson

lemma quiet_one: "quiet hist w w' \<Longrightarrow> one_change Q (hist w) (hist w')"
  by (simp add: quiet_def one_change_def)

lemma commits_one:
  assumes "commits P key new (hist w) (hist w')" "\<And>g. P (table g key) \<Longrightarrow> Q g key new"
  shows "one_change Q (hist w) (hist w')"
  using assms unfolding commits_def one_change_def by blast

text \<open>The one change is careful.\<close>

definition one_careful :: "revision list \<Rightarrow> revision list \<Rightarrow> bool" where
  "one_careful = one_change (\<lambda>g key new. careful (table g key) new)"

lemma one_careful_from:
  assumes "one_careful h h'"
  obtains cs where "h' = h @ cs" "careful_from ch_own h cs" "length (filter ch_own cs) \<le> 1"
proof -
  from assms consider "others_only h h'" | key new g where "others_only h g"
      "careful (table g key) new" "others_only (g @ [own key new]) h'"
    by (auto simp: one_careful_def one_change_def)
  then show thesis
  proof cases
    case 1
    then obtain cs where cs: "h' = h @ cs" "\<forall>c \<in> set cs. \<not> ch_own c" by (auto simp: others_only_def)
    with careful_from_none [OF cs(2)] show thesis by (intro that [of cs]) simp_all
  next
    case 2
    then obtain as bs where as: "g = h @ as" "\<forall>c \<in> set as. \<not> ch_own c"
      and bs: "h' = g @ [own key new] @ bs" "\<forall>c \<in> set bs. \<not> ch_own c"
      by (auto simp: others_only_def)
    have "careful_from ch_own h (as @ [own key new] @ bs)"
      using careful_from_none [OF as(2)] careful_from_none [OF bs(2)] 2(2) as(1)
      by (simp add: careful_from_append)
    with as bs show thesis by (intro that [of "as @ [own key new] @ bs"]) simp_all
  qed
qed

section \<open>What each change is made on\<close>

text \<open>
  \<open>read_then K hist w g k i\<close>: after the world was \<open>w\<close> and before its history was \<open>g\<close>, while
  the program changed nothing, a \<open>Get\<close> of \<open>k\<close> returned the instance \<open>i\<close>.
\<close>

definition read_then :: "'w kube \<Rightarrow> ('w \<Rightarrow> revision list) \<Rightarrow> 'w \<Rightarrow> revision list \<Rightarrow> nsname \<Rightarrow>
    challenge_instance \<Rightarrow> bool" where
  "read_then K hist w g k i \<longleftrightarrow> (\<exists>v v'. quiet hist w v \<and> k_get (kb_instances K) k v = (Inr i, v') \<and> others_only (hist v') g)"

lemma read_then_earlier: "read_then K hist w1 g k i \<Longrightarrow> quiet hist w w1 \<Longrightarrow> read_then K hist w g k i"
  unfolding read_then_def by (meson quiet_trans)

text \<open>
  The status of the instance read is written, on the very version that was read, which is still
  the stored one and neither Expired nor Failed.
\<close>

definition writes_status :: "nsname \<Rightarrow> challenge_instance \<Rightarrow> allowance" where
  "writes_status k i g key new \<longleftrightarrow> key = k \<and> table g k = Some i \<and> \<not> terminal (instance_phase_of i) \<and>
     (\<exists>j. new = Some j \<and> status_write i j)"

text \<open>Likewise for the override.\<close>

definition writes_override :: "nsname \<Rightarrow> challenge_instance \<Rightarrow> allowance" where
  "writes_override k i g key new \<longleftrightarrow> key = k \<and> table g k = Some i \<and> (\<exists>j. new = Some j \<and> override_write i j)"

text \<open>\<open>x\<close> is created under its name, free at that moment; an instance that is there is removed.\<close>

definition creates :: "challenge_instance \<Rightarrow> allowance" where
  "creates x g key new \<longleftrightarrow> key = nsname_of (ci_meta x) \<and> table g key = None \<and>
     (\<exists>j. new = Some j \<and> user_meta (ci_meta j) = user_meta (ci_meta x) \<and> ci_spec j = ci_spec x \<and>
        ci_status j = empty_instance_status)"

definition deletes :: "nsname \<Rightarrow> allowance" where
  "deletes k g key new \<longleftrightarrow> key = k \<and> table g k \<noteq> None \<and> new = None"

lemma allowances_careful:
  "writes_status k i g key new \<Longrightarrow> careful (table g key) new"
  "writes_override k i g key new \<Longrightarrow> careful (table g key) new"
  "creates x g key new \<Longrightarrow> careful (table g key) new"
  "deletes k g key new \<Longrightarrow> careful (table g key) new"
  by (auto simp: writes_status_def writes_override_def creates_def deletes_def)

lemma one_change_read:
  assumes "one_change (Q k i) (hist w1) h'" "quiet hist w w1" "k_get (kb_instances K) k w1' = (Inr i, w1)" "quiet hist w w1'"
  shows "one_change (\<lambda>g key new. read_then K hist w g k i \<and> Q k i g key new) (hist w) h'"
proof -
  have "one_change (\<lambda>g key new. read_then K hist w g k i \<and> Q k i g key new) (hist w1) h'"
    using assms(1) by (rule one_change_mono) (use assms(3,4) in \<open>auto simp: read_then_def\<close>)
  then show ?thesis by (rule one_change_quiet [OF assms(2) [unfolded quiet_def]])
qed

section \<open>The surroundings\<close>

text \<open>A kind of object no call on which changes an instance on the program's behalf.\<close>

locale quiet_kind =
  fixes A :: "('w, 'o) kind_api" and hist :: "'w \<Rightarrow> revision list"
  assumes quiet_get: "k_get A key w = (s, w') \<Longrightarrow> quiet hist w w'"
    and quiet_list: "k_list A opts w = (t, w') \<Longrightarrow> quiet hist w w'"
    and quiet_create: "k_create A x w = (r, w') \<Longrightarrow> quiet hist w w'"
    and quiet_update: "k_update A x w = (r, w') \<Longrightarrow> quiet hist w w'"
    and quiet_status: "k_status A x w = (r, w') \<Longrightarrow> quiet hist w w'"
    and quiet_delete: "k_delete A key w = (u, w') \<Longrightarrow> quiet hist w w'"
begin

lemma getOrCreate_quiet:
  assumes "getOrCreate A key x wrap w = (r, w')"
  shows "quiet hist w w'"
proof (cases "k_get A key w" rule: result_cases)
  case (Err e w1)
  obtain s w2 where c: "k_create A x w1 = (s, w2)" by fastforce
  note get = quiet_get [OF Err] and both = quiet_trans [OF quiet_get [OF Err] quiet_create [OF c]]
  from assms Err c have "w' = w1 \<or> w' = w2"
    by (auto simp: getOrCreate_def split: sum.splits if_splits)
  with get both show ?thesis by auto
next
  case (Ok y w1)
  with assms quiet_get [OF Ok] show ?thesis by (simp add: getOrCreate_def)
qed

end

text \<open>
  \<open>Get\<close> returns a version that was stored at some time. A call that writes either makes its
  change, whatever it returns, or makes none and reports an error.
\<close>

locale contended_instances =
  fixes I :: "('w, challenge_instance) kind_api" and hist :: "'w \<Rightarrow> revision list"
  assumes versions: "versions_ok (hist w)"
    and get_quiet: "k_get I key w = (r, w') \<Longrightarrow> quiet hist w w'"
    and get_stored: "k_get I key w = (Inr x, w') \<Longrightarrow> \<exists>c \<in> set (hist w'). ch_key c = key \<and> ch_new c = Some x"
    and list_quiet: "k_list I opts w = (t, w') \<Longrightarrow> quiet hist w w'"
    and create_commits: "k_create I x w = (r, w') \<Longrightarrow> quiet hist w w' \<and> (\<exists>e. r = Inl e) \<or>
      (\<exists>y. user_meta (ci_meta y) = user_meta (ci_meta x) \<and> ci_spec y = ci_spec x \<and> ci_status y = empty_instance_status \<and>
         commits (\<lambda>old. old = None) (nsname_of (ci_meta x)) (Some y) (hist w) (hist w'))"
    and update_commits: "k_update I x w = (r, w') \<Longrightarrow> quiet hist w w' \<and> (\<exists>e. r = Inl e) \<or>
      (\<exists>y. user_meta (ci_meta y) = user_meta (ci_meta x) \<and> ci_spec y = ci_spec x \<and>
         commits (at_version x (\<lambda>z. ci_status y = ci_status z)) (nsname_of (ci_meta x)) (Some y) (hist w) (hist w'))"
    and status_commits: "k_status I x w = (r, w') \<Longrightarrow> quiet hist w w' \<and> (\<exists>e. r = Inl e) \<or>
      (\<exists>y. ci_status y = wire_instance_status (ci_status x) \<and>
         commits (at_version x (\<lambda>z. same_spec y z)) (nsname_of (ci_meta x)) (Some y) (hist w) (hist w'))"
    and delete_commits: "k_delete I key w = (u, w') \<Longrightarrow> quiet hist w w' \<and> (\<exists>e. u = Inl e) \<or>
      commits (\<lambda>old. old \<noteq> None) key None (hist w) (hist w')"
begin

text \<open>The instance \<open>i\<close> has been stored at \<open>k\<close>.\<close>

definition seen :: "nsname \<Rightarrow> challenge_instance \<Rightarrow> 'w \<Rightarrow> bool" where
  "seen k i w \<longleftrightarrow> (\<exists>c \<in> set (hist w). ch_key c = k \<and> ch_new c = Some i)"

lemma seen_quiet: "seen k i w \<Longrightarrow> quiet hist w w' \<Longrightarrow> seen k i w'"
  unfolding seen_def quiet_def using others_only_set by blast

lemma seen_name: "seen k i w \<Longrightarrow> nsname_of (ci_meta i) = k"
  using versions [of w] unfolding seen_def versions_ok_def by auto

text \<open>
  The lemma everything rests on: a write made from an object that was read finds that very
  object, however much time has passed.
\<close>

lemma commit_finds_what_was_read:
  assumes seen: "seen k i w" and same: "ci_meta x = ci_meta i"
    and commit: "commits (at_version x P) (nsname_of (ci_meta x)) new (hist w) (hist w')"
  shows "commits (\<lambda>old. old = Some i \<and> P i) k new (hist w) (hist w')"
proof -
  have k: "nsname_of (ci_meta x) = k" using seen_name [OF seen] same by simp
  from commit obtain g z where g: "others_only (hist w) g" "others_only (g @ [own k new]) (hist w')"
    and z: "table g k = Some z" "om_rv (ci_meta z) = om_rv (ci_meta i)" "P z"
    unfolding commits_def at_version_def k unfolding same by blast
  have "set g \<subseteq> set (hist w')" using others_only_set [OF g(2)] by simp
  moreover have "set (hist w) \<subseteq> set g" by (rule others_only_set [OF g(1)])
  moreover from table_in [OF z(1)] obtain c where "c \<in> set g" "ch_new c = Some z" by blast
  moreover from seen obtain c' where "c' \<in> set (hist w)" "ch_new c' = Some i" by (auto simp: seen_def)
  ultimately have "z = i" using versions [of w'] z(2) unfolding versions_ok_def by blast
  with g z show ?thesis unfolding commits_def by blast
qed

lemma status_write_careful:
  assumes run: "k_status I x w = (r, w')" and read: "seen k i w" "\<not> terminal (instance_phase_of i)"
    and x: "ci_meta x = ci_meta i" "st_endpoint (ci_status x) = st_endpoint (ci_status i)"
      "\<And>t. st_expires (ci_status i) = Some t \<Longrightarrow> st_expires (ci_status x) = Some t"
  shows "one_change (writes_status k i) (hist w) (hist w')"
proof -
  from status_commits [OF run] consider "quiet hist w w'" | y where "ci_status y = wire_instance_status (ci_status x)"
      "commits (at_version x (\<lambda>z. same_spec y z)) (nsname_of (ci_meta x)) (Some y) (hist w) (hist w')"
    by blast
  then show ?thesis
  proof cases
    case 1
    then show ?thesis by (rule quiet_one)
  next
    case 2
    from commit_finds_what_was_read [OF read(1) x(1) 2(2)] show ?thesis
      by (rule commits_one) (use read(2) x 2(1) in \<open>auto simp: writes_status_def status_write_def\<close>)
  qed
qed

lemma override_write_careful:
  assumes run: "k_update I (i\<lparr>ci_spec := (ci_spec i)\<lparr>is_ttl_override := ttl\<rparr>\<rparr>) w = (r, w')"
    and read: "seen k i w" and ttl: "parse_duration ttl = Inr d"
  shows "one_change (writes_override k i) (hist w) (hist w')"
proof -
  let ?x = "i\<lparr>ci_spec := (ci_spec i)\<lparr>is_ttl_override := ttl\<rparr>\<rparr>"
  from update_commits [OF run] consider "quiet hist w w'" | y where
      "user_meta (ci_meta y) = user_meta (ci_meta i)" "ci_spec y = (ci_spec i)\<lparr>is_ttl_override := ttl\<rparr>"
      "commits (at_version ?x (\<lambda>z. ci_status y = ci_status z)) (nsname_of (ci_meta ?x)) (Some y) (hist w) (hist w')"
    by auto
  then show ?thesis
  proof cases
    case 1
    then show ?thesis by (rule quiet_one)
  next
    case 2
    have "ci_meta ?x = ci_meta i" by simp
    from commit_finds_what_was_read [OF read this 2(3)] show ?thesis
      by (rule commits_one) (use 2(1,2) ttl in \<open>auto simp: writes_override_def override_write_def\<close>)
  qed
qed

lemma create_careful:
  assumes "k_create I x w = (r, w')"
  shows "one_change (creates x) (hist w) (hist w')"
  using create_commits [OF assms]
proof (elim disjE exE conjE)
  fix y assume "commits (\<lambda>old. old = None) (nsname_of (ci_meta x)) (Some y) (hist w) (hist w')"
    and "ci_status y = empty_instance_status" "user_meta (ci_meta y) = user_meta (ci_meta x)" "ci_spec y = ci_spec x"
  then show ?thesis by (elim commits_one) (simp add: creates_def)
qed (simp add: quiet_one)

lemma delete_careful:
  assumes "k_delete I key w = (u, w')"
  shows "one_change (deletes key) (hist w) (hist w')"
  using delete_commits [OF assms]
proof (elim disjE exE conjE)
  assume "commits (\<lambda>old. old \<noteq> None) key None (hist w) (hist w')"
  then show ?thesis by (elim commits_one) (simp add: deletes_def)
qed (simp add: quiet_one)

end

end
