(* ===== verification/Contended.thy ===== *)
theory Contended
  imports Contention
begin

text \<open>
  Every operation of the program under contention: the five reconciles and each request make at
  most one change to the instances, of the kind that \<open>op_change\<close> allows them.
\<close>

section \<open>What the program is asked to do\<close>

text \<open>A key from the queue of one of the controllers, or a request.\<close>

datatype kimo_op =
    ReconcileTemplate nsname
  | ReconcileInstance nsname
  | ReconcileSet nsname
  | ReconcileFence nsname
  | ReconcileLifecycle nsname
  | Request http_request

fun perform :: "(string \<Rightarrow> string \<Rightarrow> string option) \<Rightarrow> 'w kimo \<Rightarrow> kimo_op \<Rightarrow>
    'w server \<times> 'w \<Rightarrow> 'w server \<times> 'w" where
  "perform url_match P (ReconcileTemplate k) (s, w) = (s, snd (reconcileTemplate (km_template P) k w))"
| "perform url_match P (ReconcileInstance k) (s, w) = (s, snd (reconcileInstance (km_instance P) k w))"
| "perform url_match P (ReconcileSet k) (s, w) = (s, snd (reconcileSet (km_set P) k w))"
| "perform url_match P (ReconcileFence k) (s, w) = (s, snd (reconcileFence (km_fence P) k w))"
| "perform url_match P (ReconcileLifecycle k) (s, w) = (s, snd (reconcileLifecycle (km_lifecycle P) k w))"
| "perform url_match P (Request r) (s, w) = snd (serve url_match s r w)"

definition performs :: "(string \<Rightarrow> string \<Rightarrow> string option) \<Rightarrow> 'w kimo \<Rightarrow> kimo_op list \<Rightarrow>
    'w server \<times> 'w \<Rightarrow> 'w server \<times> 'w" where
  "performs url_match P ops = fold (perform url_match P) ops"

section \<open>What each operation may change\<close>

text \<open>
  A POST may create the instance its body asks for, a PATCH may set the override of an instance
  it has read, a DELETE may remove one that is there, all in the namespace of the server.
\<close>

definition request_change :: "'w kube \<Rightarrow> ('w \<Rightarrow> revision list) \<Rightarrow> 'w server \<Rightarrow> http_request \<Rightarrow> 'w \<Rightarrow> allowance" where
  "request_change K hist s r w g key new \<longleftrightarrow>
     (rq_method r = ''POST'' \<and>
        (\<exists>body. decode_body create_field create_request_zero (json_first (rq_body r)) = Some body \<and> creates (newInstance s body) g key new)) \<or>
     (rq_method r = ''PATCH'' \<and>
        (\<exists>name i. read_then K hist w g (sv_namespace s, name) i \<and> writes_override (sv_namespace s, name) i g key new)) \<or>
     (rq_method r = ''DELETE'' \<and> (\<exists>name. deletes (sv_namespace s, name) g key new))"

text \<open>
  The instance and the lifecycle controller write the status of the instance whose key they were
  given, of the version they have read; the other controllers change no instance.
\<close>

definition reconcile_change :: "'w kube \<Rightarrow> ('w \<Rightarrow> revision list) \<Rightarrow> nsname \<Rightarrow> 'w \<Rightarrow> allowance" where
  "reconcile_change K hist k w g key new \<longleftrightarrow> (\<exists>i. read_then K hist w g k i \<and> writes_status k i g key new)"

fun op_change :: "'w kube \<Rightarrow> ('w \<Rightarrow> revision list) \<Rightarrow> kimo_op \<Rightarrow> 'w server \<times> 'w \<Rightarrow> allowance" where
  "op_change K hist (ReconcileInstance k) (s, w) = reconcile_change K hist k w"
| "op_change K hist (ReconcileLifecycle k) (s, w) = reconcile_change K hist k w"
| "op_change K hist (Request r) (s, w) = request_change K hist s r w"
| "op_change K hist (ReconcileTemplate k) (s, w) = (\<lambda>g key new. False)"
| "op_change K hist (ReconcileSet k) (s, w) = (\<lambda>g key new. False)"
| "op_change K hist (ReconcileFence k) (s, w) = (\<lambda>g key new. False)"

lemma op_change_careful: "op_change K hist op sw g key new \<Longrightarrow> careful (table g key) new"
  by (cases "(K, hist, op, sw)" rule: op_change.cases)
    (auto simp: reconcile_change_def request_change_def intro: allowances_careful)

section \<open>A contended cluster\<close>

text \<open>
  The API server, the scoring backend and the source of random bytes, any call on which gives
  others the time to act.
\<close>

locale contended_cluster =
  instances: contended_instances "kb_instances K" hist +
  templates: quiet_kind "kb_templates K" hist +
  sets: quiet_kind "kb_sets K" hist +
  fences: quiet_kind "kb_fences K" hist +
  deployments: quiet_kind "kb_deployments K" hist +
  services: quiet_kind "kb_services K" hist +
  policies: quiet_kind "kb_policies K" hist +
  pods: quiet_kind "kb_pods K" hist +
  secrets: quiet_kind "kb_secrets K" hist
  for K :: "'w kube" and hist :: "'w \<Rightarrow> revision list" +
  fixes B :: "'w backend" and rnd :: "nat \<Rightarrow> 'w \<Rightarrow> byte list \<times> 'w"
  assumes now_quiet: "kb_now K w = (t, w') \<Longrightarrow> quiet hist w w'"
    and notify_quiet: "be_notify B ev w = (e, w') \<Longrightarrow> quiet hist w w'"
    and authenticate_quiet: "be_authenticate B req w = (p, w') \<Longrightarrow> quiet hist w w'"
    and register_quiet: "be_registrar B = Some f \<Longrightarrow> f url secret w = (e, w') \<Longrightarrow> quiet hist w w'"
    and rnd_quiet: "rnd n w = (bs, w') \<Longrightarrow> quiet hist w w'"
begin

lemma notifyBackend_quiet: "quiet hist w (notifyBackend (Some B) ev w)"
  using notify_quiet [of ev w] by (cases "be_notify B ev w") (simp add: notifyBackend_def)

text \<open>\<open>x\<close> is \<open>i\<close> with another phase, and an expiry if \<open>i\<close> had none.\<close>

definition derived :: "challenge_instance \<Rightarrow> challenge_instance \<Rightarrow> bool" where
  "derived i x \<longleftrightarrow> ci_meta x = ci_meta i \<and> st_endpoint (ci_status x) = st_endpoint (ci_status i) \<and>
     (\<forall>t. st_expires (ci_status i) = Some t \<longrightarrow> st_expires (ci_status x) = Some t)"

lemma derived_refl [simp]: "derived i i"
  by (simp add: derived_def)

lemma derived_trans: "derived i x \<Longrightarrow> derived x y \<Longrightarrow> derived i y"
  by (simp add: derived_def)

lemma put_phase_careful:
  assumes run: "k_status (kb_instances K) (setPhase phase reason x) w = (r, w')"
    and read: "instances.seen k i w" "\<not> terminal (instance_phase_of i)" "derived i x"
  shows "one_change (writes_status k i) (hist w) (hist w')"
  using instances.status_write_careful [OF run read(1,2)] read(3) by (simp add: derived_def setPhase_def)

section \<open>The instance controller\<close>

abbreviation (input) ir :: "'w instance_reconciler" where
  "ir \<equiv> \<lparr>ir_kube = K, ir_backend = Some B\<rparr>"

lemma transition_careful:
  assumes run: "transition ir x phase reason w = (res, w')"
    and read: "instances.seen k i w" "\<not> terminal (instance_phase_of i)" "derived i x"
  shows "one_change (writes_status k i) (hist w) (hist w')"
proof -
  obtain put w1 where put: "k_status (kb_instances K) (setPhase phase reason x) w = (put, w1)" by fastforce
  note one = put_phase_careful [OF put read]
  have "quiet hist w1 w'"
    using run put notifyBackend_quiet
    by (cases put; cases "eventForPhase phase") (auto simp: transition_def Let_def split: if_splits)
  with one_change_then [OF one] show ?thesis by (simp add: quiet_def)
qed

lemma ensureWorkload_quiet:
  assumes run: "ensureWorkload ir inst tmpl w = (res, w')"
  shows "quiet hist w w'" "res = Inr x \<Longrightarrow> derived inst x"
proof -
  have "quiet hist w w' \<and> (\<forall>x. res = Inr x \<longrightarrow> derived inst x)"
  proof (cases "kb_set_ref K ''ChallengeInstance'' (ci_meta inst) (dp_meta (buildDeployment inst tmpl))")
    case (Inl e)
    with run show ?thesis by (auto simp: ensureWorkload_def Let_def)
  next
    case (Inr m)
    define dep where "dep = (buildDeployment inst tmpl)\<lparr>dp_meta := m\<rparr>"
    obtain eo w1 where g: "getOrCreate (kb_deployments K) (nsname_of (dp_meta dep)) dep (WrapErr ''creating deployment'') w = (eo, w1)"
      by fastforce
    note q1 = deployments.getOrCreate_quiet [OF g]
    show ?thesis
      using run Inr g q1 deployments.getOrCreate_quiet services.getOrCreate_quiet quiet_trans [OF q1]
      by (auto simp: ensureWorkload_def Let_def dep_def derived_def split: option.splits sum.splits prod.splits)
  qed
  then show "quiet hist w w'" "res = Inr x \<Longrightarrow> derived inst x" by simp_all
qed

lemma ensureNetworkFence_quiet:
  assumes "ensureNetworkFence ir inst tmpl w = (eo, w')"
  shows "quiet hist w w'"
  using assms fences.getOrCreate_quiet
  by (auto simp: ensureNetworkFence_def Let_def split: sum.splits)

lemma ensureExpiry_quiet:
  assumes "ensureExpiry ir inst tmpl w = (res, w')"
  shows "quiet hist w w'" "res = Inr x \<Longrightarrow> derived inst x"
  using assms now_quiet
  by (auto simp: ensureExpiry_def Let_def derived_def split: sum.splits prod.splits if_splits)

lemma determinePhase_quiet:
  assumes "determinePhase ir inst tmpl w = (res, w')"
  shows "quiet hist w w'" "res = Inr (phase, reason, x) \<Longrightarrow> derived inst x"
  using assms pods.quiet_list
  by (auto simp: determinePhase_def derived_def split: sum.splits prod.splits list.splits)

lemma reconcileReady_careful:
  assumes run: "reconcileReady ir i tmpl w = (res, w')"
    and read: "instances.seen k i w" "\<not> terminal (instance_phase_of i)"
  shows "one_change (writes_status k i) (hist w) (hist w')"
proof (cases "ensureWorkload ir i tmpl w" rule: result_cases)
  case (Err e w1)
  with run ensureWorkload_quiet(1) [OF Err] show ?thesis by (simp add: reconcileReady_def quiet_one)
next
  case (Ok i1 w1)
  note q1 = ensureWorkload_quiet(1) [OF Ok] and d1 = ensureWorkload_quiet(2) [OF Ok refl]
  obtain eo w2 where fence: "ensureNetworkFence ir i1 tmpl w1 = (eo, w2)" by fastforce
  note q2 = quiet_trans [OF q1 ensureNetworkFence_quiet [OF fence]]
  show ?thesis
  proof (cases eo)
    case (Some e)
    with run Ok fence q2 show ?thesis by (simp add: reconcileReady_def quiet_one)
  next
    case None
    have move: ?thesis if "transition ir x phase reason w3 = (res, w')" "quiet hist w w3" "derived i x"
      for x phase reason w3
      using transition_careful [OF that(1) instances.seen_quiet [OF read(1) that(2)] read(2) that(3)]
        one_change_quiet that(2) by (simp add: quiet_def)
    show ?thesis
    proof (cases "ensureExpiry ir i1 tmpl w2" rule: result_cases)
      case (Err e w3)
      with run Ok fence None have "transition ir i1 InstancePhaseFailed (err_text e) w3 = (res, w')"
        by (simp add: reconcileReady_def)
      from move [OF this quiet_trans [OF q2 ensureExpiry_quiet(1) [OF Err]] d1] show ?thesis .
    next
      case expiry: (Ok i2 w3)
      note q3 = quiet_trans [OF q2 ensureExpiry_quiet(1) [OF expiry]]
      note d2 = derived_trans [OF d1 ensureExpiry_quiet(2) [OF expiry refl]]
      show ?thesis
      proof (cases "determinePhase ir i2 tmpl w3" rule: result_cases)
        case (Err e w4)
        with run Ok fence None expiry quiet_trans [OF q3 determinePhase_quiet(1) [OF Err]] show ?thesis
          by (simp add: reconcileReady_def quiet_one)
      next
        case phase: (Ok y w4)
        obtain p reason i3 where y: "y = (p, reason, i3)" by (cases y)
        with run Ok fence None expiry phase have "transition ir i3 p reason w4 = (res, w')"
          by (simp add: reconcileReady_def)
        from move [OF this quiet_trans [OF q3 determinePhase_quiet(1) [OF phase]]]
        show ?thesis using derived_trans [OF d2 determinePhase_quiet(2) [OF phase]] y by simp
      qed
    qed
  qed
qed

text \<open>What follows the first \<open>Get\<close> of a reconcile, made at the very start.\<close>

lemma reconcile_changeI:
  assumes "k_get (kb_instances K) k w = (Inr i, w1)" "one_change (writes_status k i) (hist w1) (hist w')"
  shows "one_change (reconcile_change K hist k w) (hist w) (hist w')"
  using one_change_read [where Q = writes_status, OF assms(2) instances.get_quiet [OF assms(1)] assms(1) quiet_refl]
  by (rule one_change_mono) (auto simp: reconcile_change_def)

lemma reconcileInstance_careful:
  assumes run: "reconcileInstance ir k w = (res, w')"
  shows "one_change (reconcile_change K hist k w) (hist w) (hist w')"
proof (cases "k_get (kb_instances K) k w" rule: result_cases)
  case (Err e w1)
  with run instances.get_quiet [OF Err] show ?thesis by (simp add: reconcileInstance_def quiet_one)
next
  case (Ok i w1)
  have seen: "instances.seen k i w1" using instances.get_stored [OF Ok] by (simp add: instances.seen_def)
  show ?thesis
  proof (cases "terminal (instance_phase_of i)")
    case True
    with run Ok instances.get_quiet [OF Ok] show ?thesis by (simp add: reconcileInstance_def quiet_one)
  next
    case live: False
    obtain tr w2 where t: "k_get (kb_templates K) (om_namespace (ci_meta i), is_template (ci_spec i)) w1 = (tr, w2)"
      by fastforce
    note q2 = templates.quiet_get [OF t]
    have seen2: "instances.seen k i w2" by (rule instances.seen_quiet [OF seen q2])
    have later: ?thesis if "one_change (writes_status k i) (hist w2) (hist w')"
      by (rule reconcile_changeI [OF Ok one_change_quiet [OF q2 [unfolded quiet_def] that]])
    have move: ?thesis if "transition ir i phase reason w2 = (r, w')" for phase reason r
      by (rule later) (rule transition_careful [OF that seen2 live derived_refl])
    show ?thesis
    proof (cases tr)
      case (Inl e)
      with run Ok live t move quiet_trans [OF instances.get_quiet [OF Ok] q2] show ?thesis
        by (auto simp: reconcileInstance_def quiet_one split: if_splits)
    next
      case (Inr tmpl)
      show ?thesis
      proof (cases "tst_ready (ct_status tmpl)")
        case True
        with run Ok live t Inr have "reconcileReady ir i tmpl w2 = (res, w')" by (simp add: reconcileInstance_def)
        from later [OF reconcileReady_careful [OF this seen2 live]] show ?thesis .
      next
        case False
        obtain r w3 where tr: "transition ir i InstancePhasePending ''waiting for template to be ready'' w2 = (r, w3)"
          by fastforce
        with run Ok live t Inr False have "w' = w3" by (auto simp: reconcileInstance_def split: sum.splits)
        with move tr show ?thesis by blast
      qed
    qed
  qed
qed

section \<open>The lifecycle controller\<close>

lemma reconcileLifecycle_careful:
  assumes run: "reconcileLifecycle \<lparr>lr_kube = K, lr_backend = Some B\<rparr> k w = (res, w')"
  shows "one_change (reconcile_change K hist k w) (hist w) (hist w')"
proof (cases "k_get (kb_instances K) k w" rule: result_cases)
  case (Err e w1)
  with run instances.get_quiet [OF Err] show ?thesis by (simp add: reconcileLifecycle_def quiet_one)
next
  case (Ok i w1)
  note q1 = instances.get_quiet [OF Ok]
  have seen: "instances.seen k i w1" using instances.get_stored [OF Ok] by (simp add: instances.seen_def)
  obtain now w2 where n: "kb_now K w1 = (now, w2)" by fastforce
  note q2 = quiet_trans [OF q1 now_quiet [OF n]]
  show ?thesis
  proof (cases "st_expires (ci_status i) = None \<or> terminal (instance_phase_of i)")
    case True
    with run Ok q1 show ?thesis by (auto simp: reconcileLifecycle_def quiet_one split: option.splits)
  next
    case False
    then have live: "\<not> terminal (instance_phase_of i)" by simp
    note seen2 = instances.seen_quiet [OF seen now_quiet [OF n]]
    have put: ?thesis if "notifyAndSetPhase \<lparr>lr_kube = K, lr_backend = Some B\<rparr> i phase reason evt after w2 = (res, w')"
      for phase reason evt after
    proof -
      obtain r w3 where p: "k_status (kb_instances K) (setPhase phase reason i) w2 = (r, w3)" by fastforce
      note one = one_change_quiet [OF now_quiet [OF n, unfolded quiet_def] put_phase_careful [OF p seen2 live derived_refl]]
      have "quiet hist w3 w'"
        using that p notifyBackend_quiet by (cases r) (auto simp: notifyAndSetPhase_def)
      with reconcile_changeI [OF Ok one_change_then [OF one]] show ?thesis by (simp add: quiet_def)
    qed
    from run Ok n False obtain d where "lifecycleStep \<lparr>lr_kube = K, lr_backend = Some B\<rparr> i d w2 = (res, w')"
      by (auto simp: reconcileLifecycle_def)
    with put q2 show ?thesis by (auto simp: lifecycleStep_def quiet_one split: if_splits)
  qed
qed

section \<open>The other controllers\<close>

lemma reconcileTemplate_quiet:
  assumes run: "reconcileTemplate \<lparr>tr_kube = K\<rparr> k w = (res, w')"
  shows "quiet hist w w'"
proof (cases "k_get (kb_templates K) k w" rule: result_cases)
  case (Err e w1)
  with run templates.quiet_get [OF Err] show ?thesis by (simp add: reconcileTemplate_def)
next
  case (Ok t w1)
  note q1 = templates.quiet_get [OF Ok]
  obtain sr w2 where sec: "k_get (kb_secrets K) (om_namespace (ct_meta t), ts_flag_secret (ct_spec t)) w1 = (sr, w2)"
    by fastforce
  note q2 = quiet_trans [OF q1 secrets.quiet_get [OF sec]]
  obtain lr w3 where list: "k_list (kb_instances K)
      \<lparr>lo_namespace = None, lo_labels = [LabelChallenge \<mapsto> om_name (ct_meta t)]\<rparr> w2 = (lr, w3)" by fastforce
  note q3 = quiet_trans [OF q2 instances.list_quiet [OF list]]
  have "setTemplateStatus \<lparr>tr_kube = K\<rparr> tmpl ready msg w2 = (r, w') \<Longrightarrow> quiet hist w2 w'" for tmpl ready msg r
    using templates.quiet_status by (auto simp: setTemplateStatus_def split: sum.splits prod.splits)
  note bad = quiet_trans [OF q2 this]
  have "k_status (kb_templates K) x w3 = (r, w') \<Longrightarrow> quiet hist w w'" for x r
    by (rule quiet_trans [OF q3 templates.quiet_status])
  with run Ok sec list q2 q3 bad show ?thesis
    by (auto simp: reconcileTemplate_def split: sum.splits if_splits prod.splits)
qed

lemma reconcileSet_quiet:
  assumes run: "reconcileSet \<lparr>sr_kube = K\<rparr> k w = (res, w')"
  shows "quiet hist w w'"
proof (cases "k_get (kb_sets K) k w" rule: result_cases)
  case (Err e w1)
  with run sets.quiet_get [OF Err] show ?thesis by (simp add: reconcileSet_def)
next
  case (Ok s w1)
  note q1 = sets.quiet_get [OF Ok]
  obtain now w2 where n: "kb_now K w1 = (now, w2)" by fastforce
  note q2 = quiet_trans [OF q1 now_quiet [OF n]]
  have "\<exists>active msg after. setSetStatus \<lparr>sr_kube = K\<rparr> s active msg after w1 = (res, w') \<or>
      setSetStatus \<lparr>sr_kube = K\<rparr> s active msg after w2 = (res, w')"
    using run Ok n by (auto simp: reconcileSet_def split: option.splits sum.splits if_splits)
  moreover have "setSetStatus \<lparr>sr_kube = K\<rparr> s active msg after v = (res, w') \<Longrightarrow> quiet hist v w'"
    for active msg after v
    using sets.quiet_status by (auto simp: setSetStatus_def split: sum.splits prod.splits)
  ultimately show ?thesis using quiet_trans [OF q1] quiet_trans [OF q2] by blast
qed

lemma applyPolicy_quiet:
  assumes run: "applyPolicy \<lparr>nr_kube = K\<rparr> np w = (eo, w')"
  shows "quiet hist w w'"
proof -
  obtain r w1 where get: "k_get (kb_policies K) (nsname_of (np_meta np)) w = (r, w1)" by fastforce
  note q = policies.quiet_get [OF get]
  show ?thesis
    using run get q quiet_trans [OF q policies.quiet_create] quiet_trans [OF q policies.quiet_update]
    by (auto simp: applyPolicy_def Let_def split: sum.splits if_splits prod.splits)
qed

lemma reconcileFence_quiet:
  assumes run: "reconcileFence \<lparr>nr_kube = K\<rparr> k w = (res, w')"
  shows "quiet hist w w'"
proof (cases "k_get (kb_fences K) k w" rule: result_cases)
  case (Err e w1)
  with run fences.quiet_get [OF Err] show ?thesis by (simp add: reconcileFence_def)
next
  case (Ok f w1)
  note q1 = fences.quiet_get [OF Ok]
  show ?thesis
  proof (cases "kb_set_ref K ''NetworkFence'' (nf_meta f) (np_meta (buildNetworkPolicy f))")
    case (Inl e)
    with run Ok q1 show ?thesis by (simp add: reconcileFence_def Let_def)
  next
    case (Inr m)
    obtain eo w2 where a: "applyPolicy \<lparr>nr_kube = K\<rparr> ((buildNetworkPolicy f)\<lparr>np_meta := m\<rparr>) w1 = (eo, w2)" by fastforce
    note q2 = quiet_trans [OF q1 applyPolicy_quiet [OF a]]
    show ?thesis
      using run Ok Inr a q2 quiet_trans [OF q2 fences.quiet_status]
      by (auto simp: reconcileFence_def Let_def split: option.splits sum.splits prod.splits)
  qed
qed

section \<open>The REST server\<close>

definition serving :: "'w server \<Rightarrow> bool" where
  "serving s \<longleftrightarrow> sv_client s = K \<and> sv_backend s = B \<and> sv_rand s = rnd"

lemma serving_sel: "serving s \<Longrightarrow> sv_client s = K \<and> sv_backend s = B \<and> sv_rand s = rnd"
  by (simp add: serving_def)

lemma serving_puzzles [simp]: "serving (s\<lparr>sv_puzzles := ps\<rparr>) \<longleftrightarrow> serving s"
  by (simp add: serving_def)

text \<open>What the handler of a route for the method \<open>m\<close> may do.\<close>

definition sound_handler :: "string \<Rightarrow> 'w handler \<Rightarrow> bool" where
  "sound_handler m h \<longleftrightarrow> (\<forall>s name r w resp s' w'. serving s \<longrightarrow> rq_method r = m \<longrightarrow> h s name r w = (resp, s', w') \<longrightarrow>
     serving s' \<and> one_change (request_change K hist s r w) (hist w) (hist w'))"

lemma sound_handlerI:
  assumes "\<And>s name r w resp s' w'. serving s \<Longrightarrow> rq_method r = m \<Longrightarrow> h s name r w = (resp, s', w') \<Longrightarrow>
    serving s' \<and> one_change (request_change K hist s r w) (hist w) (hist w')"
  shows "sound_handler m h"
  using assms unfolding sound_handler_def by blast

lemma newInstance_puzzles [simp]: "newInstance (s\<lparr>sv_puzzles := ps\<rparr>) body = newInstance s body"
  by (simp add: newInstance_def)

lemma consumePoW_quiet:
  assumes run: "consumePoW s challenge nonce w = (ok, s', w')" and s: "serving s"
  shows "serving s'" "newInstance s' = newInstance s" "quiet hist w w'"
proof -
  have c: "sv_client s = K" using s by (simp add: serving_def)
  show "serving s'" "newInstance s' = newInstance s" "quiet hist w w'"
    using s run [unfolded consumePoW_def Let_def c] now_quiet
    by (auto split: option.splits prod.splits if_splits)
qed

lemma createInstance_careful:
  assumes run: "createInstance s body w = (resp, s', w')" and s: "serving s"
  shows "serving s' \<and> one_change (creates (newInstance s body)) (hist w) (hist w')"
proof -
  obtain r w1 where c: "k_create (kb_instances K) (newInstance s body) w = (r, w1)" by fastforce
  with run s have "w' = w1 \<and> s' = s"
    by (auto simp: createInstance_def serving_def split: sum.splits if_splits)
  with instances.create_careful [OF c] s show ?thesis by simp
qed

lemma handleCreateInstance_careful: "sound_handler ''POST'' handleCreateInstance"
proof (rule sound_handlerI)
  fix s name r w resp s' w'
  assume s: "serving s" and m: "rq_method r = ''POST''" and run: "handleCreateInstance s name r w = (resp, s', w')"
  show "serving s' \<and> one_change (request_change K hist s r w) (hist w) (hist w')"
  proof (cases "decode_body create_field create_request_zero (json_first (rq_body r))")
    case None
    with run s show ?thesis by (auto simp: handleCreateInstance_def)
  next
    case (Some body)
    obtain tr w1 where t: "k_get (kb_templates K) (sv_namespace s, crq_template body) w = (tr, w1)" by fastforce
    note q1 = templates.quiet_get [OF t]
    obtain ok s1 w2 where p: "consumePoW s (crq_challenge body) (crq_nonce body) w1 = (ok, s1, w2)" by (metis prod_cases3)
    note p' = consumePoW_quiet [OF p s]
    have create: ?thesis if "createInstance sa body wa = (resp, s', w')" "serving sa" "quiet hist w wa"
      "newInstance sa = newInstance s" for sa wa
    proof -
      from createInstance_careful [OF that(1,2)] that(4)
      have fin: "serving s'" "one_change (creates (newInstance s body)) (hist wa) (hist w')" by simp_all
      from fin(2) have "one_change (request_change K hist s r w) (hist wa) (hist w')"
        by (rule one_change_mono) (use m Some in \<open>auto simp: request_change_def\<close>)
      with fin(1) one_change_quiet that(3) show ?thesis by (auto simp: quiet_def)
    qed
    show ?thesis
      using run Some t p p' q1 s serving_sel [OF s] create quiet_trans [OF q1 p'(3)]
      by (auto simp: handleCreateInstance_def quiet_one split: if_splits sum.splits)
  qed
qed

lemma handleExtendInstance_careful: "sound_handler ''PATCH'' handleExtendInstance"
proof (rule sound_handlerI)
  fix s name r w resp s' w'
  assume s: "serving s" and m: "rq_method r = ''PATCH''" and run: "handleExtendInstance s name r w = (resp, s', w')"
  show "serving s' \<and> one_change (request_change K hist s r w) (hist w) (hist w')"
  proof (cases "decode_body extend_field \<lparr>erq_ttl = ''''\<rparr> (json_first (rq_body r))")
    case None
    with run s show ?thesis by (auto simp: handleExtendInstance_def)
  next
    case (Some body)
    show ?thesis
    proof (cases "parse_duration (erq_ttl body)")
      case (Inl e)
      with run Some s show ?thesis by (auto simp: handleExtendInstance_def)
    next
      case (Inr d)
      show ?thesis
      proof (cases "k_get (kb_instances K) (sv_namespace s, name) w" rule: result_cases)
        case (Err e w1)
        with run Some Inr instances.get_quiet [OF Err] s serving_sel [OF s] show ?thesis
          by (auto simp: handleExtendInstance_def quiet_one split: if_splits)
      next
        case (Ok i w1)
        have seen: "instances.seen (sv_namespace s, name) i w1"
          using instances.get_stored [OF Ok] by (simp add: instances.seen_def)
        obtain ur w2 where u: "k_update (kb_instances K)
            (i\<lparr>ci_spec := (ci_spec i)\<lparr>is_ttl_override := erq_ttl body\<rparr>\<rparr>) w1 = (ur, w2)" by fastforce
        have "one_change (request_change K hist s r w) (hist w) (hist w2)"
          using one_change_read [where Q = writes_override, OF instances.override_write_careful [OF u seen Inr]
              instances.get_quiet [OF Ok] Ok quiet_refl]
          by (rule one_change_mono) (use m in \<open>auto simp: request_change_def\<close>)
        moreover from run Some Inr Ok u serving_sel [OF s] have "s' = s \<and> w' = w2"
          by (auto simp: handleExtendInstance_def split: sum.splits)
        ultimately show ?thesis using s by simp
      qed
    qed
  qed
qed

lemma handleDeleteInstance_careful: "sound_handler ''DELETE'' handleDeleteInstance"
proof (rule sound_handlerI)
  fix s name r w resp s' w'
  assume s: "serving s" and m: "rq_method r = ''DELETE''" and run: "handleDeleteInstance s name r w = (resp, s', w')"
  obtain dr w1 where d: "k_delete (kb_instances K) (sv_namespace s, name) w = (dr, w1)" by fastforce
  with run serving_sel [OF s] have same: "s' = s \<and> w' = w1"
    by (auto simp: handleDeleteInstance_def split: sum.splits if_splits)
  have "one_change (request_change K hist s r w) (hist w) (hist w1)"
    using instances.delete_careful [OF d] by (rule one_change_mono) (use m in \<open>auto simp: request_change_def\<close>)
  with same s show "serving s' \<and> one_change (request_change K hist s r w) (hist w) (hist w')" by simp
qed

text \<open>The handlers that only read.\<close>

lemma reading_handlers:
  "sound_handler m handleHealth" "sound_handler m handleListTemplates" "sound_handler m handleGetTemplate"
  "sound_handler m handleListInstances" "sound_handler m handleGetInstance"
  by (rule sound_handlerI; auto simp: handleHealth_def handleListTemplates_def handleGetTemplate_def handleListInstances_def
      handleGetInstance_def Let_def serving_def
      intro: quiet_one templates.quiet_list templates.quiet_get instances.list_quiet instances.get_quiet
      split: sum.splits prod.splits if_splits)+

lemma handlePoWChallenge_careful: "sound_handler m handlePoWChallenge"
proof (rule sound_handlerI)
  fix s name r w resp s' w'
  assume s: "serving s" and m: "rq_method r = m" and run: "handlePoWChallenge s name r w = (resp, s', w')"
  obtain tr w1 where t: "k_get (kb_templates K) (sv_namespace s, rq_query r ''template'') w = (tr, w1)" by fastforce
  note q1 = templates.quiet_get [OF t]
  have puzzle: "quiet hist w w2" if "GeneratePoWPuzzle rnd (kb_now K) d w1 = (p, w2)" for d p w2
  proof -
    obtain bs v where b: "rnd 32 w1 = (bs, v)" by fastforce
    obtain t u where n: "kb_now K v = (t, u)" by fastforce
    from that b n have "w2 = u" by (simp add: GeneratePoWPuzzle_def)
    with quiet_trans [OF quiet_trans [OF q1 rnd_quiet [OF b]] now_quiet [OF n]] show ?thesis by simp
  qed
  have "serving (storePoW p s)" for p using s by (simp add: storePoW_def)
  with run s serving_sel [OF s] t quiet_one [OF q1] quiet_one [OF puzzle]
  show "serving s' \<and> one_change (request_change K hist s r w) (hist w) (hist w')"
    by (auto simp: handlePoWChallenge_def Let_def split: sum.splits prod.splits option.splits if_splits)
qed

lemma handleConfigureWebhook_careful: "sound_handler m handleConfigureWebhook"
proof (rule sound_handlerI)
  fix s name r w resp s' w'
  assume s: "serving s" and m: "rq_method r = m" and run: "handleConfigureWebhook s name r w = (resp, s', w')"
  show "serving s' \<and> one_change (request_change K hist s r w) (hist w) (hist w')"
    using s run serving_sel [OF s] quiet_one [OF register_quiet]
    by (auto simp: handleConfigureWebhook_def split: option.splits prod.splits)
qed

lemma authMiddleware_careful:
  assumes h: "sound_handler m h"
  shows "sound_handler m (authMiddleware h)"
proof (rule sound_handlerI)
  fix s name r w resp s' w'
  assume s: "serving s" and m: "rq_method r = m" and run: "authMiddleware h s name r w = (resp, s', w')"
  obtain p w1 where a: "be_authenticate B r w = (p, w1)" by fastforce
  note q = authenticate_quiet [OF a]
  show "serving s' \<and> one_change (request_change K hist s r w) (hist w) (hist w')"
  proof (cases p)
    case (Inl e)
    with run s serving_sel [OF s] a quiet_one [OF q] show ?thesis by (auto simp: authMiddleware_def)
  next
    case (Inr who)
    with run serving_sel [OF s] a have "h s name r w1 = (resp, s', w')" by (simp add: authMiddleware_def)
    with h s m have fin: "serving s'" "one_change (request_change K hist s r w1) (hist w1) (hist w')"
      unfolding sound_handler_def by blast+
    from fin(2) have "one_change (request_change K hist s r w) (hist w1) (hist w')"
      by (rule one_change_mono) (use q in \<open>auto simp: request_change_def intro: read_then_earlier\<close>)
    with fin(1) one_change_quiet q show ?thesis by (auto simp: quiet_def)
  qed
qed

lemmas sound_handlers = reading_handlers handleCreateInstance_careful handleExtendInstance_careful
  handleDeleteInstance_careful handlePoWChallenge_careful handleConfigureWebhook_careful

lemma routes_careful: "(m, pat, h) \<in> set setupRoutes \<Longrightarrow> sound_handler m h"
  by (auto simp: setupRoutes_def sound_handlers authMiddleware_careful)

lemma serve_careful:
  assumes run: "serve url_match s r w = (resp, s', w')" and s: "serving s"
  shows "serving s' \<and> one_change (request_change K hist s r w) (hist w) (hist w')"
  using run
proof (cases rule: serve_route)
  case (found pat h)
  with routes_careful s show ?thesis unfolding sound_handler_def by blast
next
  case none
  with s show ?thesis by simp
qed

section \<open>The program\<close>

lemma perform_careful:
  assumes "perform url_match (buildKimo K B rnd) op (s, w) = (s', w')" and s: "serving s"
  shows "serving s' \<and> one_change (op_change K hist op (s, w)) (hist w) (hist w')"
proof (cases op)
  case (Request r)
  obtain resp t v where r: "serve url_match s r w = (resp, t, v)" by (metis prod_cases3)
  with Request assms serve_careful [OF r s] show ?thesis by simp
qed (use assms quiet_one [OF reconcileTemplate_quiet [OF prod.collapse [symmetric]]]
    quiet_one [OF reconcileSet_quiet [OF prod.collapse [symmetric]]]
    quiet_one [OF reconcileFence_quiet [OF prod.collapse [symmetric]]]
    reconcileInstance_careful [OF prod.collapse [symmetric]]
    reconcileLifecycle_careful [OF prod.collapse [symmetric]] in \<open>auto simp: buildKimo_def\<close>)

lemma performs_careful:
  assumes "performs url_match (buildKimo K B rnd) ops (s, w) = (s', w')" "serving s"
  shows "serving s' \<and>
    (\<exists>cs. hist w' = hist w @ cs \<and> careful_from ch_own (hist w) cs \<and> length (filter ch_own cs) \<le> length ops)"
  using assms
proof (induction ops arbitrary: s w)
  case Nil
  then show ?case by (simp add: performs_def)
next
  case (Cons op ops)
  obtain t v where one: "perform url_match (buildKimo K B rnd) op (s, w) = (t, v)" by fastforce
  note step = perform_careful [OF this Cons.prems(2)]
  then have t: "serving t" "one_careful (hist w) (hist v)"
    unfolding one_careful_def by (blast, meson one_change_mono op_change_careful)
  obtain as where as: "hist v = hist w @ as" "careful_from ch_own (hist w) as" "length (filter ch_own as) \<le> 1"
    by (rule one_careful_from [OF t(2)])
  from Cons.prems(1) one have "performs url_match (buildKimo K B rnd) ops (t, v) = (s', w')" by (simp add: performs_def)
  from Cons.IH [OF this t(1)] obtain bs where "serving s'" "hist w' = hist v @ bs" "careful_from ch_own (hist v) bs"
    "length (filter ch_own bs) \<le> length ops" by blast
  with as show ?case by (intro conjI exI [of _ "as @ bs"]) (simp_all add: careful_from_append)
qed

lemma serving_new: "serving (NewServer K B rnd)"
  by (simp add: serving_def NewServer_def)

end

end
