(* ===== verification/Rivals.thy ===== *)
theory Rivals
  imports Contended Samples
begin

text \<open>
  A contended cluster to run on: a script says what others do to the instances before each call
  of the program, and reads of an instance may lag behind by a number of changes. The other
  kinds are those of \<open>Mem_Cluster\<close>. It keeps the promises of \<open>contended_cluster\<close>; no property is
  about it.
\<close>

section \<open>Versions\<close>

text \<open>The log holds what was written; the version of a change is its position.\<close>

definition stamp :: "nat \<Rightarrow> revision \<Rightarrow> revision" where
  "stamp n c = c\<lparr>ch_new := map_option (\<lambda>x. x\<lparr>ci_meta := (ci_meta x)\<lparr>om_rv := n,
     om_namespace := fst (ch_key c), om_name := snd (ch_key c)\<rparr>\<rparr>) (ch_new c)\<rparr>"

fun number :: "nat \<Rightarrow> revision list \<Rightarrow> revision list" where
  "number n [] = []"
| "number n (c # cs) = stamp n c # number (Suc n) cs"

lemma stamp_sel [simp]: "ch_own (stamp n c) = ch_own c" "ch_key (stamp n c) = ch_key c"
  by (simp_all add: stamp_def)

lemma number_append: "number n (as @ bs) = number n as @ number (n + length as) bs"
  by (induction as arbitrary: n) simp_all

lemma number_length [simp]: "length (number n cs) = length cs"
  by (induction cs arbitrary: n) simp_all

lemma number_version:
  assumes "c \<in> set (number n cs)" "ch_new c = Some x"
  shows "\<exists>m < length cs. om_rv (ci_meta x) = n + m \<and> c = number n cs ! m \<and> nsname_of (ci_meta x) = ch_key c"
  using assms
proof (induction cs arbitrary: n)
  case Nil
  then show ?case by simp
next
  case (Cons d cs)
  show ?case
  proof (cases "c = stamp n d")
    case True
    with Cons.prems show ?thesis by (intro exI [of _ 0]) (auto simp: stamp_def nsname_of_def)
  next
    case False
    with Cons.prems have "c \<in> set (number (Suc n) cs)" by simp
    from Cons.IH [OF this Cons.prems(2)] obtain m where "m < length cs" "om_rv (ci_meta x) = Suc n + m"
      "c = number (Suc n) cs ! m" "nsname_of (ci_meta x) = ch_key c" by blast
    then show ?thesis by (intro exI [of _ "Suc m"]) simp
  qed
qed

lemma number_versions: "versions_ok (number n cs)"
  unfolding versions_ok_def
proof (intro conjI ballI allI impI)
  fix c x assume "c \<in> set (number n cs)" "ch_new c = Some x"
  with number_version show "nsname_of (ci_meta x) = ch_key c" by blast
next
  fix c c' x x' assume c: "c \<in> set (number n cs)" "ch_new c = Some x"
    and c': "c' \<in> set (number n cs)" "ch_new c' = Some x'" and rv: "om_rv (ci_meta x) = om_rv (ci_meta x')"
  from number_version [OF c] number_version [OF c'] rv have "c = c'" by auto
  with c(2) c'(2) show "x = x'" by simp
qed

section \<open>The world\<close>

record rivals =
  rv_base :: mem
  rv_log :: "revision list"
  rv_script :: "revision list list"
  rv_lag :: nat

definition rival_hist :: "rivals \<Rightarrow> revision list" where
  "rival_hist w = number (Suc 0) (rv_log w)"

definition rival_table :: "rivals \<Rightarrow> nsname \<rightharpoonup> challenge_instance" where
  "rival_table w = table (rival_hist w)"

text \<open>The others take their turn.\<close>

definition turn :: "rivals \<Rightarrow> rivals" where
  "turn w = (case rv_script w of
     [] \<Rightarrow> w
   | cs # rest \<Rightarrow> w\<lparr>rv_log := rv_log w @ map (\<lambda>c. c\<lparr>ch_own := False\<rparr>) cs, rv_script := rest\<rparr>)"

definition on_base :: "(mem \<Rightarrow> 'a \<times> mem) \<Rightarrow> rivals \<Rightarrow> 'a \<times> rivals" where
  "on_base f w = (let w1 = turn w in case f (rv_base w1) of (x, m) \<Rightarrow> (x, w1\<lparr>rv_base := m\<rparr>))"

definition base_kind :: "(mem, 'o) kind_api \<Rightarrow> (rivals, 'o) kind_api" where
  "base_kind A = \<lparr>k_get = (\<lambda>key. on_base (k_get A key)), k_list = (\<lambda>opts. on_base (k_list A opts)),
     k_create = (\<lambda>x. on_base (k_create A x)), k_update = (\<lambda>x. on_base (k_update A x)),
     k_status = (\<lambda>x. on_base (k_status A x)), k_delete = (\<lambda>key. on_base (k_delete A key))\<rparr>"

text \<open>A change of the program's own; the answer is the object as it is stored.\<close>

definition rival_put :: "nsname \<Rightarrow> challenge_instance \<Rightarrow> rivals \<Rightarrow> (go_error + challenge_instance) \<times> rivals" where
  "rival_put key x w =
     (Inr (the (ch_new (stamp (Suc (length (rv_log w))) (own key (Some x))))),
      w\<lparr>rv_log := rv_log w @ [own key (Some x)]\<rparr>)"

definition rival_instances :: "(rivals, challenge_instance) kind_api" where
  "rival_instances = \<lparr>
     k_get = (\<lambda>key w. let w1 = turn w; h = rival_hist w1 in
       case table (take (length h - rv_lag w1) h) key of
         None \<Rightarrow> (Inl (NotFoundErr ''not found''), w1)
       | Some x \<Rightarrow> (Inr x, w1)),
     k_list = (\<lambda>opts w. let w1 = turn w in
       (Inr (filter (\<lambda>x. list_match opts (ci_meta x))
          (List.map_filter (rival_table w1) (remdups (map ch_key (rv_log w1))))), w1)),
     k_create = (\<lambda>x w. let w1 = turn w; key = nsname_of (ci_meta x) in
       case rival_table w1 key of
         None \<Rightarrow> rival_put key (x\<lparr>ci_status := empty_instance_status\<rparr>) w1
       | Some z \<Rightarrow> (Inl (AlreadyExistsErr ''already exists''), w1)),
     k_update = (\<lambda>x w. let w1 = turn w; key = nsname_of (ci_meta x) in
       case rival_table w1 key of
         None \<Rightarrow> (Inl (NotFoundErr ''not found''), w1)
       | Some z \<Rightarrow> if om_rv (ci_meta x) \<noteq> om_rv (ci_meta z) then (Inl (ConflictErr ''conflict''), w1)
                  else rival_put key (x\<lparr>ci_status := ci_status z\<rparr>) w1),
     k_status = (\<lambda>x w. let w1 = turn w; key = nsname_of (ci_meta x) in
       case rival_table w1 key of
         None \<Rightarrow> (Inl (NotFoundErr ''not found''), w1)
       | Some z \<Rightarrow> if om_rv (ci_meta x) \<noteq> om_rv (ci_meta z) then (Inl (ConflictErr ''conflict''), w1)
                  else rival_put key (z\<lparr>ci_status := wire_instance_status (ci_status x)\<rparr>) w1),
     k_delete = (\<lambda>key w. let w1 = turn w in
       case rival_table w1 key of
         None \<Rightarrow> (Inl (NotFoundErr ''not found''), w1)
       | Some z \<Rightarrow> (Inr (), w1\<lparr>rv_log := rv_log w1 @ [own key None]\<rparr>))\<rparr>"

definition rival_kube :: "rivals kube" where
  "rival_kube = \<lparr>kb_templates = base_kind (kb_templates mem_kube), kb_instances = rival_instances,
     kb_sets = base_kind (kb_sets mem_kube), kb_fences = base_kind (kb_fences mem_kube),
     kb_deployments = base_kind (kb_deployments mem_kube), kb_services = base_kind (kb_services mem_kube),
     kb_policies = base_kind (kb_policies mem_kube), kb_pods = base_kind (kb_pods mem_kube),
     kb_secrets = base_kind (kb_secrets mem_kube), kb_set_ref = kb_set_ref mem_kube, kb_now = on_base (kb_now mem_kube)\<rparr>"

definition rival_backend :: "rivals backend" where
  "rival_backend = \<lparr>be_name = ''recording'', be_notify = (\<lambda>ev. on_base (be_notify mem_backend ev)),
     be_authenticate = (\<lambda>r. on_base (be_authenticate mem_backend r)), be_registrar = None\<rparr>"

definition rival_rnd :: "nat \<Rightarrow> rivals \<Rightarrow> byte list \<times> rivals" where
  "rival_rnd n w = (replicate n 0, w)"

section \<open>It keeps the promises\<close>

lemma others_extend:
  assumes "rv_log w' = rv_log w @ cs" "\<forall>c \<in> set cs. \<not> ch_own c"
  shows "quiet rival_hist w w'"
proof -
  have "\<forall>c \<in> set (number n ds). \<not> ch_own c" if "\<forall>c \<in> set ds. \<not> ch_own c" for n ds
    using that by (induction ds arbitrary: n) auto
  with assms show ?thesis by (auto simp: quiet_def rival_hist_def others_only_def number_append)
qed

lemma turn_quiet: "quiet rival_hist w (turn w)"
proof (cases "rv_script w")
  case Nil
  then show ?thesis by (simp add: turn_def)
next
  case (Cons cs rest)
  show ?thesis by (rule others_extend [of _ _ "map (\<lambda>c. c\<lparr>ch_own := False\<rparr>) cs"]) (auto simp: turn_def Cons)
qed

lemma on_base_quiet: "on_base f w = (x, w') \<Longrightarrow> quiet rival_hist w w'"
  using turn_quiet [of w] by (auto simp: on_base_def Let_def quiet_def rival_hist_def split: prod.splits)

lemma base_kind_quiet: "quiet_kind (base_kind A) rival_hist"
  by unfold_locales (auto simp: base_kind_def intro: on_base_quiet)

lemma own_commits:
  assumes "P (rival_table (turn w) key)" "rv_log w' = rv_log (turn w) @ [own key new]"
  shows "commits P key (ch_new (stamp (Suc (length (rv_log (turn w)))) (own key new))) (rival_hist w) (rival_hist w')"
proof -
  let ?c = "stamp (Suc (length (rv_log (turn w)))) (own key new)"
  have "?c = own key (ch_new ?c)" by (simp add: stamp_def own_def)
  then have "rival_hist w' = rival_hist (turn w) @ [own key (ch_new ?c)]"
    using assms(2) by (simp add: rival_hist_def number_append)
  with assms(1) turn_quiet [of w] show ?thesis
    unfolding commits_def quiet_def rival_table_def by (metis others_only_refl)
qed

lemma rival_name: "rival_table w key = Some z \<Longrightarrow> nsname_of (ci_meta z) = key"
  using number_versions [of "Suc 0" "rv_log w"] table_in [of "rival_hist w" key z]
  by (auto simp: rival_table_def rival_hist_def versions_ok_def)

lemma put_commits:
  assumes put: "rival_put key x (turn w) = (r, w')" and P: "P (rival_table (turn w) key)" and key: "nsname_of (ci_meta x) = key"
  obtains y where "r = Inr y" "user_meta (ci_meta y) = user_meta (ci_meta x)" "ci_spec y = ci_spec x"
    "ci_status y = ci_status x" "commits P key (Some y) (rival_hist w) (rival_hist w')"
proof -
  let ?n = "Suc (length (rv_log (turn w)))"
  let ?y = "x\<lparr>ci_meta := (ci_meta x)\<lparr>om_rv := ?n, om_namespace := fst key, om_name := snd key\<rparr>\<rparr>"
  have st: "ch_new (stamp ?n (own key (Some x))) = Some ?y" by (simp add: stamp_def)
  from put st have r: "r = Inr ?y" and "rv_log w' = rv_log (turn w) @ [own key (Some x)]" by (auto simp: rival_put_def)
  from own_commits [of P, OF P this(2)] st have "commits P key (Some ?y) (rival_hist w) (rival_hist w')" by simp
  moreover have "user_meta (ci_meta ?y) = user_meta (ci_meta x)"
    using key by (auto simp: user_meta_def nsname_of_def)
  ultimately show thesis using r that by simp
qed

lemma rival_get_stored:
  assumes "k_get rival_instances key w = (Inr x, w')"
  shows "\<exists>c \<in> set (rival_hist w'). ch_key c = key \<and> ch_new c = Some x"
proof -
  from assms have "w' = turn w" "table (take (length (rival_hist w') - rv_lag w') (rival_hist w')) key = Some x"
    by (auto simp: rival_instances_def Let_def split: option.splits)
  with table_in show ?thesis by (metis in_set_takeD)
qed

lemma rival_instances_contended: "contended_instances rival_instances rival_hist"
proof (unfold_locales, goal_cases)
  case (1 w)
  then show ?case unfolding rival_hist_def by (rule number_versions)
next
  case (2 key w r w')
  then show ?case using turn_quiet by (auto simp: rival_instances_def Let_def split: option.splits)
next
  case (3 key w x w')
  then show ?case by (rule rival_get_stored)
next
  case (4 opts w t w')
  then show ?case using turn_quiet by (auto simp: rival_instances_def Let_def)
next
  case (5 x w r w')
  show ?case
  proof (cases "rival_table (turn w) (nsname_of (ci_meta x))")
    case None
    with 5 have "rival_put (nsname_of (ci_meta x)) (x\<lparr>ci_status := empty_instance_status\<rparr>) (turn w) = (r, w')"
      by (simp add: rival_instances_def Let_def)
    from put_commits [OF this, of "\<lambda>old. old = None"] None obtain y where
      "user_meta (ci_meta y) = user_meta (ci_meta x)" "ci_spec y = ci_spec x" "ci_status y = empty_instance_status"
      "commits (\<lambda>old. old = None) (nsname_of (ci_meta x)) (Some y) (rival_hist w) (rival_hist w')"
      by auto
    then show ?thesis by blast
  next
    case (Some z)
    with 5 turn_quiet [of w] show ?thesis by (auto simp: rival_instances_def Let_def)
  qed
next
  case (6 x w r w')
  show ?case
  proof (cases "\<exists>z. rival_table (turn w) (nsname_of (ci_meta x)) = Some z \<and> om_rv (ci_meta x) = om_rv (ci_meta z)")
    case True
    then obtain z where z: "rival_table (turn w) (nsname_of (ci_meta x)) = Some z" "om_rv (ci_meta x) = om_rv (ci_meta z)"
      by blast
    with 6 have "rival_put (nsname_of (ci_meta x)) (x\<lparr>ci_status := ci_status z\<rparr>) (turn w) = (r, w')"
      by (simp add: rival_instances_def Let_def)
    from put_commits [OF this, of "at_version x (\<lambda>z'. ci_status z' = ci_status z)"] z
    obtain y where y: "user_meta (ci_meta y) = user_meta (ci_meta x)" "ci_spec y = ci_spec x" "ci_status y = ci_status z"
      and c: "commits (at_version x (\<lambda>z'. ci_status z' = ci_status z)) (nsname_of (ci_meta x)) (Some y) (rival_hist w) (rival_hist w')"
      by (auto simp: at_version_def)
    from c have "commits (at_version x (\<lambda>z'. ci_status y = ci_status z')) (nsname_of (ci_meta x)) (Some y) (rival_hist w) (rival_hist w')"
      by (rule commits_mono) (use y in \<open>auto simp: at_version_def\<close>)
    with y show ?thesis by blast
  next
    case False
    with 6 turn_quiet [of w] show ?thesis by (auto simp: rival_instances_def Let_def split: option.splits)
  qed
next
  case (7 x w r w')
  show ?case
  proof (cases "\<exists>z. rival_table (turn w) (nsname_of (ci_meta x)) = Some z \<and> om_rv (ci_meta x) = om_rv (ci_meta z)")
    case True
    then obtain z where z: "rival_table (turn w) (nsname_of (ci_meta x)) = Some z" "om_rv (ci_meta x) = om_rv (ci_meta z)"
      by blast
    with 7 have "rival_put (nsname_of (ci_meta x)) (z\<lparr>ci_status := wire_instance_status (ci_status x)\<rparr>) (turn w) = (r, w')"
      by (simp add: rival_instances_def Let_def)
    from put_commits [OF this, of "at_version x (\<lambda>z'. same_spec z z')"] z rival_name [OF z(1)]
    obtain y where y: "user_meta (ci_meta y) = user_meta (ci_meta z)" "ci_spec y = ci_spec z"
      "ci_status y = wire_instance_status (ci_status x)"
      and c: "commits (at_version x (\<lambda>z'. same_spec z z')) (nsname_of (ci_meta x)) (Some y) (rival_hist w) (rival_hist w')"
      by (auto simp: at_version_def)
    from c have "commits (at_version x (\<lambda>z'. same_spec y z')) (nsname_of (ci_meta x)) (Some y) (rival_hist w) (rival_hist w')"
      by (rule commits_mono) (use y in \<open>auto simp: at_version_def same_spec_def\<close>)
    with y show ?thesis by blast
  next
    case False
    with 7 turn_quiet [of w] show ?thesis by (auto simp: rival_instances_def Let_def split: option.splits)
  qed
next
  case (8 key w u w')
  show ?case
  proof (cases "rival_table (turn w) key")
    case None
    with 8 turn_quiet [of w] show ?thesis by (auto simp: rival_instances_def Let_def)
  next
    case (Some z)
    with 8 have "rv_log w' = rv_log (turn w) @ [own key None]" by (auto simp: rival_instances_def Let_def)
    from own_commits [OF _ this, of "\<lambda>old. old \<noteq> None"] Some show ?thesis by (simp add: stamp_def)
  qed
qed

interpretation rival: contended_cluster rival_kube rival_hist rival_backend rival_rnd
proof -
  have "contended_cluster_axioms rival_kube rival_hist rival_backend rival_rnd"
    by unfold_locales (auto simp: rival_kube_def rival_backend_def rival_rnd_def intro: on_base_quiet)
  then show "contended_cluster rival_kube rival_hist rival_backend rival_rnd"
    unfolding contended_cluster_def rival_kube_def by (simp add: rival_instances_contended base_kind_quiet)
qed

end
