(* ===== verification/Contention_Props.thy ===== *)
theory Contention_Props
  imports Rivals
begin

text \<open>
  What the program guarantees of the instances whoever else acts on them meanwhile, with two
  runs on the cluster of \<open>Rivals\<close>.
\<close>

section \<open>At most one change each, on what was read\<close>

text \<open>
  C3: Whatever others do to the instances between any two calls of the program, and however
  stale its reads, any reconcile or request, at any point of a run, makes at most one change to
  the instances. A reconcile of the instance or the lifecycle controller can only write the
  status of the instance it was asked about, and only if the stored version is at that very
  moment the one its \<open>Get\<close> returned during this reconcile, and that one is neither Expired nor
  Failed; it keeps its spec, its endpoint and the expiry it has. The other three controllers
  change none. A POST can only create the instance its body asks for, under a name that is free
  at that moment and with an empty status; a PATCH only set the override, to a duration that
  parses, on the very version that it has read; a DELETE, which reads nothing, only remove an
  instance that is there. That an update is refused unless the version sent with it is the
  stored one is the API server's promise (\<open>contended_instances\<close>); what is proved is that the
  program sends the version of the object its decision was made on, and makes no other write.
\<close>

theorem contended_writes_careful:
  assumes "contended_cluster K hist B rnd"
    and "performs url_match (buildKimo K B rnd) ops (km_server (buildKimo K B rnd), w0) = (s, w)"
    and "perform url_match (buildKimo K B rnd) op (s, w) = (s', w')"
  shows "one_change (op_change K hist op (s, w)) (hist w) (hist w')"
proof -
  have "km_server (buildKimo K B rnd) = NewServer K B rnd" by (simp add: buildKimo_def)
  with contended_cluster.performs_careful [OF assms(1,2)] contended_cluster.serving_new [OF assms(1)]
  have "contended_cluster.serving K B rnd s" by simp
  from contended_cluster.perform_careful [OF assms(1,3) this] show ?thesis by simp
qed

section \<open>A run in which a write is refused\<close>

abbreviation rival_kimo :: "rivals kimo" where
  "rival_kimo \<equiv> buildKimo rival_kube rival_backend rival_rnd"

abbreviation rival_key :: nsname where
  "rival_key \<equiv> (''default'', ''web-red'')"

definition rival_instance :: challenge_instance where
  "rival_instance = smp_instance\<lparr>ci_meta := new_meta ''web-red'' ''default'' Map.empty\<rparr>"

definition rival_extended :: challenge_instance where
  "rival_extended = rival_instance\<lparr>ci_spec := (ci_spec rival_instance)\<lparr>is_ttl_override := ''1h''\<rparr>\<rparr>"

definition rival_failed :: challenge_instance where
  "rival_failed = rival_instance\<lparr>ci_status := empty_instance_status\<lparr>st_phase := InstancePhaseFailed\<rparr>\<rparr>"

definition theirs :: "challenge_instance \<Rightarrow> revision" where
  "theirs x = \<lparr>ch_own = False, ch_key = rival_key, ch_new = Some x\<rparr>"

text \<open>
  There is no template, so the instance is to be Failed; just before that write another request
  extends it. The first reconcile is refused, the second one is not.
\<close>

definition rival_world :: "revision list \<Rightarrow> revision list list \<Rightarrow> nat \<Rightarrow> rivals" where
  "rival_world log script lag = \<lparr>rv_base = mem_empty, rv_log = log, rv_script = script, rv_lag = lag\<rparr>"

lemma rw_sel [simp]:
  "rv_log (rival_world log script lag) = log" "rv_lag (rival_world log script lag) = lag"
  "rv_base (rival_world log script lag) = mem_empty"
  "rival_world log script lag\<lparr>rv_log := log'\<rparr> = rival_world log' script lag"
  "rival_world log script lag\<lparr>rv_base := mem_empty\<rparr> = rival_world log script lag"
  by (simp_all add: rival_world_def)

lemma rw_turn [simp]:
  "turn (rival_world log [] lag) = rival_world log [] lag"
  "turn (rival_world log (cs # script) lag) = rival_world (log @ map (\<lambda>c. c\<lparr>ch_own := False\<rparr>) cs) script lag"
  by (simp_all add: turn_def rival_world_def)

lemma rw_get:
  assumes "turn w = rival_world log script lag" "table (take (length log - lag) (number (Suc 0) log)) key = Some x"
  shows "k_get rival_instances key w = (Inr x, rival_world log script lag)"
  by (simp add: rival_instances_def rival_hist_def Let_def assms)

lemma rw_template:
  assumes "turn w = rival_world log script lag"
  shows "k_get (kb_templates rival_kube) key w = (Inl (NotFoundErr ''not found''), rival_world log script lag)"
  by (simp add: rival_kube_def base_kind_def on_base_def assms mem_kube_def mem_kind_def mem_try_def mem_find_def
      mem_empty_def mem_lens_defs)

lemma rw_conflict:
  assumes "turn w = rival_world log script lag" "table (number (Suc 0) log) (nsname_of (ci_meta x)) = Some z"
    "om_rv (ci_meta x) \<noteq> om_rv (ci_meta z)"
  shows "k_status rival_instances x w = (Inl (ConflictErr ''conflict''), rival_world log script lag)"
  using assms(3) by (simp add: rival_instances_def rival_table_def rival_hist_def Let_def assms(1) assms(2))

lemma rw_put:
  assumes "turn w = rival_world log script lag" "table (number (Suc 0) log) (nsname_of (ci_meta x)) = Some z"
    "om_rv (ci_meta x) = om_rv (ci_meta z)"
  obtains y where "k_status rival_instances x w = (Inr y,
    rival_world (log @ [own (nsname_of (ci_meta x)) (Some (z\<lparr>ci_status := wire_instance_status (ci_status x)\<rparr>))]) script lag)"
  using assms(3) by (simp add: rival_instances_def rival_table_def rival_hist_def rival_put_def Let_def assms(1,2))

lemma rw_notify:
  obtains m where "notifyBackend (Some rival_backend) ev w = (turn w)\<lparr>rv_base := m\<rparr>"
  by (cases "be_notify mem_backend ev (rv_base (turn w))")
    (simp add: notifyBackend_def rival_backend_def on_base_def Let_def)

text \<open>
  There is no template, so the instance is to be Failed; just before that write another request
  extends it. The first reconcile is refused, the second one is not.
\<close>

definition rival_start :: rivals where
  "rival_start = rival_world [theirs rival_instance] [[], [], [theirs rival_extended]] 0"

definition stored_as :: "nat \<Rightarrow> challenge_instance \<Rightarrow> challenge_instance" where
  "stored_as n x = x\<lparr>ci_meta := (ci_meta x)\<lparr>om_rv := n\<rparr>\<rparr>"

lemma stored_as_sel [simp]:
  "ci_spec (stored_as n x) = ci_spec x" "ci_status (stored_as n x) = ci_status x" "om_rv (ci_meta (stored_as n x)) = n"
  "nsname_of (ci_meta (stored_as n x)) = nsname_of (ci_meta x)"
  by (simp_all add: stored_as_def nsname_of_def)

lemma stamp_theirs: "nsname_of (ci_meta x) = rival_key \<Longrightarrow> stamp n (theirs x) = theirs (stored_as n x)"
  by (auto simp: stamp_def theirs_def stored_as_def nsname_of_def)

lemma rival_names [simp]:
  "nsname_of (ci_meta rival_instance) = rival_key" "nsname_of (ci_meta rival_extended) = rival_key"
  "nsname_of (ci_meta rival_failed) = rival_key"
  by (simp_all add: rival_extended_def rival_instance_def rival_failed_def)

lemma rival_phases [simp]:
  "instance_phase_of rival_instance = PhaseUnset" "instance_phase_of rival_extended = PhaseUnset"
  "instance_phase_of rival_failed = InstancePhaseFailed"
  by (simp_all add: rival_extended_def rival_instance_def rival_failed_def smp_instance_def empty_instance_status_def)

lemma theirs_sel [simp]: "ch_key (theirs x) = rival_key" "ch_new (theirs x) = Some x" "\<not> ch_own (theirs x)"
  "(theirs x)\<lparr>ch_own := False\<rparr> = theirs x"
  by (simp_all add: theirs_def)

lemma refused:
  "reconcileInstance (km_instance rival_kimo) rival_key rival_start =
     (Inl (ConflictErr ''conflict''), rival_world [theirs rival_instance, theirs rival_extended] [] 0)"
proof -
  have get: "k_get (kb_instances rival_kube) rival_key rival_start =
      (Inr (stored_as (Suc 0) rival_instance), rival_world [theirs rival_instance] [[], [theirs rival_extended]] 0)"
    unfolding rival_start_def rival_kube_def kube.simps
    by (rule rw_get) (simp_all add: table_def stamp_theirs)
  have tmpl: "k_get (kb_templates rival_kube) key (rival_world [theirs rival_instance] [[], [theirs rival_extended]] 0) =
      (Inl (NotFoundErr ''not found''), rival_world [theirs rival_instance] [[theirs rival_extended]] 0)" for key
    by (rule rw_template) simp
  have put: "k_status (kb_instances rival_kube) (setPhase p reason (stored_as (Suc 0) rival_instance))
      (rival_world [theirs rival_instance] [[theirs rival_extended]] 0) =
      (Inl (ConflictErr ''conflict''), rival_world [theirs rival_instance, theirs rival_extended] [] 0)" for p reason
    unfolding rival_kube_def kube.simps
    by (rule rw_conflict [of _ _ _ _ _ "stored_as (Suc (Suc 0)) rival_extended"])
      (simp_all add: table_def stamp_theirs setPhase_def)
  show ?thesis
    by (simp add: reconcileInstance_def buildKimo_def get tmpl put transition_def)
qed

lemma accepted:
  obtains x m where "snd (reconcileInstance (km_instance rival_kimo) rival_key
      (rival_world [theirs rival_instance, theirs rival_extended] [] 0)) =
    (rival_world [theirs rival_instance, theirs rival_extended, own rival_key (Some x)] [] 0)\<lparr>rv_base := m\<rparr>"
proof -
  let ?log = "[theirs rival_instance, theirs rival_extended]" and ?x = "stored_as (Suc (Suc 0)) rival_extended"
  have get: "k_get (kb_instances rival_kube) rival_key (rival_world ?log [] 0) = (Inr ?x, rival_world ?log [] 0)"
    unfolding rival_kube_def kube.simps by (rule rw_get) (simp_all add: table_def stamp_theirs)
  have tmpl: "k_get (kb_templates rival_kube) key (rival_world ?log [] 0) =
      (Inl (NotFoundErr ''not found''), rival_world ?log [] 0)" for key
    by (rule rw_template) simp
  have move: "\<exists>x m. snd (transition (km_instance rival_kimo) ?x InstancePhaseFailed reason (rival_world ?log [] 0)) =
      (rival_world (?log @ [own rival_key (Some x)]) [] 0)\<lparr>rv_base := m\<rparr>" for reason
  proof -
    let ?y = "setPhase InstancePhaseFailed reason ?x"
    let ?w = "rival_world (?log @ [own rival_key (Some (?x\<lparr>ci_status := wire_instance_status (ci_status ?y)\<rparr>))]) [] 0"
    have "turn (rival_world ?log [] 0) = rival_world ?log [] 0" by simp
    from rw_put [OF this, of ?y ?x] obtain y where put: "k_status rival_instances ?y (rival_world ?log [] 0) = (Inr y, ?w)"
      by (auto simp: table_def stamp_theirs setPhase_def)
    obtain m where told: "notifyBackend (Some rival_backend) (instanceEvent EventFailed y reason) ?w = (turn ?w)\<lparr>rv_base := m\<rparr>"
      by (rule rw_notify)
    have "snd (transition (km_instance rival_kimo) ?x InstancePhaseFailed reason (rival_world ?log [] 0)) = (turn ?w)\<lparr>rv_base := m\<rparr>"
      unfolding told [symmetric] by (simp add: transition_def buildKimo_def rival_kube_def put)
    then show ?thesis by auto
  qed
  have "reconcileInstance (km_instance rival_kimo) rival_key (rival_world ?log [] 0) =
      transition (km_instance rival_kimo) ?x InstancePhaseFailed
        (''template not found: '' @ is_template (ci_spec rival_extended)) (rival_world ?log [] 0)"
    by (simp add: reconcileInstance_def buildKimo_def get tmpl)
  with move [of "''template not found: '' @ is_template (ci_spec rival_extended)"] obtain x m where
    "snd (reconcileInstance (km_instance rival_kimo) rival_key (rival_world ?log [] 0)) =
      (rival_world (?log @ [own rival_key (Some x)]) [] 0)\<lparr>rv_base := m\<rparr>" by metis
  then show thesis using that by simp
qed

text \<open>The second reconcile makes one change, on the version the other request left.\<close>

theorem contended_writes_careful_witness:
  "\<exists>w w' i j. performs (\<lambda>_ _. None) rival_kimo [ReconcileInstance rival_key] (km_server rival_kimo, rival_start) =
       (km_server rival_kimo, w) \<and>
     perform (\<lambda>_ _. None) rival_kimo (ReconcileInstance rival_key) (km_server rival_kimo, w) = (km_server rival_kimo, w') \<and>
     rival_hist w' = rival_hist w @ [own rival_key (Some j)] \<and> table (rival_hist w) rival_key = Some i \<and>
     is_ttl_override (ci_spec i) = ''1h'' \<and> status_write i j"
proof -
  let ?w = "rival_world [theirs rival_instance, theirs rival_extended] [] 0"
  have first: "performs (\<lambda>_ _. None) rival_kimo [ReconcileInstance rival_key] (km_server rival_kimo, rival_start) =
      (km_server rival_kimo, ?w)"
    by (simp add: performs_def refused)
  obtain x m where "snd (reconcileInstance (km_instance rival_kimo) rival_key ?w) =
      (rival_world [theirs rival_instance, theirs rival_extended, own rival_key (Some x)] [] 0)\<lparr>rv_base := m\<rparr>"
    by (rule accepted)
  then obtain w' where second: "perform (\<lambda>_ _. None) rival_kimo (ReconcileInstance rival_key) (km_server rival_kimo, ?w) =
      (km_server rival_kimo, w')" and w': "map ch_own (rival_hist w') = [False, False, True]"
    by (simp add: rival_hist_def)
  have before: "map ch_own (rival_hist ?w) = [False, False]" by (simp add: rival_hist_def)
  note one = contended_writes_careful [OF rival.contended_cluster_axioms first second]
  have "\<not> others_only (rival_hist ?w) (rival_hist w')"
  proof
    assume "others_only (rival_hist ?w) (rival_hist w')"
    then obtain cs where "rival_hist w' = rival_hist ?w @ cs" "\<forall>c \<in> set cs. \<not> ch_own c" unfolding others_only_def by blast
    then have "True \<notin> set (map ch_own cs)" "map ch_own (rival_hist w') = map ch_own (rival_hist ?w) @ map ch_own cs" by auto
    with w' before show False by simp
  qed
  with one obtain g key new where g: "others_only (rival_hist ?w) g" "others_only (g @ [own key new]) (rival_hist w')"
    and ch: "op_change rival_kube rival_hist (ReconcileInstance rival_key) (km_server rival_kimo, ?w) g key new"
    unfolding one_change_def by blast
  from ch obtain i j where ij: "key = rival_key" "table g rival_key = Some i" "new = Some j" "status_write i j"
    by (auto simp: reconcile_change_def writes_status_def)
  from g obtain cs ds where cs: "g = rival_hist ?w @ cs" and ds: "rival_hist w' = g @ [own key new] @ ds"
    unfolding others_only_def by auto
  have "map ch_own (rival_hist w') = map ch_own (rival_hist ?w) @ map ch_own cs @ [True] @ map ch_own ds"
    unfolding ds cs by simp
  with w' before have "map ch_own cs @ [True] @ map ch_own ds = [True]" by simp
  then have nil: "cs = []" "ds = []" by (cases cs; simp)+
  have "table (rival_hist ?w) rival_key = Some (stored_as (Suc (Suc 0)) rival_extended)"
    by (simp add: rival_hist_def table_def stamp_theirs)
  with nil have "stored_as (Suc (Suc 0)) rival_extended = i" using ij(2) cs by simp
  then have "is_ttl_override (ci_spec i) = ''1h''" by (auto simp: rival_extended_def)
  with first second ij cs ds nil show ?thesis
    by (intro exI [of _ ?w] exI [of _ w'] exI [of _ i] exI [of _ j]) simp
qed

section \<open>Terminal phases survive\<close>

text \<open>
  C9: If what the others do is careful too, as it is when they are further workers or replicas
  of the same program, then an instance that is Expired or Failed keeps its whole status, its
  template, team and player, through any number of reconciles and requests, stale reads and
  interleavings, until somebody deletes it.
\<close>

theorem terminal_survives_contention:
  assumes "contended_cluster K hist B rnd"
    and "performs url_match (buildKimo K B rnd) ops (km_server (buildKimo K B rnd), w) = (s', w')"
    and "hist w' = hist w @ cs" "careful_from (\<lambda>c. \<not> ch_own c) (hist w) cs"
    and "table (hist w) k = Some i" "terminal (instance_phase_of i)" "k \<notin> deleted cs"
  shows "\<exists>j. table (hist w') k = Some j \<and> ci_status j = ci_status i \<and>
    is_template (ci_spec j) = is_template (ci_spec i) \<and> is_team (ci_spec j) = is_team (ci_spec i) \<and>
    is_player (ci_spec j) = is_player (ci_spec i)"
proof -
  have "km_server (buildKimo K B rnd) = NewServer K B rnd" by (simp add: buildKimo_def)
  with assms(2) contended_cluster.performs_careful [OF assms(1)] contended_cluster.serving_new [OF assms(1)]
  obtain ds where "hist w' = hist w @ ds" "careful_from ch_own (hist w) ds" by metis
  with assms(3,4) have "careful_from (\<lambda>_. True) (hist w) cs" by (simp add: careful_from_all)
  from careful_from_terminal [OF this assms(5-7)] show ?thesis by (simp add: assms(3))
qed

text \<open>
  The controller reads a version from before the instance failed, and sets out to write its
  phase; meanwhile its owner extends it.
\<close>

definition rival_failed_extended :: challenge_instance where
  "rival_failed_extended = rival_failed\<lparr>ci_spec := (ci_spec rival_failed)\<lparr>is_ttl_override := ''1h''\<rparr>\<rparr>"

lemma rival_failed_extended_sel [simp]:
  "ci_meta rival_failed_extended = ci_meta rival_failed" "ci_status rival_failed_extended = ci_status rival_failed"
  "ci_spec rival_failed_extended = (ci_spec rival_failed)\<lparr>is_ttl_override := ''1h''\<rparr>"
  by (simp_all add: rival_failed_extended_def)

definition rival_behind :: rivals where
  "rival_behind = rival_world [theirs rival_instance, theirs rival_failed] [[], [], [theirs rival_failed_extended]] 1"

lemma stale:
  "reconcileInstance (km_instance rival_kimo) rival_key rival_behind =
     (Inl (ConflictErr ''conflict''),
      rival_world [theirs rival_instance, theirs rival_failed, theirs rival_failed_extended] [] 1)"
proof -
  let ?log = "[theirs rival_instance, theirs rival_failed]"
  have get: "k_get (kb_instances rival_kube) rival_key rival_behind =
      (Inr (stored_as (Suc 0) rival_instance), rival_world ?log [[], [theirs rival_failed_extended]] 1)"
    unfolding rival_behind_def rival_kube_def kube.simps
    by (rule rw_get) (simp_all add: table_def stamp_theirs)
  have tmpl: "k_get (kb_templates rival_kube) key (rival_world ?log [[], [theirs rival_failed_extended]] 1) =
      (Inl (NotFoundErr ''not found''), rival_world ?log [[theirs rival_failed_extended]] 1)" for key
    by (rule rw_template) simp
  have put: "k_status (kb_instances rival_kube) (setPhase p reason (stored_as (Suc 0) rival_instance))
      (rival_world ?log [[theirs rival_failed_extended]] 1) =
      (Inl (ConflictErr ''conflict''), rival_world (?log @ [theirs rival_failed_extended]) [] 1)" for p reason
    unfolding rival_kube_def kube.simps
    by (rule rw_conflict [of _ _ _ _ _ "stored_as (Suc (Suc (Suc 0))) rival_failed_extended"])
      (simp_all add: table_def stamp_theirs setPhase_def)
  show ?thesis
    using get tmpl put by (simp add: reconcileInstance_def buildKimo_def transition_def)
qed

theorem terminal_survives_contention_witness:
  "\<exists>w' j. performs (\<lambda>_ _. None) rival_kimo [ReconcileInstance rival_key] (km_server rival_kimo, rival_behind) =
       (km_server rival_kimo, w') \<and>
     table (rival_hist w') rival_key = Some j \<and> instance_phase_of j = InstancePhaseFailed \<and>
     is_ttl_override (ci_spec j) = ''1h''"
proof -
  let ?old = "stored_as (Suc (Suc 0)) rival_failed" and ?new = "stored_as (Suc (Suc (Suc 0))) rival_failed_extended"
  let ?w = "rival_world [theirs rival_instance, theirs rival_failed, theirs rival_failed_extended] [] 1"
  have run: "performs (\<lambda>_ _. None) rival_kimo [ReconcileInstance rival_key] (km_server rival_kimo, rival_behind) =
      (km_server rival_kimo, ?w)"
    by (simp add: performs_def stale)
  have h: "rival_hist ?w = rival_hist rival_behind @ [theirs ?new]"
    by (simp add: rival_hist_def rival_behind_def stamp_theirs)
  have at: "table (rival_hist rival_behind) rival_key = Some ?old"
    by (simp add: table_def rival_hist_def rival_behind_def stamp_theirs)
  have "override_write ?old ?new"
    unfolding override_write_def
    by (intro conjI exI [of _ "''1h''"] exI [of _ 3600000000000]) (simp_all add: user_meta_def stored_as_def parse_1h)
  with at have others: "careful_from (\<lambda>c. \<not> ch_own c) (rival_hist rival_behind) [theirs ?new]" by simp
  have "rival_key \<notin> deleted [theirs ?new]" by (simp add: deleted_def)
  from terminal_survives_contention [OF rival.contended_cluster_axioms run h others at _ this]
  obtain j where "table (rival_hist ?w) rival_key = Some j" "instance_phase_of j = InstancePhaseFailed" by auto
  moreover have "table (rival_hist ?w) rival_key = Some ?new" unfolding h by simp
  ultimately show ?thesis using run by auto
qed

end
