(* ===== verification/Scheme.thy ===== *)
theory Scheme
  imports Manager
begin

text \<open>
  Which kinds the program knows: \<open>groupversion_info.go\<close>, the \<open>init\<close> functions of the four files of
  resource types and that of \<open>main.go\<close>. Schemes and their builders are code of the Kubernetes
  machinery, so they are a parameter; the locale \<open>scheme_machinery\<close> states what it documents.
\<close>

section \<open>Registration\<close>

text \<open>
  \<open>runtime.NewScheme\<close>, \<open>AddKnownTypes\<close> by the names of the types, \<open>metav1.AddToGroupVersion\<close>,
  client-go's \<open>AddToScheme\<close>, \<open>runtime.NewSchemeBuilder\<close>, \<open>Register\<close> and \<open>AddToScheme\<close> of a builder.
\<close>

type_synonym group_version = "string \<times> string"

record ('s, 'b) scheme_lib =
  sl_new :: 's
  sl_known :: "group_version \<Rightarrow> string list \<Rightarrow> 's \<Rightarrow> 's"
  sl_version :: "group_version \<Rightarrow> 's \<Rightarrow> 's"
  sl_core :: "'s \<Rightarrow> go_error + 's"
  sl_builder :: "('s \<Rightarrow> go_error + 's) \<Rightarrow> 'b"
  sl_register :: "('s \<Rightarrow> go_error + 's) \<Rightarrow> 'b \<Rightarrow> 'b"
  sl_apply :: "'b \<Rightarrow> 's \<Rightarrow> go_error + 's"

definition SchemeGroupVersion :: group_version where
  "SchemeGroupVersion = (''kimo.kimo.io'', ''v1alpha1'')"

definition schemeBuilder :: "('s, 'b) scheme_lib \<Rightarrow> 'b" where
  "schemeBuilder L = sl_builder L (\<lambda>s. Inr (sl_version L SchemeGroupVersion s))"

definition registerInstance :: "('s, 'b) scheme_lib \<Rightarrow> 'b \<Rightarrow> 'b" where
  "registerInstance L = sl_register L
     (\<lambda>s. Inr (sl_known L SchemeGroupVersion [''ChallengeInstance'', ''ChallengeInstanceList''] s))"

definition registerSet :: "('s, 'b) scheme_lib \<Rightarrow> 'b \<Rightarrow> 'b" where
  "registerSet L = sl_register L
     (\<lambda>s. Inr (sl_known L SchemeGroupVersion [''ChallengeSet'', ''ChallengeSetList''] s))"

definition registerTemplate :: "('s, 'b) scheme_lib \<Rightarrow> 'b \<Rightarrow> 'b" where
  "registerTemplate L = sl_register L
     (\<lambda>s. Inr (sl_known L SchemeGroupVersion [''ChallengeTemplate'', ''ChallengeTemplateList''] s))"

definition registerFence :: "('s, 'b) scheme_lib \<Rightarrow> 'b \<Rightarrow> 'b" where
  "registerFence L = sl_register L
     (\<lambda>s. Inr (sl_known L SchemeGroupVersion [''NetworkFence'', ''NetworkFenceList''] s))"

text \<open>The files of a package are initialised in the order of their names.\<close>

definition AddToScheme :: "('s, 'b) scheme_lib \<Rightarrow> 's \<Rightarrow> go_error + 's" where
  "AddToScheme L = sl_apply L
     (registerFence L (registerTemplate L (registerSet L (registerInstance L (schemeBuilder L)))))"

text \<open>\<open>utilruntime.Must\<close> panics on an error: \<open>None\<close>.\<close>

definition mainScheme :: "('s, 'b) scheme_lib \<Rightarrow> 's option" where
  "mainScheme L =
     (case sl_core L (sl_new L) of
        Inl e \<Rightarrow> None
      | Inr s \<Rightarrow> (case AddToScheme L s of Inl e \<Rightarrow> None | Inr s' \<Rightarrow> Some s'))"

section \<open>Every kind the program uses is known\<close>

text \<open>The kinds of Kubernetes itself the controllers and the server name, with their groups.\<close>

definition core_kinds :: "(group_version \<times> string) set" where
  "core_kinds = {((''apps'', ''v1''), ''Deployment''), (('''', ''v1''), ''Service''), (('''', ''v1''), ''Pod''),
     (('''', ''v1''), ''PodList''), (('''', ''v1''), ''Secret''), ((''networking.k8s.io'', ''v1''), ''NetworkPolicy'')}"

locale scheme_machinery =
  fixes L :: "('s, 'b) scheme_lib" and kinds :: "'s \<Rightarrow> (group_version \<times> string) set"
  assumes known: "kinds (sl_known L gv ks s) = kinds s \<union> (\<lambda>k. (gv, k)) ` set ks"
    and version_keeps: "kinds s \<subseteq> kinds (sl_version L gv s)"
    and core: "sl_core L s = Inr s' \<Longrightarrow> kinds s \<union> core_kinds \<subseteq> kinds s'"
    and apply_builder: "sl_apply L (sl_builder L f) s = f s"
    and apply_register: "sl_apply L (sl_register L f b) s = (case sl_apply L b s of Inl e \<Rightarrow> Inl e | Inr s' \<Rightarrow> f s')"
begin

lemma AddToScheme_kinds:
  "\<exists>s'. AddToScheme L s = Inr s' \<and> kinds s \<subseteq> kinds s' \<and>
     (\<forall>k \<in> {''ChallengeInstance'', ''ChallengeSet'', ''ChallengeTemplate'', ''NetworkFence''}.
        (SchemeGroupVersion, k) \<in> kinds s' \<and> (SchemeGroupVersion, k @ ''List'') \<in> kinds s')"
proof -
  let ?gv = SchemeGroupVersion
  let ?s1 = "sl_version L ?gv s"
  let ?s2 = "sl_known L ?gv [''ChallengeInstance'', ''ChallengeInstanceList''] ?s1"
  let ?s3 = "sl_known L ?gv [''ChallengeSet'', ''ChallengeSetList''] ?s2"
  let ?s4 = "sl_known L ?gv [''ChallengeTemplate'', ''ChallengeTemplateList''] ?s3"
  let ?s5 = "sl_known L ?gv [''NetworkFence'', ''NetworkFenceList''] ?s4"
  have "AddToScheme L s = Inr ?s5"
    by (simp only: AddToScheme_def registerFence_def registerTemplate_def registerSet_def registerInstance_def
        schemeBuilder_def apply_builder apply_register sum.case)
  moreover have "kinds s \<subseteq> kinds ?s5"
    unfolding known using version_keeps [of s ?gv] by blast
  moreover have "\<forall>k \<in> {''ChallengeInstance'', ''ChallengeSet'', ''ChallengeTemplate'', ''NetworkFence''}.
      (?gv, k) \<in> kinds ?s5 \<and> (?gv, k @ ''List'') \<in> kinds ?s5"
    unfolding known by simp
  ultimately show ?thesis by blast
qed

lemma mainScheme_panics_iff: "mainScheme L = None \<longleftrightarrow> (\<exists>e. sl_core L (sl_new L) = Inl e)"
proof (cases "sl_core L (sl_new L)")
  case (Inl e)
  then show ?thesis by (simp add: mainScheme_def)
next
  case (Inr s)
  with AddToScheme_kinds [of s] show ?thesis by (auto simp: mainScheme_def)
qed

text \<open>The kinds a controller is set up for, those it owns and those it watches.\<close>

lemma controller_kinds_known:
  assumes "mainScheme L = Some s" "su \<in> set controllerSetups" "k = su_for su \<or> k \<in> set (su_owns su) \<or> su_pods su \<noteq> None \<and> k = ''Pod''"
  shows "\<exists>gv. (gv, k) \<in> kinds s"
proof -
  from assms(1) obtain s0 where s0: "sl_core L (sl_new L) = Inr s0" "AddToScheme L s0 = Inr s"
    by (auto simp: mainScheme_def split: sum.splits)
  from AddToScheme_kinds [of s0] s0(2) core [OF s0(1)] have core': "core_kinds \<subseteq> kinds s"
    and own: "\<forall>k \<in> {''ChallengeInstance'', ''ChallengeSet'', ''ChallengeTemplate'', ''NetworkFence''}.
        (SchemeGroupVersion, k) \<in> kinds s" by auto
  from assms(2,3) have "k \<in> {''ChallengeInstance'', ''ChallengeSet'', ''ChallengeTemplate'', ''NetworkFence''} \<or>
      k \<in> {''Deployment'', ''Service'', ''Pod'', ''NetworkPolicy''}"
    by (auto simp: controllerSetups_def setup_defs)
  then show ?thesis
  proof
    assume "k \<in> {''ChallengeInstance'', ''ChallengeSet'', ''ChallengeTemplate'', ''NetworkFence''}"
    with own have "(SchemeGroupVersion, k) \<in> kinds s" by (rule bspec)
    then show ?thesis by (rule exI)
  next
    assume "k \<in> {''Deployment'', ''Service'', ''Pod'', ''NetworkPolicy''}"
    then have "k \<in> snd ` core_kinds" by (elim insertE emptyE; simp add: core_kinds_def)
    then obtain gv where "(gv, k) \<in> core_kinds" by (elim imageE) (metis prod.collapse)
    with core' show ?thesis by (intro exI [of _ gv]) (rule subsetD)
  qed
qed

end

section \<open>A machinery that does\<close>

text \<open>Schemes as lists of kinds and builders as lists of functions, run in the order of registration.\<close>

definition list_schemes :: "((group_version \<times> string) list, ((group_version \<times> string) list \<Rightarrow> go_error + (group_version \<times> string) list) list) scheme_lib" where
  "list_schemes = \<lparr>sl_new = [], sl_known = (\<lambda>gv ks s. s @ map (\<lambda>k. (gv, k)) ks), sl_version = (\<lambda>gv s. s),
     sl_core = (\<lambda>s. Inr (s @ [((''apps'', ''v1''), ''Deployment''), (('''', ''v1''), ''Service''), (('''', ''v1''), ''Pod''),
       (('''', ''v1''), ''PodList''), (('''', ''v1''), ''Secret''), ((''networking.k8s.io'', ''v1''), ''NetworkPolicy'')])),
     sl_builder = (\<lambda>f. [f]), sl_register = (\<lambda>f b. b @ [f]),
     sl_apply = (\<lambda>b s. foldl (\<lambda>r f. case r of Inl e \<Rightarrow> Inl e | Inr s \<Rightarrow> f s) (Inr s) b)\<rparr>"

interpretation list_schemes: scheme_machinery list_schemes set
  by unfold_locales (auto simp: list_schemes_def core_kinds_def)

text \<open>So the resources of the program are its own group, in both forms, beside those of Kubernetes.\<close>

lemma list_schemes_started: "\<exists>s. mainScheme list_schemes = Some s \<and>
    (SchemeGroupVersion, ''NetworkFence'') \<in> set s \<and> (SchemeGroupVersion, ''ChallengeInstanceList'') \<in> set s"
  using list_schemes.AddToScheme_kinds
  by (simp add: mainScheme_def list_schemes_def AddToScheme_def registerFence_def registerTemplate_def
      registerSet_def registerInstance_def schemeBuilder_def)

end
