(* ===== verification/Command_Line.thy ===== *)
theory Command_Line
  imports Scheme
begin

text \<open>
  The process: what \<open>main\<close> makes of its arguments, with the package \<open>flag\<close> of Go's library, and the
  status the process ends with. Flags that other packages define (the logger's and the kubeconfig
  of controller-runtime) are a parameter.
\<close>

section \<open>The flags of main\<close>

datatype own_flag =
    StringFlag "string \<Rightarrow> manager_flags \<Rightarrow> manager_flags"
  | BoolFlag "bool \<Rightarrow> manager_flags \<Rightarrow> manager_flags"

definition formalFlags :: "(string \<times> own_flag) list" where
  "formalFlags = [
     (''metrics-bind-address'', StringFlag (\<lambda>v f. f\<lparr>mf_metrics_addr := v\<rparr>)),
     (''health-probe-bind-address'', StringFlag (\<lambda>v f. f\<lparr>mf_probe_addr := v\<rparr>)),
     (''leader-elect'', BoolFlag (\<lambda>b f. f\<lparr>mf_leader_elect := b\<rparr>)),
     (''metrics-secure'', BoolFlag (\<lambda>b f. f\<lparr>mf_secure_metrics := b\<rparr>)),
     (''webhook-cert-path'', StringFlag (\<lambda>v f. f\<lparr>mf_webhook_cert_path := v\<rparr>)),
     (''webhook-cert-name'', StringFlag (\<lambda>v f. f\<lparr>mf_webhook_cert_name := v\<rparr>)),
     (''webhook-cert-key'', StringFlag (\<lambda>v f. f\<lparr>mf_webhook_cert_key := v\<rparr>)),
     (''metrics-cert-path'', StringFlag (\<lambda>v f. f\<lparr>mf_metrics_cert_path := v\<rparr>)),
     (''metrics-cert-name'', StringFlag (\<lambda>v f. f\<lparr>mf_metrics_cert_name := v\<rparr>)),
     (''metrics-cert-key'', StringFlag (\<lambda>v f. f\<lparr>mf_metrics_cert_key := v\<rparr>)),
     (''enable-http2'', BoolFlag (\<lambda>b f. f\<lparr>mf_enable_http2 := b\<rparr>))]"

section \<open>Package flag\<close>

text \<open>A flag of another package: whether it takes no argument, and the values it accepts.\<close>

record foreign_flag =
  ff_bool :: bool
  ff_accepts :: "string \<Rightarrow> bool"

definition ParseBool :: "string \<Rightarrow> bool option" where
  "ParseBool s =
     (if s \<in> {''1'', ''t'', ''T'', ''true'', ''TRUE'', ''True''} then Some True
      else if s \<in> {''0'', ''f'', ''F'', ''false'', ''FALSE'', ''False''} then Some False
      else None)"

text \<open>\<open>Exit n\<close>: the process ends with status \<open>n\<close> (\<open>ExitOnError\<close>: 0 after the help text, else 2).\<close>

datatype parsed = Parsed manager_flags "string list" | Exit nat

text \<open>
  \<open>setFlag\<close>: the flag \<open>name\<close>, with the value after its \<open>=\<close> if there was one, and the arguments that
  follow it. A flag that needs a value takes the next argument, a boolean one never does.
\<close>

definition setFlag ::
  "(string \<Rightarrow> foreign_flag option) \<Rightarrow> string \<Rightarrow> string option \<Rightarrow> string list \<Rightarrow> manager_flags \<Rightarrow> parsed" where
  "setFlag others name value rest f =
     (let valued = (\<lambda>put. case value of
            Some v \<Rightarrow> put v rest
          | None \<Rightarrow> (case rest of [] \<Rightarrow> Exit 2 | v # rest' \<Rightarrow> put v rest'))
      in case map_of formalFlags name of
           Some (BoolFlag put) \<Rightarrow>
             (case ParseBool (case value of Some v \<Rightarrow> v | None \<Rightarrow> ''true'') of
                None \<Rightarrow> Exit 2
              | Some b \<Rightarrow> Parsed (put b f) rest)
         | Some (StringFlag put) \<Rightarrow> valued (\<lambda>v rest'. Parsed (put v f) rest')
         | None \<Rightarrow>
             (case others name of
                None \<Rightarrow> if name = ''help'' \<or> name = ''h'' then Exit 0 else Exit 2
              | Some ff \<Rightarrow>
                  if ff_bool ff
                  then if ff_accepts ff (case value of Some v \<Rightarrow> v | None \<Rightarrow> ''true'') then Parsed f rest else Exit 2
                  else valued (\<lambda>v rest'. if ff_accepts ff v then Parsed f rest' else Exit 2)))"

lemma setFlag_shorter: "setFlag others name value rest f = Parsed f' rest' \<Longrightarrow> length rest' \<le> length rest"
  by (auto simp: setFlag_def Let_def split: option.splits own_flag.splits list.splits if_splits)

text \<open>The name may not start with a dash or an equals sign; a first equals sign after that ends it.\<close>

function parseFlags :: "(string \<Rightarrow> foreign_flag option) \<Rightarrow> string list \<Rightarrow> manager_flags \<Rightarrow> parsed" where
  "parseFlags others [] f = Parsed f []"
| "parseFlags others (s # rest) f =
     (if length s < 2 \<or> hd s \<noteq> CHR ''-'' then Parsed f (s # rest)
      else if s = ''--'' then Parsed f rest
      else
        let name = (if s ! 1 = CHR ''-'' then drop 2 s else drop 1 s)
        in if name = [] \<or> hd name = CHR ''-'' \<or> hd name = CHR ''='' then Exit 2
           else (case setFlag others (takeWhile (\<lambda>c. c \<noteq> CHR ''='') name)
               (if CHR ''='' \<in> set name then Some (tl (dropWhile (\<lambda>c. c \<noteq> CHR ''='') name)) else None) rest f of
             Exit n \<Rightarrow> Exit n
           | Parsed f' rest' \<Rightarrow> parseFlags others rest' f'))"
  by pat_completeness auto
termination
  by (relation "measure (\<lambda>(others, args, f). length args)") (auto dest!: sym [of _ "setFlag _ _ _ _ _"] setFlag_shorter)

declare parseFlags.simps(2) [simp del]

section \<open>The process\<close>

datatype 'w process = Ended nat | Running "'w kimo"

text \<open>
  The package's \<open>init\<close> runs before \<open>main\<close> and a panic ends a Go program with status 2. The options
  of the manager hold the scheme, so its constructor gets both.
\<close>

definition runMain ::
  "('s, 'b) scheme_lib \<Rightarrow> ('s \<Rightarrow> manager_options \<Rightarrow> go_error + 'w manager) \<Rightarrow> 'w registry \<Rightarrow> (string \<Rightarrow> string) \<Rightarrow>
     (string \<Rightarrow> string) \<Rightarrow> (nat \<Rightarrow> 'w \<Rightarrow> byte list \<times> 'w) \<Rightarrow> (string \<Rightarrow> foreign_flag option) \<Rightarrow> string list \<Rightarrow> 'w process" where
  "runMain L new_manager reg quoted env rnd others args =
     (case mainScheme L of
        None \<Rightarrow> Ended 2
      | Some s \<Rightarrow>
        (case parseFlags others args defaultFlags of
           Exit n \<Rightarrow> Ended n
         | Parsed f _ \<Rightarrow>
           (case main (new_manager s) reg quoted env rnd f of
              Exit1 msg \<Rightarrow> Ended 1
            | Started P \<Rightarrow> Running P)))"

text \<open>
  A running process ends when the server cannot listen any more, which \<open>ListenAndServe\<close> always
  reports as an error, or when the manager stops.
\<close>

datatype ending = ServerFailed go_error | ManagerStopped "go_error option"

definition exitStatus :: "ending \<Rightarrow> nat" where
  "exitStatus e =
     (case e of
        ServerFailed err \<Rightarrow> 1
      | ManagerStopped (Some err) \<Rightarrow> 1
      | ManagerStopped None \<Rightarrow> 0)"

section \<open>What arguments mean\<close>

text \<open>All flags written out, each as \<open>--name=value\<close>.\<close>

definition flagArg :: "string \<Rightarrow> string \<Rightarrow> string" where
  "flagArg name v = ''--'' @ name @ CHR ''='' # v"

definition boolText :: "bool \<Rightarrow> string" where
  "boolText b = (if b then ''true'' else ''false'')"

definition flagArgs :: "manager_flags \<Rightarrow> string list" where
  "flagArgs f = [
     flagArg ''metrics-bind-address'' (mf_metrics_addr f),
     flagArg ''health-probe-bind-address'' (mf_probe_addr f),
     flagArg ''leader-elect'' (boolText (mf_leader_elect f)),
     flagArg ''metrics-secure'' (boolText (mf_secure_metrics f)),
     flagArg ''webhook-cert-path'' (mf_webhook_cert_path f),
     flagArg ''webhook-cert-name'' (mf_webhook_cert_name f),
     flagArg ''webhook-cert-key'' (mf_webhook_cert_key f),
     flagArg ''metrics-cert-path'' (mf_metrics_cert_path f),
     flagArg ''metrics-cert-name'' (mf_metrics_cert_name f),
     flagArg ''metrics-cert-key'' (mf_metrics_cert_key f),
     flagArg ''enable-http2'' (boolText (mf_enable_http2 f))]"

lemma ParseBool_boolText [simp]: "ParseBool (boolText b) = Some b"
  by (simp add: ParseBool_def boolText_def)

definition flag_name :: "string \<Rightarrow> bool" where
  "flag_name name \<longleftrightarrow> name \<noteq> [] \<and> hd name \<noteq> CHR ''-'' \<and> CHR ''='' \<notin> set name"

lemma takeWhile_name: "CHR ''='' \<notin> set name \<Longrightarrow> takeWhile (\<lambda>c. c \<noteq> CHR ''='') (name @ CHR ''='' # v) = name"
  by (induction name) auto

lemma dropWhile_name: "CHR ''='' \<notin> set name \<Longrightarrow> dropWhile (\<lambda>c. c \<noteq> CHR ''='') (name @ CHR ''='' # v) = CHR ''='' # v"
  by (induction name) auto

lemma parse_flagArg:
  assumes "flag_name name"
  shows "parseFlags others (flagArg name v # rest) f =
    (case setFlag others name (Some v) rest f of Exit n \<Rightarrow> Exit n | Parsed f' rest' \<Rightarrow> parseFlags others rest' f')"
proof -
  from assms have n: "name \<noteq> []" "hd name \<noteq> CHR ''-''" "CHR ''='' \<notin> set name" by (simp_all add: flag_name_def)
  then have "hd name \<noteq> CHR ''=''" by (cases name) auto
  with n show ?thesis
    by (simp add: parseFlags.simps(2) flagArg_def Let_def takeWhile_name dropWhile_name)
qed

text \<open>A flag without \<open>=\<close>.\<close>

lemma parse_bare:
  assumes "flag_name name"
  shows "parseFlags others ((''--'' @ name) # rest) f =
    (case setFlag others name None rest f of Exit n \<Rightarrow> Exit n | Parsed f' rest' \<Rightarrow> parseFlags others rest' f')"
proof -
  from assms have n: "name \<noteq> []" "hd name \<noteq> CHR ''-''" "CHR ''='' \<notin> set name" by (simp_all add: flag_name_def)
  then have first: "hd name \<noteq> CHR ''=''" by (cases name) auto
  have all: "takeWhile (\<lambda>c. c \<noteq> CHR ''='') name = name" using n(3) by (auto simp: takeWhile_eq_all_conv)
  from n first show ?thesis
    by (simp add: parseFlags.simps(2) Let_def all)
qed

lemma own_flag_names:
  "flag_name ''metrics-bind-address''" "flag_name ''health-probe-bind-address''" "flag_name ''leader-elect''"
  "flag_name ''metrics-secure''" "flag_name ''webhook-cert-path''" "flag_name ''webhook-cert-name''"
  "flag_name ''webhook-cert-key''" "flag_name ''metrics-cert-path''" "flag_name ''metrics-cert-name''"
  "flag_name ''metrics-cert-key''" "flag_name ''enable-http2''"
  by (simp_all add: flag_name_def)

lemma setFlag_own:
  "setFlag others ''metrics-bind-address'' (Some v) rest f = Parsed (f\<lparr>mf_metrics_addr := v\<rparr>) rest"
  "setFlag others ''health-probe-bind-address'' (Some v) rest f = Parsed (f\<lparr>mf_probe_addr := v\<rparr>) rest"
  "setFlag others ''leader-elect'' (Some (boolText b)) rest f = Parsed (f\<lparr>mf_leader_elect := b\<rparr>) rest"
  "setFlag others ''metrics-secure'' (Some (boolText b)) rest f = Parsed (f\<lparr>mf_secure_metrics := b\<rparr>) rest"
  "setFlag others ''webhook-cert-path'' (Some v) rest f = Parsed (f\<lparr>mf_webhook_cert_path := v\<rparr>) rest"
  "setFlag others ''webhook-cert-name'' (Some v) rest f = Parsed (f\<lparr>mf_webhook_cert_name := v\<rparr>) rest"
  "setFlag others ''webhook-cert-key'' (Some v) rest f = Parsed (f\<lparr>mf_webhook_cert_key := v\<rparr>) rest"
  "setFlag others ''metrics-cert-path'' (Some v) rest f = Parsed (f\<lparr>mf_metrics_cert_path := v\<rparr>) rest"
  "setFlag others ''metrics-cert-name'' (Some v) rest f = Parsed (f\<lparr>mf_metrics_cert_name := v\<rparr>) rest"
  "setFlag others ''metrics-cert-key'' (Some v) rest f = Parsed (f\<lparr>mf_metrics_cert_key := v\<rparr>) rest"
  "setFlag others ''enable-http2'' (Some (boolText b)) rest f = Parsed (f\<lparr>mf_enable_http2 := b\<rparr>) rest"
  "setFlag others ''leader-elect'' None rest f = Parsed (f\<lparr>mf_leader_elect := True\<rparr>) rest"
  by (simp_all add: setFlag_def formalFlags_def Let_def) (simp add: ParseBool_def)

lemma parse_flagArgs: "parseFlags others (flagArgs f @ rest) g = parseFlags others rest f"
  by (simp only: flagArgs_def append.simps parse_flagArg [OF own_flag_names(1)] parse_flagArg [OF own_flag_names(2)]
      parse_flagArg [OF own_flag_names(3)] parse_flagArg [OF own_flag_names(4)] parse_flagArg [OF own_flag_names(5)]
      parse_flagArg [OF own_flag_names(6)] parse_flagArg [OF own_flag_names(7)] parse_flagArg [OF own_flag_names(8)]
      parse_flagArg [OF own_flag_names(9)] parse_flagArg [OF own_flag_names(10)] parse_flagArg [OF own_flag_names(11)]
      setFlag_own parsed.case) (cases f; cases g; simp)

lemma parse_word: "w = [] \<or> hd w \<noteq> CHR ''-'' \<or> w = ''-'' \<Longrightarrow> parseFlags others (w # rest) f = Parsed f (w # rest)"
  by (auto simp: parseFlags.simps(2))

section \<open>Properties\<close>

text \<open>What follows the parsing of the arguments.\<close>

definition runWith ::
  "('s, 'b) scheme_lib \<Rightarrow> ('s \<Rightarrow> manager_options \<Rightarrow> go_error + 'w manager) \<Rightarrow> 'w registry \<Rightarrow> (string \<Rightarrow> string) \<Rightarrow>
     (string \<Rightarrow> string) \<Rightarrow> (nat \<Rightarrow> 'w \<Rightarrow> byte list \<times> 'w) \<Rightarrow> manager_flags \<Rightarrow> 'w process" where
  "runWith L new_manager reg quoted env rnd f =
     (case mainScheme L of
        None \<Rightarrow> Ended 2
      | Some s \<Rightarrow> (case main (new_manager s) reg quoted env rnd f of Exit1 msg \<Rightarrow> Ended 1 | Started P \<Rightarrow> Running P))"

lemma runMain_parsed:
  "parseFlags others args defaultFlags = Parsed f rest \<Longrightarrow>
   runMain L new_manager reg quoted env rnd others args = runWith L new_manager reg quoted env rnd f"
  by (cases "mainScheme L") (simp_all add: runMain_def runWith_def)


text \<open>
  C37: Every configuration can be given on the command line, and is the one the program then runs
  with: the eleven flags written out give back the values they were written from, whatever these
  are, equals signs and dashes included. Without arguments the defaults hold. What follows the
  first word that is no flag is not looked at, and a boolean flag takes no second argument: after
  \<open>--leader-elect false\<close> leader election is on and no later flag counts.
\<close>

theorem every_configuration_can_be_given:
  "runMain L new_manager reg quoted env rnd others (flagArgs f) = runWith L new_manager reg quoted env rnd f \<and>
   runMain L new_manager reg quoted env rnd others [] = runWith L new_manager reg quoted env rnd defaultFlags \<and>
   runMain L new_manager reg quoted env rnd others (flagArgs f @ ''false'' # rest) =
     runWith L new_manager reg quoted env rnd f \<and>
   runMain L new_manager reg quoted env rnd others (flagArgs f @ ''--leader-elect'' # ''false'' # rest) =
     runWith L new_manager reg quoted env rnd (f\<lparr>mf_leader_elect := True\<rparr>)"
proof -
  have all: "parseFlags others (flagArgs f) g = Parsed f []" for g
    using parse_flagArgs [of others f "[]" g] by simp
  have word: "parseFlags others (''false'' # rest) g = Parsed g (''false'' # rest)" for g
    by (rule parse_word) simp
  have bare: "parseFlags others (''--leader-elect'' # ''false'' # rest) g =
      Parsed (g\<lparr>mf_leader_elect := True\<rparr>) (''false'' # rest)" for g
    using parse_bare [OF own_flag_names(3), of others "''false'' # rest" g]
    by (simp add: setFlag_own word)
  show ?thesis
  proof (intro conjI)
    show "runMain L new_manager reg quoted env rnd others (flagArgs f) = runWith L new_manager reg quoted env rnd f"
      by (rule runMain_parsed [OF all])
    show "runMain L new_manager reg quoted env rnd others [] = runWith L new_manager reg quoted env rnd defaultFlags"
      by (rule runMain_parsed) simp
    show "runMain L new_manager reg quoted env rnd others (flagArgs f @ ''false'' # rest) =
        runWith L new_manager reg quoted env rnd f"
      by (rule runMain_parsed) (simp only: parse_flagArgs word)
    show "runMain L new_manager reg quoted env rnd others (flagArgs f @ ''--leader-elect'' # ''false'' # rest) =
        runWith L new_manager reg quoted env rnd (f\<lparr>mf_leader_elect := True\<rparr>)"
      by (rule runMain_parsed) (simp only: parse_flagArgs bare)
  qed
qed




end
