(* ===== verification/Pow_Client.thy ===== *)
theory Pow_Client
  imports Api_Props
begin

text \<open>
  The proof of work from the other side: a client that asks for a puzzle, solves it with the search
  of \<open>pow.go\<close> and sends the solution in time gets past it, whatever requests of others come in between.
\<close>

section \<open>Traffic\<close>

text \<open>Requests one after the other; before each the world may have become any other.\<close>

fun serveAll ::
  "(string \<Rightarrow> string \<Rightarrow> string option) \<Rightarrow> (('w \<Rightarrow> 'w) \<times> http_request) list \<Rightarrow> 'w server \<Rightarrow> 'w \<Rightarrow>
     response list \<times> 'w server \<times> 'w" where
  "serveAll url_match [] s w = ([], s, w)"
| "serveAll url_match ((env, r) # rest) s w =
     (case serve url_match s r (env w) of
        (resp, s1, w1) \<Rightarrow> (case serveAll url_match rest s1 w1 of (resps, s2, w2) \<Rightarrow> (resp # resps, s2, w2)))"

text \<open>Whether a request brings a solution to the puzzle with this challenge, and an answer hands one out.\<close>

definition brings :: "string \<Rightarrow> http_request \<Rightarrow> bool" where
  "brings ch r =
     (case decode_body create_field create_request_zero (json_first (rq_body r)) of
        None \<Rightarrow> False
      | Some body \<Rightarrow> crq_challenge body = ch)"

definition handsOut :: "string \<Rightarrow> response \<Rightarrow> bool" where
  "handsOut ch resp = (case rs_body resp of JsonPuzzle p \<Rightarrow> pz_challenge p = ch | _ \<Rightarrow> False)"

section \<open>One request leaves the puzzles of others\<close>

text \<open>What a step does to the table at \<open>ch\<close>, if the request does not bring and the answer not hand out \<open>ch\<close>.\<close>

definition keepsPuzzle :: "string \<Rightarrow> http_request \<Rightarrow> 'w server \<Rightarrow> response \<times> 'w server \<times> 'w \<Rightarrow> bool" where
  "keepsPuzzle ch r s out \<longleftrightarrow>
     (case out of (resp, s', w') \<Rightarrow>
        s' = s\<lparr>sv_puzzles := sv_puzzles s'\<rparr> \<and>
        (\<not> brings ch r \<longrightarrow> \<not> handsOut ch resp \<longrightarrow> sv_puzzles s' ch = sv_puzzles s ch))"

lemma keepsPuzzle_same [simp]: "keepsPuzzle ch r s (resp, s, w)"
  by (simp add: keepsPuzzle_def)

lemma keeps_reading:
  "keepsPuzzle ch r s (handleListTemplates s name r w)" "keepsPuzzle ch r s (handleGetTemplate s name r w)"
  "keepsPuzzle ch r s (handleListInstances s name r w)" "keepsPuzzle ch r s (handleGetInstance s name r w)"
  "keepsPuzzle ch r s (handleHealth s name r w)" "keepsPuzzle ch r s (handleConfigureWebhook s name r w)"
  "keepsPuzzle ch r s (handleDeleteInstance s name r w)" "keepsPuzzle ch r s (handleExtendInstance s name r w)"
  by (simp_all add: handleListTemplates_def handleGetTemplate_def handleListInstances_def handleGetInstance_def
      handleHealth_def handleConfigureWebhook_def handleDeleteInstance_def handleExtendInstance_def Let_def
      split: prod.split sum.split option.split)

lemma keeps_createInstance:
  assumes "s1 = s\<lparr>sv_puzzles := sv_puzzles s1\<rparr>" "\<not> brings ch r \<Longrightarrow> sv_puzzles s1 ch = sv_puzzles s ch"
  shows "keepsPuzzle ch r s (createInstance s1 body w)"
  using assms by (simp add: keepsPuzzle_def createInstance_def split: prod.split sum.split)

lemma consumePoW_keeps:
  assumes "consumePoW s c nonce w = (ok, s1, w1)"
  shows "s1 = s\<lparr>sv_puzzles := sv_puzzles s1\<rparr>" "ch \<noteq> c \<Longrightarrow> sv_puzzles s1 ch = sv_puzzles s ch"
proof -
  show "s1 = s\<lparr>sv_puzzles := sv_puzzles s1\<rparr>" using consumePoW_table [OF assms] by blast
  from consumePoW_table [OF assms] have "sv_puzzles s1 = sv_puzzles s \<or> sv_puzzles s1 = (sv_puzzles s)(c := None)"
    by (auto simp: redeemPuzzle_def split: option.splits)
  then show "ch \<noteq> c \<Longrightarrow> sv_puzzles s1 ch = sv_puzzles s ch" by auto
qed

lemma keeps_create: "keepsPuzzle ch r s (handleCreateInstance s name r w)"
proof (cases "decode_body create_field create_request_zero (json_first (rq_body r))")
  case None
  then show ?thesis by (simp add: handleCreateInstance_def)
next
  case body: (Some body)
  have spent: "keepsPuzzle ch r s
      (case consumePoW s (crq_challenge body) (crq_nonce body) w1 of
         (ok, s1, w2) \<Rightarrow>
           if \<not> ok then (httpError ''invalid or missing proof of work'' 428, s1, w2) else createInstance s1 body w2)" for w1
  proof (cases "consumePoW s (crq_challenge body) (crq_nonce body) w1")
    case (fields ok s1 w2)
    note same = consumePoW_keeps [OF fields]
    have table: "\<not> brings ch r \<Longrightarrow> sv_puzzles s1 ch = sv_puzzles s ch"
      by (rule same(2)) (auto simp: brings_def body)
    have "keepsPuzzle ch r s (resp, s1, w2)" for resp
      unfolding keepsPuzzle_def prod.case using same(1) table by blast
    with keeps_createInstance [OF same(1) table] fields show ?thesis by simp
  qed
  have free: "keepsPuzzle ch r s (createInstance s body w1)" for w1
    by (rule keeps_createInstance) simp_all
  show ?thesis
  proof (cases "k_get (kb_templates (sv_client s)) (sv_namespace s, crq_template body) w" rule: result_cases)
    case (Err e w1)
    with body show ?thesis by (simp add: handleCreateInstance_def)
  next
    case (Ok t w1)
    with body spent [of w1] free [of w1] show ?thesis by (simp add: handleCreateInstance_def)
  qed
qed

lemma keeps_challenge: "keepsPuzzle ch r s (handlePoWChallenge s name r w)"
  by (auto simp: handlePoWChallenge_def Let_def keepsPuzzle_def storePoW_def handsOut_def writeJSON_def
      split: prod.split sum.split option.split)

lemma keeps_auth:
  assumes "\<And>w1. keepsPuzzle ch r s (h s name r w1)"
  shows "keepsPuzzle ch r s (authMiddleware h s name r w)"
  using assms by (simp add: authMiddleware_def split: prod.split sum.split)

lemma keeps_routes: "(m, pat, h) \<in> set setupRoutes \<Longrightarrow> keepsPuzzle ch r s (h s name r w)"
  unfolding setupRoutes_def
  by (auto intro!: keeps_auth keeps_reading keeps_create keeps_challenge)

lemma keeps_serve: "keepsPuzzle ch r s (serve url_match s r w)"
proof (cases "serve url_match s r w")
  case (fields resp s' w')
  from fields show ?thesis
  proof (cases rule: serve_route)
    case (found pat h)
    with keeps_routes fields show ?thesis by metis
  next
    case none
    then show ?thesis unfolding fields by simp
  qed
qed

text \<open>So does traffic.\<close>

lemma keeps_traffic:
  assumes "serveAll url_match others s w = (resps, s', w')"
  shows "s' = s\<lparr>sv_puzzles := sv_puzzles s'\<rparr> \<and>
    (list_all (\<lambda>(env, r). \<not> brings ch r) others \<longrightarrow> list_all (\<lambda>resp. \<not> handsOut ch resp) resps \<longrightarrow>
       sv_puzzles s' ch = sv_puzzles s ch)"
  using assms
proof (induction url_match others s w arbitrary: resps rule: serveAll.induct)
  case (1 url_match s w)
  then show ?case by simp
next
  case (2 url_match env r rest s w)
  obtain resp s1 w1 where one: "serve url_match s r (env w) = (resp, s1, w1)" by (rule prod_cases3)
  obtain more where rest: "serveAll url_match rest s1 w1 = (more, s', w')" and resps: "resps = resp # more"
    using "2.prems" by (auto simp: one split: prod.splits)
  from keeps_serve [of ch r s url_match "env w"]
  have first: "s1 = s\<lparr>sv_puzzles := sv_puzzles s1\<rparr>"
    "\<not> brings ch r \<Longrightarrow> \<not> handsOut ch resp \<Longrightarrow> sv_puzzles s1 ch = sv_puzzles s ch"
    unfolding one keepsPuzzle_def by auto
  note IH = "2.IH" [OF one [symmetric] refl rest]
  then have "s' = s1\<lparr>sv_puzzles := sv_puzzles s'\<rparr>" by (rule conjunct1)
  also have "\<dots> = s\<lparr>sv_puzzles := sv_puzzles s'\<rparr>" by (subst first(1)) simp
  finally show ?case using IH [THEN conjunct2] first(2) unfolding resps by auto
qed

section \<open>The honest client\<close>

text \<open>
  C25: A client that plays by the rules gets in. It asks for a puzzle and is answered with one, good
  for exactly five minutes whatever the template says: its \<open>pow.ttl\<close>, documented as the expiry of
  the puzzle, is read nowhere. \<open>SolvePoW\<close> finds a nonce; meanwhile any requests of others are served,
  in a world that changes at will, none of which brings this challenge and none of which is answered
  with it. The request that brings the solution while the puzzle is good, for a template that is
  ready, is then never refused for its proof of work: it goes on to the creation of the instance,
  and is answered 201, 409 or 500. The template need not be the one the puzzle was asked for, nor
  the difficulty its own, so a puzzle for an easy template opens a hard one. The puzzle is gone: the
  same solution a second time gets 428.
\<close>

theorem honest_client_gets_in:
  assumes asked: "handlePoWChallenge s name q w = (answer, s1, w1)" "rs_body answer = JsonPuzzle p"
    and others: "serveAll url_match others s1 w1 = (answers, s2, w2)"
      "list_all (\<lambda>(env, r). \<not> brings (pz_challenge p) r) others"
      "list_all (\<lambda>a. \<not> handsOut (pz_challenge p) a) answers"
    and solved: "SolvePoW (pz_challenge p) (pz_difficulty p) = (crq_nonce body, True)"
    and request: "decode_body create_field create_request_zero (json_first (rq_body r)) = Some body"
      "crq_challenge body = pz_challenge p" "crq_template body \<noteq> ''''" "crq_team body \<noteq> ''''"
    and tmpl: "k_get (kb_templates (sv_client s)) (sv_namespace s, crq_template body) w3 = (Inr tmpl, w4)"
      "tst_ready (ct_status tmpl)" "pow_required tmpl"
    and in_time: "kb_now (sv_client s) w4 = (now, w5)" "now \<le> pz_expires p"
  shows "(\<exists>t \<in> clock_readings (sv_client s). pz_expires p = time_add t (seconds 300)) \<and>
    handleCreateInstance s2 name' r w3 =
      createInstance (s2\<lparr>sv_puzzles := (sv_puzzles s2)(pz_challenge p := None)\<rparr>) body w5 \<and>
    rs_status (fst (handleCreateInstance s2 name' r w3)) \<in> {201, 409, 500} \<and>
    rs_status (fst (handleCreateInstance (fst (snd (handleCreateInstance s2 name' r w3))) name'' r w3)) = 428"
proof -
  let ?ch = "pz_challenge p" and ?spent = "s2\<lparr>sv_puzzles := (sv_puzzles s2)(pz_challenge p := None)\<rparr>"
  from asked obtain t u d v where p: "s1 = storePoW p s" "GeneratePoWPuzzle (sv_rand s) (kb_now (sv_client s)) d u = (p, v)"
    by (auto simp: handlePoWChallenge_def httpError_def writeJSON_def Let_def
        split: prod.splits sum.splits option.splits if_splits)
  then have good: "\<exists>t \<in> clock_readings (sv_client s). pz_expires p = time_add t (seconds 300)"
    by (fastforce simp: GeneratePoWPuzzle_def clock_readings_def split: prod.splits)
  from keeps_traffic [OF others(1), of ?ch] others(2,3)
  have same: "s2 = s1\<lparr>sv_puzzles := sv_puzzles s2\<rparr>" and kept: "sv_puzzles s2 ?ch = sv_puzzles s1 ?ch" by blast+
  have s2: "sv_client s2 = sv_client s" "sv_namespace s2 = sv_namespace s"
    by (subst same, simp add: p(1) storePoW_def)+
  have there: "sv_puzzles s2 ?ch = Some p" unfolding kept p(1) by (simp add: storePoW_def)
  have "VerifyPoW ?ch (crq_nonce body) (pz_difficulty p)"
    using solveFrom_spec [OF _ solved [unfolded SolvePoW_def]] by simp
  with s2 there request tmpl in_time have enter: "handleCreateInstance s2 name' r w3 = createInstance ?spent body w5"
    by (simp add: handleCreateInstance_def consumePoW_def Let_def)
  have status: "rs_status (fst (createInstance ?spent body w5)) \<in> {201, 409, 500}"
    by (simp add: createInstance_def httpError_def writeJSON_def split: prod.split sum.split)
  have "fst (snd (createInstance ?spent body w5)) = ?spent"
    by (simp add: createInstance_def split: prod.split sum.split)
  then have again: "rs_status (fst (handleCreateInstance (fst (snd (createInstance ?spent body w5))) name'' r w3)) = 428"
    using s2 request tmpl by (simp add: handleCreateInstance_def consumePoW_def httpError_def)
  from good enter status again show ?thesis by simp
qed


text \<open>A template that asks for a puzzle of difficulty 0, and a caller who solves it.\<close>

definition smp_guarded :: challenge_template where
  "smp_guarded = smp_template\<lparr>ct_spec := (ct_spec smp_template)\<lparr>ts_pow :=
     Some \<lparr>pow_enabled = True, pow_difficulty = 0, pow_algorithm = ''sha256'', pow_ttl = ''5m''\<rparr>\<rparr>\<rparr>"

definition smp_guarded_mem :: mem where
  "smp_guarded_mem = smp_mem [smp_guarded] [] []"

definition smp_zeros :: string where
  "smp_zeros = hex_encode (replicate 32 0)"

definition smp_ask :: http_request where
  "smp_ask = \<lparr>rq_method = ''GET'', rq_path = ''/api/v1/pow/challenge'',
     rq_query = (\<lambda>_. '''')(''template'' := ''web''), rq_header = (\<lambda>_. ''''), rq_body = ''''\<rparr>"

definition smp_bring :: http_request where
  "smp_bring = \<lparr>rq_method = ''POST'', rq_path = ''/api/v1/instances'', rq_query = (\<lambda>_. ''''), rq_header = (\<lambda>_. ''''),
     rq_body = json_object [(''template'', json_string ''web''), (''team'', json_string ''red''),
       (''powChallenge'', json_string smp_zeros), (''powNonce'', ''0'')]\<rparr>"

lemma smp_bring_body: "json_first (rq_body smp_bring) =
    Some (JObj [(''template'', JStr ''web''), (''team'', JStr ''red''), (''powChallenge'', JStr smp_zeros), (''powNonce'', JNum ''0'')])"
  by code_simp

lemma smp_bring_decodes:
  "decode_body create_field create_request_zero (json_first (rq_body smp_bring)) =
     Some \<lparr>crq_template = ''web'', crq_team = ''red'', crq_player = '''', crq_challenge = smp_zeros, crq_nonce = 0\<rparr>"
  by (simp add: smp_bring_body create_field_def create_request_zero_def decode_eval)

definition smp_puzzle :: pow_puzzle where
  "smp_puzzle = \<lparr>pz_challenge = smp_zeros, pz_difficulty = 0, pz_expires = time_add (10 ^ 18) (seconds 300)\<rparr>"

lemma smp_asked:
  "handlePoWChallenge (mem_sv Map.empty) '''' smp_ask smp_guarded_mem =
     (writeJSON 200 (JsonPuzzle smp_puzzle), mem_sv [smp_zeros \<mapsto> smp_puzzle], smp_guarded_mem\<lparr>mm_clock := 10 ^ 18 + 1\<rparr>)"
  by (simp add: handlePoWChallenge_def smp_ask_def mem_sv_def smp_guarded_mem_def smp_guarded_def GeneratePoWPuzzle_def
      storePoW_def smp_puzzle_def smp_zeros_def mem_eval smp_defs Let_def)

lemma solve_easy: "SolvePoW c 0 = (0, True)"
  by (simp add: SolvePoW_def solveFrom.simps VerifyPoW_easy)

text \<open>A minute later, after a health check.\<close>

definition smp_others :: "((mem \<Rightarrow> mem) \<times> http_request) list" where
  "smp_others = [(\<lambda>m. m\<lparr>mm_clock := mm_clock m + seconds 60\<rparr>,
     \<lparr>rq_method = ''GET'', rq_path = ''/api/v1/health'', rq_query = (\<lambda>_. ''''), rq_header = (\<lambda>_. ''''), rq_body = ''''\<rparr>)]"

definition same_path :: "string \<Rightarrow> string \<Rightarrow> string option" where
  "same_path pat path = (if pat = path then Some '''' else None)"

definition smp_guarded_later :: mem where
  "smp_guarded_later = smp_guarded_mem\<lparr>mm_clock := 10 ^ 18 + 1 + seconds 60\<rparr>"

lemma smp_traffic:
  "serveAll same_path smp_others (mem_sv [smp_zeros \<mapsto> smp_puzzle]) (smp_guarded_mem\<lparr>mm_clock := 10 ^ 18 + 1\<rparr>) =
     ([writeJSON 200 (JsonHealth ''ok'')], mem_sv [smp_zeros \<mapsto> smp_puzzle], smp_guarded_later)"
  by (simp add: smp_others_def smp_guarded_later_def serve_def setupRoutes_def same_path_def handleHealth_def)

theorem honest_client_gets_in_witness:
  "rs_status (fst (handleCreateInstance (mem_sv [smp_zeros \<mapsto> smp_puzzle]) '''' smp_bring smp_guarded_later)) \<in> {201, 409, 500} \<and>
   rs_status (fst (handleCreateInstance (fst (snd
     (handleCreateInstance (mem_sv [smp_zeros \<mapsto> smp_puzzle]) '''' smp_bring smp_guarded_later))) '''' smp_bring smp_guarded_later)) = 428"
proof -
  let ?b = "\<lparr>crq_template = ''web'', crq_team = ''red'', crq_player = '''', crq_challenge = smp_zeros, crq_nonce = 0\<rparr>"
  have tmpl: "k_get (kb_templates (sv_client (mem_sv Map.empty))) (sv_namespace (mem_sv Map.empty), crq_template ?b)
      smp_guarded_later = (Inr smp_guarded, smp_guarded_later)"
    by (simp add: mem_sv_def smp_guarded_later_def smp_guarded_mem_def smp_guarded_def mem_eval smp_defs)
  have ready: "tst_ready (ct_status smp_guarded)" "pow_required smp_guarded"
    by (simp_all add: smp_guarded_def smp_defs pow_required_def)
  have now: "kb_now (sv_client (mem_sv Map.empty)) smp_guarded_later =
      (10 ^ 18 + 1 + seconds 60, smp_guarded_later\<lparr>mm_clock := 10 ^ 18 + 2 + seconds 60\<rparr>)"
    by (simp add: mem_sv_def smp_guarded_later_def mem_kube_def)
  have early: "10 ^ 18 + 1 + seconds 60 \<le> pz_expires smp_puzzle"
    by (simp add: smp_puzzle_def time_add_def seconds_def)
  have pz: "pz_challenge smp_puzzle = smp_zeros" "pz_difficulty smp_puzzle = 0" by (simp_all add: smp_puzzle_def)
  have "rs_body (writeJSON 200 (JsonPuzzle smp_puzzle)) = JsonPuzzle smp_puzzle" by (simp add: writeJSON_def)
  note allowed = honest_client_gets_in [OF smp_asked this smp_traffic _ _ _ smp_bring_decodes _ _ _ tmpl ready now early]
  show ?thesis
    by (rule allowed [THEN conjunct2, THEN conjunct2, unfolded pz])
      (simp_all add: smp_others_def brings_def handsOut_def writeJSON_def solve_easy decode_body_def)
qed

end
