(* ===== verification/Go_Heap.thy ===== *)
theory Go_Heap
  imports Prelude "HOL-Library.Sublist" "HOL-Library.AList"
begin

text \<open>
  Memory with aliases, for the one part of the program that is about them, the deep copies of
  \<open>zz_generated.deepcopy.go\<close>. A heap is a list of cells and an address an index, so allocation
  appends. The locale \<open>deep_copy\<close> says what a deep copy is; the lemmas build one from deep
  copies of the parts, for each construct the generated code is made of.
\<close>

type_synonym addr = nat

text \<open>A slice that is not nil: its array, the index of the first element, the number of elements.\<close>

type_synonym slice = "addr \<times> nat \<times> nat"

definition alloc :: "'c \<Rightarrow> 'c list \<Rightarrow> addr \<times> 'c list" where
  "alloc c h = (length h, h @ [c])"

section \<open>Deep copies\<close>

text \<open>The cells at the addresses \<open>A\<close> are there after \<open>h\<close> became \<open>h'\<close>, and the same.\<close>

definition agree :: "addr set \<Rightarrow> 'c list \<Rightarrow> 'c list \<Rightarrow> bool" where
  "agree A h h' \<longleftrightarrow> (\<forall>a \<in> A. a < length h' \<and> h' ! a = h ! a)"

lemma agree_prefix: "prefix h h' \<Longrightarrow> A \<subseteq> {..<length h} \<Longrightarrow> agree A h h'"
  by (auto simp: agree_def prefix_def nth_append)

lemma agree_update: "a \<notin> A \<Longrightarrow> A \<subseteq> {..<length h} \<Longrightarrow> agree A h (h[a := c])"
  unfolding agree_def length_list_update by (metis lessThan_iff nth_list_update_neq subsetD)

lemma agree_mono: "agree A h h' \<Longrightarrow> B \<subseteq> A \<Longrightarrow> agree B h h'"
  by (auto simp: agree_def)

lemma agreeD: "agree A h h' \<Longrightarrow> a \<in> A \<Longrightarrow> a < length h' \<and> h' ! a = h ! a"
  by (simp add: agree_def)

lemma prefix_update: "prefix h h' \<Longrightarrow> length h \<le> a \<Longrightarrow> prefix h (h'[a := c])"
  by (auto simp: prefix_def list_update_append)

lemma prefix_alloc: "alloc c h = (a, h') \<Longrightarrow> prefix h h' \<and> a = length h \<and> a < length h' \<and> h' ! a = c \<and> length h' = Suc (length h)"
  by (auto simp: alloc_def)

lemma prefix_nth: "prefix h h' \<Longrightarrow> a < length h \<Longrightarrow> h' ! a = h ! a"
  by (auto simp: prefix_def nth_append)

text \<open>
  \<open>load h x\<close> is the value a Go value \<open>x\<close> stands for in the memory \<open>h\<close>, if everything it points to is
  there, and \<open>refs h x\<close> are the addresses it leads to. A deep copy has the same value in new cells,
  and leaves the cells there were.
\<close>

locale deep_copy =
  fixes copy :: "'a \<Rightarrow> 'c list \<Rightarrow> 'a \<times> 'c list"
    and load :: "'c list \<Rightarrow> 'a \<Rightarrow> 'v option"
    and refs :: "'c list \<Rightarrow> 'a \<Rightarrow> addr set"
  assumes frame: "load h x = Some v \<Longrightarrow> agree (refs h x) h h' \<Longrightarrow> load h' x = Some v"
    and frame_refs: "load h x = Some v \<Longrightarrow> agree (refs h x) h h' \<Longrightarrow> refs h' x = refs h x"
    and live: "load h x = Some v \<Longrightarrow> refs h x \<subseteq> {..<length h}"
    and copy_load: "load h x = Some v \<Longrightarrow> copy x h = (y, h') \<Longrightarrow> load h' y = Some v"
    and copy_refs: "load h x = Some v \<Longrightarrow> copy x h = (y, h') \<Longrightarrow> refs h' y \<subseteq> {length h..}"
    and copy_grows: "load h x = Some v \<Longrightarrow> copy x h = (y, h') \<Longrightarrow> prefix h h'"
begin

lemma later:
  assumes "load h x = Some v" "prefix h h'"
  shows "load h' x = Some v" "refs h' x = refs h x"
  using frame frame_refs agree_prefix [OF assms(2) live [OF assms(1)]] assms(1) by blast+

lemma written:
  assumes "load h x = Some v" "a \<notin> refs h x"
  shows "load (h[a := c]) x = Some v" "refs (h[a := c]) x = refs h x"
  using frame frame_refs agree_update [OF assms(2) live [OF assms(1)]] assms(1) by blast+

text \<open>Original and copy share nothing, so a write through the one does not show in the other.\<close>

lemma separate:
  assumes v: "load h x = Some v" and run: "copy x h = (y, h')"
  shows "load h' x = Some v \<and> load h' y = Some v \<and> refs h' x \<inter> refs h' y = {} \<and>
    (\<forall>a c. a \<in> refs h' y \<longrightarrow> load (h'[a := c]) x = Some v) \<and>
    (\<forall>a c. a \<in> refs h' x \<longrightarrow> load (h'[a := c]) y = Some v)"
proof -
  note old = later [OF v copy_grows [OF v run]]
  have "refs h' x \<inter> refs h' y = {}"
    unfolding old(2) using live [OF v] copy_refs [OF v run] by fastforce
  with old(1) copy_load [OF v run] show ?thesis
    by (auto intro!: written(1))
qed

end

section \<open>Building blocks\<close>

text \<open>A value without pointers: \<open>*out = *in\<close>.\<close>

definition copyFlat :: "'a \<Rightarrow> 'c list \<Rightarrow> 'a \<times> 'c list" where
  "copyFlat x h = (x, h)"

definition loadFlat :: "'c list \<Rightarrow> 'a \<Rightarrow> 'a option" where
  "loadFlat h x = Some x"

definition refsFlat :: "'c list \<Rightarrow> 'a \<Rightarrow> addr set" where
  "refsFlat h x = {}"

interpretation flat: deep_copy copyFlat loadFlat refsFlat
  by unfold_locales (auto simp: copyFlat_def loadFlat_def refsFlat_def)

text \<open>Two parts, one after the other.\<close>

definition copyPair where
  "copyPair c1 c2 x h =
     (case c1 (fst x) h of (y1, h1) \<Rightarrow> (case c2 (snd x) h1 of (y2, h2) \<Rightarrow> ((y1, y2), h2)))"

definition loadPair where
  "loadPair l1 l2 h x =
     (case l1 h (fst x) of None \<Rightarrow> None | Some v1 \<Rightarrow> map_option (Pair v1) (l2 h (snd x)))"

definition refsPair :: "('c list \<Rightarrow> 'a \<Rightarrow> addr set) \<Rightarrow> ('c list \<Rightarrow> 'b \<Rightarrow> addr set) \<Rightarrow> 'c list \<Rightarrow> 'a \<times> 'b \<Rightarrow> addr set" where
  "refsPair r1 r2 h x = r1 h (fst x) \<union> r2 h (snd x)"

lemma loadPair_Some:
  "loadPair l1 l2 h x = Some v \<longleftrightarrow> l1 h (fst x) = Some (fst v) \<and> l2 h (snd x) = Some (snd v)"
  by (cases v) (auto simp: loadPair_def split: option.splits)

lemma deep_pair:
  assumes "deep_copy c1 l1 r1" "deep_copy c2 l2 r2"
  shows "deep_copy (copyPair c1 c2) (loadPair l1 l2) (refsPair r1 r2)"
proof
  fix h h' x v
  assume v: "loadPair l1 l2 h x = Some v" and agree: "agree (refsPair r1 r2 h x) h h'"
  have a: "agree (r1 h (fst x)) h h'" "agree (r2 h (snd x)) h h'"
    using agree_mono [OF agree] by (auto simp: refsPair_def)
  note v = v [unfolded loadPair_Some]
  show "loadPair l1 l2 h' x = Some v"
    unfolding loadPair_Some using v a deep_copy.frame [OF assms(1)] deep_copy.frame [OF assms(2)] by blast
  show "refsPair r1 r2 h' x = refsPair r1 r2 h x"
    using v a deep_copy.frame_refs [OF assms(1)] deep_copy.frame_refs [OF assms(2)]
    unfolding refsPair_def by metis
next
  fix h x v
  assume "loadPair l1 l2 h x = Some v"
  then show "refsPair r1 r2 h x \<subseteq> {..<length h}"
    unfolding loadPair_Some refsPair_def
    using deep_copy.live [OF assms(1)] deep_copy.live [OF assms(2)] by blast
next
  fix h x v y h'
  assume v: "loadPair l1 l2 h x = Some v" and run: "copyPair c1 c2 x h = (y, h')"
  then obtain h1 where r1: "c1 (fst x) h = (fst y, h1)" and r2: "c2 (snd x) h1 = (snd y, h')"
    by (auto simp: copyPair_def split: prod.splits)
  note v = v [unfolded loadPair_Some]
  note v1 = v [THEN conjunct1]
  note g1 = deep_copy.copy_grows [OF assms(1) v1 r1]
  note v2 = deep_copy.later(1) [OF assms(2) v [THEN conjunct2] g1]
  note g2 = deep_copy.copy_grows [OF assms(2) v2 r2]
  note y1 = deep_copy.later [OF assms(1) deep_copy.copy_load [OF assms(1) v1 r1] g2]
  show "loadPair l1 l2 h' y = Some v"
    unfolding loadPair_Some using y1(1) deep_copy.copy_load [OF assms(2) v2 r2] by blast
  show "prefix h h'" using g1 g2 by (rule prefix_order.trans)
  have "r1 h' (fst y) \<subseteq> {length h..}"
    unfolding y1(2) by (rule deep_copy.copy_refs [OF assms(1) v1 r1])
  moreover have "r2 h' (snd y) \<subseteq> {length h..}"
    using deep_copy.copy_refs [OF assms(2) v2 r2] prefix_length_le [OF g1] by fastforce
  ultimately show "refsPair r1 r2 h' y \<subseteq> {length h..}" by (simp add: refsPair_def)
qed

text \<open>
  A struct whose parts with pointers are \<open>part x\<close>: the rest of it is copied by the assignment that
  the generated code begins with.
\<close>

definition copyPart where
  "copyPart part put c x h = (case c (part x) h of (y, h') \<Rightarrow> (put x y, h'))"

definition loadPart where
  "loadPart part val l h x = map_option (val x) (l h (part x))"

definition refsPart :: "('b \<Rightarrow> 'a) \<Rightarrow> ('c list \<Rightarrow> 'a \<Rightarrow> addr set) \<Rightarrow> 'c list \<Rightarrow> 'b \<Rightarrow> addr set" where
  "refsPart part r h x = r h (part x)"

lemma deep_part:
  assumes "deep_copy c l r" and part: "\<And>x y. part (put x y) = y" and val: "\<And>x y. val (put x y) = val x"
  shows "deep_copy (copyPart part put c) (loadPart part val l) (refsPart part r)"
  by unfold_locales
    (auto simp: copyPart_def loadPart_def refsPart_def part val split: prod.splits
      dest: deep_copy.frame [OF assms(1)] deep_copy.frame_refs [OF assms(1)] subsetD [OF deep_copy.live [OF assms(1)]]
        deep_copy.copy_load [OF assms(1)] subsetD [OF deep_copy.copy_refs [OF assms(1)]] deep_copy.copy_grows [OF assms(1)])


section \<open>Pointers\<close>

text \<open>A pointer, slice or map that may be nil: \<open>if in.X != nil { ... }\<close> after the assignment.\<close>

definition copyOption where
  "copyOption c p h =
     (case p of None \<Rightarrow> (None, h) | Some x \<Rightarrow> (case c x h of (y, h') \<Rightarrow> (Some y, h')))"

definition loadOption where
  "loadOption l h p = (case p of None \<Rightarrow> Some None | Some x \<Rightarrow> map_option Some (l h x))"

definition refsOption :: "('c list \<Rightarrow> 'a \<Rightarrow> addr set) \<Rightarrow> 'c list \<Rightarrow> 'a option \<Rightarrow> addr set" where
  "refsOption r h p = (case p of None \<Rightarrow> {} | Some x \<Rightarrow> r h x)"

lemma loadOption_Some:
  "loadOption l h p = Some v \<longleftrightarrow> (case p of None \<Rightarrow> v = None | Some x \<Rightarrow> \<exists>u. v = Some u \<and> l h x = Some u)"
  by (auto simp: loadOption_def split: option.split)

lemma deep_option:
  assumes "deep_copy c l r"
  shows "deep_copy (copyOption c) (loadOption l) (refsOption r)"
  by unfold_locales
    (auto simp: copyOption_def loadOption_Some refsOption_def split: prod.splits option.splits
      dest: deep_copy.frame [OF assms(1)] deep_copy.frame_refs [OF assms(1)] subsetD [OF deep_copy.live [OF assms(1)]]
        deep_copy.copy_load [OF assms(1)] subsetD [OF deep_copy.copy_refs [OF assms(1)]] deep_copy.copy_grows [OF assms(1)])

text \<open>What a pointer leads to: a cell with a value in it.\<close>

definition loadCell where
  "loadCell get l h a =
     (if a < length h then (case get (h ! a) of None \<Rightarrow> None | Some x \<Rightarrow> l h x) else None)"

definition refsCell :: "('c \<Rightarrow> 'a option) \<Rightarrow> ('c list \<Rightarrow> 'a \<Rightarrow> addr set) \<Rightarrow> 'c list \<Rightarrow> addr \<Rightarrow> addr set" where
  "refsCell get r h a = insert a (case get (h ! a) of None \<Rightarrow> {} | Some x \<Rightarrow> r h x)"

lemma loadCell_Some: "loadCell get l h a = Some v \<longleftrightarrow> a < length h \<and> (\<exists>x. get (h ! a) = Some x \<and> l h x = Some v)"
  by (auto simp: loadCell_def split: option.splits)


text \<open>\<open>out := new(T); in.DeepCopyInto(out)\<close>\<close>

definition newInto where
  "newInto zero mk get into a h =
     (case alloc zero h of (b, h1) \<Rightarrow>
       (case into (the (get (h1 ! a))) h1 of (y, h2) \<Rightarrow> (b, h2[b := mk y])))"

lemma deep_new:
  assumes "deep_copy into l r" and get: "\<And>y. get (mk y) = Some y"
  shows "deep_copy (newInto zero mk get into) (loadCell get l) (refsCell get r)"
proof
  fix h h' a v
  assume "loadCell get l h a = Some v" and agree: "agree (refsCell get r h a) h h'"
  then obtain x where a: "a < length h" "get (h ! a) = Some x" "l h x = Some v" by (auto simp: loadCell_Some)
  have rest: "agree (r h x) h h'" "a < length h'" "h' ! a = h ! a"
    using agree a(2) by (simp_all add: agree_def refsCell_def)
  show "loadCell get l h' a = Some v"
    unfolding loadCell_Some using a rest deep_copy.frame [OF assms(1) a(3)] by simp
  show "refsCell get r h' a = refsCell get r h a"
    using a rest deep_copy.frame_refs [OF assms(1) a(3)] by (simp add: refsCell_def)
next
  fix h a v
  assume "loadCell get l h a = Some v"
  then obtain x where a: "a < length h" "get (h ! a) = Some x" "l h x = Some v" by (auto simp: loadCell_Some)
  with deep_copy.live [OF assms(1) a(3)] show "refsCell get r h a \<subseteq> {..<length h}"
    by (simp add: refsCell_def)
next
  fix h a v b h'
  assume "loadCell get l h a = Some v" and run: "newInto zero mk get into a h = (b, h')"
  then obtain x where a: "a < length h" "get (h ! a) = Some x" "l h x = Some v" by (auto simp: loadCell_Some)
  obtain h1 where new: "alloc zero h = (length h, h1)" by (simp add: alloc_def)
  note h1 = prefix_alloc [OF new]
  then have here: "prefix h h1" "h1 ! a = h ! a" using a(1) prefix_nth by blast+
  obtain y h2 where y: "into x h1 = (y, h2)" by (cases "into x h1")
  have b: "b = length h" "h' = h2[length h := mk y]"
    using run new y a(2) here by (auto simp: newInto_def)
  note x = deep_copy.later(1) [OF assms(1) a(3) here(1)]
  note g = deep_copy.copy_grows [OF assms(1) x y]
  have fresh: "r h2 y \<subseteq> {Suc (length h)..}" using deep_copy.copy_refs [OF assms(1) x y] h1 by simp
  then have out: "length h \<notin> r h2 y" by fastforce
  note w = deep_copy.written [OF assms(1) deep_copy.copy_load [OF assms(1) x y] out, of "mk y"]
  have size: "length h < length h2" using h1 prefix_length_le [OF g] by simp
  then have at: "get (h' ! b) = Some y" unfolding b by (simp add: get)
  show "loadCell get l h' b = Some v"
    unfolding loadCell_Some using at size w(1) by (simp add: b)
  show "refsCell get r h' b \<subseteq> {length h..}"
    using at w(2) fresh by (auto simp: refsCell_def b)
  show "prefix h h'"
    unfolding b by (intro prefix_update) (use here(1) g in \<open>auto intro: prefix_order.trans\<close>)
qed

text \<open>\<open>out := new(T); *out = *in\<close>, where \<open>T\<close> has no pointers.\<close>

definition newFlat :: "'c \<Rightarrow> addr \<Rightarrow> 'c list \<Rightarrow> addr \<times> 'c list" where
  "newFlat zero a h = (case alloc zero h of (b, h1) \<Rightarrow> (b, h1[b := h1 ! a]))"

lemma deep_new_flat: "deep_copy (newFlat zero) (loadCell get loadFlat) (refsCell get refsFlat)"
  by unfold_locales
    (auto simp: newFlat_def alloc_def loadCell_Some refsCell_def loadFlat_def refsFlat_def agree_def nth_append
      nth_list_update split: option.splits)

text \<open>A pointer method that treats nil itself: \<open>if in == nil { return nil }\<close>.\<close>

definition deepCopy where
  "deepCopy zero mk get into p h = copyOption (newInto zero mk get into) p h"


section \<open>Slices and maps\<close>

text \<open>
  The loops that copy the elements of a slice or the values of a map: for each key (or index) the
  entry of \<open>in\<close> is read, copied, and written into the new object at \<open>b\<close>.
\<close>

fun copyLoop ::
  "('a \<Rightarrow> 'c list \<Rightarrow> 'a \<times> 'c list) \<Rightarrow> ('k \<Rightarrow> 'c list \<Rightarrow> 'a) \<Rightarrow> ('k \<Rightarrow> 'a \<Rightarrow> 'c \<Rightarrow> 'c) \<Rightarrow> addr \<Rightarrow> 'k list \<Rightarrow> 'c list \<Rightarrow> 'c list" where
  "copyLoop into read write b [] h = h"
| "copyLoop into read write b (k # ks) h =
     (case into (read k h) h of (y, h1) \<Rightarrow> copyLoop into read write b ks (h1[b := write k y (h1 ! b)]))"

lemma copyLoop_done:
  assumes into: "deep_copy into l r"
    and start: "prefix h0 h" "length h0 \<le> b" "b < length h"
    and items: "\<And>k. k \<in> set ks \<Longrightarrow> l h0 (x k) = Some (v k)"
      "\<And>k h. k \<in> set ks \<Longrightarrow> prefix h0 h \<Longrightarrow> read k h = x k"
  shows "\<exists>ys h'. copyLoop into read write b ks h = h' \<and> length h \<le> length h' \<and>
    (\<forall>a < length h. a \<noteq> b \<longrightarrow> h' ! a = h ! a) \<and>
    length ys = length ks \<and> h' ! b = fold (\<lambda>(k, y). write k y) (zip ks ys) (h ! b) \<and>
    list_all2 (\<lambda>k y. l h' y = Some (v k) \<and> r h' y \<subseteq> {Suc b..}) ks ys"
  using start items
proof (induction ks arbitrary: h)
  case Nil
  show ?case by (rule exI [of _ "[]"]) simp
next
  case (Cons k ks)
  have read: "read k h = x k" using Cons.prems by simp
  obtain y h1 where y: "into (x k) h = (y, h1)" by (cases "into (x k) h")
  define h2 where "h2 = h1[b := write k y (h1 ! b)]"
  have vk: "l h (x k) = Some (v k)"
    using deep_copy.later(1) [OF into _ Cons.prems(1)] Cons.prems(4) by simp
  note g = deep_copy.copy_grows [OF into vk y]
  then have b1: "b < length h1" "h1 ! b = h ! b"
    using prefix_length_le [OF g] Cons.prems(3) prefix_nth [OF g] by simp_all
  have fresh: "r h1 y \<subseteq> {Suc b..}" using deep_copy.copy_refs [OF into vk y] Cons.prems(3) by fastforce
  then have out: "b \<notin> r h1 y" by fastforce
  note y2 = deep_copy.written [OF into deep_copy.copy_load [OF into vk y] out, of "write k y (h1 ! b)", folded h2_def]
  have pre: "prefix h0 h2"
    unfolding h2_def by (rule prefix_update) (use prefix_order.trans [OF Cons.prems(1) g] Cons.prems(2) in simp_all)
  have "\<exists>ys h'. copyLoop into read write b ks h2 = h' \<and> length h2 \<le> length h' \<and>
      (\<forall>a < length h2. a \<noteq> b \<longrightarrow> h' ! a = h2 ! a) \<and>
      length ys = length ks \<and> h' ! b = fold (\<lambda>(k, y). write k y) (zip ks ys) (h2 ! b) \<and>
      list_all2 (\<lambda>k y. l h' y = Some (v k) \<and> r h' y \<subseteq> {Suc b..}) ks ys"
    by (rule Cons.IH [OF pre Cons.prems(2)]) (use b1 Cons.prems(4,5) in \<open>auto simp: h2_def\<close>)
  then obtain ys h' where rest: "copyLoop into read write b ks h2 = h'" "length h2 \<le> length h'"
    "\<forall>a < length h2. a \<noteq> b \<longrightarrow> h' ! a = h2 ! a" "length ys = length ks"
    "h' ! b = fold (\<lambda>(k, y). write k y) (zip ks ys) (h2 ! b)"
    "list_all2 (\<lambda>k y. l h' y = Some (v k) \<and> r h' y \<subseteq> {Suc b..}) ks ys" by blast
  have "agree (r h2 y) h2 h'"
    using deep_copy.live [OF into y2(1)] rest(2,3) out unfolding y2(2) agree_def by fastforce
  note last = deep_copy.frame [OF into y2(1) this] deep_copy.frame_refs [OF into y2(1) this]
  have "copyLoop into read write b (k # ks) h = h'" using rest(1) y by (simp add: read h2_def)
  moreover have "length h \<le> length h'" using rest(2) prefix_length_le [OF g] by (simp add: h2_def)
  moreover have "\<forall>a < length h. a \<noteq> b \<longrightarrow> h' ! a = h ! a"
    using rest(3) prefix_length_le [OF g] prefix_nth [OF g] by (simp add: h2_def)
  moreover have "h' ! b = fold (\<lambda>(k, y). write k y) (zip (k # ks) (y # ys)) (h ! b)"
    using rest(5) b1 by (simp add: h2_def)
  ultimately show ?case
    using rest(4,6) last y2 fresh by (intro exI [of _ "y # ys"] exI [of _ h']) simp
qed

text \<open>The elements of a slice.\<close>

definition window :: "('c \<Rightarrow> 'a list option) \<Rightarrow> 'c list \<Rightarrow> slice \<Rightarrow> 'a list" where
  "window get h s = (case s of (a, off, n) \<Rightarrow> take n (drop off (the (get (h ! a)))))"

definition slice_ok :: "('c \<Rightarrow> 'a list option) \<Rightarrow> 'c list \<Rightarrow> slice \<Rightarrow> bool" where
  "slice_ok get h s =
     (case s of (a, off, n) \<Rightarrow> a < length h \<and> (case get (h ! a) of None \<Rightarrow> False | Some xs \<Rightarrow> off + n \<le> length xs))"

definition loadSlice where
  "loadSlice get l h s = (if slice_ok get h s then those (map (l h) (window get h s)) else None)"

definition refsSlice :: "('c \<Rightarrow> 'a list option) \<Rightarrow> ('c list \<Rightarrow> 'a \<Rightarrow> addr set) \<Rightarrow> 'c list \<Rightarrow> slice \<Rightarrow> addr set" where
  "refsSlice get r h s = insert (fst s) (\<Union>x \<in> set (window get h s). r h x)"

lemma those_Some: "those os = Some vs \<longleftrightarrow> os = map Some vs"
  by (induction os arbitrary: vs) (auto split: option.splits)

lemma loadSlice_Some:
  "loadSlice get l h s = Some vs \<longleftrightarrow> slice_ok get h s \<and> list_all2 (\<lambda>x v. l h x = Some v) (window get h s) vs"
  by (auto simp: loadSlice_def those_Some list_all2_conv_all_nth list_eq_iff_nth_eq)

text \<open>\<open>*out = make([]T, len(*in))\<close>, then either \<open>copy(*out, *in)\<close> or a loop.\<close>

definition copySlice :: "'a \<Rightarrow> ('a list \<Rightarrow> 'c) \<Rightarrow> ('c \<Rightarrow> 'a list option) \<Rightarrow> slice \<Rightarrow> 'c list \<Rightarrow> slice \<times> 'c list" where
  "copySlice zero mk get s h =
     (case s of (a, off, n) \<Rightarrow>
       (case alloc (mk (replicate n zero)) h of (b, h1) \<Rightarrow> ((b, 0, n), h1[b := mk (window get h1 s)])))"

definition copyEach ::
  "'a \<Rightarrow> ('a list \<Rightarrow> 'c) \<Rightarrow> ('c \<Rightarrow> 'a list option) \<Rightarrow> ('a \<Rightarrow> 'c list \<Rightarrow> 'a \<times> 'c list) \<Rightarrow> slice \<Rightarrow> 'c list \<Rightarrow> slice \<times> 'c list" where
  "copyEach zero mk get into s h =
     (case s of (a, off, n) \<Rightarrow>
       (case alloc (mk (replicate n zero)) h of
          (b, h1) \<Rightarrow> ((b, 0, n), copyLoop into (\<lambda>i h. the (get (h ! a)) ! (off + i))
             (\<lambda>i y c. mk ((the (get c))[i := y])) b [0..<n] h1)))"


lemma slice_agree:
  assumes "slice_ok get h s" "agree (refsSlice get r h s) h h'"
  shows "slice_ok get h' s" "window get h' s = window get h s"
proof -
  obtain a off n where s: "s = (a, off, n)" by (rule prod_cases3)
  have "a < length h'" "h' ! a = h ! a" using agreeD [OF assms(2), of a] by (simp_all add: refsSlice_def s)
  with assms(1) show "slice_ok get h' s" "window get h' s = window get h s"
    by (simp_all add: slice_ok_def window_def s)
qed

lemma deep_slice_reading:
  assumes into: "deep_copy into l r" and v: "loadSlice get l h s = Some vs"
  shows "agree (refsSlice get r h s) h h' \<Longrightarrow> loadSlice get l h' s = Some vs"
    and "agree (refsSlice get r h s) h h' \<Longrightarrow> refsSlice get r h' s = refsSlice get r h s"
    and "refsSlice get r h s \<subseteq> {..<length h}"
proof -
  have ok: "slice_ok get h s" and elems: "list_all2 (\<lambda>x v. l h x = Some v) (window get h s) vs"
    using v by (simp_all add: loadSlice_Some)
  have each: "\<exists>v. l h x = Some v" if "x \<in> set (window get h s)" for x
    using elems that by (auto simp: list_all2_conv_all_nth in_set_conv_nth)
  show "loadSlice get l h' s = Some vs" if agree: "agree (refsSlice get r h s) h h'"
  proof -
    have "list_all2 (\<lambda>x v. l h' x = Some v) (window get h s) vs"
    proof (rule list_all2_mono [OF list.rel_mono_strong [OF elems]])
      fix x v assume "x \<in> set (window get h s)" "l h x = Some v"
      moreover from this have "agree (r h x) h h'"
        by (intro agree_mono [OF agree]) (auto simp: refsSlice_def)
      ultimately show "l h' x = Some v" using deep_copy.frame [OF into] by blast
    qed simp
    with slice_agree [OF ok agree] show ?thesis by (simp add: loadSlice_Some)
  qed
  show "refsSlice get r h' s = refsSlice get r h s" if agree: "agree (refsSlice get r h s) h h'"
  proof -
    have "r h' x = r h x" if x: "x \<in> set (window get h s)" for x
    proof -
      from each [OF x] obtain v where v: "l h x = Some v" ..
      show ?thesis
        by (rule deep_copy.frame_refs [OF into v], rule agree_mono [OF agree]) (use x in \<open>auto simp: refsSlice_def\<close>)
    qed
    with slice_agree [OF ok agree] show ?thesis by (simp add: refsSlice_def)
  qed
  have "r h x \<subseteq> {..<length h}" if "x \<in> set (window get h s)" for x
    using each [OF that] deep_copy.live [OF into] by blast
  moreover have "fst s < length h" using ok by (simp add: slice_ok_def split: prod.splits)
  ultimately show "refsSlice get r h s \<subseteq> {..<length h}"
    unfolding refsSlice_def by (simp add: UN_subset_iff)
qed

text \<open>What one of the two loops leaves at the new array is enough.\<close>

lemma deep_slice_written:
  assumes "get (h' ! b) = Some ys" "b < length h'" "length ys = n" "length h \<le> b"
    and "list_all2 (\<lambda>y v. l h' y = Some v \<and> r h' y \<subseteq> {length h..}) ys vs"
  shows "loadSlice get l h' (b, 0, n) = Some vs" "refsSlice get r h' (b, 0, n) \<subseteq> {length h..}"
proof -
  have w: "window get h' (b, 0, n) = ys" using assms by (simp add: window_def)
  have "slice_ok get h' (b, 0, n)" using assms by (simp add: slice_ok_def)
  moreover have "list_all2 (\<lambda>y v. l h' y = Some v) ys vs" using assms(5) by (rule list_all2_mono) simp
  ultimately show "loadSlice get l h' (b, 0, n) = Some vs" by (simp add: loadSlice_Some w)
  have "r h' y \<subseteq> {length h..}" if "y \<in> set ys" for y
    using assms(5) that by (auto simp: list_all2_conv_all_nth in_set_conv_nth)
  with assms(4) show "refsSlice get r h' (b, 0, n) \<subseteq> {length h..}"
    unfolding refsSlice_def w by (simp add: UN_subset_iff)
qed

lemma length_window: "slice_ok get h (a, off, n) \<Longrightarrow> length (window get h (a, off, n)) = n"
  by (auto simp: slice_ok_def window_def split: option.splits)

lemma deep_slice_flat:
  assumes get: "\<And>xs. get (mk xs) = Some xs"
  shows "deep_copy (copySlice zero mk get) (loadSlice get loadFlat) (refsSlice get refsFlat)"
proof
  fix h h' s vs
  assume v: "loadSlice get loadFlat h s = Some vs"
  note reading = deep_slice_reading [OF flat.deep_copy_axioms v]
  show "agree (refsSlice get refsFlat h s) h h' \<Longrightarrow> loadSlice get loadFlat h' s = Some vs"
    "agree (refsSlice get refsFlat h s) h h' \<Longrightarrow> refsSlice get refsFlat h' s = refsSlice get refsFlat h s"
    "refsSlice get refsFlat h s \<subseteq> {..<length h}"
    by (fact reading)+
next
  fix h s vs t h'
  assume v: "loadSlice get loadFlat h s = Some vs" and run: "copySlice zero mk get s h = (t, h')"
  obtain a off n where s: "s = (a, off, n)" by (rule prod_cases3)
  obtain h1 where new: "alloc (mk (replicate n zero)) h = (length h, h1)" by (simp add: alloc_def)
  note h1 = prefix_alloc [OF new]
  have ok: "slice_ok get h s" "window get h s = vs"
    using v by (auto simp: loadSlice_Some loadFlat_def list_all2_conv_all_nth list_eq_iff_nth_eq)
  have "window get h1 s = vs"
    using ok prefix_nth [of h h1 a] h1 by (auto simp: s slice_ok_def window_def)
  then have t: "t = (length h, 0, n)" "h' = h1[length h := mk vs]"
    using run new by (auto simp: copySlice_def s)
  show "prefix h h'" unfolding t using h1 by (intro prefix_update) simp_all
  have size: "length vs = n" using ok length_window unfolding s by blast
  have "get (h' ! length h) = Some vs" "length h < length h'" using h1 by (simp_all add: t get)
  note written = deep_slice_written [where get = get, OF this size order_refl, of loadFlat refsFlat vs]
  show "loadSlice get loadFlat h' t = Some vs" "refsSlice get refsFlat h' t \<subseteq> {length h..}"
    unfolding t(1) by (rule written; simp add: list_all2_same loadFlat_def refsFlat_def)+
qed

lemma fold_array:
  assumes get: "\<And>xs. get (mk xs) = Some xs"
  shows "length zs = length xs + length ys \<Longrightarrow> take (length xs) zs = xs \<Longrightarrow>
    fold (\<lambda>(i, y) c. mk ((the (get c))[i := y])) (zip [length xs..<length zs] ys) (mk zs) = mk (xs @ ys)"
proof (induction ys arbitrary: xs zs)
  case Nil
  then show ?case by simp
next
  case (Cons y ys)
  then have "length xs < length zs" by simp
  from upt_conv_Cons [OF this] have "[length xs..<length zs] = length xs # [Suc (length xs)..<length zs]" .
  moreover have "take (length (xs @ [y])) (zs[length xs := y]) = xs @ [y]"
    using Cons.prems by (simp add: take_Suc_conv_app_nth)
  ultimately show ?case
    using Cons.IH [of "zs[length xs := y]" "xs @ [y]"] Cons.prems by (simp add: get)
qed

lemma deep_slice_each:
  assumes into: "deep_copy into l r" and get: "\<And>xs. get (mk xs) = Some xs"
  shows "deep_copy (copyEach zero mk get into) (loadSlice get l) (refsSlice get r)"
proof
  fix h h' s vs
  assume v: "loadSlice get l h s = Some vs"
  note reading = deep_slice_reading [OF into v]
  show "agree (refsSlice get r h s) h h' \<Longrightarrow> loadSlice get l h' s = Some vs"
    "agree (refsSlice get r h s) h h' \<Longrightarrow> refsSlice get r h' s = refsSlice get r h s"
    "refsSlice get r h s \<subseteq> {..<length h}"
    by (fact reading)+
next
  fix h s vs t h'
  assume v: "loadSlice get l h s = Some vs" and run: "copyEach zero mk get into s h = (t, h')"
  obtain a off n where s: "s = (a, off, n)" by (rule prod_cases3)
  obtain h1 where new: "alloc (mk (replicate n zero)) h = (length h, h1)" by (simp add: alloc_def)
  note h1 = prefix_alloc [OF new]
  have ok: "slice_ok get h s" and elems: "list_all2 (\<lambda>x v. l h x = Some v) (window get h s) vs"
    using v by (simp_all add: loadSlice_Some)
  have "length (window get h s) = n" using ok unfolding s by (rule length_window)
  then have size: "length (window get h s) = n" "length vs = n" using list_all2_lengthD [OF elems] by simp_all
  have read: "the (get (h2 ! a)) ! (off + i) = window get h s ! i" if "prefix h h2" "i < n" for h2 i
    using ok that prefix_nth [OF that(1), of a] by (auto simp: s slice_ok_def window_def split: option.splits)
  define ks where "ks = [0..<n]"
  have "\<exists>ys h'. copyLoop into (\<lambda>i h. the (get (h ! a)) ! (off + i)) (\<lambda>i y c. mk ((the (get c))[i := y])) (length h) ks h1 = h' \<and>
      length h1 \<le> length h' \<and> (\<forall>a < length h1. a \<noteq> length h \<longrightarrow> h' ! a = h1 ! a) \<and> length ys = length ks \<and>
      h' ! length h = fold (\<lambda>(i, y) c. mk ((the (get c))[i := y])) (zip ks ys) (h1 ! length h) \<and>
      list_all2 (\<lambda>i y. l h' y = Some (vs ! i) \<and> r h' y \<subseteq> {Suc (length h)..}) ks ys"
    by (rule copyLoop_done [OF into, where x = "\<lambda>i. window get h s ! i"])
      (use h1 read elems size in \<open>auto simp: ks_def list_all2_conv_all_nth\<close>)
  then obtain ys h2 where loop: "copyLoop into (\<lambda>i h. the (get (h ! a)) ! (off + i)) (\<lambda>i y c. mk ((the (get c))[i := y])) (length h) ks h1 = h2"
    "length h1 \<le> length h2" "\<forall>a < length h1. a \<noteq> length h \<longrightarrow> h2 ! a = h1 ! a" "length ys = n"
    "h2 ! length h = fold (\<lambda>(i, y) c. mk ((the (get c))[i := y])) (zip ks ys) (mk (replicate n zero))"
    "list_all2 (\<lambda>i y. l h2 y = Some (vs ! i) \<and> r h2 y \<subseteq> {Suc (length h)..}) ks ys"
    using h1 by (auto simp: ks_def)
  have t: "t = (length h, 0, n)" "h' = h2"
    using run new loop(1) by (auto simp: copyEach_def s ks_def)
  have "h2 ! length h = mk ys"
    using loop(4,5) fold_array [of get mk "replicate n zero" "[]" ys, OF get] by (simp add: ks_def)
  then have at: "get (h2 ! length h) = Some ys" "length h < length h2" using h1 loop(2) by (simp_all add: get)
  note written = deep_slice_written [where get = get, OF at loop(4) order_refl, of l r vs]
  have "list_all2 (\<lambda>y v. l h2 y = Some v \<and> r h2 y \<subseteq> {length h..}) ys vs"
    using loop(4,6) size(2) by (fastforce simp: ks_def list_all2_conv_all_nth)
  from written [OF this] show "loadSlice get l h' t = Some vs" "refsSlice get r h' t \<subseteq> {length h..}"
    unfolding t by simp_all
  have "take (length h) h2 = h"
    using loop(2,3) h1 prefix_nth [of h h1] by (intro nth_equalityI) auto
  then show "prefix h h'" unfolding t by (metis take_is_prefix)
qed


text \<open>
  A map: a cell of keys and values, in the order in which \<open>range\<close> happens to go through it.
  \<open>*out = make(map[K]V, len(*in))\<close>, then \<open>(*out)[key] = val.DeepCopy()\<close> for each.
\<close>

definition loadMap where
  "loadMap get l h a =
     (if a < length h
      then case get (h ! a) of
          None \<Rightarrow> None
        | Some kvs \<Rightarrow>
            if distinct (map fst kvs) then those (map (\<lambda>(k, x). map_option (Pair k) (l h x)) kvs) else None
      else None)"

definition refsMap :: "('c \<Rightarrow> ('k \<times> 'a) list option) \<Rightarrow> ('c list \<Rightarrow> 'a \<Rightarrow> addr set) \<Rightarrow> 'c list \<Rightarrow> addr \<Rightarrow> addr set" where
  "refsMap get r h a = insert a (case get (h ! a) of None \<Rightarrow> {} | Some kvs \<Rightarrow> \<Union>x \<in> snd ` set kvs. r h x)"

definition copyMap ::
  "(('k \<times> 'a) list \<Rightarrow> 'c) \<Rightarrow> ('c \<Rightarrow> ('k \<times> 'a) list option) \<Rightarrow> ('a \<Rightarrow> 'c list \<Rightarrow> 'a \<times> 'c list) \<Rightarrow> addr \<Rightarrow> 'c list \<Rightarrow> addr \<times> 'c list" where
  "copyMap mk get into a h =
     (case alloc (mk []) h of
        (b, h1) \<Rightarrow> (b, copyLoop into (\<lambda>k h. the (map_of (the (get (h ! a))) k))
           (\<lambda>k y c. mk (AList.update k y (the (get c)))) b (map fst (the (get (h1 ! a)))) h1))"

abbreviation map_loads :: "('c list \<Rightarrow> 'a \<Rightarrow> 'v option) \<Rightarrow> 'c list \<Rightarrow> ('k \<times> 'a) list \<Rightarrow> ('k \<times> 'v) list \<Rightarrow> bool" where
  "map_loads l h \<equiv> list_all2 (\<lambda>kx kv. fst kx = fst kv \<and> l h (snd kx) = Some (snd kv))"

lemma those_map: "those (map (\<lambda>(k, x). map_option (Pair k) (l h x)) kxs) = Some kvs \<longleftrightarrow> map_loads l h kxs kvs"
proof (induction kxs arbitrary: kvs)
  case Nil
  then show ?case by auto
next
  case (Cons kx kxs)
  then show ?case by (cases kvs) (auto split: prod.splits option.splits)
qed

lemma loadMap_Some:
  "loadMap get l h a = Some kvs \<longleftrightarrow>
     a < length h \<and> (\<exists>kxs. get (h ! a) = Some kxs \<and> distinct (map fst kxs) \<and> map_loads l h kxs kvs)"
  by (auto simp: loadMap_def those_map split: option.splits)

lemma list_all2_in1: "list_all2 P xs ys \<Longrightarrow> x \<in> set xs \<Longrightarrow> \<exists>y. P x y"
  by (induction rule: list_all2_induct) auto

lemma map_loads_at:
  "map_loads l h kxs kvs \<Longrightarrow> k \<in> set (map fst kxs) \<Longrightarrow> l h (the (map_of kxs k)) = Some (the (map_of kvs k))"
  by (induction rule: list_all2_induct) auto

lemma map_loads_keys: "map_loads l h kxs kvs \<Longrightarrow> map fst kvs = map fst kxs"
  by (induction rule: list_all2_induct) auto

lemma fold_map:
  assumes get: "\<And>kvs. get (mk kvs) = Some kvs"
  shows "length ys = length ks \<Longrightarrow> distinct ks \<Longrightarrow> set ks \<inter> fst ` set acc = {} \<Longrightarrow>
    fold (\<lambda>(k, y) c. mk (AList.update k y (the (get c)))) (zip ks ys) (mk acc) = mk (acc @ zip ks ys)"
proof (induction ks arbitrary: ys acc)
  case Nil
  then show ?case by simp
next
  case (Cons k ks)
  then obtain y zs where ys: "ys = y # zs" by (cases ys) auto
  have "AList.update k y acc = acc @ [(k, y)]"
    using Cons.prems(3) by (induction acc) auto
  with Cons.IH [of zs "acc @ [(k, y)]"] Cons.prems ys show ?case by (auto simp: get)
qed

lemma deep_map:
  assumes into: "deep_copy into l r" and get: "\<And>kvs. get (mk kvs) = Some kvs"
  shows "deep_copy (copyMap mk get into) (loadMap get l) (refsMap get r)"
proof
  fix h h' a v
  assume v: "loadMap get l h a = Some v" and agree: "agree (refsMap get r h a) h h'"
  from v obtain kxs where a: "a < length h" "get (h ! a) = Some kxs" "distinct (map fst kxs)" and
    elems: "map_loads l h kxs v"
    by (auto simp: loadMap_Some)
  have here: "a < length h'" "h' ! a = h ! a" using agreeD [OF agree, of a] by (simp_all add: refsMap_def)
  have each: "l h' (snd kx) = Some u \<and> r h' (snd kx) = r h (snd kx)"
    if "kx \<in> set kxs" "l h (snd kx) = Some u" for kx u
  proof -
    have "agree (r h (snd kx)) h h'"
      by (rule agree_mono [OF agree]) (use that a in \<open>auto simp: refsMap_def\<close>)
    with that show ?thesis using deep_copy.frame [OF into] deep_copy.frame_refs [OF into] by blast
  qed
  have "map_loads l h' kxs v"
    by (rule list.rel_mono_strong [OF elems]) (use each in blast)
  with a here show "loadMap get l h' a = Some v" by (auto simp: loadMap_Some)
  have "r h' (snd kx) = r h (snd kx)" if "kx \<in> set kxs" for kx
    using list_all2_in1 [OF elems that] each that by blast
  with a here show "refsMap get r h' a = refsMap get r h a" by (simp add: refsMap_def)
next
  fix h a v
  assume "loadMap get l h a = Some v"
  then obtain kxs where a: "a < length h" "get (h ! a) = Some kxs" and
    elems: "map_loads l h kxs v"
    by (auto simp: loadMap_Some)
  have "r h (snd kx) \<subseteq> {..<length h}" if "kx \<in> set kxs" for kx
    using list_all2_in1 [OF elems that] deep_copy.live [OF into] by blast
  with a show "refsMap get r h a \<subseteq> {..<length h}" by (simp add: refsMap_def UN_subset_iff)
next
  fix h a v b h'
  assume v: "loadMap get l h a = Some v" and run: "copyMap mk get into a h = (b, h')"
  from v obtain kxs where a: "a < length h" "get (h ! a) = Some kxs" "distinct (map fst kxs)" and
    elems: "map_loads l h kxs v"
    by (auto simp: loadMap_Some)
  obtain h1 where new: "alloc (mk []) h = (length h, h1)" by (simp add: alloc_def)
  note h1 = prefix_alloc [OF new]
  define ks where "ks = map fst kxs"
  have kv: "ks = map fst v" "distinct ks" using map_loads_keys [where l = l, OF elems] a(3) by (simp_all add: ks_def)
  have item: "l h (the (map_of kxs k)) = Some (the (map_of v k))" if "k \<in> set ks" for k
    using map_loads_at [where l = l, OF elems] that by (simp only: ks_def)
  have read: "the (map_of (the (get (h2 ! a))) k) = the (map_of kxs k)" if "prefix h h2" for k h2
    using prefix_nth [OF that a(1)] a(2) by simp
  have "\<exists>ys h'. copyLoop into (\<lambda>k h. the (map_of (the (get (h ! a))) k))
        (\<lambda>k y c. mk (AList.update k y (the (get c)))) (length h) ks h1 = h' \<and>
      length h1 \<le> length h' \<and> (\<forall>a < length h1. a \<noteq> length h \<longrightarrow> h' ! a = h1 ! a) \<and> length ys = length ks \<and>
      h' ! length h = fold (\<lambda>(k, y) c. mk (AList.update k y (the (get c)))) (zip ks ys) (h1 ! length h) \<and>
      list_all2 (\<lambda>k y. l h' y = Some (the (map_of v k)) \<and> r h' y \<subseteq> {Suc (length h)..}) ks ys"
    by (rule copyLoop_done [OF into _ _ _ item read]) (use h1 in simp_all)
  then obtain ys h2 where loop: "copyLoop into (\<lambda>k h. the (map_of (the (get (h ! a))) k))
        (\<lambda>k y c. mk (AList.update k y (the (get c)))) (length h) ks h1 = h2"
    "length h1 \<le> length h2" "\<forall>a < length h1. a \<noteq> length h \<longrightarrow> h2 ! a = h1 ! a" "length ys = length ks"
    "h2 ! length h = fold (\<lambda>(k, y) c. mk (AList.update k y (the (get c)))) (zip ks ys) (mk [])"
    "list_all2 (\<lambda>k y. l h2 y = Some (the (map_of v k)) \<and> r h2 y \<subseteq> {Suc (length h)..}) ks ys"
    using h1 by auto
  have "h1 ! a = h ! a" using h1 a(1) prefix_nth by blast
  then have t: "b = length h" "h' = h2"
    using run new loop(1) a(2) by (auto simp: copyMap_def ks_def)
  have "h2 ! length h = mk (zip ks ys)"
    using loop(5) fold_map [of get mk ys ks "[]", OF get loop(4) kv(2)] by simp
  then have at: "get (h2 ! length h) = Some (zip ks ys)" "length h < length h2" using h1 loop(2) by (simp_all add: get)
  have "the (map_of v (fst kv)) = snd kv" if "kv \<in> set v" for kv
  proof -
    have "distinct (map fst v)" using kv by simp
    from map_of_is_SomeI [OF this, of "fst kv" "snd kv"] that show ?thesis by simp
  qed
  then have "map_loads l h2 (zip ks ys) v"
    using loop(4,6) by (auto simp: kv list_all2_conv_all_nth)
  then show "loadMap get l h' b = Some v"
    using at loop(4) kv by (auto simp: loadMap_Some t)
  have "r h2 y \<subseteq> {length h..}" if "y \<in> set ys" for y
    using loop(6) that by (fastforce simp: list_all2_conv_all_nth in_set_conv_nth)
  with loop(4) show "refsMap get r h' b \<subseteq> {length h..}"
    by (fastforce simp: refsMap_def at t dest: set_zip_rightD)
  have "take (length h) h2 = h"
    using loop(2,3) h1 prefix_nth [of h h1] by (intro nth_equalityI) auto
  then show "prefix h h'" unfolding t by (metis take_is_prefix)
qed

end
