(* ===== verification/Deep_Copy.thy ===== *)
theory Deep_Copy
  imports Go_Heap Api_Types
begin

text \<open>
  \<open>api/v1alpha1/zz_generated.deepcopy.go\<close>: the deep copies of the resource types, on a heap with
  aliases. Here the types are as Go has them: a pointer or map field is an address or nil, a slice
  field an array, an offset and a length, or nil. Everywhere else in the development a resource is a
  value, as \<open>Api_Types\<close> has it; the load functions of \<open>Deep_Copy_Lemmas\<close> lead from here to there.
  Types of other packages that hold pointers themselves, and their deep copies, are a parameter.
\<close>

section \<open>The types with their pointers\<close>

record type_meta =
  tm_kind :: string
  tm_api_version :: string

record resources_go =
  rg_requests :: "addr option"
  rg_limits :: "addr option"

record container_go =
  cg_image :: string
  cg_ports :: "slice option"
  cg_resources :: resources_go
  cg_env :: "slice option"
  cg_readiness :: "addr option"
  cg_restart :: restart_policy
  cg_threshold :: int32

record template_spec_go =
  tg_category :: string
  tg_difficulty :: string
  tg_points :: int
  tg_flag_secret :: string
  tg_mode :: instance_mode
  tg_ttl :: string
  tg_max_instances :: int
  tg_pow :: "addr option"
  tg_container :: container_go

record instance_status_go =
  ig_phase :: instance_phase
  ig_reason :: string
  ig_endpoint :: string
  ig_started :: "addr option"
  ig_expires :: "addr option"
  ig_pod_name :: string
  ig_unhealthy :: int32
  ig_message :: string

record set_spec_go =
  sg_challenges :: "slice option"
  sg_schedule :: "addr option"

record fence_spec_go =
  fg_instance_ref :: string
  fg_allow :: "slice option"
  fg_deny :: "slice option"
  fg_allow_egress :: bool

text \<open>
  The four resources have the same four parts, their lists the same three. \<open>'x\<close> is the type of the
  values of other packages: \<open>ObjectMeta\<close>, \<open>ListMeta\<close>, \<open>EnvVar\<close>, \<open>Quantity\<close>.
\<close>

record ('x, 's, 't) object_go =
  og_type :: type_meta
  og_meta :: 'x
  og_spec :: 's
  og_status :: 't

record 'x list_go =
  lg_type :: type_meta
  lg_meta :: 'x
  lg_items :: "slice option"

type_synonym 'x instance_go = "('x, instance_spec, instance_status_go) object_go"
type_synonym 'x template_go = "('x, template_spec_go, template_status) object_go"
type_synonym 'x set_go = "('x, set_spec_go, set_status) object_go"
type_synonym 'x fence_go = "('x, fence_spec_go, fence_status) object_go"
type_synonym 'x instance_list_go = "'x list_go"
type_synonym 'x template_list_go = "'x list_go"
type_synonym 'x set_list_go = "'x list_go"
type_synonym 'x fence_list_go = "'x list_go"

text \<open>What a cell may hold: a struct, an array, a map of quantities, an object of another package.\<close>

datatype 'x cell =
    is_AllowRule: AllowRuleCell (the_AllowRule: "allow_rule")
  | is_ChallengeInstance: ChallengeInstanceCell (the_ChallengeInstance: "'x instance_go")
  | is_ChallengeInstanceList: ChallengeInstanceListCell (the_ChallengeInstanceList: "'x instance_list_go")
  | is_ChallengeInstanceSpec: ChallengeInstanceSpecCell (the_ChallengeInstanceSpec: "instance_spec")
  | is_ChallengeInstanceStatus: ChallengeInstanceStatusCell (the_ChallengeInstanceStatus: "instance_status_go")
  | is_ChallengeSet: ChallengeSetCell (the_ChallengeSet: "'x set_go")
  | is_ChallengeSetList: ChallengeSetListCell (the_ChallengeSetList: "'x set_list_go")
  | is_ChallengeSetSpec: ChallengeSetSpecCell (the_ChallengeSetSpec: "set_spec_go")
  | is_ChallengeSetStatus: ChallengeSetStatusCell (the_ChallengeSetStatus: "set_status")
  | is_ChallengeTemplate: ChallengeTemplateCell (the_ChallengeTemplate: "'x template_go")
  | is_ChallengeTemplateList: ChallengeTemplateListCell (the_ChallengeTemplateList: "'x template_list_go")
  | is_ChallengeTemplateSpec: ChallengeTemplateSpecCell (the_ChallengeTemplateSpec: "template_spec_go")
  | is_ChallengeTemplateStatus: ChallengeTemplateStatusCell (the_ChallengeTemplateStatus: "template_status")
  | is_ContainerPort: ContainerPortCell (the_ContainerPort: "container_port")
  | is_ContainerSpec: ContainerSpecCell (the_ContainerSpec: "container_go")
  | is_DenyRule: DenyRuleCell (the_DenyRule: "deny_rule")
  | is_NetworkFence: NetworkFenceCell (the_NetworkFence: "'x fence_go")
  | is_NetworkFenceList: NetworkFenceListCell (the_NetworkFenceList: "'x fence_list_go")
  | is_NetworkFenceSpec: NetworkFenceSpecCell (the_NetworkFenceSpec: "fence_spec_go")
  | is_NetworkFenceStatus: NetworkFenceStatusCell (the_NetworkFenceStatus: "fence_status")
  | is_PoWSpec: PoWSpecCell (the_PoWSpec: "pow_spec")
  | is_ReadinessCheck: ReadinessCheckCell (the_ReadinessCheck: "readiness_check")
  | is_ResourceRequirements: ResourceRequirementsCell (the_ResourceRequirements: "resources_go")
  | is_ScheduleSpec: ScheduleSpecCell (the_ScheduleSpec: "schedule_spec")
  | is_Ports: PortsCell (the_Ports: "container_port list")
  | is_Env: EnvCell (the_Env: "'x list")
  | is_Strings: StringsCell (the_Strings: "string list")
  | is_AllowRules: AllowRulesCell (the_AllowRules: "allow_rule list")
  | is_DenyRules: DenyRulesCell (the_DenyRules: "deny_rule list")
  | is_Instances: InstancesCell (the_Instances: "'x instance_go list")
  | is_Templates: TemplatesCell (the_Templates: "'x template_go list")
  | is_Sets: SetsCell (the_Sets: "'x set_go list")
  | is_Fences: FencesCell (the_Fences: "'x fence_go list")
  | is_Quantities: QuantitiesCell (the_Quantities: "(string \<times> 'x) list")
  | is_Other: OtherCell (the_Other: 'x)

type_synonym 'x heap = "'x cell list"

text \<open>The content of a cell, if it is of the kind asked for.\<close>

definition held :: "('c \<Rightarrow> bool) \<Rightarrow> ('c \<Rightarrow> 'a) \<Rightarrow> 'c \<Rightarrow> 'a option" where
  "held kind content c = (if kind c then Some (content c) else None)"

text \<open>
  The deep copies of other packages: \<open>DeepCopyInto\<close> of \<open>metav1.ObjectMeta\<close>, \<open>metav1.ListMeta\<close> and
  \<open>corev1.EnvVar\<close>, \<open>DeepCopy\<close> of \<open>resource.Quantity\<close> and of a pointer to \<open>metav1.Time\<close>, and the zero
  values of the first three.
\<close>

record 'x foreign =
  fo_meta :: "'x \<Rightarrow> 'x heap \<Rightarrow> 'x \<times> 'x heap"
  fo_list_meta :: "'x \<Rightarrow> 'x heap \<Rightarrow> 'x \<times> 'x heap"
  fo_env :: "'x \<Rightarrow> 'x heap \<Rightarrow> 'x \<times> 'x heap"
  fo_quantity :: "'x \<Rightarrow> 'x heap \<Rightarrow> 'x \<times> 'x heap"
  fo_time :: "addr \<Rightarrow> 'x heap \<Rightarrow> addr \<times> 'x heap"
  fo_zero_meta :: 'x
  fo_zero_list_meta :: 'x
  fo_zero_env :: 'x

section \<open>Zero values\<close>

definition zero_AllowRule :: allow_rule where
  "zero_AllowRule = \<lparr>ar_cidr = '''', ar_port = 0\<rparr>"

definition zero_ChallengeInstanceSpec :: instance_spec where
  "zero_ChallengeInstanceSpec = \<lparr>is_template = '''', is_team = '''', is_player = '''', is_ttl_override = ''''\<rparr>"

definition zero_ChallengeInstanceStatus :: instance_status_go where
  "zero_ChallengeInstanceStatus = \<lparr>ig_phase = PhaseUnset, ig_reason = '''', ig_endpoint = '''', ig_started = None,
     ig_expires = None, ig_pod_name = '''', ig_unhealthy = 0, ig_message = ''''\<rparr>"

definition zero_ChallengeSetSpec :: set_spec_go where
  "zero_ChallengeSetSpec = \<lparr>sg_challenges = None, sg_schedule = None\<rparr>"

definition zero_ChallengeSetStatus :: set_status where
  "zero_ChallengeSetStatus = \<lparr>sst_active = False, sst_message = ''''\<rparr>"

definition zero_ResourceRequirements :: resources_go where
  "zero_ResourceRequirements = \<lparr>rg_requests = None, rg_limits = None\<rparr>"

definition zero_ContainerSpec :: container_go where
  "zero_ContainerSpec = \<lparr>cg_image = '''', cg_ports = None, cg_resources = zero_ResourceRequirements,
     cg_env = None, cg_readiness = None, cg_restart = RestartUnset, cg_threshold = 0\<rparr>"

definition zero_ChallengeTemplateSpec :: template_spec_go where
  "zero_ChallengeTemplateSpec = \<lparr>tg_category = '''', tg_difficulty = '''', tg_points = 0, tg_flag_secret = '''',
     tg_mode = ModeUnset, tg_ttl = '''', tg_max_instances = 0, tg_pow = None, tg_container = zero_ContainerSpec\<rparr>"

definition zero_ChallengeTemplateStatus :: template_status where
  "zero_ChallengeTemplateStatus = \<lparr>tst_ready = False, tst_count = 0, tst_message = ''''\<rparr>"

definition zero_ContainerPort :: container_port where
  "zero_ContainerPort = \<lparr>cp_name = '''', cp_port = 0, cp_expose = False\<rparr>"

definition zero_DenyRule :: deny_rule where
  "zero_DenyRule = \<lparr>dr_to = ''''\<rparr>"

definition zero_NetworkFenceSpec :: fence_spec_go where
  "zero_NetworkFenceSpec = \<lparr>fg_instance_ref = '''', fg_allow = None, fg_deny = None, fg_allow_egress = False\<rparr>"

definition zero_NetworkFenceStatus :: fence_status where
  "zero_NetworkFenceStatus = \<lparr>fst_applied = False, fst_message = ''''\<rparr>"

definition zero_PoWSpec :: pow_spec where
  "zero_PoWSpec = \<lparr>pow_enabled = False, pow_difficulty = 0, pow_algorithm = '''', pow_ttl = ''''\<rparr>"

definition zero_ReadinessCheck :: readiness_check where
  "zero_ReadinessCheck = \<lparr>rc_type = ReadinessUnset, rc_port = 0, rc_path = ''''\<rparr>"

definition zero_ScheduleSpec :: schedule_spec where
  "zero_ScheduleSpec = \<lparr>ss_start_at = '''', ss_end_at = ''''\<rparr>"

definition zero_object :: "'x foreign \<Rightarrow> 's \<Rightarrow> 't \<Rightarrow> ('x, 's, 't) object_go" where
  "zero_object F s t = \<lparr>og_type = \<lparr>tm_kind = '''', tm_api_version = ''''\<rparr>, og_meta = fo_zero_meta F, og_spec = s, og_status = t\<rparr>"

definition zero_list :: "'x foreign \<Rightarrow> 'x list_go" where
  "zero_list F = \<lparr>lg_type = \<lparr>tm_kind = '''', tm_api_version = ''''\<rparr>, lg_meta = fo_zero_list_meta F, lg_items = None\<rparr>"

section \<open>DeepCopyInto\<close>

text \<open>
  Each function takes the struct behind \<open>in\<close> and returns the one it leaves behind \<open>out\<close>: the
  assignment \<open>*out = *in\<close> at its start is the record \<open>src\<close> that the fields are then updated in.
\<close>

definition AllowRule_DeepCopyInto :: "allow_rule \<Rightarrow> 'x heap \<Rightarrow> allow_rule \<times> 'x heap" where
  "AllowRule_DeepCopyInto src h = (src, h)"

definition ChallengeInstanceSpec_DeepCopyInto :: "instance_spec \<Rightarrow> 'x heap \<Rightarrow> instance_spec \<times> 'x heap" where
  "ChallengeInstanceSpec_DeepCopyInto src h = (src, h)"

definition ChallengeSetStatus_DeepCopyInto :: "set_status \<Rightarrow> 'x heap \<Rightarrow> set_status \<times> 'x heap" where
  "ChallengeSetStatus_DeepCopyInto src h = (src, h)"

definition ChallengeTemplateStatus_DeepCopyInto :: "template_status \<Rightarrow> 'x heap \<Rightarrow> template_status \<times> 'x heap" where
  "ChallengeTemplateStatus_DeepCopyInto src h = (src, h)"

definition ContainerPort_DeepCopyInto :: "container_port \<Rightarrow> 'x heap \<Rightarrow> container_port \<times> 'x heap" where
  "ContainerPort_DeepCopyInto src h = (src, h)"

definition DenyRule_DeepCopyInto :: "deny_rule \<Rightarrow> 'x heap \<Rightarrow> deny_rule \<times> 'x heap" where
  "DenyRule_DeepCopyInto src h = (src, h)"

definition NetworkFenceStatus_DeepCopyInto :: "fence_status \<Rightarrow> 'x heap \<Rightarrow> fence_status \<times> 'x heap" where
  "NetworkFenceStatus_DeepCopyInto src h = (src, h)"

definition PoWSpec_DeepCopyInto :: "pow_spec \<Rightarrow> 'x heap \<Rightarrow> pow_spec \<times> 'x heap" where
  "PoWSpec_DeepCopyInto src h = (src, h)"

definition ReadinessCheck_DeepCopyInto :: "readiness_check \<Rightarrow> 'x heap \<Rightarrow> readiness_check \<times> 'x heap" where
  "ReadinessCheck_DeepCopyInto src h = (src, h)"

definition ScheduleSpec_DeepCopyInto :: "schedule_spec \<Rightarrow> 'x heap \<Rightarrow> schedule_spec \<times> 'x heap" where
  "ScheduleSpec_DeepCopyInto src h = (src, h)"

definition ChallengeInstanceStatus_DeepCopyInto ::
  "'x foreign \<Rightarrow> instance_status_go \<Rightarrow> 'x heap \<Rightarrow> instance_status_go \<times> 'x heap" where
  "ChallengeInstanceStatus_DeepCopyInto F src h =
     (case copyOption (fo_time F) (ig_started src) h of
        (started, h1) \<Rightarrow> (case copyOption (fo_time F) (ig_expires src) h1 of
          (expires, h2) \<Rightarrow> (src\<lparr>ig_started := started, ig_expires := expires\<rparr>, h2)))"

definition ChallengeSetSpec_DeepCopyInto :: "set_spec_go \<Rightarrow> 'x heap \<Rightarrow> set_spec_go \<times> 'x heap" where
  "ChallengeSetSpec_DeepCopyInto src h =
     (case copyOption (copySlice '''' StringsCell (held is_Strings the_Strings)) (sg_challenges src) h of
        (challenges, h1) \<Rightarrow> (case copyOption (newFlat (ScheduleSpecCell zero_ScheduleSpec)) (sg_schedule src) h1 of
          (schedule, h2) \<Rightarrow> (src\<lparr>sg_challenges := challenges, sg_schedule := schedule\<rparr>, h2)))"

definition ResourceRequirements_DeepCopyInto ::
  "'x foreign \<Rightarrow> resources_go \<Rightarrow> 'x heap \<Rightarrow> resources_go \<times> 'x heap" where
  "ResourceRequirements_DeepCopyInto F src h =
     (case copyOption (copyMap QuantitiesCell (held is_Quantities the_Quantities) (fo_quantity F)) (rg_requests src) h of
        (requests, h1) \<Rightarrow>
          (case copyOption (copyMap QuantitiesCell (held is_Quantities the_Quantities) (fo_quantity F)) (rg_limits src) h1 of
             (limits, h2) \<Rightarrow> (src\<lparr>rg_requests := requests, rg_limits := limits\<rparr>, h2)))"

definition ContainerSpec_DeepCopyInto :: "'x foreign \<Rightarrow> container_go \<Rightarrow> 'x heap \<Rightarrow> container_go \<times> 'x heap" where
  "ContainerSpec_DeepCopyInto F src h =
     (case copyOption (copySlice zero_ContainerPort PortsCell (held is_Ports the_Ports)) (cg_ports src) h of
        (ports, h1) \<Rightarrow> (case ResourceRequirements_DeepCopyInto F (cg_resources src) h1 of
          (resources, h2) \<Rightarrow> (case copyOption (copyEach (fo_zero_env F) EnvCell (held is_Env the_Env) (fo_env F)) (cg_env src) h2 of
            (env, h3) \<Rightarrow> (case copyOption (newFlat (ReadinessCheckCell zero_ReadinessCheck)) (cg_readiness src) h3 of
              (readiness, h4) \<Rightarrow>
                (src\<lparr>cg_ports := ports, cg_resources := resources, cg_env := env, cg_readiness := readiness\<rparr>, h4)))))"

definition ChallengeTemplateSpec_DeepCopyInto ::
  "'x foreign \<Rightarrow> template_spec_go \<Rightarrow> 'x heap \<Rightarrow> template_spec_go \<times> 'x heap" where
  "ChallengeTemplateSpec_DeepCopyInto F src h =
     (case copyOption (newFlat (PoWSpecCell zero_PoWSpec)) (tg_pow src) h of
        (pow, h1) \<Rightarrow> (case ContainerSpec_DeepCopyInto F (tg_container src) h1 of
          (container, h2) \<Rightarrow> (src\<lparr>tg_pow := pow, tg_container := container\<rparr>, h2)))"

definition NetworkFenceSpec_DeepCopyInto :: "fence_spec_go \<Rightarrow> 'x heap \<Rightarrow> fence_spec_go \<times> 'x heap" where
  "NetworkFenceSpec_DeepCopyInto src h =
     (case copyOption (copySlice zero_AllowRule AllowRulesCell (held is_AllowRules the_AllowRules)) (fg_allow src) h of
        (allow, h1) \<Rightarrow> (case copyOption (copySlice zero_DenyRule DenyRulesCell (held is_DenyRules the_DenyRules)) (fg_deny src) h1 of
          (deny, h2) \<Rightarrow> (src\<lparr>fg_allow := allow, fg_deny := deny\<rparr>, h2)))"

definition ChallengeInstance_DeepCopyInto :: "'x foreign \<Rightarrow> 'x instance_go \<Rightarrow> 'x heap \<Rightarrow> 'x instance_go \<times> 'x heap" where
  "ChallengeInstance_DeepCopyInto F src h =
     (case fo_meta F (og_meta src) h of
        (meta, h1) \<Rightarrow> (case ChallengeInstanceStatus_DeepCopyInto F (og_status src) h1 of
          (status, h2) \<Rightarrow> (src\<lparr>og_meta := meta, og_status := status\<rparr>, h2)))"

definition ChallengeSet_DeepCopyInto :: "'x foreign \<Rightarrow> 'x set_go \<Rightarrow> 'x heap \<Rightarrow> 'x set_go \<times> 'x heap" where
  "ChallengeSet_DeepCopyInto F src h =
     (case fo_meta F (og_meta src) h of
        (meta, h1) \<Rightarrow> (case ChallengeSetSpec_DeepCopyInto (og_spec src) h1 of
          (spec, h2) \<Rightarrow> (src\<lparr>og_meta := meta, og_spec := spec\<rparr>, h2)))"

definition ChallengeTemplate_DeepCopyInto :: "'x foreign \<Rightarrow> 'x template_go \<Rightarrow> 'x heap \<Rightarrow> 'x template_go \<times> 'x heap" where
  "ChallengeTemplate_DeepCopyInto F src h =
     (case fo_meta F (og_meta src) h of
        (meta, h1) \<Rightarrow> (case ChallengeTemplateSpec_DeepCopyInto F (og_spec src) h1 of
          (spec, h2) \<Rightarrow> (src\<lparr>og_meta := meta, og_spec := spec\<rparr>, h2)))"

definition NetworkFence_DeepCopyInto :: "'x foreign \<Rightarrow> 'x fence_go \<Rightarrow> 'x heap \<Rightarrow> 'x fence_go \<times> 'x heap" where
  "NetworkFence_DeepCopyInto F src h =
     (case fo_meta F (og_meta src) h of
        (meta, h1) \<Rightarrow> (case NetworkFenceSpec_DeepCopyInto (og_spec src) h1 of
          (spec, h2) \<Rightarrow> (src\<lparr>og_meta := meta, og_spec := spec\<rparr>, h2)))"

definition ChallengeInstanceList_DeepCopyInto :: "'x foreign \<Rightarrow> 'x instance_list_go \<Rightarrow> 'x heap \<Rightarrow> 'x instance_list_go \<times> 'x heap" where
  "ChallengeInstanceList_DeepCopyInto F src h =
     (case fo_list_meta F (lg_meta src) h of
        (meta, h1) \<Rightarrow>
          (case copyOption (copyEach (zero_object F zero_ChallengeInstanceSpec zero_ChallengeInstanceStatus)
              InstancesCell (held is_Instances the_Instances) (ChallengeInstance_DeepCopyInto F)) (lg_items src) h1 of
             (items, h2) \<Rightarrow> (src\<lparr>lg_meta := meta, lg_items := items\<rparr>, h2)))"

definition ChallengeSetList_DeepCopyInto :: "'x foreign \<Rightarrow> 'x set_list_go \<Rightarrow> 'x heap \<Rightarrow> 'x set_list_go \<times> 'x heap" where
  "ChallengeSetList_DeepCopyInto F src h =
     (case fo_list_meta F (lg_meta src) h of
        (meta, h1) \<Rightarrow>
          (case copyOption (copyEach (zero_object F zero_ChallengeSetSpec zero_ChallengeSetStatus)
              SetsCell (held is_Sets the_Sets) (ChallengeSet_DeepCopyInto F)) (lg_items src) h1 of
             (items, h2) \<Rightarrow> (src\<lparr>lg_meta := meta, lg_items := items\<rparr>, h2)))"

definition ChallengeTemplateList_DeepCopyInto :: "'x foreign \<Rightarrow> 'x template_list_go \<Rightarrow> 'x heap \<Rightarrow> 'x template_list_go \<times> 'x heap" where
  "ChallengeTemplateList_DeepCopyInto F src h =
     (case fo_list_meta F (lg_meta src) h of
        (meta, h1) \<Rightarrow>
          (case copyOption (copyEach (zero_object F zero_ChallengeTemplateSpec zero_ChallengeTemplateStatus)
              TemplatesCell (held is_Templates the_Templates) (ChallengeTemplate_DeepCopyInto F)) (lg_items src) h1 of
             (items, h2) \<Rightarrow> (src\<lparr>lg_meta := meta, lg_items := items\<rparr>, h2)))"

definition NetworkFenceList_DeepCopyInto :: "'x foreign \<Rightarrow> 'x fence_list_go \<Rightarrow> 'x heap \<Rightarrow> 'x fence_list_go \<times> 'x heap" where
  "NetworkFenceList_DeepCopyInto F src h =
     (case fo_list_meta F (lg_meta src) h of
        (meta, h1) \<Rightarrow>
          (case copyOption (copyEach (zero_object F zero_NetworkFenceSpec zero_NetworkFenceStatus)
              FencesCell (held is_Fences the_Fences) (NetworkFence_DeepCopyInto F)) (lg_items src) h1 of
             (items, h2) \<Rightarrow> (src\<lparr>lg_meta := meta, lg_items := items\<rparr>, h2)))"

section \<open>DeepCopy\<close>

text \<open>Nil for nil, else a new struct that \<open>DeepCopyInto\<close> fills.\<close>

definition AllowRule_DeepCopy :: "addr option \<Rightarrow> 'x heap \<Rightarrow> addr option \<times> 'x heap" where
  "AllowRule_DeepCopy = deepCopy (AllowRuleCell zero_AllowRule) AllowRuleCell
     (held is_AllowRule the_AllowRule) AllowRule_DeepCopyInto"

definition ChallengeInstance_DeepCopy :: "'x foreign \<Rightarrow> addr option \<Rightarrow> 'x heap \<Rightarrow> addr option \<times> 'x heap" where
  "ChallengeInstance_DeepCopy F = deepCopy (ChallengeInstanceCell (zero_object F zero_ChallengeInstanceSpec zero_ChallengeInstanceStatus)) ChallengeInstanceCell
     (held is_ChallengeInstance the_ChallengeInstance) (ChallengeInstance_DeepCopyInto F)"

definition ChallengeInstanceList_DeepCopy :: "'x foreign \<Rightarrow> addr option \<Rightarrow> 'x heap \<Rightarrow> addr option \<times> 'x heap" where
  "ChallengeInstanceList_DeepCopy F = deepCopy (ChallengeInstanceListCell (zero_list F)) ChallengeInstanceListCell
     (held is_ChallengeInstanceList the_ChallengeInstanceList) (ChallengeInstanceList_DeepCopyInto F)"

definition ChallengeInstanceSpec_DeepCopy :: "addr option \<Rightarrow> 'x heap \<Rightarrow> addr option \<times> 'x heap" where
  "ChallengeInstanceSpec_DeepCopy = deepCopy (ChallengeInstanceSpecCell zero_ChallengeInstanceSpec) ChallengeInstanceSpecCell
     (held is_ChallengeInstanceSpec the_ChallengeInstanceSpec) ChallengeInstanceSpec_DeepCopyInto"

definition ChallengeInstanceStatus_DeepCopy :: "'x foreign \<Rightarrow> addr option \<Rightarrow> 'x heap \<Rightarrow> addr option \<times> 'x heap" where
  "ChallengeInstanceStatus_DeepCopy F = deepCopy (ChallengeInstanceStatusCell zero_ChallengeInstanceStatus) ChallengeInstanceStatusCell
     (held is_ChallengeInstanceStatus the_ChallengeInstanceStatus) (ChallengeInstanceStatus_DeepCopyInto F)"

definition ChallengeSet_DeepCopy :: "'x foreign \<Rightarrow> addr option \<Rightarrow> 'x heap \<Rightarrow> addr option \<times> 'x heap" where
  "ChallengeSet_DeepCopy F = deepCopy (ChallengeSetCell (zero_object F zero_ChallengeSetSpec zero_ChallengeSetStatus)) ChallengeSetCell
     (held is_ChallengeSet the_ChallengeSet) (ChallengeSet_DeepCopyInto F)"

definition ChallengeSetList_DeepCopy :: "'x foreign \<Rightarrow> addr option \<Rightarrow> 'x heap \<Rightarrow> addr option \<times> 'x heap" where
  "ChallengeSetList_DeepCopy F = deepCopy (ChallengeSetListCell (zero_list F)) ChallengeSetListCell
     (held is_ChallengeSetList the_ChallengeSetList) (ChallengeSetList_DeepCopyInto F)"

definition ChallengeSetSpec_DeepCopy :: "addr option \<Rightarrow> 'x heap \<Rightarrow> addr option \<times> 'x heap" where
  "ChallengeSetSpec_DeepCopy = deepCopy (ChallengeSetSpecCell zero_ChallengeSetSpec) ChallengeSetSpecCell
     (held is_ChallengeSetSpec the_ChallengeSetSpec) ChallengeSetSpec_DeepCopyInto"

definition ChallengeSetStatus_DeepCopy :: "addr option \<Rightarrow> 'x heap \<Rightarrow> addr option \<times> 'x heap" where
  "ChallengeSetStatus_DeepCopy = deepCopy (ChallengeSetStatusCell zero_ChallengeSetStatus) ChallengeSetStatusCell
     (held is_ChallengeSetStatus the_ChallengeSetStatus) ChallengeSetStatus_DeepCopyInto"

definition ChallengeTemplate_DeepCopy :: "'x foreign \<Rightarrow> addr option \<Rightarrow> 'x heap \<Rightarrow> addr option \<times> 'x heap" where
  "ChallengeTemplate_DeepCopy F = deepCopy (ChallengeTemplateCell (zero_object F zero_ChallengeTemplateSpec zero_ChallengeTemplateStatus)) ChallengeTemplateCell
     (held is_ChallengeTemplate the_ChallengeTemplate) (ChallengeTemplate_DeepCopyInto F)"

definition ChallengeTemplateList_DeepCopy :: "'x foreign \<Rightarrow> addr option \<Rightarrow> 'x heap \<Rightarrow> addr option \<times> 'x heap" where
  "ChallengeTemplateList_DeepCopy F = deepCopy (ChallengeTemplateListCell (zero_list F)) ChallengeTemplateListCell
     (held is_ChallengeTemplateList the_ChallengeTemplateList) (ChallengeTemplateList_DeepCopyInto F)"

definition ChallengeTemplateSpec_DeepCopy :: "'x foreign \<Rightarrow> addr option \<Rightarrow> 'x heap \<Rightarrow> addr option \<times> 'x heap" where
  "ChallengeTemplateSpec_DeepCopy F = deepCopy (ChallengeTemplateSpecCell zero_ChallengeTemplateSpec) ChallengeTemplateSpecCell
     (held is_ChallengeTemplateSpec the_ChallengeTemplateSpec) (ChallengeTemplateSpec_DeepCopyInto F)"

definition ChallengeTemplateStatus_DeepCopy :: "addr option \<Rightarrow> 'x heap \<Rightarrow> addr option \<times> 'x heap" where
  "ChallengeTemplateStatus_DeepCopy = deepCopy (ChallengeTemplateStatusCell zero_ChallengeTemplateStatus) ChallengeTemplateStatusCell
     (held is_ChallengeTemplateStatus the_ChallengeTemplateStatus) ChallengeTemplateStatus_DeepCopyInto"

definition ContainerPort_DeepCopy :: "addr option \<Rightarrow> 'x heap \<Rightarrow> addr option \<times> 'x heap" where
  "ContainerPort_DeepCopy = deepCopy (ContainerPortCell zero_ContainerPort) ContainerPortCell
     (held is_ContainerPort the_ContainerPort) ContainerPort_DeepCopyInto"

definition ContainerSpec_DeepCopy :: "'x foreign \<Rightarrow> addr option \<Rightarrow> 'x heap \<Rightarrow> addr option \<times> 'x heap" where
  "ContainerSpec_DeepCopy F = deepCopy (ContainerSpecCell zero_ContainerSpec) ContainerSpecCell
     (held is_ContainerSpec the_ContainerSpec) (ContainerSpec_DeepCopyInto F)"

definition DenyRule_DeepCopy :: "addr option \<Rightarrow> 'x heap \<Rightarrow> addr option \<times> 'x heap" where
  "DenyRule_DeepCopy = deepCopy (DenyRuleCell zero_DenyRule) DenyRuleCell
     (held is_DenyRule the_DenyRule) DenyRule_DeepCopyInto"

definition NetworkFence_DeepCopy :: "'x foreign \<Rightarrow> addr option \<Rightarrow> 'x heap \<Rightarrow> addr option \<times> 'x heap" where
  "NetworkFence_DeepCopy F = deepCopy (NetworkFenceCell (zero_object F zero_NetworkFenceSpec zero_NetworkFenceStatus)) NetworkFenceCell
     (held is_NetworkFence the_NetworkFence) (NetworkFence_DeepCopyInto F)"

definition NetworkFenceList_DeepCopy :: "'x foreign \<Rightarrow> addr option \<Rightarrow> 'x heap \<Rightarrow> addr option \<times> 'x heap" where
  "NetworkFenceList_DeepCopy F = deepCopy (NetworkFenceListCell (zero_list F)) NetworkFenceListCell
     (held is_NetworkFenceList the_NetworkFenceList) (NetworkFenceList_DeepCopyInto F)"

definition NetworkFenceSpec_DeepCopy :: "addr option \<Rightarrow> 'x heap \<Rightarrow> addr option \<times> 'x heap" where
  "NetworkFenceSpec_DeepCopy = deepCopy (NetworkFenceSpecCell zero_NetworkFenceSpec) NetworkFenceSpecCell
     (held is_NetworkFenceSpec the_NetworkFenceSpec) NetworkFenceSpec_DeepCopyInto"

definition NetworkFenceStatus_DeepCopy :: "addr option \<Rightarrow> 'x heap \<Rightarrow> addr option \<times> 'x heap" where
  "NetworkFenceStatus_DeepCopy = deepCopy (NetworkFenceStatusCell zero_NetworkFenceStatus) NetworkFenceStatusCell
     (held is_NetworkFenceStatus the_NetworkFenceStatus) NetworkFenceStatus_DeepCopyInto"

definition PoWSpec_DeepCopy :: "addr option \<Rightarrow> 'x heap \<Rightarrow> addr option \<times> 'x heap" where
  "PoWSpec_DeepCopy = deepCopy (PoWSpecCell zero_PoWSpec) PoWSpecCell
     (held is_PoWSpec the_PoWSpec) PoWSpec_DeepCopyInto"

definition ReadinessCheck_DeepCopy :: "addr option \<Rightarrow> 'x heap \<Rightarrow> addr option \<times> 'x heap" where
  "ReadinessCheck_DeepCopy = deepCopy (ReadinessCheckCell zero_ReadinessCheck) ReadinessCheckCell
     (held is_ReadinessCheck the_ReadinessCheck) ReadinessCheck_DeepCopyInto"

definition ResourceRequirements_DeepCopy :: "'x foreign \<Rightarrow> addr option \<Rightarrow> 'x heap \<Rightarrow> addr option \<times> 'x heap" where
  "ResourceRequirements_DeepCopy F = deepCopy (ResourceRequirementsCell zero_ResourceRequirements) ResourceRequirementsCell
     (held is_ResourceRequirements the_ResourceRequirements) (ResourceRequirements_DeepCopyInto F)"

definition ScheduleSpec_DeepCopy :: "addr option \<Rightarrow> 'x heap \<Rightarrow> addr option \<times> 'x heap" where
  "ScheduleSpec_DeepCopy = deepCopy (ScheduleSpecCell zero_ScheduleSpec) ScheduleSpecCell
     (held is_ScheduleSpec the_ScheduleSpec) ScheduleSpec_DeepCopyInto"

section \<open>DeepCopyObject\<close>

text \<open>
  A \<open>runtime.Object\<close>: \<open>None\<close> is the nil interface, \<open>Some (T, None)\<close> an interface that holds a nil
  pointer to \<open>T\<close>, which Go does not take for nil. The generated code keeps the two apart.
\<close>

datatype object_type =
    InstanceT | InstanceListT | SetT | SetListT | TemplateT | TemplateListT | FenceT | FenceListT

type_synonym runtime_object = "(object_type \<times> addr option) option"

definition ChallengeInstance_DeepCopyObject :: "'x foreign \<Rightarrow> addr option \<Rightarrow> 'x heap \<Rightarrow> runtime_object \<times> 'x heap" where
  "ChallengeInstance_DeepCopyObject F p h =
     (case ChallengeInstance_DeepCopy F p h of (c, h') \<Rightarrow> if c \<noteq> None then (Some (InstanceT, c), h') else (None, h'))"

definition ChallengeInstanceList_DeepCopyObject :: "'x foreign \<Rightarrow> addr option \<Rightarrow> 'x heap \<Rightarrow> runtime_object \<times> 'x heap" where
  "ChallengeInstanceList_DeepCopyObject F p h =
     (case ChallengeInstanceList_DeepCopy F p h of (c, h') \<Rightarrow> if c \<noteq> None then (Some (InstanceListT, c), h') else (None, h'))"

definition ChallengeSet_DeepCopyObject :: "'x foreign \<Rightarrow> addr option \<Rightarrow> 'x heap \<Rightarrow> runtime_object \<times> 'x heap" where
  "ChallengeSet_DeepCopyObject F p h =
     (case ChallengeSet_DeepCopy F p h of (c, h') \<Rightarrow> if c \<noteq> None then (Some (SetT, c), h') else (None, h'))"

definition ChallengeSetList_DeepCopyObject :: "'x foreign \<Rightarrow> addr option \<Rightarrow> 'x heap \<Rightarrow> runtime_object \<times> 'x heap" where
  "ChallengeSetList_DeepCopyObject F p h =
     (case ChallengeSetList_DeepCopy F p h of (c, h') \<Rightarrow> if c \<noteq> None then (Some (SetListT, c), h') else (None, h'))"

definition ChallengeTemplate_DeepCopyObject :: "'x foreign \<Rightarrow> addr option \<Rightarrow> 'x heap \<Rightarrow> runtime_object \<times> 'x heap" where
  "ChallengeTemplate_DeepCopyObject F p h =
     (case ChallengeTemplate_DeepCopy F p h of (c, h') \<Rightarrow> if c \<noteq> None then (Some (TemplateT, c), h') else (None, h'))"

definition ChallengeTemplateList_DeepCopyObject :: "'x foreign \<Rightarrow> addr option \<Rightarrow> 'x heap \<Rightarrow> runtime_object \<times> 'x heap" where
  "ChallengeTemplateList_DeepCopyObject F p h =
     (case ChallengeTemplateList_DeepCopy F p h of (c, h') \<Rightarrow> if c \<noteq> None then (Some (TemplateListT, c), h') else (None, h'))"

definition NetworkFence_DeepCopyObject :: "'x foreign \<Rightarrow> addr option \<Rightarrow> 'x heap \<Rightarrow> runtime_object \<times> 'x heap" where
  "NetworkFence_DeepCopyObject F p h =
     (case NetworkFence_DeepCopy F p h of (c, h') \<Rightarrow> if c \<noteq> None then (Some (FenceT, c), h') else (None, h'))"

definition NetworkFenceList_DeepCopyObject :: "'x foreign \<Rightarrow> addr option \<Rightarrow> 'x heap \<Rightarrow> runtime_object \<times> 'x heap" where
  "NetworkFenceList_DeepCopyObject F p h =
     (case NetworkFenceList_DeepCopy F p h of (c, h') \<Rightarrow> if c \<noteq> None then (Some (FenceListT, c), h') else (None, h'))"

text \<open>The method of an interface that is not nil, by the type it holds.\<close>

fun DeepCopyObject :: "'x foreign \<Rightarrow> object_type \<times> addr option \<Rightarrow> 'x heap \<Rightarrow> runtime_object \<times> 'x heap" where
  "DeepCopyObject F (InstanceT, p) h = ChallengeInstance_DeepCopyObject F p h"
| "DeepCopyObject F (InstanceListT, p) h = ChallengeInstanceList_DeepCopyObject F p h"
| "DeepCopyObject F (SetT, p) h = ChallengeSet_DeepCopyObject F p h"
| "DeepCopyObject F (SetListT, p) h = ChallengeSetList_DeepCopyObject F p h"
| "DeepCopyObject F (TemplateT, p) h = ChallengeTemplate_DeepCopyObject F p h"
| "DeepCopyObject F (TemplateListT, p) h = ChallengeTemplateList_DeepCopyObject F p h"
| "DeepCopyObject F (FenceT, p) h = NetworkFence_DeepCopyObject F p h"
| "DeepCopyObject F (FenceListT, p) h = NetworkFenceList_DeepCopyObject F p h"

end
