(* ===== verification/Deep_Copy_Lemmas.thy ===== *)
theory Deep_Copy_Lemmas
  imports Deep_Copy
begin

text \<open>
  What the generated deep copies are for: the copy of a resource is the same value, and shares no
  cell with the original, so that a controller that was handed a copy out of a shared cache cannot
  harm the cache by changing it.
\<close>

section \<open>Other packages\<close>

text \<open>What a value of another package stands for, and which addresses it leads to.\<close>

record ('x, 'l) foreign_view =
  fv_meta :: "'x heap \<Rightarrow> 'x \<Rightarrow> obj_meta option"
  fv_meta_refs :: "'x heap \<Rightarrow> 'x \<Rightarrow> addr set"
  fv_list_meta :: "'x heap \<Rightarrow> 'x \<Rightarrow> 'l option"
  fv_list_meta_refs :: "'x heap \<Rightarrow> 'x \<Rightarrow> addr set"
  fv_env :: "'x heap \<Rightarrow> 'x \<Rightarrow> env_var option"
  fv_env_refs :: "'x heap \<Rightarrow> 'x \<Rightarrow> addr set"
  fv_quantity :: "'x heap \<Rightarrow> 'x \<Rightarrow> string option"
  fv_quantity_refs :: "'x heap \<Rightarrow> 'x \<Rightarrow> addr set"
  fv_time :: "'x heap \<Rightarrow> addr \<Rightarrow> instant option"
  fv_time_refs :: "'x heap \<Rightarrow> addr \<Rightarrow> addr set"

text \<open>Their deep copies are deep copies.\<close>

locale foreign_copies =
  meta: deep_copy "fo_meta F" "fv_meta R" "fv_meta_refs R" +
  list_meta: deep_copy "fo_list_meta F" "fv_list_meta R" "fv_list_meta_refs R" +
  env: deep_copy "fo_env F" "fv_env R" "fv_env_refs R" +
  quantity: deep_copy "fo_quantity F" "fv_quantity R" "fv_quantity_refs R" +
  time: deep_copy "fo_time F" "fv_time R" "fv_time_refs R"
  for F :: "'x foreign" and R :: "('x, 'l) foreign_view"

section \<open>From pointers to values\<close>

text \<open>
  A struct is read as the record of \<open>Api_Types\<close> and, for each slice and map field, whether it is
  nil: the record does not tell a nil slice from an empty one, but the JSON of the resource does.
\<close>

definition listed :: "'v list option \<Rightarrow> 'v list" where
  "listed xs = (case xs of None \<Rightarrow> [] | Some ys \<Rightarrow> ys)"

abbreviation flat_slice where
  "flat_slice kind content \<equiv> loadOption (loadSlice (held kind content) loadFlat)"

abbreviation flat_slice_refs where
  "flat_slice_refs kind content \<equiv> refsOption (refsSlice (held kind content) refsFlat)"

abbreviation flat_cell where
  "flat_cell kind content \<equiv> loadOption (loadCell (held kind content) loadFlat)"

abbreviation flat_cell_refs where
  "flat_cell_refs kind content \<equiv> refsOption (refsCell (held kind content) refsFlat)"

type_synonym nils = "bool list"

definition load_ChallengeInstanceStatus :: "('x, 'l) foreign_view \<Rightarrow> 'x heap \<Rightarrow> instance_status_go \<Rightarrow> instance_status option" where
  "load_ChallengeInstanceStatus R =
     loadPart (\<lambda>s. (ig_started s, ig_expires s))
       (\<lambda>s (started, expires). \<lparr>st_phase = ig_phase s, st_reason = ig_reason s, st_endpoint = ig_endpoint s,
          st_started = started, st_expires = expires, st_pod_name = ig_pod_name s, st_unhealthy = ig_unhealthy s,
          st_message = ig_message s\<rparr>)
       (loadPair (loadOption (fv_time R)) (loadOption (fv_time R)))"

definition refs_ChallengeInstanceStatus :: "('x, 'l) foreign_view \<Rightarrow> 'x heap \<Rightarrow> instance_status_go \<Rightarrow> addr set" where
  "refs_ChallengeInstanceStatus R =
     refsPart (\<lambda>s. (ig_started s, ig_expires s))
       (refsPair (refsOption (fv_time_refs R)) (refsOption (fv_time_refs R)))"

definition load_ChallengeSetSpec :: "'x heap \<Rightarrow> set_spec_go \<Rightarrow> (set_spec \<times> nils) option" where
  "load_ChallengeSetSpec =
     loadPart (\<lambda>s. (sg_challenges s, sg_schedule s))
       (\<lambda>s (challenges, schedule). (\<lparr>sets_challenges = listed challenges, sets_schedule = schedule\<rparr>, [challenges = None]))
       (loadPair (flat_slice is_Strings the_Strings) (flat_cell is_ScheduleSpec the_ScheduleSpec))"

definition refs_ChallengeSetSpec :: "'x heap \<Rightarrow> set_spec_go \<Rightarrow> addr set" where
  "refs_ChallengeSetSpec =
     refsPart (\<lambda>s. (sg_challenges s, sg_schedule s))
       (refsPair (flat_slice_refs is_Strings the_Strings) (flat_cell_refs is_ScheduleSpec the_ScheduleSpec))"

definition load_ResourceRequirements ::
  "('x, 'l) foreign_view \<Rightarrow> 'x heap \<Rightarrow> resources_go \<Rightarrow> (resource_requirements \<times> nils) option" where
  "load_ResourceRequirements R =
     loadPart (\<lambda>s. (rg_requests s, rg_limits s))
       (\<lambda>s (requests, limits). (\<lparr>rr_requests = map_of (listed requests), rr_limits = map_of (listed limits)\<rparr>,
          [requests = None, limits = None]))
       (loadPair (loadOption (loadMap (held is_Quantities the_Quantities) (fv_quantity R)))
          (loadOption (loadMap (held is_Quantities the_Quantities) (fv_quantity R))))"

definition refs_ResourceRequirements :: "('x, 'l) foreign_view \<Rightarrow> 'x heap \<Rightarrow> resources_go \<Rightarrow> addr set" where
  "refs_ResourceRequirements R =
     refsPart (\<lambda>s. (rg_requests s, rg_limits s))
       (refsPair (refsOption (refsMap (held is_Quantities the_Quantities) (fv_quantity_refs R)))
          (refsOption (refsMap (held is_Quantities the_Quantities) (fv_quantity_refs R))))"

definition load_ContainerSpec :: "('x, 'l) foreign_view \<Rightarrow> 'x heap \<Rightarrow> container_go \<Rightarrow> (container_spec \<times> nils) option" where
  "load_ContainerSpec R =
     loadPart (\<lambda>s. (cg_ports s, cg_resources s, cg_env s, cg_readiness s))
       (\<lambda>s (ports, (resources, ns), env, readiness).
          (\<lparr>cs_image = cg_image s, cs_ports = listed ports, cs_resources = resources, cs_env = listed env,
             cs_readiness = readiness, cs_restart = cg_restart s, cs_threshold = cg_threshold s\<rparr>,
           [ports = None, env = None] @ ns))
       (loadPair (flat_slice is_Ports the_Ports) (loadPair (load_ResourceRequirements R)
          (loadPair (loadOption (loadSlice (held is_Env the_Env) (fv_env R))) (flat_cell is_ReadinessCheck the_ReadinessCheck))))"

definition refs_ContainerSpec :: "('x, 'l) foreign_view \<Rightarrow> 'x heap \<Rightarrow> container_go \<Rightarrow> addr set" where
  "refs_ContainerSpec R =
     refsPart (\<lambda>s. (cg_ports s, cg_resources s, cg_env s, cg_readiness s))
       (refsPair (flat_slice_refs is_Ports the_Ports) (refsPair (refs_ResourceRequirements R)
          (refsPair (refsOption (refsSlice (held is_Env the_Env) (fv_env_refs R)))
             (flat_cell_refs is_ReadinessCheck the_ReadinessCheck))))"

definition load_ChallengeTemplateSpec ::
  "('x, 'l) foreign_view \<Rightarrow> 'x heap \<Rightarrow> template_spec_go \<Rightarrow> (template_spec \<times> nils) option" where
  "load_ChallengeTemplateSpec R =
     loadPart (\<lambda>s. (tg_pow s, tg_container s))
       (\<lambda>s (pow, container, ns).
          (\<lparr>ts_category = tg_category s, ts_difficulty = tg_difficulty s, ts_points = tg_points s,
             ts_flag_secret = tg_flag_secret s, ts_mode = tg_mode s, ts_ttl = tg_ttl s,
             ts_max_instances = tg_max_instances s, ts_pow = pow, ts_container = container\<rparr>, ns))
       (loadPair (flat_cell is_PoWSpec the_PoWSpec) (load_ContainerSpec R))"

definition refs_ChallengeTemplateSpec :: "('x, 'l) foreign_view \<Rightarrow> 'x heap \<Rightarrow> template_spec_go \<Rightarrow> addr set" where
  "refs_ChallengeTemplateSpec R =
     refsPart (\<lambda>s. (tg_pow s, tg_container s))
       (refsPair (flat_cell_refs is_PoWSpec the_PoWSpec) (refs_ContainerSpec R))"

definition load_NetworkFenceSpec :: "'x heap \<Rightarrow> fence_spec_go \<Rightarrow> (fence_spec \<times> nils) option" where
  "load_NetworkFenceSpec =
     loadPart (\<lambda>s. (fg_allow s, fg_deny s))
       (\<lambda>s (allow, deny). (\<lparr>fs_instance_ref = fg_instance_ref s, fs_allow = listed allow, fs_deny = listed deny,
          fs_allow_egress = fg_allow_egress s\<rparr>, [allow = None, deny = None]))
       (loadPair (flat_slice is_AllowRules the_AllowRules) (flat_slice is_DenyRules the_DenyRules))"

definition refs_NetworkFenceSpec :: "'x heap \<Rightarrow> fence_spec_go \<Rightarrow> addr set" where
  "refs_NetworkFenceSpec =
     refsPart (\<lambda>s. (fg_allow s, fg_deny s))
       (refsPair (flat_slice_refs is_AllowRules the_AllowRules) (flat_slice_refs is_DenyRules the_DenyRules))"

text \<open>The four resources: the fields of \<open>TypeMeta\<close>, and the value of the rest.\<close>

definition load_object where
  "load_object R val ls lt =
     loadPart (\<lambda>s. (og_meta s, og_spec s, og_status s)) (\<lambda>s (m, sp, st). (og_type s, val m sp st))
       (loadPair (fv_meta R) (loadPair ls lt))"

definition refs_object ::
  "('x, 'l) foreign_view \<Rightarrow> ('x heap \<Rightarrow> 's \<Rightarrow> addr set) \<Rightarrow> ('x heap \<Rightarrow> 't \<Rightarrow> addr set) \<Rightarrow> 'x heap \<Rightarrow> ('x, 's, 't) object_go \<Rightarrow> addr set" where
  "refs_object R rs rt =
     refsPart (\<lambda>s. (og_meta s, og_spec s, og_status s)) (refsPair (fv_meta_refs R) (refsPair rs rt))"

definition load_ChallengeInstance ::
  "('x, 'l) foreign_view \<Rightarrow> 'x heap \<Rightarrow> 'x instance_go \<Rightarrow> (type_meta \<times> challenge_instance) option" where
  "load_ChallengeInstance R =
     load_object R (\<lambda>m s t. \<lparr>ci_meta = m, ci_spec = s, ci_status = t\<rparr>) loadFlat (load_ChallengeInstanceStatus R)"

definition load_ChallengeSet ::
  "('x, 'l) foreign_view \<Rightarrow> 'x heap \<Rightarrow> 'x set_go \<Rightarrow> (type_meta \<times> challenge_set \<times> nils) option" where
  "load_ChallengeSet R =
     load_object R (\<lambda>m (s, ns) t. (\<lparr>cset_meta = m, cset_spec = s, cset_status = t\<rparr>, ns)) load_ChallengeSetSpec loadFlat"

definition load_ChallengeTemplate ::
  "('x, 'l) foreign_view \<Rightarrow> 'x heap \<Rightarrow> 'x template_go \<Rightarrow> (type_meta \<times> challenge_template \<times> nils) option" where
  "load_ChallengeTemplate R =
     load_object R (\<lambda>m (s, ns) t. (\<lparr>ct_meta = m, ct_spec = s, ct_status = t\<rparr>, ns)) (load_ChallengeTemplateSpec R) loadFlat"

definition load_NetworkFence ::
  "('x, 'l) foreign_view \<Rightarrow> 'x heap \<Rightarrow> 'x fence_go \<Rightarrow> (type_meta \<times> network_fence \<times> nils) option" where
  "load_NetworkFence R =
     load_object R (\<lambda>m (s, ns) t. (\<lparr>nf_meta = m, nf_spec = s, nf_status = t\<rparr>, ns)) load_NetworkFenceSpec loadFlat"

definition refs_ChallengeInstance :: "('x, 'l) foreign_view \<Rightarrow> 'x heap \<Rightarrow> 'x instance_go \<Rightarrow> addr set" where
  "refs_ChallengeInstance R = refs_object R refsFlat (refs_ChallengeInstanceStatus R)"

definition refs_ChallengeSet :: "('x, 'l) foreign_view \<Rightarrow> 'x heap \<Rightarrow> 'x set_go \<Rightarrow> addr set" where
  "refs_ChallengeSet R = refs_object R refs_ChallengeSetSpec refsFlat"

definition refs_ChallengeTemplate :: "('x, 'l) foreign_view \<Rightarrow> 'x heap \<Rightarrow> 'x template_go \<Rightarrow> addr set" where
  "refs_ChallengeTemplate R = refs_object R (refs_ChallengeTemplateSpec R) refsFlat"

definition refs_NetworkFence :: "('x, 'l) foreign_view \<Rightarrow> 'x heap \<Rightarrow> 'x fence_go \<Rightarrow> addr set" where
  "refs_NetworkFence R = refs_object R refs_NetworkFenceSpec refsFlat"

text \<open>A list of them.\<close>

definition load_list where
  "load_list R get l =
     loadPart (\<lambda>s. (lg_meta s, lg_items s)) (\<lambda>s (m, items). (lg_type s, m, items))
       (loadPair (fv_list_meta R) (loadOption (loadSlice get l)))"

definition refs_list ::
  "('x, 'l) foreign_view \<Rightarrow> ('x cell \<Rightarrow> 'o list option) \<Rightarrow> ('x heap \<Rightarrow> 'o \<Rightarrow> addr set) \<Rightarrow> 'x heap \<Rightarrow> 'x list_go \<Rightarrow> addr set" where
  "refs_list R get r =
     refsPart (\<lambda>s. (lg_meta s, lg_items s)) (refsPair (fv_list_meta_refs R) (refsOption (refsSlice get r)))"

section \<open>DeepCopyInto\<close>

lemma held_cell [simp]:
  "held is_AllowRule the_AllowRule (AllowRuleCell x0) = Some x0" "held is_ChallengeInstance the_ChallengeInstance (ChallengeInstanceCell x1) = Some x1"
  "held is_ChallengeInstanceList the_ChallengeInstanceList (ChallengeInstanceListCell x2) = Some x2" "held is_ChallengeInstanceSpec the_ChallengeInstanceSpec (ChallengeInstanceSpecCell x3) = Some x3"
  "held is_ChallengeInstanceStatus the_ChallengeInstanceStatus (ChallengeInstanceStatusCell x4) = Some x4" "held is_ChallengeSet the_ChallengeSet (ChallengeSetCell x5) = Some x5"
  "held is_ChallengeSetList the_ChallengeSetList (ChallengeSetListCell x6) = Some x6" "held is_ChallengeSetSpec the_ChallengeSetSpec (ChallengeSetSpecCell x7) = Some x7"
  "held is_ChallengeSetStatus the_ChallengeSetStatus (ChallengeSetStatusCell x8) = Some x8" "held is_ChallengeTemplate the_ChallengeTemplate (ChallengeTemplateCell x9) = Some x9"
  "held is_ChallengeTemplateList the_ChallengeTemplateList (ChallengeTemplateListCell x10) = Some x10" "held is_ChallengeTemplateSpec the_ChallengeTemplateSpec (ChallengeTemplateSpecCell x11) = Some x11"
  "held is_ChallengeTemplateStatus the_ChallengeTemplateStatus (ChallengeTemplateStatusCell x12) = Some x12" "held is_ContainerPort the_ContainerPort (ContainerPortCell x13) = Some x13"
  "held is_ContainerSpec the_ContainerSpec (ContainerSpecCell x14) = Some x14" "held is_DenyRule the_DenyRule (DenyRuleCell x15) = Some x15"
  "held is_NetworkFence the_NetworkFence (NetworkFenceCell x16) = Some x16" "held is_NetworkFenceList the_NetworkFenceList (NetworkFenceListCell x17) = Some x17"
  "held is_NetworkFenceSpec the_NetworkFenceSpec (NetworkFenceSpecCell x18) = Some x18" "held is_NetworkFenceStatus the_NetworkFenceStatus (NetworkFenceStatusCell x19) = Some x19"
  "held is_PoWSpec the_PoWSpec (PoWSpecCell x20) = Some x20" "held is_ReadinessCheck the_ReadinessCheck (ReadinessCheckCell x21) = Some x21"
  "held is_ResourceRequirements the_ResourceRequirements (ResourceRequirementsCell x22) = Some x22" "held is_ScheduleSpec the_ScheduleSpec (ScheduleSpecCell x23) = Some x23"
  "held is_Ports the_Ports (PortsCell x24) = Some x24" "held is_Env the_Env (EnvCell x25) = Some x25"
  "held is_Strings the_Strings (StringsCell x26) = Some x26" "held is_AllowRules the_AllowRules (AllowRulesCell x27) = Some x27"
  "held is_DenyRules the_DenyRules (DenyRulesCell x28) = Some x28" "held is_Instances the_Instances (InstancesCell x29) = Some x29"
  "held is_Templates the_Templates (TemplatesCell x30) = Some x30" "held is_Sets the_Sets (SetsCell x31) = Some x31"
  "held is_Fences the_Fences (FencesCell x32) = Some x32" "held is_Quantities the_Quantities (QuantitiesCell x33) = Some x33"
  by (simp_all add: held_def)

lemma AllowRule_flat: "AllowRule_DeepCopyInto = copyFlat"
  by (intro ext) (simp add: AllowRule_DeepCopyInto_def copyFlat_def)

lemma ChallengeInstanceSpec_flat: "ChallengeInstanceSpec_DeepCopyInto = copyFlat"
  by (intro ext) (simp add: ChallengeInstanceSpec_DeepCopyInto_def copyFlat_def)

lemma ChallengeSetStatus_flat: "ChallengeSetStatus_DeepCopyInto = copyFlat"
  by (intro ext) (simp add: ChallengeSetStatus_DeepCopyInto_def copyFlat_def)

lemma ChallengeTemplateStatus_flat: "ChallengeTemplateStatus_DeepCopyInto = copyFlat"
  by (intro ext) (simp add: ChallengeTemplateStatus_DeepCopyInto_def copyFlat_def)

lemma ContainerPort_flat: "ContainerPort_DeepCopyInto = copyFlat"
  by (intro ext) (simp add: ContainerPort_DeepCopyInto_def copyFlat_def)

lemma DenyRule_flat: "DenyRule_DeepCopyInto = copyFlat"
  by (intro ext) (simp add: DenyRule_DeepCopyInto_def copyFlat_def)

lemma NetworkFenceStatus_flat: "NetworkFenceStatus_DeepCopyInto = copyFlat"
  by (intro ext) (simp add: NetworkFenceStatus_DeepCopyInto_def copyFlat_def)

lemma PoWSpec_flat: "PoWSpec_DeepCopyInto = copyFlat"
  by (intro ext) (simp add: PoWSpec_DeepCopyInto_def copyFlat_def)

lemma ReadinessCheck_flat: "ReadinessCheck_DeepCopyInto = copyFlat"
  by (intro ext) (simp add: ReadinessCheck_DeepCopyInto_def copyFlat_def)

lemma ScheduleSpec_flat: "ScheduleSpec_DeepCopyInto = copyFlat"
  by (intro ext) (simp add: ScheduleSpec_DeepCopyInto_def copyFlat_def)

lemmas flat_types = AllowRule_flat ChallengeInstanceSpec_flat ChallengeSetStatus_flat ChallengeTemplateStatus_flat ContainerPort_flat DenyRule_flat NetworkFenceStatus_flat PoWSpec_flat ReadinessCheck_flat ScheduleSpec_flat

text \<open>Every block the generated code is made of has its rule.\<close>

lemmas deep_blocks = deep_part deep_pair deep_option deep_slice_flat deep_slice_each deep_map deep_new deep_new_flat
  flat.deep_copy_axioms



lemma ChallengeSetSpec_parts: "ChallengeSetSpec_DeepCopyInto =
  copyPart (\<lambda>s. (sg_challenges s, sg_schedule s)) (\<lambda>s (challenges, schedule). s\<lparr>sg_challenges := challenges, sg_schedule := schedule\<rparr>)
    (copyPair (copyOption (copySlice [] StringsCell (held is_Strings the_Strings)))
      (copyOption (newFlat (ScheduleSpecCell zero_ScheduleSpec))))"
  by (intro ext) (simp add: ChallengeSetSpec_DeepCopyInto_def copyPart_def copyPair_def copyFlat_def split: prod.split)

lemma ChallengeSetSpec_deep: "deep_copy ChallengeSetSpec_DeepCopyInto load_ChallengeSetSpec refs_ChallengeSetSpec"
  unfolding ChallengeSetSpec_parts load_ChallengeSetSpec_def refs_ChallengeSetSpec_def
  by (intro deep_blocks; (simp split: prod.split)?)

lemma NetworkFenceSpec_parts: "NetworkFenceSpec_DeepCopyInto =
  copyPart (\<lambda>s. (fg_allow s, fg_deny s)) (\<lambda>s (allow, deny). s\<lparr>fg_allow := allow, fg_deny := deny\<rparr>)
    (copyPair (copyOption (copySlice zero_AllowRule AllowRulesCell (held is_AllowRules the_AllowRules)))
      (copyOption (copySlice zero_DenyRule DenyRulesCell (held is_DenyRules the_DenyRules))))"
  by (intro ext) (simp add: NetworkFenceSpec_DeepCopyInto_def copyPart_def copyPair_def copyFlat_def split: prod.split)

lemma NetworkFenceSpec_deep: "deep_copy NetworkFenceSpec_DeepCopyInto load_NetworkFenceSpec refs_NetworkFenceSpec"
  unfolding NetworkFenceSpec_parts load_NetworkFenceSpec_def refs_NetworkFenceSpec_def
  by (intro deep_blocks; (simp split: prod.split)?)

lemma ChallengeInstanceStatus_parts: "ChallengeInstanceStatus_DeepCopyInto F =
  copyPart (\<lambda>s. (ig_started s, ig_expires s)) (\<lambda>s (started, expires). s\<lparr>ig_started := started, ig_expires := expires\<rparr>)
    (copyPair (copyOption (fo_time F)) (copyOption (fo_time F)))"
  by (intro ext) (simp add: ChallengeInstanceStatus_DeepCopyInto_def copyPart_def copyPair_def copyFlat_def split: prod.split)

lemma ResourceRequirements_parts: "ResourceRequirements_DeepCopyInto F =
  copyPart (\<lambda>s. (rg_requests s, rg_limits s)) (\<lambda>s (requests, limits). s\<lparr>rg_requests := requests, rg_limits := limits\<rparr>)
    (copyPair (copyOption (copyMap QuantitiesCell (held is_Quantities the_Quantities) (fo_quantity F)))
      (copyOption (copyMap QuantitiesCell (held is_Quantities the_Quantities) (fo_quantity F))))"
  by (intro ext) (simp add: ResourceRequirements_DeepCopyInto_def copyPart_def copyPair_def copyFlat_def split: prod.split)

lemma ContainerSpec_parts: "ContainerSpec_DeepCopyInto F =
  copyPart (\<lambda>s. (cg_ports s, cg_resources s, cg_env s, cg_readiness s)) (\<lambda>s (ports, resources, env, readiness).
      s\<lparr>cg_ports := ports, cg_resources := resources, cg_env := env, cg_readiness := readiness\<rparr>)
    (copyPair (copyOption (copySlice zero_ContainerPort PortsCell (held is_Ports the_Ports)))
      (copyPair (ResourceRequirements_DeepCopyInto F)
        (copyPair (copyOption (copyEach (fo_zero_env F) EnvCell (held is_Env the_Env) (fo_env F)))
          (copyOption (newFlat (ReadinessCheckCell zero_ReadinessCheck))))))"
  by (intro ext) (simp add: ContainerSpec_DeepCopyInto_def copyPart_def copyPair_def copyFlat_def split: prod.split)

lemma ChallengeTemplateSpec_parts: "ChallengeTemplateSpec_DeepCopyInto F =
  copyPart (\<lambda>s. (tg_pow s, tg_container s)) (\<lambda>s (pow, container). s\<lparr>tg_pow := pow, tg_container := container\<rparr>)
    (copyPair (copyOption (newFlat (PoWSpecCell zero_PoWSpec))) (ContainerSpec_DeepCopyInto F))"
  by (intro ext) (simp add: ChallengeTemplateSpec_DeepCopyInto_def copyPart_def copyPair_def copyFlat_def split: prod.split)

lemma ChallengeInstance_parts: "ChallengeInstance_DeepCopyInto F =
  copyPart (\<lambda>s. (og_meta s, og_spec s, og_status s)) (\<lambda>s (m, sp, st). s\<lparr>og_meta := m, og_spec := sp, og_status := st\<rparr>)
    (copyPair (fo_meta F) (copyPair copyFlat (ChallengeInstanceStatus_DeepCopyInto F)))"
  by (intro ext) (simp add: ChallengeInstance_DeepCopyInto_def copyPart_def copyPair_def copyFlat_def split: prod.split)

lemma ChallengeSet_parts: "ChallengeSet_DeepCopyInto F =
  copyPart (\<lambda>s. (og_meta s, og_spec s, og_status s)) (\<lambda>s (m, sp, st). s\<lparr>og_meta := m, og_spec := sp, og_status := st\<rparr>)
    (copyPair (fo_meta F) (copyPair ChallengeSetSpec_DeepCopyInto copyFlat))"
  by (intro ext) (simp add: ChallengeSet_DeepCopyInto_def copyPart_def copyPair_def copyFlat_def split: prod.split)

lemma ChallengeTemplate_parts: "ChallengeTemplate_DeepCopyInto F =
  copyPart (\<lambda>s. (og_meta s, og_spec s, og_status s)) (\<lambda>s (m, sp, st). s\<lparr>og_meta := m, og_spec := sp, og_status := st\<rparr>)
    (copyPair (fo_meta F) (copyPair (ChallengeTemplateSpec_DeepCopyInto F) copyFlat))"
  by (intro ext) (simp add: ChallengeTemplate_DeepCopyInto_def copyPart_def copyPair_def copyFlat_def split: prod.split)

lemma NetworkFence_parts: "NetworkFence_DeepCopyInto F =
  copyPart (\<lambda>s. (og_meta s, og_spec s, og_status s)) (\<lambda>s (m, sp, st). s\<lparr>og_meta := m, og_spec := sp, og_status := st\<rparr>)
    (copyPair (fo_meta F) (copyPair NetworkFenceSpec_DeepCopyInto copyFlat))"
  by (intro ext) (simp add: NetworkFence_DeepCopyInto_def copyPart_def copyPair_def copyFlat_def split: prod.split)

lemma ChallengeInstanceList_parts: "ChallengeInstanceList_DeepCopyInto F =
  copyPart (\<lambda>s. (lg_meta s, lg_items s)) (\<lambda>s (m, items). s\<lparr>lg_meta := m, lg_items := items\<rparr>)
    (copyPair (fo_list_meta F) (copyOption (copyEach (zero_object F zero_ChallengeInstanceSpec zero_ChallengeInstanceStatus)
      InstancesCell (held is_Instances the_Instances) (ChallengeInstance_DeepCopyInto F))))"
  by (intro ext) (simp add: ChallengeInstanceList_DeepCopyInto_def copyPart_def copyPair_def copyFlat_def split: prod.split)

lemma ChallengeSetList_parts: "ChallengeSetList_DeepCopyInto F =
  copyPart (\<lambda>s. (lg_meta s, lg_items s)) (\<lambda>s (m, items). s\<lparr>lg_meta := m, lg_items := items\<rparr>)
    (copyPair (fo_list_meta F) (copyOption (copyEach (zero_object F zero_ChallengeSetSpec zero_ChallengeSetStatus)
      SetsCell (held is_Sets the_Sets) (ChallengeSet_DeepCopyInto F))))"
  by (intro ext) (simp add: ChallengeSetList_DeepCopyInto_def copyPart_def copyPair_def copyFlat_def split: prod.split)

lemma ChallengeTemplateList_parts: "ChallengeTemplateList_DeepCopyInto F =
  copyPart (\<lambda>s. (lg_meta s, lg_items s)) (\<lambda>s (m, items). s\<lparr>lg_meta := m, lg_items := items\<rparr>)
    (copyPair (fo_list_meta F) (copyOption (copyEach (zero_object F zero_ChallengeTemplateSpec zero_ChallengeTemplateStatus)
      TemplatesCell (held is_Templates the_Templates) (ChallengeTemplate_DeepCopyInto F))))"
  by (intro ext) (simp add: ChallengeTemplateList_DeepCopyInto_def copyPart_def copyPair_def copyFlat_def split: prod.split)

lemma NetworkFenceList_parts: "NetworkFenceList_DeepCopyInto F =
  copyPart (\<lambda>s. (lg_meta s, lg_items s)) (\<lambda>s (m, items). s\<lparr>lg_meta := m, lg_items := items\<rparr>)
    (copyPair (fo_list_meta F) (copyOption (copyEach (zero_object F zero_NetworkFenceSpec zero_NetworkFenceStatus)
      FencesCell (held is_Fences the_Fences) (NetworkFence_DeepCopyInto F))))"
  by (intro ext) (simp add: NetworkFenceList_DeepCopyInto_def copyPart_def copyPair_def copyFlat_def split: prod.split)

context foreign_copies
begin

lemmas foreign_blocks = deep_blocks meta.deep_copy_axioms list_meta.deep_copy_axioms env.deep_copy_axioms
  quantity.deep_copy_axioms time.deep_copy_axioms ChallengeSetSpec_deep NetworkFenceSpec_deep

lemma ChallengeInstanceStatus_deep: "deep_copy (ChallengeInstanceStatus_DeepCopyInto F) (load_ChallengeInstanceStatus R) (refs_ChallengeInstanceStatus R)"
  unfolding ChallengeInstanceStatus_parts load_ChallengeInstanceStatus_def refs_ChallengeInstanceStatus_def
  by (intro foreign_blocks; (simp split: prod.split)?)

lemma ResourceRequirements_deep: "deep_copy (ResourceRequirements_DeepCopyInto F) (load_ResourceRequirements R) (refs_ResourceRequirements R)"
  unfolding ResourceRequirements_parts load_ResourceRequirements_def refs_ResourceRequirements_def
  by (intro foreign_blocks; (simp split: prod.split)?)

lemma ContainerSpec_deep: "deep_copy (ContainerSpec_DeepCopyInto F) (load_ContainerSpec R) (refs_ContainerSpec R)"
  unfolding ContainerSpec_parts load_ContainerSpec_def refs_ContainerSpec_def
  by (intro foreign_blocks ResourceRequirements_deep; (simp split: prod.split)?)

lemma ChallengeTemplateSpec_deep: "deep_copy (ChallengeTemplateSpec_DeepCopyInto F) (load_ChallengeTemplateSpec R) (refs_ChallengeTemplateSpec R)"
  unfolding ChallengeTemplateSpec_parts load_ChallengeTemplateSpec_def refs_ChallengeTemplateSpec_def
  by (intro foreign_blocks ContainerSpec_deep; (simp split: prod.split)?)

lemma ChallengeInstance_deep: "deep_copy (ChallengeInstance_DeepCopyInto F) (load_ChallengeInstance R) (refs_ChallengeInstance R)"
  unfolding ChallengeInstance_parts load_ChallengeInstance_def refs_ChallengeInstance_def load_object_def refs_object_def
  by (intro foreign_blocks ChallengeInstanceStatus_deep; (simp split: prod.split)?)

lemma ChallengeSet_deep: "deep_copy (ChallengeSet_DeepCopyInto F) (load_ChallengeSet R) (refs_ChallengeSet R)"
  unfolding ChallengeSet_parts load_ChallengeSet_def refs_ChallengeSet_def load_object_def refs_object_def
  by (intro foreign_blocks; (simp split: prod.split)?)

lemma ChallengeTemplate_deep: "deep_copy (ChallengeTemplate_DeepCopyInto F) (load_ChallengeTemplate R) (refs_ChallengeTemplate R)"
  unfolding ChallengeTemplate_parts load_ChallengeTemplate_def refs_ChallengeTemplate_def load_object_def refs_object_def
  by (intro foreign_blocks ChallengeTemplateSpec_deep; (simp split: prod.split)?)

lemma NetworkFence_deep: "deep_copy (NetworkFence_DeepCopyInto F) (load_NetworkFence R) (refs_NetworkFence R)"
  unfolding NetworkFence_parts load_NetworkFence_def refs_NetworkFence_def load_object_def refs_object_def
  by (intro foreign_blocks; (simp split: prod.split)?)

lemma ChallengeInstanceList_deep: "deep_copy (ChallengeInstanceList_DeepCopyInto F)
    (load_list R (held is_Instances the_Instances) (load_ChallengeInstance R)) (refs_list R (held is_Instances the_Instances) (refs_ChallengeInstance R))"
  unfolding ChallengeInstanceList_parts load_list_def refs_list_def
  by (intro foreign_blocks ChallengeInstance_deep; (simp split: prod.split)?)

lemma ChallengeSetList_deep: "deep_copy (ChallengeSetList_DeepCopyInto F)
    (load_list R (held is_Sets the_Sets) (load_ChallengeSet R)) (refs_list R (held is_Sets the_Sets) (refs_ChallengeSet R))"
  unfolding ChallengeSetList_parts load_list_def refs_list_def
  by (intro foreign_blocks ChallengeSet_deep; (simp split: prod.split)?)

lemma ChallengeTemplateList_deep: "deep_copy (ChallengeTemplateList_DeepCopyInto F)
    (load_list R (held is_Templates the_Templates) (load_ChallengeTemplate R)) (refs_list R (held is_Templates the_Templates) (refs_ChallengeTemplate R))"
  unfolding ChallengeTemplateList_parts load_list_def refs_list_def
  by (intro foreign_blocks ChallengeTemplate_deep; (simp split: prod.split)?)

lemma NetworkFenceList_deep: "deep_copy (NetworkFenceList_DeepCopyInto F)
    (load_list R (held is_Fences the_Fences) (load_NetworkFence R)) (refs_list R (held is_Fences the_Fences) (refs_NetworkFence R))"
  unfolding NetworkFenceList_parts load_list_def refs_list_def
  by (intro foreign_blocks NetworkFence_deep; (simp split: prod.split)?)

lemmas part_copies = flat.deep_copy_axioms ChallengeInstanceStatus_deep ChallengeSetSpec_deep ResourceRequirements_deep
  ContainerSpec_deep ChallengeTemplateSpec_deep NetworkFenceSpec_deep

lemmas object_copies = ChallengeInstance_deep ChallengeSet_deep ChallengeTemplate_deep NetworkFence_deep
  ChallengeInstanceList_deep ChallengeSetList_deep ChallengeTemplateList_deep NetworkFenceList_deep

end

section \<open>DeepCopy\<close>

text \<open>
  What a method \<open>DeepCopy\<close> owes. Nil gives nil. Else there is a copy with the same value, what was
  in memory is as it was, the two share no cell, and whatever later becomes of the cells of the one,
  and of memory that was not in use yet, the other keeps its value.
\<close>

definition separates ::
  "(addr option \<Rightarrow> 'c list \<Rightarrow> addr option \<times> 'c list) \<Rightarrow> ('c list \<Rightarrow> addr \<Rightarrow> 'v option) \<Rightarrow> ('c list \<Rightarrow> addr \<Rightarrow> addr set) \<Rightarrow> bool" where
  "separates copy load refs \<longleftrightarrow>
     (\<forall>h. copy None h = (None, h)) \<and>
     (\<forall>h a v. load h a = Some v \<longrightarrow>
        (\<exists>b h'. copy (Some a) h = (Some b, h') \<and> prefix h h' \<and>
           load h' a = Some v \<and> load h' b = Some v \<and> refs h' a \<inter> refs h' b = {} \<and>
           (\<forall>h2. agree ({..<length h'} - refs h' b) h' h2 \<longrightarrow> load h2 a = Some v) \<and>
           (\<forall>h2. agree ({..<length h'} - refs h' a) h' h2 \<longrightarrow> load h2 b = Some v)))"

lemma separates_copy:
  assumes "deep_copy c l r"
  shows "separates (copyOption c) l r"
  unfolding separates_def
proof (intro conjI allI impI)
  show "copyOption c None h = (None, h)" for h by (simp add: copyOption_def)
  fix h a v
  assume v: "l h a = Some v"
  obtain b h' where run: "c a h = (b, h')" by (cases "c a h")
  note sep = deep_copy.separate [OF assms v run]
  have a: "l h' a = Some v" and b: "l h' b = Some v" and apart: "r h' a \<inter> r h' b = {}" using sep by blast+
  have "agree (r h' a) h' h2" if "agree ({..<length h'} - r h' b) h' h2" for h2
    by (rule agree_mono [OF that]) (use deep_copy.live [OF assms a] apart in blast)
  moreover have "agree (r h' b) h' h2" if "agree ({..<length h'} - r h' a) h' h2" for h2
    by (rule agree_mono [OF that]) (use deep_copy.live [OF assms b] apart in blast)
  ultimately have "(\<forall>h2. agree ({..<length h'} - r h' b) h' h2 \<longrightarrow> l h2 a = Some v) \<and>
      (\<forall>h2. agree ({..<length h'} - r h' a) h' h2 \<longrightarrow> l h2 b = Some v)"
    using deep_copy.frame [OF assms a] deep_copy.frame [OF assms b] by blast
  moreover have "copyOption c (Some a) h = (Some b, h')" by (simp add: copyOption_def run)
  ultimately show "\<exists>b h'. copyOption c (Some a) h = (Some b, h') \<and> prefix h h' \<and>
      l h' a = Some v \<and> l h' b = Some v \<and> r h' a \<inter> r h' b = {} \<and>
      (\<forall>h2. agree ({..<length h'} - r h' b) h' h2 \<longrightarrow> l h2 a = Some v) \<and>
      (\<forall>h2. agree ({..<length h'} - r h' a) h' h2 \<longrightarrow> l h2 b = Some v)"
    using deep_copy.copy_grows [OF assms v run] a b apart by blast
qed

lemma separates_deepCopy:
  assumes "deep_copy into l r" "\<And>y. get (mk y) = Some y"
  shows "separates (deepCopy zero mk get into) (loadCell get l) (refsCell get r)"
proof -
  have "deepCopy zero mk get into = copyOption (newInto zero mk get into)"
    by (intro ext) (simp add: deepCopy_def)
  then show ?thesis by (simp add: separates_copy deep_new assms)
qed

end
