(* ===== verification/Deep_Copy_Props.thy ===== *)
theory Deep_Copy_Props
  imports Deep_Copy_Lemmas
begin

text \<open>
  The methods \<open>DeepCopy\<close> and \<open>DeepCopyObject\<close> of the API types, and other packages' deep copies as
  they could be, on which the properties are run.
\<close>

section \<open>The parts of the resources\<close>

text \<open>
  C39: \<open>DeepCopy\<close> of each of the sixteen types that the resources are made of gives nil for nil and
  otherwise a pointer to a new value equal to the old, with every slice, map and pointer of it equal
  too (nil where it was nil) and none of them shared: whatever is written through the one leaves the
  other as it is.
\<close>

theorem part_copies_are_separate:
  assumes "foreign_copies F R"
  shows "separates AllowRule_DeepCopy (loadCell (held is_AllowRule the_AllowRule) loadFlat)
      (refsCell (held is_AllowRule the_AllowRule) refsFlat) \<and>
    separates ChallengeInstanceSpec_DeepCopy (loadCell (held is_ChallengeInstanceSpec the_ChallengeInstanceSpec) loadFlat)
      (refsCell (held is_ChallengeInstanceSpec the_ChallengeInstanceSpec) refsFlat) \<and>
    separates (ChallengeInstanceStatus_DeepCopy F) (loadCell (held is_ChallengeInstanceStatus the_ChallengeInstanceStatus) (load_ChallengeInstanceStatus R))
      (refsCell (held is_ChallengeInstanceStatus the_ChallengeInstanceStatus) (refs_ChallengeInstanceStatus R)) \<and>
    separates ChallengeSetSpec_DeepCopy (loadCell (held is_ChallengeSetSpec the_ChallengeSetSpec) load_ChallengeSetSpec)
      (refsCell (held is_ChallengeSetSpec the_ChallengeSetSpec) refs_ChallengeSetSpec) \<and>
    separates ChallengeSetStatus_DeepCopy (loadCell (held is_ChallengeSetStatus the_ChallengeSetStatus) loadFlat)
      (refsCell (held is_ChallengeSetStatus the_ChallengeSetStatus) refsFlat) \<and>
    separates (ChallengeTemplateSpec_DeepCopy F) (loadCell (held is_ChallengeTemplateSpec the_ChallengeTemplateSpec) (load_ChallengeTemplateSpec R))
      (refsCell (held is_ChallengeTemplateSpec the_ChallengeTemplateSpec) (refs_ChallengeTemplateSpec R)) \<and>
    separates ChallengeTemplateStatus_DeepCopy (loadCell (held is_ChallengeTemplateStatus the_ChallengeTemplateStatus) loadFlat)
      (refsCell (held is_ChallengeTemplateStatus the_ChallengeTemplateStatus) refsFlat) \<and>
    separates ContainerPort_DeepCopy (loadCell (held is_ContainerPort the_ContainerPort) loadFlat)
      (refsCell (held is_ContainerPort the_ContainerPort) refsFlat) \<and>
    separates (ContainerSpec_DeepCopy F) (loadCell (held is_ContainerSpec the_ContainerSpec) (load_ContainerSpec R))
      (refsCell (held is_ContainerSpec the_ContainerSpec) (refs_ContainerSpec R)) \<and>
    separates DenyRule_DeepCopy (loadCell (held is_DenyRule the_DenyRule) loadFlat)
      (refsCell (held is_DenyRule the_DenyRule) refsFlat) \<and>
    separates NetworkFenceSpec_DeepCopy (loadCell (held is_NetworkFenceSpec the_NetworkFenceSpec) load_NetworkFenceSpec)
      (refsCell (held is_NetworkFenceSpec the_NetworkFenceSpec) refs_NetworkFenceSpec) \<and>
    separates NetworkFenceStatus_DeepCopy (loadCell (held is_NetworkFenceStatus the_NetworkFenceStatus) loadFlat)
      (refsCell (held is_NetworkFenceStatus the_NetworkFenceStatus) refsFlat) \<and>
    separates PoWSpec_DeepCopy (loadCell (held is_PoWSpec the_PoWSpec) loadFlat)
      (refsCell (held is_PoWSpec the_PoWSpec) refsFlat) \<and>
    separates ReadinessCheck_DeepCopy (loadCell (held is_ReadinessCheck the_ReadinessCheck) loadFlat)
      (refsCell (held is_ReadinessCheck the_ReadinessCheck) refsFlat) \<and>
    separates (ResourceRequirements_DeepCopy F) (loadCell (held is_ResourceRequirements the_ResourceRequirements) (load_ResourceRequirements R))
      (refsCell (held is_ResourceRequirements the_ResourceRequirements) (refs_ResourceRequirements R)) \<and>
    separates ScheduleSpec_DeepCopy (loadCell (held is_ScheduleSpec the_ScheduleSpec) loadFlat)
      (refsCell (held is_ScheduleSpec the_ScheduleSpec) refsFlat)"
  unfolding AllowRule_DeepCopy_def ChallengeInstanceSpec_DeepCopy_def ChallengeInstanceStatus_DeepCopy_def ChallengeSetSpec_DeepCopy_def ChallengeSetStatus_DeepCopy_def ChallengeTemplateSpec_DeepCopy_def ChallengeTemplateStatus_DeepCopy_def ContainerPort_DeepCopy_def ContainerSpec_DeepCopy_def DenyRule_DeepCopy_def NetworkFenceSpec_DeepCopy_def NetworkFenceStatus_DeepCopy_def PoWSpec_DeepCopy_def ReadinessCheck_DeepCopy_def ResourceRequirements_DeepCopy_def ScheduleSpec_DeepCopy_def flat_types
  by (intro conjI separates_deepCopy foreign_copies.part_copies [OF assms] held_cell)

section \<open>Objects\<close>

datatype 'l object_value =
    InstanceValue "type_meta \<times> challenge_instance"
  | SetValue "type_meta \<times> challenge_set \<times> nils"
  | TemplateValue "type_meta \<times> challenge_template \<times> nils"
  | FenceValue "type_meta \<times> network_fence \<times> nils"
  | InstanceListValue "type_meta \<times> 'l \<times> (type_meta \<times> challenge_instance) list option"
  | SetListValue "type_meta \<times> 'l \<times> (type_meta \<times> challenge_set \<times> nils) list option"
  | TemplateListValue "type_meta \<times> 'l \<times> (type_meta \<times> challenge_template \<times> nils) list option"
  | FenceListValue "type_meta \<times> 'l \<times> (type_meta \<times> network_fence \<times> nils) list option"

text \<open>The value of the object of type \<open>T\<close> at an address, and the addresses it leads to.\<close>

fun loadObject :: "('x, 'l) foreign_view \<Rightarrow> object_type \<Rightarrow> 'x heap \<Rightarrow> addr \<Rightarrow> 'l object_value option" where
  "loadObject R InstanceT = (\<lambda>h a.
     map_option InstanceValue (loadCell (held is_ChallengeInstance the_ChallengeInstance) (load_ChallengeInstance R) h a))"
| "loadObject R SetT = (\<lambda>h a.
     map_option SetValue (loadCell (held is_ChallengeSet the_ChallengeSet) (load_ChallengeSet R) h a))"
| "loadObject R TemplateT = (\<lambda>h a.
     map_option TemplateValue (loadCell (held is_ChallengeTemplate the_ChallengeTemplate) (load_ChallengeTemplate R) h a))"
| "loadObject R FenceT = (\<lambda>h a.
     map_option FenceValue (loadCell (held is_NetworkFence the_NetworkFence) (load_NetworkFence R) h a))"
| "loadObject R InstanceListT = (\<lambda>h a.
     map_option InstanceListValue (loadCell (held is_ChallengeInstanceList the_ChallengeInstanceList)
       (load_list R (held is_Instances the_Instances) (load_ChallengeInstance R)) h a))"
| "loadObject R SetListT = (\<lambda>h a.
     map_option SetListValue (loadCell (held is_ChallengeSetList the_ChallengeSetList)
       (load_list R (held is_Sets the_Sets) (load_ChallengeSet R)) h a))"
| "loadObject R TemplateListT = (\<lambda>h a.
     map_option TemplateListValue (loadCell (held is_ChallengeTemplateList the_ChallengeTemplateList)
       (load_list R (held is_Templates the_Templates) (load_ChallengeTemplate R)) h a))"
| "loadObject R FenceListT = (\<lambda>h a.
     map_option FenceListValue (loadCell (held is_NetworkFenceList the_NetworkFenceList)
       (load_list R (held is_Fences the_Fences) (load_NetworkFence R)) h a))"

fun objectRefs :: "('x, 'l) foreign_view \<Rightarrow> object_type \<Rightarrow> 'x heap \<Rightarrow> addr \<Rightarrow> addr set" where
  "objectRefs R InstanceT = refsCell (held is_ChallengeInstance the_ChallengeInstance) (refs_ChallengeInstance R)"
| "objectRefs R SetT = refsCell (held is_ChallengeSet the_ChallengeSet) (refs_ChallengeSet R)"
| "objectRefs R TemplateT = refsCell (held is_ChallengeTemplate the_ChallengeTemplate) (refs_ChallengeTemplate R)"
| "objectRefs R FenceT = refsCell (held is_NetworkFence the_NetworkFence) (refs_NetworkFence R)"
| "objectRefs R InstanceListT = refsCell (held is_ChallengeInstanceList the_ChallengeInstanceList)
     (refs_list R (held is_Instances the_Instances) (refs_ChallengeInstance R))"
| "objectRefs R SetListT = refsCell (held is_ChallengeSetList the_ChallengeSetList)
     (refs_list R (held is_Sets the_Sets) (refs_ChallengeSet R))"
| "objectRefs R TemplateListT = refsCell (held is_ChallengeTemplateList the_ChallengeTemplateList)
     (refs_list R (held is_Templates the_Templates) (refs_ChallengeTemplate R))"
| "objectRefs R FenceListT = refsCell (held is_NetworkFenceList the_NetworkFenceList)
     (refs_list R (held is_Fences the_Fences) (refs_NetworkFence R))"

text \<open>\<open>DeepCopy\<close> by the type, and \<open>DeepCopyObject\<close> in terms of it.\<close>

fun deepCopyOf :: "'x foreign \<Rightarrow> object_type \<Rightarrow> addr option \<Rightarrow> 'x heap \<Rightarrow> addr option \<times> 'x heap" where
  "deepCopyOf F InstanceT = ChallengeInstance_DeepCopy F"
| "deepCopyOf F InstanceListT = ChallengeInstanceList_DeepCopy F"
| "deepCopyOf F SetT = ChallengeSet_DeepCopy F"
| "deepCopyOf F SetListT = ChallengeSetList_DeepCopy F"
| "deepCopyOf F TemplateT = ChallengeTemplate_DeepCopy F"
| "deepCopyOf F TemplateListT = ChallengeTemplateList_DeepCopy F"
| "deepCopyOf F FenceT = NetworkFence_DeepCopy F"
| "deepCopyOf F FenceListT = NetworkFenceList_DeepCopy F"

lemma DeepCopyObject_of:
  "DeepCopyObject F (T, p) h =
     (case deepCopyOf F T p h of (c, h') \<Rightarrow> if c \<noteq> None then (Some (T, c), h') else (None, h'))"
  by (cases T) (simp_all add: ChallengeInstance_DeepCopyObject_def ChallengeInstanceList_DeepCopyObject_def
      ChallengeSet_DeepCopyObject_def ChallengeSetList_DeepCopyObject_def ChallengeTemplate_DeepCopyObject_def
      ChallengeTemplateList_DeepCopyObject_def NetworkFence_DeepCopyObject_def NetworkFenceList_DeepCopyObject_def
      split: prod.split)

lemma separates_map: "separates c l r \<Longrightarrow> separates c (\<lambda>h a. map_option f (l h a)) r"
  unfolding separates_def by fastforce

lemma deepCopyOf_separates:
  assumes "foreign_copies F R"
  shows "separates (deepCopyOf F T) (loadObject R T) (objectRefs R T)"
  by (cases T; simp only: deepCopyOf.simps loadObject.simps objectRefs.simps ChallengeInstance_DeepCopy_def
      ChallengeInstanceList_DeepCopy_def ChallengeSet_DeepCopy_def ChallengeSetList_DeepCopy_def ChallengeTemplate_DeepCopy_def
      ChallengeTemplateList_DeepCopy_def NetworkFence_DeepCopy_def NetworkFenceList_DeepCopy_def;
      intro separates_map separates_deepCopy foreign_copies.object_copies [OF assms] held_cell)

text \<open>
  C24: \<open>DeepCopyObject\<close> of a resource or a list of resources of any of the four kinds gives an object of
  the same type with the same value, in cells that were not in use, and leaves memory as it was.
  From then on the two share nothing: whatever becomes of the cells of the copy and of memory not
  yet in use, the original keeps its value, and the other way round; so a controller that changes
  the object it was handed cannot change the one in the cache. A nil pointer gives the nil
  interface, never an interface that holds a nil pointer.
\<close>

theorem object_copies_are_separate:
  assumes "foreign_copies F R" "loadObject R T h a = Some v"
  shows "(\<exists>b h'. DeepCopyObject F (T, Some a) h = (Some (T, Some b), h') \<and> prefix h h' \<and>
      loadObject R T h' a = Some v \<and> loadObject R T h' b = Some v \<and> objectRefs R T h' a \<inter> objectRefs R T h' b = {} \<and>
      (\<forall>h2. agree ({..<length h'} - objectRefs R T h' b) h' h2 \<longrightarrow> loadObject R T h2 a = Some v) \<and>
      (\<forall>h2. agree ({..<length h'} - objectRefs R T h' a) h' h2 \<longrightarrow> loadObject R T h2 b = Some v)) \<and>
    DeepCopyObject F (T, None) h = (None, h)"
proof -
  note sep = deepCopyOf_separates [OF assms(1), of T, unfolded separates_def]
  have nil: "DeepCopyObject F (T, None) h = (None, h)"
    using sep by (simp add: DeepCopyObject_of)
  from sep assms(2) obtain b h' where copy: "deepCopyOf F T (Some a) h = (Some b, h')" and
    rest: "prefix h h'" "loadObject R T h' a = Some v" "loadObject R T h' b = Some v"
      "objectRefs R T h' a \<inter> objectRefs R T h' b = {}"
      "\<forall>h2. agree ({..<length h'} - objectRefs R T h' b) h' h2 \<longrightarrow> loadObject R T h2 a = Some v"
      "\<forall>h2. agree ({..<length h'} - objectRefs R T h' a) h' h2 \<longrightarrow> loadObject R T h2 b = Some v"
    by blast
  have "DeepCopyObject F (T, Some a) h = (Some (T, Some b), h')" by (simp add: DeepCopyObject_of copy)
  with rest nil show ?thesis by blast
qed


section \<open>Other packages, as they could be\<close>

text \<open>
  \<open>ObjectMeta\<close> with a map of labels, \<open>EnvVar\<close> with a reference to where its value comes from, both
  behind a pointer; the labels, the source and a \<open>Time\<close> are objects.
\<close>

datatype ext =
    ExtMeta string string "addr option" "(string \<times> string) option" nat
  | ExtLabels "(string \<times> string) list"
  | ExtListMeta string
  | ExtEnv string string "addr option"
  | ExtSource "string \<times> string"
  | ExtQuantity string
  | ExtTime instant

definition ext_labels :: "ext cell \<Rightarrow> (string \<times> string) list option" where
  "ext_labels c = (case c of OtherCell (ExtLabels ls) \<Rightarrow> Some ls | _ \<Rightarrow> None)"

definition ext_source :: "ext cell \<Rightarrow> (string \<times> string) option" where
  "ext_source c = (case c of OtherCell (ExtSource s) \<Rightarrow> Some s | _ \<Rightarrow> None)"

definition ext_time :: "ext cell \<Rightarrow> instant option" where
  "ext_time c = (case c of OtherCell (ExtTime t) \<Rightarrow> Some t | _ \<Rightarrow> None)"

fun ext_copy_meta :: "ext \<Rightarrow> ext heap \<Rightarrow> ext \<times> ext heap" where
  "ext_copy_meta (ExtMeta n ns l own rv) h =
     (case copyOption (newFlat (OtherCell (ExtLabels []))) l h of (l', h') \<Rightarrow> (ExtMeta n ns l' own rv, h'))"
| "ext_copy_meta x h = (x, h)"

fun ext_load_meta :: "ext heap \<Rightarrow> ext \<Rightarrow> obj_meta option" where
  "ext_load_meta h (ExtMeta n ns l own rv) =
     map_option (\<lambda>ls. \<lparr>om_name = n, om_namespace = ns, om_labels = map_of (listed ls), om_owner = own, om_rv = rv\<rparr>)
       (loadOption (loadCell ext_labels loadFlat) h l)"
| "ext_load_meta h x = None"

fun ext_refs_meta :: "ext heap \<Rightarrow> ext \<Rightarrow> addr set" where
  "ext_refs_meta h (ExtMeta n ns l own rv) = refsOption (refsCell ext_labels refsFlat) h l"
| "ext_refs_meta h x = {}"

fun ext_copy_env :: "ext \<Rightarrow> ext heap \<Rightarrow> ext \<times> ext heap" where
  "ext_copy_env (ExtEnv n v p) h =
     (case copyOption (newFlat (OtherCell (ExtSource ('''', '''')))) p h of (p', h') \<Rightarrow> (ExtEnv n v p', h'))"
| "ext_copy_env x h = (x, h)"

fun ext_load_env :: "ext heap \<Rightarrow> ext \<Rightarrow> env_var option" where
  "ext_load_env h (ExtEnv n v p) =
     map_option (\<lambda>s. \<lparr>ev_name = n, ev_value = v, ev_from = s\<rparr>) (loadOption (loadCell ext_source loadFlat) h p)"
| "ext_load_env h x = None"

fun ext_refs_env :: "ext heap \<Rightarrow> ext \<Rightarrow> addr set" where
  "ext_refs_env h (ExtEnv n v p) = refsOption (refsCell ext_source refsFlat) h p"
| "ext_refs_env h x = {}"

definition ext_foreign :: "ext foreign" where
  "ext_foreign = \<lparr>fo_meta = ext_copy_meta, fo_list_meta = copyFlat, fo_env = ext_copy_env, fo_quantity = copyFlat,
     fo_time = newFlat (OtherCell (ExtTime 0)), fo_zero_meta = ExtMeta '''' '''' None None 0,
     fo_zero_list_meta = ExtListMeta '''', fo_zero_env = ExtEnv '''' '''' None\<rparr>"

definition ext_view :: "(ext, string) foreign_view" where
  "ext_view = \<lparr>fv_meta = ext_load_meta, fv_meta_refs = ext_refs_meta,
     fv_list_meta = (\<lambda>h x. case x of ExtListMeta s \<Rightarrow> Some s | _ \<Rightarrow> None), fv_list_meta_refs = refsFlat,
     fv_env = ext_load_env, fv_env_refs = ext_refs_env,
     fv_quantity = (\<lambda>h x. case x of ExtQuantity s \<Rightarrow> Some s | _ \<Rightarrow> None), fv_quantity_refs = refsFlat,
     fv_time = loadCell ext_time loadFlat, fv_time_refs = refsCell ext_time refsFlat\<rparr>"

text \<open>A value with at most one pointer in it, of which only some forms can be read.\<close>

lemma deep_form:
  assumes deep: "deep_copy c l r"
    and form: "\<And>h x v. load h x = Some v \<Longrightarrow> \<exists>k p u. x = form k p \<and> l h p = Some u \<and> v = val k u"
    and load: "\<And>h k p u. l h p = Some u \<Longrightarrow> load h (form k p) = Some (val k u)"
    and refs: "\<And>h k p. refs h (form k p) = r h p"
    and copy: "\<And>h k p. copy (form k p) h = (case c p h of (p', h') \<Rightarrow> (form k p', h'))"
  shows "deep_copy copy load refs"
proof
  fix h h' x v
  assume v: "load h x = Some v" and agree: "agree (refs h x) h h'"
  from form [OF v] obtain k p u where x: "x = form k p" "l h p = Some u" "v = val k u" by blast
  have "agree (r h p) h h'" using agree by (simp add: x refs)
  note same = deep_copy.frame [OF deep x(2) this] deep_copy.frame_refs [OF deep x(2) this]
  show "load h' x = Some v" using load [OF same(1)] by (simp add: x)
  show "refs h' x = refs h x" using same(2) by (simp add: x refs)
next
  fix h x v
  assume "load h x = Some v"
  from form [OF this] show "refs h x \<subseteq> {..<length h}" using deep_copy.live [OF deep] refs by blast
next
  fix h x v y h'
  assume v: "load h x = Some v" and run: "copy x h = (y, h')"
  from form [OF v] obtain k p u where x: "x = form k p" "l h p = Some u" "v = val k u" by blast
  obtain q where q: "c p h = (q, h')" "y = form k q" using run by (auto simp: x copy split: prod.splits)
  show "load h' y = Some v" using load [OF deep_copy.copy_load [OF deep x(2) q(1)]] by (simp add: q x)
  show "refs h' y \<subseteq> {length h..}" using deep_copy.copy_refs [OF deep x(2) q(1)] by (simp add: q refs)
  show "prefix h h'" by (rule deep_copy.copy_grows [OF deep x(2) q(1)])
qed

lemma ext_meta_deep: "deep_copy ext_copy_meta ext_load_meta ext_refs_meta"
  by (rule deep_form [OF deep_option [OF deep_new_flat [of "OtherCell (ExtLabels [])" ext_labels]],
        where form = "\<lambda>(n, ns, own, rv) l. ExtMeta n ns l own rv" and
          val = "\<lambda>(n, ns, own, rv) ls. \<lparr>om_name = n, om_namespace = ns, om_labels = map_of (listed ls), om_owner = own, om_rv = rv\<rparr>"])
    (auto elim!: ext_load_meta.elims simp: eq_commute [of "Some _" "map_option _ _"] split: prod.splits)

lemma ext_env_deep: "deep_copy ext_copy_env ext_load_env ext_refs_env"
  by (rule deep_form [OF deep_option [OF deep_new_flat [of "OtherCell (ExtSource ([], []))" ext_source]],
        where form = "\<lambda>(n, v) p. ExtEnv n v p" and val = "\<lambda>(n, v) s. \<lparr>ev_name = n, ev_value = v, ev_from = s\<rparr>"])
    (auto elim!: ext_load_env.elims simp: eq_commute [of "Some _" "map_option _ _"] split: prod.splits)

lemma flat_deep: "deep_copy copyFlat (\<lambda>h. load) refsFlat"
  by unfold_locales (auto simp: copyFlat_def refsFlat_def)

interpretation ext: foreign_copies ext_foreign ext_view
  by (intro foreign_copies.intro)
    (simp_all add: ext_foreign_def ext_view_def ext_meta_deep ext_env_deep flat_deep deep_new_flat)

text \<open>A template in memory, with labels, two ports, resources, an environment and a probe.\<close>

definition ext_heap :: "ext heap" where
  "ext_heap = [
     OtherCell (ExtLabels [(''app'', ''web'')]),
     PortsCell [\<lparr>cp_name = ''http'', cp_port = 80, cp_expose = True\<rparr>, \<lparr>cp_name = ''admin'', cp_port = 81, cp_expose = False\<rparr>],
     QuantitiesCell [(''cpu'', ExtQuantity ''100m''), (''memory'', ExtQuantity ''64Mi'')],
     OtherCell (ExtSource (''flag'', ''value'')),
     EnvCell [ExtEnv ''HOST'' ''web'' None, ExtEnv ''FLAG'' [] (Some 3)],
     ReadinessCheckCell \<lparr>rc_type = ReadinessHTTP, rc_port = 80, rc_path = ''/''\<rparr>,
     PoWSpecCell \<lparr>pow_enabled = True, pow_difficulty = 20, pow_algorithm = ''sha256'', pow_ttl = ''5m''\<rparr>,
     ChallengeTemplateCell \<lparr>og_type = \<lparr>tm_kind = ''ChallengeTemplate'', tm_api_version = ''kimo.io/v1alpha1''\<rparr>,
       og_meta = ExtMeta ''web'' ''ctf'' (Some 0) None 7,
       og_spec = zero_ChallengeTemplateSpec\<lparr>tg_pow := Some 6, tg_container := zero_ContainerSpec\<lparr>cg_image := ''web:1'',
         cg_ports := Some (1, 0, 2), cg_resources := \<lparr>rg_requests = Some 2, rg_limits = None\<rparr>, cg_env := Some (4, 0, 2),
         cg_readiness := Some 5\<rparr>\<rparr>,
       og_status = zero_ChallengeTemplateStatus\<rparr>]"

text \<open>One run on it.\<close>

lemmas ext_run = ext_view_def ext_heap_def loadCell_def held_def load_ChallengeTemplate_def load_object_def
  load_ChallengeTemplateSpec_def load_ContainerSpec_def load_ResourceRequirements_def loadPart_def loadPair_def
  loadOption_def loadSlice_def loadMap_def slice_ok_def window_def loadFlat_def ext_labels_def ext_source_def
  zero_ChallengeTemplateSpec_def zero_ContainerSpec_def zero_ChallengeTemplateStatus_def listed_def

lemma ext_template:
  "\<exists>v. loadObject ext_view TemplateT ext_heap 7 = Some v"
  by (simp add: ext_run)

theorem object_copies_are_separate_witness:
  "\<exists>v b h'. loadObject ext_view TemplateT ext_heap 7 = Some v \<and>
     DeepCopyObject ext_foreign (TemplateT, Some 7) ext_heap = (Some (TemplateT, Some b), h') \<and>
     loadObject ext_view TemplateT h' b = Some v"
proof -
  from ext_template obtain v where v: "loadObject ext_view TemplateT ext_heap 7 = Some v" ..
  from object_copies_are_separate [OF ext.foreign_copies_axioms v] v show ?thesis by blast
qed

theorem part_copies_are_separate_witness:
  "\<exists>b h'. ReadinessCheck_DeepCopy (Some 5) ext_heap = (Some b, h') \<and>
     loadCell (held is_ReadinessCheck the_ReadinessCheck) loadFlat h' b =
       Some \<lparr>rc_type = ReadinessHTTP, rc_port = 80, rc_path = ''/''\<rparr>"
proof -
  have "loadCell (held is_ReadinessCheck the_ReadinessCheck) loadFlat ext_heap 5 =
      Some \<lparr>rc_type = ReadinessHTTP, rc_port = 80, rc_path = ''/''\<rparr>"
    by (simp add: ext_heap_def loadCell_def held_def loadFlat_def)
  moreover have "separates ReadinessCheck_DeepCopy (loadCell (held is_ReadinessCheck the_ReadinessCheck) loadFlat)
      (refsCell (held is_ReadinessCheck the_ReadinessCheck) refsFlat :: ext heap \<Rightarrow> addr \<Rightarrow> addr set)"
    using part_copies_are_separate [OF ext.foreign_copies_axioms] by blast
  ultimately show ?thesis unfolding separates_def by blast
qed

end
