(* ===== verification/Spec2Isabelle.thy ===== *)
theory Spec2Isabelle
  imports Instance_Props Lifecycle_Props Fence_Props Set_Ctrl Template_Ctrl Api_Props Api_Contract Api_Answers
    Watch_Props System_Props Contention_Props Command_Line
    Pow_Client Deep_Copy_Props
begin

text \<open>
  KIMO, a Kubernetes operator that runs the challenges of a capture-the-flag event as containers
  (Go, \<open>src/\<close>). This development translates the operator and proves what makes it correct.

  \<^bold>\<open>The program.\<close> One process, \<open>cmd/manager/main.go\<close>. Five controllers share an API server with the
  rest of the cluster: the template controller marks a ChallengeTemplate ready, the instance
  controller turns a ChallengeInstance into a Deployment, a Service and a NetworkFence and
  follows the Pod with its phase, the lifecycle controller moves it to Expiring and Expired, the
  set controller switches a ChallengeSet on and off by its schedule, the fence controller turns a
  NetworkFence into a NetworkPolicy. A REST server creates, lists, extends and deletes instances
  and hands out proof-of-work puzzles. A scoring backend, generic or CTFd, is told of phase
  changes by the two controllers of an instance and authenticates the callers of the server.

  \<^bold>\<open>How the code is translated.\<close> A Go function that fails returns a sum, \<open>Inl\<close> the error; one that
  acts on the outside world takes and returns a world of an arbitrary type. Structs are records,
  enumerations datatypes, \<open>int32\<close> and \<open>uint64\<close> words, \<open>time.Duration\<close> an integer with the wrap of
  \<open>int64\<close> written out, \<open>time.Time\<close> nanoseconds. A string is a list of bytes.

  \<^item> Data: \<open>Api_Types\<close> (\<open>api/v1alpha1\<close>), \<open>Integrations\<close> (\<open>internal/integrations/backend.go\<close>).
  \<^item> The outside: \<open>Kube\<close> states as locales what the API server promises of each kind of object
    (\<open>kind_store\<close>, \<open>cluster_api\<close>) and what a backend promises (\<open>scoring_backend\<close>), through a
    \<open>view\<close> of the world as maps; any call may fail. \<open>Mem_Cluster\<close> is a client that keeps these
    promises, with lists, faults and a clock, on which every controller is interpreted and the
    witnesses of its properties run.
  \<^item> Go's library, as far as it is used: \<open>Go_Time\<close> (durations and their parser), \<open>Go_RFC3339\<close>,
    \<open>Go_Crypto\<close> (SHA-256, HMAC, hex), \<open>Go_Json\<close> (printer, parser and decoder of JSON).
  \<^item> Controllers: \<open>Instance_Ctrl\<close>, \<open>Lifecycle_Ctrl\<close>, \<open>Template_Ctrl\<close>, \<open>Set_Ctrl\<close>, \<open>Fence_Ctrl\<close>, each
    from the file of that name in \<open>internal/controller\<close>; \<open>Watches\<close> has their \<open>SetupWithManager\<close>.
  \<^item> REST server: \<open>Pow\<close> (\<open>pow.go\<close>), \<open>Api_Server\<close> (\<open>handlers.go\<close>, \<open>server.go\<close>, \<open>middleware.go\<close>).
  \<^item> Backends: \<open>Backends\<close> (\<open>generic.go\<close>, \<open>ctfd.go\<close>).
  \<^item> The whole: \<open>Manager\<close> (\<open>main.go\<close>), \<open>Command_Line\<close> (its arguments, Go's package \<open>flag\<close>, the exit
    status), \<open>Scheme\<close> (\<open>groupversion_info.go\<close> and the registration of the types), \<open>Hosting\<close> (one
    world for cluster and backend), \<open>System\<close> (a step of the running program: any reconcile, any
    request, anything others do in the cluster).
  \<^item> Memory: in all of the above a resource is a value. \<open>Go_Heap\<close> has pointers, slices and maps on a
    heap, \<open>Deep_Copy\<close> the resource types with their pointers and every method of
    \<open>zz_generated.deepcopy.go\<close>.

  \<^bold>\<open>What is proved.\<close>
  \<^item> \<open>Instance_Lemmas\<close> and \<open>Instance_Props\<close>: what a reconcile does on every branch, errors included,
    and that it touches nothing else. \<open>Lifecycle_Props\<close>, \<open>Template_Ctrl\<close>, \<open>Set_Ctrl\<close>: the same for
    those controllers. \<open>Fence_Props\<close>: which traffic the policy of a fence admits, and that a
    reconcile leaves exactly that policy.
  \<^item> \<open>Phase_Contract\<close>: what the two controllers of an instance may rely on from each other, kept by
    both. \<open>Watch_Props\<close>: what wakes them, and that in the last minute they undo each other.
  \<^item> \<open>Pow_Props\<close>: the zero-bit count is a comparison of the digest with a target, the search finds
    the least solution, and a puzzle is accepted at most as often as it was handed out
    (\<open>Tokens\<close> is the contract behind it). \<open>Pow_Client\<close>: a client that solves its puzzle in time is
    not refused, whatever requests of others the server answers in between.
  \<^item> \<open>Api_Lemmas\<close>, \<open>Api_Props\<close>, \<open>Api_Answers\<close>: the effect of a request on the cluster, the rights a
    creation takes, the in-place filter against \<open>filter\<close>, who is refused. \<open>Api_Contract\<close> lists every
    answer of every route with what it tells about the cluster and the request; \<open>Api_Answers\<close>
    shows that the server keeps to it.
  \<^item> \<open>Backend_Props\<close>: what is sent to the hooks and to CTFd, that it parses back as the event, and
    whom the backends let in.
  \<^item> \<open>Life_Spec\<close> is the specification of the whole: a machine of instance lives and events, with
    its invariants. \<open>System\<close> and \<open>System_Props\<close> show that every run of what \<open>main\<close> starts refines
    it, and draw the consequences. \<open>System_Samples\<close> is one run computed from \<open>main\<close> on.
  \<^item> \<open>Command_Line\<close>: every configuration can be given as arguments and is the one that runs; which
    arguments end the process.
  \<^item> \<open>Deep_Copy_Lemmas\<close> and \<open>Deep_Copy_Props\<close>: a deep copy is the same value in new memory, so that
    a controller that changes the object it was handed leaves the one in the cache alone. The locale
    \<open>deep_copy\<close> says what a deep copy is, and is built up along the types.
  \<^item> \<open>Contention\<close>, \<open>Contended\<close> and \<open>Contention_Props\<close>: the same operations when anybody may change
    the instances between two calls, reads are stale and failed calls may have taken effect. Every
    reconcile and request still makes at most one change, of the kind \<open>op_change\<close> allows it: a
    status or an override is written only on the version its own \<open>Get\<close> returned, provided the API
    server refuses an update of any other; a creation needs a free name, and a deletion, made on no
    version, something to delete. \<open>Rivals\<close> is a cluster with such company.

  \<^bold>\<open>Bounds.\<close> Recursion that is not structural has a measure (durations, the search for a nonce up
  to its bound \<open>2 ^ 30\<close>) but for the JSON parser, whose three functions share a fuel of more than
  twice the length of the text; \<open>parse_fuel\<close> shows that more makes no difference. Its nesting depth
  of 10000 is that of \<open>encoding/json\<close>.

  \<^bold>\<open>What is assumed of others.\<close> The promises of the API server (among them that a created object is
  stored as it was sent but for its version and status: the fields that Kubernetes fills in for a
  Deployment or a Service that leaves them out, and further Pod labels, are not in the view), of the
  network (\<open>http_network\<close>) and of controller-runtime's builder (\<open>controller_runtime\<close>); how chi matches a path is a parameter,
  as are schemes and their builders (\<open>scheme_machinery\<close>), the manager's constructor, the random
  source, the flags of other packages, and the deep copies of their types (\<open>foreign_copies\<close>: they
  are deep copies). In \<open>System\<close> and in the properties of one controller a reconcile and a request
  are one step each; in \<open>Contended\<close> others act in between, and nothing is assumed but that the API
  server refuses an update made from an old resource version. The code itself never retries: a
  refused reconcile returns the error and is queued again by controller-runtime, a refused request
  is answered with 500.

  \<^bold>\<open>Not modelled.\<close> Log output, the texts of JSON errors, and the end-to-end test support under
  \<open>test/\<close>. The JSON of responses: most of it is printed by methods of other packages (metadata,
  quantities, environment, times in the zone of the process), so the value that is encoded is the
  payload of the model. What the handlers and the backends read, the bodies of requests, the
  answers of CTFd and the configurations, are bytes, and \<open>Go_Json\<close> parses them; method, path, query
  and headers of a request enter as \<open>net/http\<close> has parsed them. What the map leaves out beyond that are imports, comments, error branches that only log, and \<open>Router\<close>, an
  accessor.
\<close>

end
